(* ===== verification/Prelude.thy ===== *)
theory Prelude
  imports
    Main
    "HOL-Library.Word"
    "HOL-Library.List_Lexorder"
    "HOL-Library.Sublist"
begin

text \<open>
  The vocabulary every component shares: the machine integers of the Rust
  sources, byte strings with Rust's (lexicographic) order, the three outcomes
  of a Rust call, big and little endian encodings, checked and saturating
  arithmetic, and the generic lemmas on sorted lists that the storage theories
  rest on.
\<close>

section \<open>Types\<close>

type_synonym u8 = "8 word"
type_synonym u16 = "16 word"
type_synonym u32 = "32 word"
type_synonym u64 = "64 word"
type_synonym u128 = "128 word"
type_synonym i32 = "32 word"
type_synonym bytes = "u8 list"

named_theorems res_simps \<open>computation rules of the outcome type\<close>
named_theorems bytes_simps \<open>lengths and round trips of the byte encodings\<close>
named_theorems arith_simps \<open>what checked and saturating arithmetic returns\<close>

section \<open>Outcomes\<close>

text \<open>
  A Rust call returns \<open>Ok\<close>, returns \<open>Err\<close>, or panics (an unwrap of a missing
  value, an index or slice out of range, an overflow where the crate is built
  with overflow checks).
\<close>

datatype ('e, 'a) res = Ok 'a | Err 'e | Panicked

fun res_bind :: "('e, 'a) res \<Rightarrow> ('a \<Rightarrow> ('e, 'b) res) \<Rightarrow> ('e, 'b) res" where
  "res_bind (Ok x) f = f x"
| "res_bind (Err e) f = Err e"
| "res_bind Panicked f = Panicked"

fun map_err :: "('e \<Rightarrow> 'f) \<Rightarrow> ('e, 'a) res \<Rightarrow> ('f, 'a) res" where
  "map_err f (Ok x) = Ok x"
| "map_err f (Err e) = Err (f e)"
| "map_err f Panicked = Panicked"

fun ok_or :: "'e \<Rightarrow> 'a option \<Rightarrow> ('e, 'a) res" where
  "ok_or e (Some x) = Ok x"
| "ok_or e None = Err e"

fun or_panic :: "'a option \<Rightarrow> ('e, 'a) res" where
  "or_panic (Some x) = Ok x"
| "or_panic None = Panicked"

fun unwrap :: "('e, 'a) res \<Rightarrow> ('f, 'a) res" where
  "unwrap (Ok x) = Ok x"
| "unwrap (Err e) = Panicked"
| "unwrap Panicked = Panicked"

fun is_ok :: "('e, 'a) res \<Rightarrow> bool" where
  "is_ok (Ok x) = True"
| "is_ok (Err e) = False"
| "is_ok Panicked = False"

lemma res_bind_Ok_iff [res_simps]:
  "res_bind m f = Ok y \<longleftrightarrow> (\<exists>x. m = Ok x \<and> f x = Ok y)"
  by (cases m) auto

lemma res_bind_Err_iff [res_simps]:
  "res_bind m f = Err e \<longleftrightarrow> m = Err e \<or> (\<exists>x. m = Ok x \<and> f x = Err e)"
  by (cases m) auto

lemma res_bind_Panicked_iff [res_simps]:
  "res_bind m f = Panicked \<longleftrightarrow> m = Panicked \<or> (\<exists>x. m = Ok x \<and> f x = Panicked)"
  by (cases m) auto

lemma map_err_Ok_iff [res_simps]: "map_err f m = Ok y \<longleftrightarrow> m = Ok y"
  by (cases m) auto

lemma map_err_Err_iff [res_simps]: "map_err f m = Err e \<longleftrightarrow> (\<exists>d. m = Err d \<and> e = f d)"
  by (cases m) auto

lemma ok_or_Ok_iff [res_simps]: "ok_or e m = Ok y \<longleftrightarrow> m = Some y"
  by (cases m) auto

lemma ok_or_Err_iff [res_simps]: "ok_or e m = Err d \<longleftrightarrow> m = None \<and> d = e"
  by (cases m) auto

lemma ok_or_not_Panicked [res_simps]: "ok_or e m \<noteq> Panicked"
  by (cases m) auto

lemma or_panic_Ok_iff [res_simps]: "or_panic m = Ok y \<longleftrightarrow> m = Some y"
  by (cases m) auto

lemma or_panic_not_Err [res_simps]: "or_panic m \<noteq> Err e"
  by (cases m) auto

lemma or_panic_Panicked_iff [res_simps]: "or_panic m = Panicked \<longleftrightarrow> m = None"
  by (cases m) auto

lemma unwrap_Ok_iff [res_simps]: "unwrap m = Ok y \<longleftrightarrow> m = Ok y"
  by (cases m) auto

lemma unwrap_not_Err [res_simps]: "unwrap m \<noteq> Err e"
  by (cases m) auto

lemma is_ok_iff [res_simps]: "is_ok m \<longleftrightarrow> (\<exists>x. m = Ok x)"
  by (cases m) auto

section \<open>Arithmetic\<close>

definition checked_add :: "'a::len word \<Rightarrow> 'a word \<Rightarrow> 'a word option" where
  "checked_add x y = (if unat x + unat y < 2 ^ LENGTH('a) then Some (x + y) else None)"

definition checked_sub :: "'a::len word \<Rightarrow> 'a word \<Rightarrow> 'a word option" where
  "checked_sub x y = (if y \<le> x then Some (x - y) else None)"

definition checked_mul :: "'a::len word \<Rightarrow> 'a word \<Rightarrow> 'a word option" where
  "checked_mul x y = (if unat x * unat y < 2 ^ LENGTH('a) then Some (x * y) else None)"

definition saturating_sub :: "'a::len word \<Rightarrow> 'a word \<Rightarrow> 'a word" where
  "saturating_sub x y = (if y \<le> x then x - y else 0)"

definition saturating_add :: "'a::len word \<Rightarrow> 'a word \<Rightarrow> 'a word" where
  "saturating_add x y = (if unat x + unat y < 2 ^ LENGTH('a) then x + y else - 1)"

lemma unat_bound: "unat (w :: 'a::len word) < 2 ^ LENGTH('a)"
  by (rule unsigned_less)

lemma unat_max_iff: "v = - 1 \<longleftrightarrow> unat (v :: 'a::len word) + 1 = 2 ^ LENGTH('a)"
proof -
  have "(0::nat) < 2 ^ LENGTH('a)"
    by simp
  then show ?thesis
    by (auto simp: word_unat_eq_iff unsigned_minus_1_eq_mask mask_eq_exp_minus_1)
qed

lemma unat_min: "unat (min x y) = min (unat x) (unat (y :: 'a::len word))"
  by (simp add: min_def word_le_nat_alt)

lemma unat_add_fits:
  fixes x y :: "'a::len word"
  assumes "unat x + unat y < 2 ^ LENGTH('a)"
  shows "unat (x + y) = unat x + unat y"
  using assms by (simp add: unat_word_ariths)

lemma unat_mul_fits:
  fixes x y :: "'a::len word"
  assumes "unat x * unat y < 2 ^ LENGTH('a)"
  shows "unat (x * y) = unat x * unat y"
  using assms by (simp add: unat_word_ariths)

lemma checked_add_Some_iff [arith_simps]:
  fixes x y z :: "'a::len word"
  shows "checked_add x y = Some z \<longleftrightarrow> unat z = unat x + unat y"
proof
  assume "checked_add x y = Some z"
  then show "unat z = unat x + unat y"
    by (auto simp: checked_add_def unat_add_fits split: if_splits)
next
  assume eq: "unat z = unat x + unat y"
  then have fits: "unat x + unat y < 2 ^ LENGTH('a)"
    using unat_bound [of z] by simp
  then have "x + y = z"
    using eq by (simp add: word_unat_eq_iff unat_add_fits)
  then show "checked_add x y = Some z"
    using fits by (simp add: checked_add_def)
qed

lemma checked_add_None_iff [arith_simps]:
  fixes x y :: "'a::len word"
  shows "checked_add x y = None \<longleftrightarrow> 2 ^ LENGTH('a) \<le> unat x + unat y"
  by (auto simp: checked_add_def)

lemma checked_sub_Some_iff [arith_simps]:
  fixes x y z :: "'a::len word"
  shows "checked_sub x y = Some z \<longleftrightarrow> unat y \<le> unat x \<and> unat z = unat x - unat y"
  by (auto simp: checked_sub_def word_le_nat_alt unat_sub word_unat_eq_iff)

lemma checked_sub_None_iff [arith_simps]:
  "checked_sub x y = None \<longleftrightarrow> unat x < unat y"
  by (auto simp: checked_sub_def word_le_nat_alt)

lemma checked_mul_Some_iff [arith_simps]:
  fixes x y z :: "'a::len word"
  shows "checked_mul x y = Some z \<longleftrightarrow> unat z = unat x * unat y"
proof
  assume "checked_mul x y = Some z"
  then show "unat z = unat x * unat y"
    by (auto simp: checked_mul_def unat_mul_fits split: if_splits)
next
  assume eq: "unat z = unat x * unat y"
  then have fits: "unat x * unat y < 2 ^ LENGTH('a)"
    using unat_bound [of z] by simp
  then have "x * y = z"
    using eq by (simp add: word_unat_eq_iff unat_mul_fits)
  then show "checked_mul x y = Some z"
    using fits by (simp add: checked_mul_def)
qed

lemma unat_saturating_sub [arith_simps]:
  "unat (saturating_sub x y) = unat x - unat y"
  by (auto simp: saturating_sub_def word_le_nat_alt unat_sub)

lemma unat_saturating_add [arith_simps]:
  fixes x y :: "'a::len word"
  shows "unat (saturating_add x y) = min (2 ^ LENGTH('a) - 1) (unat x + unat y)"
proof (cases "unat x + unat y < 2 ^ LENGTH('a)")
  case False
  then show ?thesis
    by (simp add: saturating_add_def unsigned_minus_1_eq_mask mask_eq_exp_minus_1)
qed (simp add: saturating_add_def unat_add_fits)

section \<open>Byte strings\<close>

text \<open>\<open>to_be n x\<close> are the \<open>n\<close> low bytes of \<open>x\<close>, most significant first (\<open>to_be_bytes\<close>).\<close>

primrec to_be :: "nat \<Rightarrow> nat \<Rightarrow> bytes" where
  "to_be 0 x = []"
| "to_be (Suc n) x = to_be n (x div 256) @ [word_of_nat (x mod 256)]"

definition from_be :: "bytes \<Rightarrow> nat" where
  "from_be bs = foldl (\<lambda>acc b. acc * 256 + unat b) 0 bs"

definition to_le :: "nat \<Rightarrow> nat \<Rightarrow> bytes" where
  "to_le n x = rev (to_be n x)"

definition from_le :: "bytes \<Rightarrow> nat" where
  "from_le bs = from_be (rev bs)"

lemma to_be_numeral:
  "to_be (numeral k) x = to_be (pred_numeral k) (x div 256) @ [word_of_nat (x mod 256)]"
  by (subst numeral_eq_Suc [of k]) (rule to_be.simps)

lemma length_to_be [simp, bytes_simps]: "length (to_be n x) = n"
  by (induction n arbitrary: x) auto

lemma length_to_le [simp, bytes_simps]: "length (to_le n x) = n"
  by (simp add: to_le_def)

lemma from_be_Nil [simp]: "from_be [] = 0"
  by (simp add: from_be_def)

lemma from_be_snoc [simp]: "from_be (bs @ [b]) = from_be bs * 256 + unat b"
  by (simp add: from_be_def)

lemma from_be_to_be [bytes_simps]: "from_be (to_be n x) = x mod 256 ^ n"
proof (induction n arbitrary: x)
  case (Suc n)
  have "x mod (256 * 256 ^ n) = 256 * (x div 256 mod 256 ^ n) + x mod 256"
    by (rule mod_mult2_eq)
  then show ?case
    by (simp add: Suc unat_of_nat)
qed simp

lemma to_be_from_be [bytes_simps]: "to_be (length bs) (from_be bs) = bs"
proof (induction bs rule: rev_induct)
  case (snoc b bs)
  have "unat b < 256"
    using unsigned_less [of b] by simp
  then show ?case
    by (simp add: snoc div_plus_div_distrib_dvd_left)
qed simp

lemma from_be_bound: "from_be bs < 256 ^ length bs"
proof (induction bs rule: rev_induct)
  case (snoc b bs)
  have "unat b < 256"
    using unsigned_less [of b] by simp
  then show ?case
    using snoc by simp
qed simp

lemma from_le_to_le [bytes_simps]: "from_le (to_le n x) = x mod 256 ^ n"
  by (simp add: from_le_def to_le_def from_be_to_be)

lemma to_be_inject:
  assumes "to_be n x = to_be n y" and "x < 256 ^ n" and "y < 256 ^ n"
  shows "x = y"
  using assms by (metis from_be_to_be mod_less)

definition sub_slice :: "nat \<Rightarrow> nat \<Rightarrow> 'a list \<Rightarrow> 'a list" where
  "sub_slice i j xs = take (j - i) (drop i xs)"

lemma length_sub_slice [simp, bytes_simps]:
  "length (sub_slice i j xs) = min (j - i) (length xs - i)"
  by (simp add: sub_slice_def)

definition ascii :: "string \<Rightarrow> bytes" where
  "ascii s = map (\<lambda>c. of_char c) s"

lemma length_ascii [simp]: "length (ascii s) = length s"
  by (simp add: ascii_def)

lemma ascii_Nil [simp]: "ascii [] = []"
  by (simp add: ascii_def)

text \<open>A string as the list of the characters with these bytes.\<close>

definition chars :: "bytes \<Rightarrow> string" where
  "chars bs = map (\<lambda>b. char_of (unat b)) bs"

lemma of_char_char_of: "of_char (char_of (unat b) :: char) = (b :: u8)"
proof -
  have "(of_char (char_of (unat b) :: char) :: u8) = word_of_nat (of_char (char_of (unat b) :: char))"
    by (rule of_nat_of_char [symmetric])
  also have "\<dots> = b"
    using unat_bound [of b] by (simp add: of_char_of)
  finally show ?thesis .
qed

lemma unat_of_char: "unat (of_char c :: u8) = of_char c"
  by (subst of_nat_of_char [symmetric]) (simp add: unat_of_nat)

lemma ascii_chars [simp]: "ascii (chars bs) = bs"
  by (simp add: ascii_def chars_def comp_def of_char_char_of)

lemma chars_ascii [simp]: "chars (ascii s) = s"
  by (simp add: ascii_def chars_def comp_def unat_of_char)

lemma ascii_eq_Nil_iff [simp]: "ascii s = [] \<longleftrightarrow> s = []"
  by (simp add: ascii_def)

lemma chars_eq_Nil_iff [simp]: "chars bs = [] \<longleftrightarrow> bs = []"
  by (simp add: chars_def)

lemma length_chars [simp]: "length (chars bs) = length bs"
  by (simp add: chars_def)

section \<open>Sorted lists\<close>

text \<open>
  A list that is strictly sorted by an irreflexive order is determined by its
  set: two iterators that deliver the same items in the same direction deliver
  the same sequence.
\<close>

lemma sorted_wrt_set_unique:
  assumes trans: "\<And>x y z. P x y \<Longrightarrow> P y z \<Longrightarrow> P x z"
    and irrefl: "\<And>x. \<not> P x x"
    and "sorted_wrt P xs" and "sorted_wrt P ys" and "set xs = set ys"
  shows "xs = ys"
  using assms(3-5)
proof (induction xs arbitrary: ys)
  case (Cons x xs)
  then obtain y ys' where ys: "ys = y # ys'"
    by (cases ys) auto
  have "x = y"
  proof (rule ccontr)
    assume "x \<noteq> y"
    then have "P x y" and "P y x"
      using Cons.prems ys by auto
    then show False
      using trans irrefl by blast
  qed
  moreover have "x \<notin> set xs" and "y \<notin> set ys'"
    using Cons.prems(1,2) ys irrefl by auto
  ultimately have "set xs = set ys'"
    using Cons.prems(3) ys by auto
  then show ?case
    using Cons ys \<open>x = y\<close> by simp
qed simp

lemma sorted_wrt_key_distinct:
  assumes "\<And>x. \<not> P x x" and "sorted_wrt (\<lambda>a b. P (fst a) (fst b)) xs"
  shows "distinct (map fst xs)"
  using assms(2) by (induction xs) (use assms(1) in force)+

lemma map_of_mem_iff:
  assumes "distinct (map fst xs)"
  shows "map_of xs k = Some v \<longleftrightarrow> (k, v) \<in> set xs"
  using assms by simp

lemma prefix_append_eq_iff:
  assumes "length xs = length ys"
  shows "xs @ us = ys @ vs \<longleftrightarrow> xs = ys \<and> us = vs"
  using assms by simp

end
