(* ===== verification/Mem_Storage.thy ===== *)
theory Mem_Storage
  imports Prelude
begin

text \<open>
  The storage of the standard library (\<open>packages/std/src/storage.rs\<close>): an
  ordered map of byte strings (\<open>BTreeMap\<close>), its range iterator in both
  directions, and the contract of the \<open>Storage\<close> trait as the locales
  \<open>storage_laws\<close> and \<open>range_laws\<close>, interpreted on \<open>MemoryStorage\<close>.
\<close>

section \<open>BTreeMap\<close>

text \<open>
  The ordered map of the Rust standard library as a list of entries sorted by
  key. Look-up, insertion and removal act on the first entry of a key; the
  invariant \<open>bt_ok\<close> says that there is only one and that iteration is ordered.
\<close>

type_synonym ('k, 'v) btree = "('k \<times> 'v) list"

datatype Order = Ascending | Descending

fun bt_insert :: "'k::linorder \<Rightarrow> 'v \<Rightarrow> ('k, 'v) btree \<Rightarrow> ('k, 'v) btree" where
  "bt_insert k v [] = [(k, v)]"
| "bt_insert k v ((a, b) # t) =
     (if k < a then (k, v) # (a, b) # t
      else if k = a then (k, v) # t
      else (a, b) # bt_insert k v t)"

definition bt_remove :: "'k \<Rightarrow> ('k, 'v) btree \<Rightarrow> ('k, 'v) btree" where
  "bt_remove k t = filter (\<lambda>e. fst e \<noteq> k) t"

definition bt_get :: "('k, 'v) btree \<Rightarrow> 'k \<Rightarrow> 'v option" where
  "bt_get t k = map_of t k"

definition bt_ok :: "('k::linorder, 'v) btree \<Rightarrow> bool" where
  "bt_ok t = sorted_wrt (\<lambda>x y. fst x < fst y) t"

lemma bt_get_Nil [simp]: "bt_get [] k = None"
  by (simp add: bt_get_def)

lemma bt_get_insert [simp]: "bt_get (bt_insert k v t) k' = (if k' = k then Some v else bt_get t k')"
  unfolding bt_get_def by (induction k v t rule: bt_insert.induct) auto

lemma bt_get_remove [simp]: "bt_get (bt_remove k t) k' = (if k' = k then None else bt_get t k')"
  unfolding bt_get_def bt_remove_def by (induction t) auto

lemma fst_bt_insert [simp]: "fst ` set (bt_insert k v t) = insert k (fst ` set t)"
  by (induction k v t rule: bt_insert.induct) auto

lemma bt_ok_Nil [simp]: "bt_ok []"
  by (simp add: bt_ok_def)

lemma bt_ok_insert [simp]: "bt_ok t \<Longrightarrow> bt_ok (bt_insert k v t)"
proof (induction k v t rule: bt_insert.induct)
  case (2 k v a b t)
  have "\<forall>x \<in> fst ` set (bt_insert k v t). a < x" if "a < k"
    using "2.prems" that unfolding fst_bt_insert by (auto simp: bt_ok_def)
  then have "\<forall>e \<in> set (bt_insert k v t). a < fst e" if "a < k"
    using that by blast
  then show ?case
    using 2 by (fastforce simp: bt_ok_def)
qed (simp add: bt_ok_def)

lemma bt_ok_remove [simp]: "bt_ok t \<Longrightarrow> bt_ok (bt_remove k t)"
  by (simp add: bt_ok_def bt_remove_def sorted_wrt_filter)

lemma bt_ok_filter: "bt_ok t \<Longrightarrow> bt_ok (filter P t)"
  by (simp add: bt_ok_def sorted_wrt_filter)

lemma bt_ok_distinct: "bt_ok t \<Longrightarrow> distinct (map fst t)"
  unfolding bt_ok_def by (rule sorted_wrt_key_distinct) auto

lemma bt_get_mem: "bt_ok t \<Longrightarrow> bt_get t k = Some v \<longleftrightarrow> (k, v) \<in> set t"
  by (simp add: bt_get_def bt_ok_distinct)

lemma bt_get_None: "bt_get t k = None \<longleftrightarrow> k \<notin> fst ` set t"
  by (simp add: bt_get_def map_of_eq_None_iff)

section \<open>Ranges\<close>

text \<open>
  \<open>range_bounds\<close>: the start is included, the end excluded, a missing bound is
  no bound. \<open>BTreeMap::range\<close> panics on a start above the end, so the code
  answers with the empty iterator there.
\<close>

datatype bound = Unbounded | Included bytes | Excluded bytes

definition range_bounds :: "bytes option \<Rightarrow> bytes option \<Rightarrow> bound \<times> bound" where
  "range_bounds start end =
     (case start of None \<Rightarrow> Unbounded | Some x \<Rightarrow> Included x,
      case end of None \<Rightarrow> Unbounded | Some x \<Rightarrow> Excluded x)"

fun above :: "bound \<Rightarrow> bytes \<Rightarrow> bool" where
  "above Unbounded k = True"
| "above (Included a) k = (a \<le> k)"
| "above (Excluded a) k = (a < k)"

fun below :: "bound \<Rightarrow> bytes \<Rightarrow> bool" where
  "below Unbounded k = True"
| "below (Included b) k = (k \<le> b)"
| "below (Excluded b) k = (k < b)"

fun inverted :: "bound \<times> bound \<Rightarrow> bool" where
  "inverted (Included s, Excluded e) = (e < s)"
| "inverted _ = False"

definition bt_range :: "(bytes, 'v) btree \<Rightarrow> bound \<times> bound \<Rightarrow> (bytes \<times> 'v) list" where
  "bt_range t b = filter (\<lambda>e. above (fst b) (fst e) \<and> below (snd b) (fst e)) t"

definition directed :: "Order \<Rightarrow> 'a list \<Rightarrow> 'a list" where
  "directed ord xs = (case ord of Ascending \<Rightarrow> xs | Descending \<Rightarrow> rev xs)"

definition before :: "Order \<Rightarrow> 'k::linorder \<Rightarrow> 'k \<Rightarrow> bool" where
  "before ord x y = (case ord of Ascending \<Rightarrow> x < y | Descending \<Rightarrow> y < x)"

abbreviation sorted_by :: "Order \<Rightarrow> ('k::linorder \<times> 'v) list \<Rightarrow> bool" where
  "sorted_by ord xs \<equiv> sorted_wrt (\<lambda>x y. before ord (fst x) (fst y)) xs"

definition in_range :: "bytes option \<Rightarrow> bytes option \<Rightarrow> bytes \<Rightarrow> bool" where
  "in_range start end k =
     ((case start of None \<Rightarrow> True | Some s \<Rightarrow> s \<le> k) \<and>
      (case end of None \<Rightarrow> True | Some e \<Rightarrow> k < e))"

lemma before_irrefl [simp]: "\<not> before ord x x"
  by (simp add: before_def split: Order.split)

lemma before_trans: "before ord x y \<Longrightarrow> before ord y z \<Longrightarrow> before ord x z"
  by (auto simp: before_def split: Order.splits)

lemma set_directed [simp]: "set (directed ord xs) = set xs"
  by (simp add: directed_def split: Order.split)

lemma sorted_by_directed: "bt_ok t \<Longrightarrow> sorted_by ord (directed ord t)"
  by (cases ord) (auto simp: directed_def before_def bt_ok_def sorted_wrt_rev)

lemma sorted_by_unique:
  fixes xs ys :: "('k::linorder \<times> 'v) list"
  assumes "sorted_by ord xs" and "sorted_by ord ys" and "set xs = set ys"
  shows "xs = ys"
  by (rule sorted_wrt_set_unique [OF _ _ assms]) (erule (1) before_trans, simp)

lemma range_bounds_in_range:
  "above (fst (range_bounds s e)) k \<and> below (snd (range_bounds s e)) k \<longleftrightarrow> in_range s e k"
  by (auto simp: range_bounds_def in_range_def split: option.split)

lemma inverted_range_bounds:
  "inverted (range_bounds s e) \<longleftrightarrow> (\<exists>a b. s = Some a \<and> e = Some b \<and> b < a)"
  by (auto simp: range_bounds_def split: option.split)

lemma inverted_empty: "inverted (range_bounds s e) \<Longrightarrow> \<not> in_range s e k"
  unfolding inverted_range_bounds in_range_def by clarsimp order

lemma set_bt_range_bounds:
  "set (bt_range t (range_bounds s e)) = {(k, v). (k, v) \<in> set t \<and> in_range s e k}"
  unfolding bt_range_def range_bounds_in_range by auto

lemma bt_ok_range: "bt_ok t \<Longrightarrow> bt_ok (bt_range t b)"
  by (simp add: bt_range_def bt_ok_filter)

section \<open>MemoryStorage\<close>

record MemoryStorage =
  data :: "(bytes, bytes) btree"

definition ms_new :: MemoryStorage where
  "ms_new = \<lparr>data = []\<rparr>"

definition ms_get :: "MemoryStorage \<Rightarrow> bytes \<Rightarrow> bytes option" where
  "ms_get s key = bt_get (data s) key"

definition ms_set :: "MemoryStorage \<Rightarrow> bytes \<Rightarrow> bytes \<Rightarrow> MemoryStorage" where
  "ms_set s key value = s\<lparr>data := bt_insert key value (data s)\<rparr>"

definition ms_remove :: "MemoryStorage \<Rightarrow> bytes \<Rightarrow> MemoryStorage" where
  "ms_remove s key = s\<lparr>data := bt_remove key (data s)\<rparr>"

definition ms_range ::
  "MemoryStorage \<Rightarrow> bytes option \<Rightarrow> bytes option \<Rightarrow> Order \<Rightarrow> (bytes \<times> bytes) list" where
  "ms_range s start end order =
     (let bounds = range_bounds start end
      in if inverted bounds then []
         else (case order of
                 Ascending \<Rightarrow> bt_range (data s) bounds
               | Descending \<Rightarrow> rev (bt_range (data s) bounds)))"

definition ms_ok :: "MemoryStorage \<Rightarrow> bool" where
  "ms_ok s = bt_ok (data s)"

lemma ms_get_new [simp]: "ms_get ms_new k = None"
  by (simp add: ms_get_def ms_new_def)

lemma ms_get_set [simp]: "ms_get (ms_set s k v) k' = (if k' = k then Some v else ms_get s k')"
  by (simp add: ms_get_def ms_set_def)

lemma ms_get_remove [simp]: "ms_get (ms_remove s k) k' = (if k' = k then None else ms_get s k')"
  by (simp add: ms_get_def ms_remove_def)

lemma ms_ok_new [simp]: "ms_ok ms_new"
  by (simp add: ms_ok_def ms_new_def)

lemma ms_ok_set [simp]: "ms_ok s \<Longrightarrow> ms_ok (ms_set s k v)"
  by (simp add: ms_ok_def ms_set_def)

lemma ms_ok_remove [simp]: "ms_ok s \<Longrightarrow> ms_ok (ms_remove s k)"
  by (simp add: ms_ok_def ms_remove_def)

lemma ms_range_directed:
  "ms_range s start end order = directed order (bt_range (data s) (range_bounds start end))"
proof (cases "inverted (range_bounds start end)")
  case True
  then have "set (bt_range (data s) (range_bounds start end)) = {}"
    by (auto simp: set_bt_range_bounds inverted_empty)
  then show ?thesis
    using True by (simp add: ms_range_def directed_def split: Order.split)
qed (simp add: ms_range_def directed_def split: Order.split)

section \<open>The contract of the Storage trait\<close>

locale storage_laws =
  fixes get :: "'s \<Rightarrow> bytes \<Rightarrow> bytes option"
    and set_kv :: "'s \<Rightarrow> bytes \<Rightarrow> bytes \<Rightarrow> 's"
    and remove :: "'s \<Rightarrow> bytes \<Rightarrow> 's"
    and ok :: "'s \<Rightarrow> bool"
  assumes get_set: "ok s \<Longrightarrow> get (set_kv s k v) k' = (if k' = k then Some v else get s k')"
    and get_remove: "ok s \<Longrightarrow> get (remove s k) k' = (if k' = k then None else get s k')"
    and ok_set: "ok s \<Longrightarrow> ok (set_kv s k v)"
    and ok_remove: "ok s \<Longrightarrow> ok (remove s k)"
begin

lemma get_set_same: "ok s \<Longrightarrow> get (set_kv s k v) k = Some v"
  by (simp add: get_set)

lemma get_set_other: "ok s \<Longrightarrow> k' \<noteq> k \<Longrightarrow> get (set_kv s k v) k' = get s k'"
  by (simp add: get_set)

lemma get_set_fun: "ok s \<Longrightarrow> get (set_kv s k v) = (get s)(k \<mapsto> v)"
  by (rule ext) (simp add: get_set)

lemma get_remove_fun: "ok s \<Longrightarrow> get (remove s k) = (get s)(k := None)"
  by (rule ext) (simp add: get_remove)

end

locale range_laws = storage_laws +
  fixes range_kv :: "'a \<Rightarrow> bytes option \<Rightarrow> bytes option \<Rightarrow> Order \<Rightarrow> (bytes \<times> bytes) list"
  assumes range_sorted: "ok s \<Longrightarrow> sorted_by ord (range_kv s start stop ord)"
    and range_set: "ok s \<Longrightarrow>
      set (range_kv s start stop ord) = {(k, v). get s k = Some v \<and> in_range start stop k}"
begin

lemma range_unique:
  assumes "ok s" and "sorted_by ord xs"
    and "\<And>k v. (k, v) \<in> set xs \<longleftrightarrow> get s k = Some v \<and> in_range start stop k"
  shows "range_kv s start stop ord = xs"
proof (rule sorted_by_unique [OF range_sorted [OF assms(1)] assms(2)])
  show "set (range_kv s start stop ord) = set xs"
    unfolding range_set [OF assms(1)] using assms(3) by auto
qed

lemma range_inverted_empty:
  "ok s \<Longrightarrow> b < a \<Longrightarrow> range_kv s (Some a) (Some b) ord = []"
  by (rule range_unique) (auto simp: in_range_def)

lemma range_descending:
  assumes "ok s"
  shows "range_kv s start stop Descending = rev (range_kv s start stop Ascending)"
proof (rule range_unique [OF assms])
  show "sorted_by Descending (rev (range_kv s start stop Ascending))"
    using range_sorted [OF assms, of Ascending start stop] by (simp add: sorted_wrt_rev before_def)
qed (use range_set [OF assms] in auto)

end

interpretation ms: range_laws ms_get ms_set ms_remove ms_ok ms_range
proof
  fix s start stop and ord :: Order
  assume ok: "ms_ok s"
  show "sorted_by ord (ms_range s start stop ord)"
    unfolding ms_range_directed
    using ok by (intro sorted_by_directed bt_ok_range) (simp add: ms_ok_def)
  show "set (ms_range s start stop ord)
      = {(k, v). ms_get s k = Some v \<and> in_range start stop k}"
    using ok by (auto simp: ms_range_directed set_bt_range_bounds ms_get_def ms_ok_def bt_get_mem)
qed simp_all

end
