(* ===== verification/Storage_Keys.thy ===== *)
theory Storage_Keys
  imports Mem_Storage
begin

text \<open>
  Namespaced keys: \<open>packages/storage/src/length_prefixed.rs\<close>,
  \<open>namespace_helpers.rs\<close> and \<open>prefixed_storage.rs\<close>. The functions are generic
  over the storage in the source; here the storage operations are their first
  arguments.
\<close>

section \<open>length_prefixed.rs\<close>

text \<open>\<open>None\<close> is the panic on a namespace longer than 0xFFFF bytes.\<close>

definition encode_length :: "bytes \<Rightarrow> bytes option" where
  "encode_length namespace =
     (if length namespace > 0xFFFF then None
      else (let length_bytes = to_be 4 (length namespace)
            in Some [length_bytes ! 2, length_bytes ! 3]))"

definition to_length_prefixed :: "bytes \<Rightarrow> bytes option" where
  "to_length_prefixed namespace =
     (case encode_length namespace of
        None \<Rightarrow> None
      | Some out \<Rightarrow> Some (out @ namespace))"

fun to_length_prefixed_nested :: "bytes list \<Rightarrow> bytes option" where
  "to_length_prefixed_nested [] = Some []"
| "to_length_prefixed_nested (namespace # namespaces) =
     (case encode_length namespace of
        None \<Rightarrow> None
      | Some out \<Rightarrow> (case to_length_prefixed_nested namespaces of
            None \<Rightarrow> None
          | Some rest \<Rightarrow> Some (out @ namespace @ rest)))"

lemma encode_length_eq:
  "encode_length ns = (if length ns \<le> 0xFFFF then Some (to_be 2 (length ns)) else None)"
  by (simp add: encode_length_def to_be_numeral nth_append)

lemma to_length_prefixed_eq:
  "to_length_prefixed ns
     = (if length ns \<le> 0xFFFF then Some (to_be 2 (length ns) @ ns) else None)"
  by (simp add: to_length_prefixed_def encode_length_eq)

lemma to_length_prefixed_Some:
  "to_length_prefixed ns = Some p \<longleftrightarrow> length ns \<le> 0xFFFF \<and> p = to_be 2 (length ns) @ ns"
  by (auto simp: to_length_prefixed_eq)

lemma nested_Cons:
  "to_length_prefixed_nested (ns # nss) = Some p \<longleftrightarrow>
     (\<exists>q r. to_length_prefixed ns = Some q \<and> to_length_prefixed_nested nss = Some r \<and> p = q @ r)"
  by (auto simp: to_length_prefixed_def split: option.splits)

lemma length_prefixed_cancel:
  assumes "to_length_prefixed a = Some p" and "to_length_prefixed b = Some q" and "p @ x = q @ y"
  shows "a = b \<and> x = y"
proof -
  have len: "length a \<le> 0xFFFF" "length b \<le> 0xFFFF"
    and eq: "to_be 2 (length a) @ a @ x = to_be 2 (length b) @ b @ y"
    using assms by (auto simp: to_length_prefixed_Some)
  then have be: "to_be 2 (length a) = to_be 2 (length b)" and rest: "a @ x = b @ y"
    by (simp_all add: prefix_append_eq_iff)
  have "length a = length b"
    using to_be_inject [OF be] len by simp
  then show ?thesis
    using rest by simp
qed

section \<open>namespace_helpers.rs\<close>

definition concat_key :: "bytes \<Rightarrow> bytes \<Rightarrow> bytes" where
  "concat_key namespace key = namespace @ key"

definition get_with_prefix :: "('s \<Rightarrow> bytes \<Rightarrow> bytes option) \<Rightarrow> 's \<Rightarrow> bytes \<Rightarrow> bytes \<Rightarrow> bytes option" where
  "get_with_prefix get storage namespace key = get storage (concat_key namespace key)"

definition set_with_prefix :: "('s \<Rightarrow> bytes \<Rightarrow> bytes \<Rightarrow> 's) \<Rightarrow> 's \<Rightarrow> bytes \<Rightarrow> bytes \<Rightarrow> bytes \<Rightarrow> 's" where
  "set_with_prefix set_kv storage namespace key value = set_kv storage (concat_key namespace key) value"

definition remove_with_prefix :: "('s \<Rightarrow> bytes \<Rightarrow> 's) \<Rightarrow> 's \<Rightarrow> bytes \<Rightarrow> bytes \<Rightarrow> 's" where
  "remove_with_prefix remove storage namespace key = remove storage (concat_key namespace key)"

text \<open>
  \<open>namespace_upper_bound\<close> walks from the last byte to the first: a 255 becomes
  0, the first other byte is incremented and ends the loop.
\<close>

fun bump_from_end :: "bytes \<Rightarrow> bytes" where
  "bump_from_end [] = []"
| "bump_from_end (b # bs) = (if b = 255 then 0 # bump_from_end bs else (b + 1) # bs)"

definition namespace_upper_bound :: "bytes \<Rightarrow> bytes" where
  "namespace_upper_bound input = rev (bump_from_end (rev input))"

text \<open>\<open>trim\<close> panics (\<open>None\<close>) on a key shorter than the namespace.\<close>

definition trim :: "bytes \<Rightarrow> bytes \<Rightarrow> bytes option" where
  "trim namespace key =
     (if length key < length namespace then None else Some (drop (length namespace) key))"

text \<open>\<open>None\<close> is a panic while the returned iterator is drained.\<close>

definition range_with_prefix ::
  "('s \<Rightarrow> bytes option \<Rightarrow> bytes option \<Rightarrow> Order \<Rightarrow> (bytes \<times> bytes) list) \<Rightarrow>
   's \<Rightarrow> bytes \<Rightarrow> bytes option \<Rightarrow> bytes option \<Rightarrow> Order \<Rightarrow> (bytes \<times> bytes) list option" where
  "range_with_prefix range_kv storage namespace start stop order =
     (let start = (case start of Some s \<Rightarrow> concat_key namespace s | None \<Rightarrow> namespace);
          stop = (case stop of Some e \<Rightarrow> concat_key namespace e
                             | None \<Rightarrow> namespace_upper_bound namespace);
          base_iterator = range_kv storage (Some start) (Some stop) order
      in those (map (\<lambda>(k, v). map_option (\<lambda>k'. (k', v)) (trim namespace k)) base_iterator))"

lemma namespace_upper_bound_snoc:
  "b \<noteq> 255 \<Longrightarrow> namespace_upper_bound (ns @ [b]) = ns @ [b + 1]"
  by (simp add: namespace_upper_bound_def)

lemma byte_less_Suc:
  fixes a b :: u8
  assumes "b \<noteq> 255"
  shows "a < b + 1 \<longleftrightarrow> a \<le> b"
proof -
  have "unat b < 255"
    using assms unat_bound [of b] by (simp add: word_unat_eq_iff)
  then have "unat (b + 1) = unat b + 1"
    by (simp add: unat_word_ariths)
  then show ?thesis
    by (simp add: word_less_nat_alt word_le_nat_alt less_Suc_eq_le)
qed

text \<open>Lexicographic order under a common prefix.\<close>

lemma append_less_append [simp]:
  fixes a b p :: "'a::linorder list"
  shows "p @ a < p @ b \<longleftrightarrow> a < b"
  by (induction p) simp_all

lemma append_le_append [simp]:
  fixes a b p :: "'a::linorder list"
  shows "p @ a \<le> p @ b \<longleftrightarrow> a \<le> b"
  by (induction p) simp_all

lemma prefix_sandwich_ex:
  fixes p s e k :: "'a::linorder list"
  shows "p @ s \<le> k \<Longrightarrow> k < p @ e \<Longrightarrow> \<exists>r. k = p @ r \<and> s \<le> r \<and> r < e"
proof (induction p arbitrary: k)
  case (Cons x p)
  then show ?case
    by (cases k) auto
qed simp

lemma prefix_sandwich:
  fixes p s e k :: "'a::linorder list"
  assumes "p @ s \<le> k" and "k < p @ e"
  obtains r where "k = p @ r" and "s \<le> r" and "r < e"
  using prefix_sandwich_ex [OF assms] by blast

lemma namespace_upper_bound_sandwich:
  assumes b: "b \<noteq> 255"
    and lo: "(m @ [b]) @ s \<le> k" and hi: "k < namespace_upper_bound (m @ [b])"
  obtains r where "k = (m @ [b]) @ r" and "s \<le> r"
proof -
  have "m @ (b # s) \<le> k" and "k < m @ [b + 1]"
    using lo hi b by (simp_all add: namespace_upper_bound_snoc)
  then obtain r where r: "k = m @ r" "b # s \<le> r" "r < [b + 1]"
    by (rule prefix_sandwich)
  then obtain r' where "r = b # r'" "s \<le> r'"
    using b by (cases r) (auto simp: byte_less_Suc)
  then show thesis
    using that r by simp
qed

lemma below_namespace_upper_bound:
  assumes "b \<noteq> 255"
  shows "(m @ [b]) @ r < namespace_upper_bound (m @ [b])"
  using assms by (simp add: namespace_upper_bound_snoc byte_less_Suc)

definition namespace_ok :: "bytes \<Rightarrow> bool" where
  "namespace_ok ns = (ns \<noteq> [] \<and> last ns \<noteq> 255)"

lemma namespace_okE:
  assumes "namespace_ok ns"
  obtains m b where "ns = m @ [b]" and "b \<noteq> 255"
  using assms by (metis append_butlast_last_id namespace_ok_def)

lemma prefixed_in_range:
  assumes "namespace_ok ns"
  shows "in_range
      (Some (case start of Some s \<Rightarrow> concat_key ns s | None \<Rightarrow> ns))
      (Some (case stop of Some e \<Rightarrow> concat_key ns e | None \<Rightarrow> namespace_upper_bound ns)) k
    \<longleftrightarrow> (\<exists>r. k = ns @ r \<and> in_range start stop r)" (is "?in \<longleftrightarrow> ?pre")
proof
  from assms obtain m b where ns: "ns = m @ [b]" "b \<noteq> 255"
    by (rule namespace_okE)
  let ?s = "case start of Some s \<Rightarrow> s | None \<Rightarrow> []"
  assume ?in
  then have lo: "ns @ ?s \<le> k"
    by (simp add: in_range_def concat_key_def split: option.splits)
  show ?pre
  proof (cases stop)
    case None
    then have "k < namespace_upper_bound ns"
      using \<open>?in\<close> by (simp add: in_range_def)
    then obtain r where "k = ns @ r" "?s \<le> r"
      using lo namespace_upper_bound_sandwich [OF ns(2)] ns(1) by blast
    then show ?thesis
      using None by (auto simp: in_range_def split: option.splits)
  next
    case (Some e)
    then have "k < ns @ e"
      using \<open>?in\<close> by (simp add: in_range_def concat_key_def)
    then obtain r where "k = ns @ r" "?s \<le> r" "r < e"
      using lo prefix_sandwich by blast
    then show ?thesis
      using Some by (auto simp: in_range_def split: option.splits)
  qed
next
  from assms obtain m b where ns: "ns = m @ [b]" "b \<noteq> 255"
    by (rule namespace_okE)
  have "ns \<le> ns @ r" and "ns @ r < namespace_upper_bound ns" for r
    using append_le_append [of ns "[]" r] below_namespace_upper_bound [OF ns(2)] ns(1) by simp_all
  moreover assume ?pre
  ultimately show ?in
    by (auto simp: in_range_def concat_key_def split: option.splits)
qed

lemma those_map_Some: "(\<And>x. x \<in> set xs \<Longrightarrow> f x = Some (g x)) \<Longrightarrow> those (map f xs) = Some (map g xs)"
  by (induction xs) auto

section \<open>Prefixed storage over any storage\<close>

text \<open>
  \<open>PrefixedStorage\<close> keeps its prefix and a reference to the storage it wraps.
\<close>

record 's PrefixedStorage =
  ps_prefix :: bytes
  ps_storage :: 's

definition ps_new :: "bytes \<Rightarrow> 's \<Rightarrow> 's PrefixedStorage option" where
  "ps_new namespace storage =
     map_option (\<lambda>p. \<lparr>ps_prefix = p, ps_storage = storage\<rparr>) (to_length_prefixed namespace)"

definition ps_multilevel :: "bytes list \<Rightarrow> 's \<Rightarrow> 's PrefixedStorage option" where
  "ps_multilevel namespaces storage =
     map_option (\<lambda>p. \<lparr>ps_prefix = p, ps_storage = storage\<rparr>) (to_length_prefixed_nested namespaces)"

definition ps_get :: "('s \<Rightarrow> bytes \<Rightarrow> bytes option) \<Rightarrow> 's PrefixedStorage \<Rightarrow> bytes \<Rightarrow> bytes option" where
  "ps_get get ps key = get_with_prefix get (ps_storage ps) (ps_prefix ps) key"

definition ps_range ::
  "('s \<Rightarrow> bytes option \<Rightarrow> bytes option \<Rightarrow> Order \<Rightarrow> (bytes \<times> bytes) list) \<Rightarrow>
   's PrefixedStorage \<Rightarrow> bytes option \<Rightarrow> bytes option \<Rightarrow> Order \<Rightarrow> (bytes \<times> bytes) list option" where
  "ps_range range_kv ps start stop order =
     range_with_prefix range_kv (ps_storage ps) (ps_prefix ps) start stop order"

definition ps_set ::
  "('s \<Rightarrow> bytes \<Rightarrow> bytes \<Rightarrow> 's) \<Rightarrow> 's PrefixedStorage \<Rightarrow> bytes \<Rightarrow> bytes \<Rightarrow> 's PrefixedStorage" where
  "ps_set set_kv ps key value =
     ps\<lparr>ps_storage := set_with_prefix set_kv (ps_storage ps) (ps_prefix ps) key value\<rparr>"

definition ps_remove ::
  "('s \<Rightarrow> bytes \<Rightarrow> 's) \<Rightarrow> 's PrefixedStorage \<Rightarrow> bytes \<Rightarrow> 's PrefixedStorage" where
  "ps_remove remove ps key =
     ps\<lparr>ps_storage := remove_with_prefix remove (ps_storage ps) (ps_prefix ps) key\<rparr>"

lemmas prefix_op_defs =
  get_with_prefix_def set_with_prefix_def remove_with_prefix_def concat_key_def
  ps_get_def ps_set_def ps_remove_def ps_range_def

text \<open>A client of any storage that keeps the contract keeps it too.\<close>

locale prefixed_client = range_laws
begin

lemma prefixed_range:
  assumes ok: "ok s" and ns: "namespace_ok ns"
  shows "\<exists>xs. range_with_prefix range_kv s ns start stop ord = Some xs
     \<and> sorted_by ord xs
     \<and> set xs = {(r, v). get_with_prefix get s ns r = Some v \<and> in_range start stop r}"
proof -
  let ?lo = "Some (case start of Some s \<Rightarrow> concat_key ns s | None \<Rightarrow> ns)"
  let ?hi = "Some (case stop of Some e \<Rightarrow> concat_key ns e | None \<Rightarrow> namespace_upper_bound ns)"
  let ?base = "range_kv s ?lo ?hi ord"
  let ?xs = "map (\<lambda>(k, v). (drop (length ns) k, v)) ?base"
  have base: "set ?base = {(k, v). get s k = Some v \<and> (\<exists>r. k = ns @ r \<and> in_range start stop r)}"
    unfolding range_set [OF ok] prefixed_in_range [OF ns] ..
  have "range_with_prefix range_kv s ns start stop ord = Some ?xs"
    unfolding range_with_prefix_def Let_def
    by (rule those_map_Some) (auto simp: base trim_def)
  moreover have "sorted_by ord ?xs"
  proof -
    have "sorted_wrt (\<lambda>x y. before ord (drop (length ns) (fst x)) (drop (length ns) (fst y))) ?base"
      by (rule sorted_wrt_mono_rel [OF _ range_sorted [OF ok]])
        (auto simp: base before_def split: Order.splits)
    then show ?thesis
      by (simp add: sorted_wrt_map case_prod_beta)
  qed
  moreover have "set ?xs = {(r, v). get_with_prefix get s ns r = Some v \<and> in_range start stop r}"
    by (force simp: base prefix_op_defs)
  ultimately show ?thesis
    by blast
qed

end

sublocale prefixed_client \<subseteq> pre: storage_laws
  "ps_get get" "ps_set set_kv" "ps_remove remove" "\<lambda>ps. ok (ps_storage ps)"
  by unfold_locales (auto simp: prefix_op_defs get_set get_remove ok_set ok_remove)

interpretation ms_pre: prefixed_client ms_get ms_set ms_remove ms_ok ms_range
  by unfold_locales

section \<open>Properties of namespaced keys\<close>

text \<open>
  Keys built from nested namespaces never collide: two namespace paths of
  the same depth give the same raw key only if the paths and the keys below
  them are the same.
\<close>

lemma nested_keys_disjoint:
  assumes "to_length_prefixed_nested nss = Some p" and "to_length_prefixed_nested mss = Some q"
    and "length nss = length mss"
  shows "concat_key p k = concat_key q k' \<longleftrightarrow> nss = mss \<and> k = k'"
  using assms(3,1,2)
proof (induction nss mss arbitrary: p q rule: list_induct2)
  case (Cons n nss m mss)
  then obtain a r b t where
    "to_length_prefixed n = Some a" "to_length_prefixed_nested nss = Some r" "p = a @ r"
    "to_length_prefixed m = Some b" "to_length_prefixed_nested mss = Some t" "q = b @ t"
    unfolding nested_Cons by blast
  then show ?case
    using Cons.IH [of r t] length_prefixed_cancel [of n a m b "r @ k" "t @ k'"]
    by (auto simp: concat_key_def)
qed (simp add: concat_key_def)

lemma nested_keys_disjoint_witness:
  "to_length_prefixed_nested [[1], [2, 3]] = Some [0, 1, 1, 0, 2, 2, 3] \<and>
   to_length_prefixed_nested [[1, 0], [2]] = Some [0, 2, 1, 0, 0, 1, 2] \<and>
   concat_key [0, 1, 1, 0, 2, 2, 3] [7] \<noteq> concat_key [0, 2, 1, 0, 0, 1, 2] [7]"
proof -
  have e: "to_length_prefixed_nested [[1], [2, 3]] = Some [0, 1, 1, 0, 2, 2, 3]"
    "to_length_prefixed_nested [[1, 0], [2]] = Some [0, 2, 1, 0, 0, 1, 2]"
    by (simp_all add: encode_length_eq to_be_numeral)
  show ?thesis
    using nested_keys_disjoint [OF e, of "[7]" "[7]"] e by simp
qed



text \<open>
  A namespace that ends in the byte 255 has an upper bound that ends in 0, and
  a shorter raw key lies below it: iterating such a namespace leaves it and
  panics when the foreign key is trimmed.
\<close>

lemma prefixed_range_leaves_namespace:
  "ps_new [1, 255] (ms_set ms_new [0, 2, 2] [5]) = Some ps \<Longrightarrow>
   ps_get ms_get ps k = None \<and> ps_range ms_range ps None None Ascending = None"
  by (auto simp: ps_new_def to_length_prefixed_eq to_be_numeral prefix_op_defs range_with_prefix_def
      namespace_upper_bound_def ms_range_directed ms_set_def ms_new_def ms_get_def bt_get_def
      directed_def bt_range_def range_bounds_def trim_def)

end
