(* ===== verification/Storage_Tx.thy ===== *)
theory Storage_Tx
  imports Storage_Keys
begin

text \<open>
  Transactions over a storage (\<open>packages/storage/src/transactions.rs\<close>): a local
  overlay with a replay log, the merging range iterator, and \<open>transactional\<close>.
  The contract shown is that a transaction answers every read and every range
  as the storage after its commit does.
\<close>

section \<open>The transaction and its log\<close>

datatype Op = Op_Set bytes bytes | Op_Delete bytes

datatype Delta = Delta_Set bytes | Delta_Delete

fun op_apply :: "('s \<Rightarrow> bytes \<Rightarrow> bytes \<Rightarrow> 's) \<Rightarrow> ('s \<Rightarrow> bytes \<Rightarrow> 's) \<Rightarrow> Op \<Rightarrow> 's \<Rightarrow> 's" where
  "op_apply set_kv remove (Op_Set key value) storage = set_kv storage key value"
| "op_apply set_kv remove (Op_Delete key) storage = remove storage key"

fun to_delta :: "Op \<Rightarrow> Delta" where
  "to_delta (Op_Set key value) = Delta_Set value"
| "to_delta (Op_Delete key) = Delta_Delete"

record RepLog =
  ops_log :: "Op list"

definition replog_new :: RepLog where
  "replog_new = \<lparr>ops_log = []\<rparr>"

definition replog_append :: "RepLog \<Rightarrow> Op \<Rightarrow> RepLog" where
  "replog_append l op = l\<lparr>ops_log := ops_log l @ [op]\<rparr>"

definition commit ::
  "('s \<Rightarrow> bytes \<Rightarrow> bytes \<Rightarrow> 's) \<Rightarrow> ('s \<Rightarrow> bytes \<Rightarrow> 's) \<Rightarrow> RepLog \<Rightarrow> 's \<Rightarrow> 's" where
  "commit set_kv remove l storage = fold (op_apply set_kv remove) (ops_log l) storage"

record 's StorageTransaction =
  tx_storage :: 's
  local_state :: "(bytes, Delta) btree"
  rep_log :: RepLog

definition tx_new :: "'s \<Rightarrow> 's StorageTransaction" where
  "tx_new storage = \<lparr>tx_storage = storage, local_state = [], rep_log = replog_new\<rparr>"

definition tx_prepare :: "'s StorageTransaction \<Rightarrow> RepLog" where
  "tx_prepare tx = rep_log tx"

definition tx_get ::
  "('s \<Rightarrow> bytes \<Rightarrow> bytes option) \<Rightarrow> 's StorageTransaction \<Rightarrow> bytes \<Rightarrow> bytes option" where
  "tx_get get tx key =
     (case bt_get (local_state tx) key of
        Some val \<Rightarrow> (case val of Delta_Set value \<Rightarrow> Some value | Delta_Delete \<Rightarrow> None)
      | None \<Rightarrow> get (tx_storage tx) key)"

definition tx_set :: "'s StorageTransaction \<Rightarrow> bytes \<Rightarrow> bytes \<Rightarrow> 's StorageTransaction" where
  "tx_set tx key value =
     (let op = Op_Set key value
      in tx\<lparr>local_state := bt_insert key (to_delta op) (local_state tx),
            rep_log := replog_append (rep_log tx) op\<rparr>)"

definition tx_remove :: "'s StorageTransaction \<Rightarrow> bytes \<Rightarrow> 's StorageTransaction" where
  "tx_remove tx key =
     (let op = Op_Delete key
      in tx\<lparr>local_state := bt_insert key (to_delta op) (local_state tx),
            rep_log := replog_append (rep_log tx) op\<rparr>)"

section \<open>The merging iterator\<close>

text \<open>
  The state of a \<open>MergeOverlay\<close> is what is left of both peekable iterators.
  \<open>next\<close>, \<open>pick_match\<close> and \<open>take_left\<close> call one another as in the source; the
  outer \<open>None\<close> is the panic of the \<open>unwrap\<close> in \<open>take_left\<close>.
\<close>

record MergeOverlay =
  mo_left :: "(bytes \<times> Delta) list"
  mo_right :: "(bytes \<times> bytes) list"
  mo_order :: Order

function mo_next :: "MergeOverlay \<Rightarrow> ((bytes \<times> bytes) option \<times> MergeOverlay) option"
  and pick_match :: "MergeOverlay \<Rightarrow> bytes \<Rightarrow> bytes \<Rightarrow> ((bytes \<times> bytes) option \<times> MergeOverlay) option"
  and take_left :: "MergeOverlay \<Rightarrow> ((bytes \<times> bytes) option \<times> MergeOverlay) option" where
  "mo_next m =
     (case (mo_left m, mo_right m) of
        (litem # _, ritem # _) \<Rightarrow> pick_match m (fst litem) (fst ritem)
      | (_ # _, []) \<Rightarrow> take_left m
      | ([], ritem # rs) \<Rightarrow> Some (Some ritem, m\<lparr>mo_right := rs\<rparr>)
      | ([], []) \<Rightarrow> Some (None, m))"
| "pick_match m lkey rkey =
     (let (a, b) = (case mo_order m of Ascending \<Rightarrow> (lkey, rkey) | Descending \<Rightarrow> (rkey, lkey))
      in if a < b then take_left m
         else if a = b then take_left (m\<lparr>mo_right := tl (mo_right m)\<rparr>)
         else (case mo_right m of
                 [] \<Rightarrow> Some (None, m)
               | ritem # rs \<Rightarrow> Some (Some ritem, m\<lparr>mo_right := rs\<rparr>)))"
| "take_left m =
     (case mo_left m of
        [] \<Rightarrow> None
      | (lkey, lval) # ls \<Rightarrow>
          (case lval of
             Delta_Set value \<Rightarrow> Some (Some (lkey, value), m\<lparr>mo_left := ls\<rparr>)
           | Delta_Delete \<Rightarrow> mo_next (m\<lparr>mo_left := ls\<rparr>)))"
  by pat_completeness auto

termination
  by (relation "measure (\<lambda>x. case x of
        Inl m \<Rightarrow> 3 * length (mo_left m) + 2
      | Inr (Inl (m, _, _)) \<Rightarrow> 3 * length (mo_left m) + 1
      | Inr (Inr m) \<Rightarrow> 3 * length (mo_left m))") (auto split: prod.splits)

declare mo_next.simps [simp del] pick_match.simps [simp del] take_left.simps [simp del]

text \<open>Draining the iterator, as a consumer of the returned box does.\<close>

definition mo_size :: "MergeOverlay \<Rightarrow> nat" where
  "mo_size m = length (mo_left m) + length (mo_right m)"

lemma merge_decreases:
  shows "mo_next m = Some (Some kv, m') \<Longrightarrow> mo_size m' < mo_size m"
    and "pick_match m lk rk = Some (Some kv, m') \<Longrightarrow> mo_size m' < mo_size m"
    and "take_left m = Some (Some kv, m') \<Longrightarrow> mo_size m' < mo_size m"
proof (induction m and m lk rk and m rule: mo_next_pick_match_take_left.induct)
  case (1 m)
  then show ?case
    by (auto simp: mo_next.simps [of m] mo_size_def split: list.splits)
next
  case (2 m lk rk)
  have "mo_size (m\<lparr>mo_right := tl (mo_right m)\<rparr>) \<le> mo_size m"
    by (simp add: mo_size_def)
  with 2 show ?case
    by (auto simp: pick_match.simps [of m] mo_size_def Let_def split: list.splits Order.splits if_splits intro: less_SucI)
next
  case (3 m)
  then show ?case
    by (fastforce simp: take_left.simps [of m] mo_size_def split: list.splits Delta.splits)
qed

function mo_drain :: "MergeOverlay \<Rightarrow> (bytes \<times> bytes) list option" where
  "mo_drain m =
     (case mo_next m of
        None \<Rightarrow> None
      | Some (None, _) \<Rightarrow> Some []
      | Some (Some kv, m') \<Rightarrow> map_option ((#) kv) (mo_drain m'))"
  by pat_completeness auto

termination
  by (relation "measure mo_size") (auto simp: merge_decreases)

declare mo_drain.simps [simp del]

definition tx_range ::
  "('s \<Rightarrow> bytes option \<Rightarrow> bytes option \<Rightarrow> Order \<Rightarrow> (bytes \<times> bytes) list) \<Rightarrow>
   's StorageTransaction \<Rightarrow> bytes option \<Rightarrow> bytes option \<Rightarrow> Order \<Rightarrow> MergeOverlay" where
  "tx_range range_kv tx start stop order =
     (let bounds = range_bounds start stop;
          local_it = (if inverted bounds then []
                      else (case order of
                              Ascending \<Rightarrow> bt_range (local_state tx) bounds
                            | Descending \<Rightarrow> rev (bt_range (local_state tx) bounds)));
          base = range_kv (tx_storage tx) start stop order
      in \<lparr>mo_left = local_it, mo_right = base, mo_order = order\<rparr>)"

text \<open>
  \<open>transactional\<close>: the callback runs on a fresh transaction; only on \<open>Ok\<close> is
  its log applied. The pair is the result and the storage afterwards (on a
  panic the call does not return, the storage is the old one).
\<close>

definition transactional ::
  "('s \<Rightarrow> bytes \<Rightarrow> bytes \<Rightarrow> 's) \<Rightarrow> ('s \<Rightarrow> bytes \<Rightarrow> 's) \<Rightarrow> 's \<Rightarrow>
   ('s StorageTransaction \<Rightarrow> ('e, 't) res \<times> 's StorageTransaction) \<Rightarrow> ('e, 't) res \<times> 's" where
  "transactional set_kv remove storage callback =
     (let (res, stx) = callback (tx_new storage)
      in case res of
           Ok t \<Rightarrow> (Ok t, commit set_kv remove (tx_prepare stx) storage)
         | Err e \<Rightarrow> (Err e, storage)
         | Panicked \<Rightarrow> (Panicked, storage))"

section \<open>The iterator computes the merge\<close>

text \<open>A reference definition of the merge: structural, without iterator state.\<close>

fun emit :: "bytes \<Rightarrow> Delta \<Rightarrow> (bytes \<times> bytes) list \<Rightarrow> (bytes \<times> bytes) list" where
  "emit k (Delta_Set v) xs = (k, v) # xs"
| "emit k Delta_Delete xs = xs"

fun merge_ref ::
  "Order \<Rightarrow> (bytes \<times> Delta) list \<Rightarrow> (bytes \<times> bytes) list \<Rightarrow> (bytes \<times> bytes) list" where
  "merge_ref ord [] rs = rs"
| "merge_ref ord ((k, d) # ls) [] = emit k d (merge_ref ord ls [])"
| "merge_ref ord ((k, d) # ls) ((r, v) # rs) =
     (if before ord k r then emit k d (merge_ref ord ls ((r, v) # rs))
      else if k = r then emit k d (merge_ref ord ls rs)
      else (r, v) # merge_ref ord ((k, d) # ls) rs)"

abbreviation merge_of :: "MergeOverlay \<Rightarrow> (bytes \<times> bytes) list" where
  "merge_of m \<equiv> merge_ref (mo_order m) (mo_left m) (mo_right m)"

definition yields :: "((bytes \<times> bytes) option \<times> MergeOverlay) option \<Rightarrow> Order \<Rightarrow> (bytes \<times> bytes) list \<Rightarrow> bool" where
  "yields out ord xs =
     (case out of
        None \<Rightarrow> False
      | Some (None, m') \<Rightarrow> xs = []
      | Some (Some kv, m') \<Rightarrow> mo_order m' = ord \<and> xs = kv # merge_of m')"

lemma merge_step:
  shows "yields (mo_next m) (mo_order m) (merge_of m)"
    and "\<And>d ls v rs. mo_left m = (lk, d) # ls \<Longrightarrow> mo_right m = (rk, v) # rs \<Longrightarrow>
      yields (pick_match m lk rk) (mo_order m) (merge_of m)"
    and "\<And>k d ls. mo_left m = (k, d) # ls \<Longrightarrow>
      yields (take_left m) (mo_order m) (emit k d (merge_ref (mo_order m) ls (mo_right m)))"
proof (induction m and m lk rk and m rule: mo_next_pick_match_take_left.induct)
  case (1 m)
  show ?case
  proof (cases "mo_left m")
    case Nil
    then show ?thesis
      by (simp add: mo_next.simps [of m] yields_def split: list.split)
  next
    case (Cons l ls)
    obtain k d where l: "l = (k, d)" by (cases l)
    show ?thesis
    proof (cases "mo_right m")
      case Nil
      then show ?thesis
        using 1 Cons l by (simp add: mo_next.simps [of m])
    next
      case (Cons r rs)
      then show ?thesis
        using 1 \<open>mo_left m = l # ls\<close> l by (cases r) (simp add: mo_next.simps [of m])
    qed
  qed
next
  case (2 m lk rk)
  have less: "before (mo_order m) lk rk \<longleftrightarrow>
      (case mo_order m of Ascending \<Rightarrow> lk < rk | Descending \<Rightarrow> rk < lk)"
    by (simp add: before_def)
  from 2 show ?case
    by (auto simp: pick_match.simps [of m] less yields_def Let_def split: Order.splits)
next
  case (3 m)
  then show ?case
    by (cases d) (auto simp: take_left.simps [of m] yields_def)
qed

lemma mo_drain_eq: "mo_drain m = Some (merge_of m)"
proof (induction m rule: mo_drain.induct)
  case (1 m)
  show ?case
    using 1 merge_step(1) [of m]
    by (subst mo_drain.simps) (auto simp: yields_def split: option.splits prod.splits)
qed

lemma merge_ref_keys: "(x, v) \<in> set (merge_ref ord ls rs) \<Longrightarrow> x \<in> fst ` set ls \<union> fst ` set rs"
proof (induction ord ls rs rule: merge_ref.induct)
  case (1 ord rs)
  then show ?case by force
next
  case (2 ord k d ls)
  then show ?case by (cases d) auto
next
  case (3 ord k d ls r w rs)
  then show ?case by (cases d) (auto split: if_splits)
qed

lemma before_total: "before ord x y \<or> x = y \<or> before ord y x"
  by (auto simp: before_def split: Order.split)

lemma sorted_by_emit:
  assumes "sorted_by ord xs" and "\<And>x v. (x, v) \<in> set xs \<Longrightarrow> before ord k x"
  shows "sorted_by ord (emit k d xs)"
  using assms by (cases d) auto

lemma sorted_by_merge_ref:
  "sorted_by ord ls \<Longrightarrow> sorted_by ord rs \<Longrightarrow> sorted_by ord (merge_ref ord ls rs)"
proof (induction ord ls rs rule: merge_ref.induct)
  case (2 ord k d ls)
  then show ?case
    by (auto intro!: sorted_by_emit dest!: merge_ref_keys)
next
  case (3 ord k d ls r w rs)
  consider "before ord k r" | "k = r" | "before ord r k" "\<not> before ord k r" "k \<noteq> r"
    using before_total by blast
  then show ?case
  proof cases
    case 1
    have "before ord k x" if "(x, v) \<in> set (merge_ref ord ls ((r, w) # rs))" for x v
      using merge_ref_keys [OF that] 1 "3.prems" by (auto intro: before_trans)
    then show ?thesis
      using 1 3 by (auto intro: sorted_by_emit)
  next
    case 2
    have "before ord k x" if "(x, v) \<in> set (merge_ref ord ls rs)" for x v
      using merge_ref_keys [OF that] 2 "3.prems" by auto
    then show ?thesis
      using 2 3 by (auto intro: sorted_by_emit)
  next
    case 3
    have "before ord r x" if "(x, v) \<in> set (merge_ref ord ((k, d) # ls) rs)" for x v
      using merge_ref_keys [OF that] 3 "3.prems" by (auto intro: before_trans)
    then show ?thesis
      using 3 "3.IH" "3.prems" by auto
  qed
qed simp

lemma mem_emit: "(x, v) \<in> set (emit k d xs) \<longleftrightarrow> (x = k \<and> d = Delta_Set v) \<or> (x, v) \<in> set xs"
  by (cases d) auto

lemma merge_ref_mem:
  assumes "sorted_by ord ls" and "sorted_by ord rs"
  shows "(x, v) \<in> set (merge_ref ord ls rs) \<longleftrightarrow>
     (x, Delta_Set v) \<in> set ls \<or> ((x, v) \<in> set rs \<and> x \<notin> fst ` set ls)"
  using assms
proof (induction ord ls rs rule: merge_ref.induct)
  case (2 ord k d ls)
  then show ?case by (auto simp: mem_emit)
next
  case (3 ord k d ls r w rs)
  consider "before ord k r" | "k = r" | "before ord r k" "\<not> before ord k r" "k \<noteq> r"
    using before_total by blast
  then show ?case
  proof cases
    case 1
    then have "k \<notin> fst ` set ((r, w) # rs)"
      using "3.prems" before_irrefl by (auto dest: before_trans)
    then have "(k, u) \<notin> set ((r, w) # rs)" for u
      by force
    then show ?thesis
      using 1 3 by (auto simp: mem_emit)
  next
    case 2
    then have "k \<notin> fst ` set rs"
      using "3.prems" by auto
    then show ?thesis
      using 2 3 by (auto simp: mem_emit)
  next
    case 3
    then have "r \<notin> fst ` set ((k, d) # ls)"
      using "3.prems" before_irrefl by (auto dest: before_trans)
    then show ?thesis
      using 3 "3.IH" "3.prems" by auto
  qed
qed simp

section \<open>The transaction refines its commit\<close>

fun op_entry :: "Op \<Rightarrow> bytes \<times> Delta" where
  "op_entry (Op_Set key value) = (key, Delta_Set value)"
| "op_entry (Op_Delete key) = (key, Delta_Delete)"

definition log_delta :: "Op list \<Rightarrow> bytes \<Rightarrow> Delta option" where
  "log_delta ops k = map_of (rev (map op_entry ops)) k"

definition overlay :: "Delta option \<Rightarrow> bytes option \<Rightarrow> bytes option" where
  "overlay d base =
     (case d of None \<Rightarrow> base | Some Delta_Delete \<Rightarrow> None | Some (Delta_Set v) \<Rightarrow> Some v)"

text \<open>The overlay is sorted and agrees with what the log will do.\<close>

definition tx_ok :: "('s \<Rightarrow> bool) \<Rightarrow> 's StorageTransaction \<Rightarrow> bool" where
  "tx_ok ok tx =
     (ok (tx_storage tx) \<and> bt_ok (local_state tx) \<and>
      bt_get (local_state tx) = log_delta (ops_log (rep_log tx)))"

lemma log_delta_snoc [simp]: "log_delta (ops @ [op]) = (log_delta ops)(fst (op_entry op) \<mapsto> snd (op_entry op))"
  by (rule ext) (cases op; simp add: log_delta_def)

lemma log_delta_Nil [simp]: "log_delta [] = Map.empty"
  by (rule ext) (simp add: log_delta_def)

lemma bt_get_insert_fun: "bt_get (bt_insert k v t) = (bt_get t)(k \<mapsto> v)"
  by (rule ext) simp

lemma tx_get_overlay:
  "tx_get get tx k = overlay (bt_get (local_state tx) k) (get (tx_storage tx) k)"
  by (simp add: tx_get_def overlay_def split: option.split Delta.split)

lemma tx_storage_set [simp]: "tx_storage (tx_set tx k v) = tx_storage tx"
  by (simp add: tx_set_def Let_def)

lemma tx_storage_remove [simp]: "tx_storage (tx_remove tx k) = tx_storage tx"
  by (simp add: tx_remove_def Let_def)

lemma local_state_set [simp]:
  "local_state (tx_set tx k v) = bt_insert k (Delta_Set v) (local_state tx)"
  by (simp add: tx_set_def Let_def)

lemma local_state_remove [simp]:
  "local_state (tx_remove tx k) = bt_insert k Delta_Delete (local_state tx)"
  by (simp add: tx_remove_def Let_def)

lemma tx_ok_set: "tx_ok ok tx \<Longrightarrow> tx_ok ok (tx_set tx k v)"
  by (simp add: tx_ok_def tx_set_def Let_def replog_append_def bt_get_insert_fun)

lemma tx_ok_remove: "tx_ok ok tx \<Longrightarrow> tx_ok ok (tx_remove tx k)"
  by (simp add: tx_ok_def tx_remove_def Let_def replog_append_def bt_get_insert_fun)

lemma tx_ok_new: "ok s \<Longrightarrow> tx_ok ok (tx_new s)"
  by (auto simp: tx_ok_def tx_new_def replog_new_def)

lemma tx_range_merge:
  "mo_drain (tx_range range_kv tx start stop ord)
     = Some (merge_ref ord (directed ord (bt_range (local_state tx) (range_bounds start stop)))
               (range_kv (tx_storage tx) start stop ord))"
proof (cases "inverted (range_bounds start stop)")
  case True
  then have "bt_range (local_state tx) (range_bounds start stop) = []"
    using set_bt_range_bounds [of "local_state tx" start stop]
    by (simp add: inverted_empty)
  then show ?thesis
    using True by (simp add: mo_drain_eq tx_range_def directed_def split: Order.split)
qed (simp add: mo_drain_eq tx_range_def directed_def Let_def split: Order.split)

locale tx_client = range_laws
begin

lemma get_commit_log:
  assumes "ok s"
  shows "ok (fold (op_apply set_kv remove) ops s) \<and>
    get (fold (op_apply set_kv remove) ops s) k = overlay (log_delta ops k) (get s k)"
proof (induction ops arbitrary: k rule: rev_induct)
  case Nil
  then show ?case
    using assms by (simp add: overlay_def)
next
  case (snoc op ops)
  then show ?case
    by (cases op) (auto simp: ok_set ok_remove get_set get_remove overlay_def)
qed

lemma ok_commit: "ok s \<Longrightarrow> ok (commit set_kv remove l s)"
  using get_commit_log by (simp add: commit_def)

lemma get_commit:
  assumes "tx_ok ok tx"
  shows "get (commit set_kv remove (tx_prepare tx) (tx_storage tx)) k = tx_get get tx k"
  using assms get_commit_log by (simp add: tx_ok_def commit_def tx_prepare_def tx_get_overlay)

lemma range_tx:
  assumes "tx_ok ok tx"
  shows "mo_drain (tx_range range_kv tx start stop ord)
     = Some (range_kv (commit set_kv remove (tx_prepare tx) (tx_storage tx)) start stop ord)"
proof -
  let ?l = "directed ord (bt_range (local_state tx) (range_bounds start stop))"
  let ?r = "range_kv (tx_storage tx) start stop ord"
  have ok: "ok (tx_storage tx)" and bt: "bt_ok (local_state tx)"
    using assms by (simp_all add: tx_ok_def)
  have l: "sorted_by ord ?l" and r: "sorted_by ord ?r"
    by (rule sorted_by_directed [OF bt_ok_range [OF bt]], rule range_sorted [OF ok])
  have mem: "(k, v) \<in> set (merge_ref ord ?l ?r) \<longleftrightarrow> tx_get get tx k = Some v \<and> in_range start stop k" for k v
    unfolding merge_ref_mem [OF l r] range_set [OF ok] set_directed set_bt_range_bounds
    by (auto simp: tx_get_overlay overlay_def image_iff simp flip: bt_get_mem [OF bt]
        split: option.splits Delta.splits)
  have "range_kv (commit set_kv remove (tx_prepare tx) (tx_storage tx)) start stop ord = merge_ref ord ?l ?r"
    by (rule range_unique) (simp_all add: ok ok_commit sorted_by_merge_ref l r mem get_commit [OF assms])
  then show ?thesis
    by (simp add: tx_range_merge)
qed

end

sublocale tx_client \<subseteq> tx: storage_laws "tx_get get" tx_set tx_remove "tx_ok ok"
proof
  fix s :: "'a StorageTransaction" and k v k'
  assume "tx_ok ok s"
  show "tx_get get (tx_set s k v) k' = (if k' = k then Some v else tx_get get s k')"
    by (simp add: tx_get_overlay overlay_def)
  show "tx_get get (tx_remove s k) k' = (if k' = k then None else tx_get get s k')"
    by (simp add: tx_get_overlay overlay_def)
qed (rule tx_ok_set tx_ok_remove; assumption)+

interpretation ms_tx: tx_client ms_get ms_set ms_remove ms_ok ms_range
  by unfold_locales

section \<open>Properties of transactions\<close>

lemma rep_log_ops:
  "ops_log (rep_log (fold (op_apply tx_set tx_remove) ops tx)) = ops_log (rep_log tx) @ ops"
  "tx_storage (fold (op_apply tx_set tx_remove) ops tx) = tx_storage tx"
proof (induction ops arbitrary: tx)
  case (Cons op ops)
  {
    case 1
    then show ?case
      using Cons(1) by (cases op) (simp_all add: tx_set_def tx_remove_def Let_def replog_append_def)
  next
    case 2
    then show ?case
      using Cons(2) by (cases op) simp_all
  }
qed simp_all

lemma tx_ok_ops: "tx_ok ok tx \<Longrightarrow> tx_ok ok (fold (op_apply tx_set tx_remove) ops tx)"
proof (induction ops arbitrary: tx)
  case (Cons op ops)
  then show ?case
    by (cases op) (simp_all add: tx_ok_set tx_ok_remove)
qed simp

text \<open>
  C30: a transaction refines the storage. After any sequence of sets and removes
  on a transaction, every read and every range of the transaction, in either
  direction, is that of the storage with the sequence applied to it directly,
  the merging iterator does not panic, and committing the log produces that
  storage.
\<close>

theorem transaction_refines:
  assumes "ms_ok s"
  shows "let tx = fold (op_apply tx_set tx_remove) ops (tx_new s);
             s' = fold (op_apply ms_set ms_remove) ops s
         in commit ms_set ms_remove (tx_prepare tx) s = s' \<and>
            (\<forall>k. tx_get ms_get tx k = ms_get s' k) \<and>
            (\<forall>start stop ord. mo_drain (tx_range ms_range tx start stop ord) = Some (ms_range s' start stop ord))"
proof -
  let ?tx = "fold (op_apply tx_set tx_remove) ops (tx_new s)"
  have ok: "tx_ok ms_ok ?tx"
    using assms by (intro tx_ok_ops tx_ok_new)
  have st: "tx_storage ?tx = s"
    by (simp add: rep_log_ops tx_new_def)
  have c: "commit ms_set ms_remove (tx_prepare ?tx) s = fold (op_apply ms_set ms_remove) ops s"
    by (simp add: commit_def tx_prepare_def rep_log_ops tx_new_def replog_new_def)
  show ?thesis
    using ms_tx.get_commit [OF ok] ms_tx.range_tx [OF ok] unfolding st c by (simp add: c Let_def)
qed

theorem transaction_refines_witness:
  "mo_drain (tx_range ms_range
       (fold (op_apply tx_set tx_remove) [Op_Set [2] [20], Op_Delete [1], Op_Set [3] [30]]
          (tx_new (ms_set (ms_set ms_new [1] [10]) [3] [33]))) None None Descending)
     = Some [([3], [30]), ([2], [20])]"
proof -
  let ?s = "ms_set (ms_set ms_new [1] [10]) [3] [33]"
  let ?ops = "[Op_Set [2] [20], Op_Delete [1], Op_Set [3] [30]]"
  have "mo_drain (tx_range ms_range (fold (op_apply tx_set tx_remove) ?ops (tx_new ?s)) None None Descending)
      = Some (ms_range (fold (op_apply ms_set ms_remove) ?ops ?s) None None Descending)"
    using transaction_refines [of ?s ?ops] by (simp add: Let_def)
  also have "\<dots> = Some [([3], [30]), ([2], [20])]"
    by (simp add: ms_range_directed ms_set_def ms_new_def ms_remove_def bt_remove_def
        directed_def bt_range_def range_bounds_def)
  finally show ?thesis .
qed

text \<open>
  C40: \<open>transactional\<close> is all or nothing: whatever the callback does to its
  transaction, the storage afterwards is the one with all its changes if the
  callback succeeds, and the unchanged one if it fails or panics.
\<close>

theorem transactional_atomic:
  "transactional ms_set ms_remove s (\<lambda>tx. (r, fold (op_apply tx_set tx_remove) ops tx))
     = (r, if is_ok r then fold (op_apply ms_set ms_remove) ops s else s)"
  by (cases r)
    (simp_all add: transactional_def commit_def tx_prepare_def rep_log_ops tx_new_def replog_new_def)

end
