(* ===== verification/Stateful.thy ===== *)
theory Stateful
  imports Prelude
begin

text \<open>
  Code with effects: a function of the state that returns an outcome and the
  state it leaves, also when it fails. The operator \<open>and_then\<close> is the sequencing
  of Rust statements with early return (\<open>?\<close>).
\<close>

type_synonym ('s, 'e, 'a) stm = "'s \<Rightarrow> ('e, 'a) res \<times> 's"

definition ret :: "'a \<Rightarrow> ('s, 'e, 'a) stm" where
  "ret x s = (Ok x, s)"

definition fail :: "'e \<Rightarrow> ('s, 'e, 'a) stm" where
  "fail e s = (Err e, s)"

definition lift :: "('e, 'a) res \<Rightarrow> ('s, 'e, 'a) stm" where
  "lift r s = (r, s)"

definition modify :: "('s \<Rightarrow> 's) \<Rightarrow> ('s, 'e, unit) stm" where
  "modify f s = (Ok (), f s)"

definition read :: "('s \<Rightarrow> 'a) \<Rightarrow> ('s, 'e, 'a) stm" where
  "read f s = (Ok (f s), s)"

definition and_then :: "('s, 'e, 'a) stm \<Rightarrow> ('a \<Rightarrow> ('s, 'e, 'b) stm) \<Rightarrow> ('s, 'e, 'b) stm" where
  "and_then m f s =
     (case m s of
        (Ok x, s') \<Rightarrow> f x s'
      | (Err e, s') \<Rightarrow> (Err e, s')
      | (Panicked, s') \<Rightarrow> (Panicked, s'))"

named_theorems act_simps \<open>what the steps of contract code do\<close>

lemma and_then_Ok [act_simps]:
  "and_then m f s = (Ok y, t) \<longleftrightarrow> (\<exists>x s'. m s = (Ok x, s') \<and> f x s' = (Ok y, t))"
  by (auto simp: and_then_def split: prod.splits res.splits)

lemma and_then_step [simp]:
  "m s = (Ok x, s') \<Longrightarrow> and_then m f s = f x s'"
  "m s = (Err e, s') \<Longrightarrow> and_then m f s = (Err e, s')"
  "m s = (Panicked, s') \<Longrightarrow> and_then m f s = (Panicked, s')"
  by (simp_all add: and_then_def)

lemma ret_apply [simp]: "ret x s = (Ok x, s)"
  by (simp add: ret_def)

lemma fail_apply [simp]: "fail e s = (Err e, s)"
  by (simp add: fail_def)

lemma modify_apply [simp]: "modify f s = (Ok (), f s)"
  by (simp add: modify_def)

lemma read_apply [simp]: "read f s = (Ok (f s), s)"
  by (simp add: read_def)

lemma lift_apply [simp]: "lift r s = (r, s)"
  by (simp add: lift_def)

lemma and_then_lift:
  "and_then (lift r) f s = (case r of Ok x \<Rightarrow> f x s | Err e \<Rightarrow> (Err e, s) | Panicked \<Rightarrow> (Panicked, s))"
  by (simp add: and_then_def)

lemma and_then_simps [simp]:
  "and_then (ret x) f s = f x s"
  "and_then (fail e) g s = (Err e, s)"
  "and_then (modify h) k s = k () (h s)"
  "and_then (read r) l s = l (r s) s"
  by (simp_all add: and_then_def)

definition catch_err :: "('e \<Rightarrow> 'f) \<Rightarrow> ('s, 'e, 'a) stm \<Rightarrow> ('s, 'f, 'a) stm" where
  "catch_err f m s = (case m s of (r, s') \<Rightarrow> (map_err f r, s'))"

text \<open>A property of the state that a piece of code keeps, however it ends.\<close>

definition keeps :: "('s \<Rightarrow> bool) \<Rightarrow> ('s, 'e, 'a) stm \<Rightarrow> bool" where
  "keeps P m = (\<forall>s. P s \<longrightarrow> P (snd (m s)))"

named_theorems keeps_intro \<open>what sequential code keeps\<close>

lemma keepsD: "keeps P m \<Longrightarrow> m s = (r, s') \<Longrightarrow> P s \<Longrightarrow> P s'"
  unfolding keeps_def by (metis snd_conv)

lemma keepsI: "(\<And>s r s'. P s \<Longrightarrow> m s = (r, s') \<Longrightarrow> P s') \<Longrightarrow> keeps P m"
  unfolding keeps_def by (metis prod.collapse)

lemma keeps_and_then [keeps_intro]:
  assumes "keeps P m" and "\<And>x. keeps P (f x)"
  shows "keeps P (and_then m f)"
proof (rule keepsI)
  fix s r s'
  assume "P s" and run: "and_then m f s = (r, s')"
  obtain q t where t: "m s = (q, t)"
    by (cases "m s")
  have "P t"
    using assms(1) t \<open>P s\<close> by (rule keepsD)
  then show "P s'"
    using run t assms(2) by (cases q) (auto dest: keepsD)
qed

lemma keeps_pure [keeps_intro]: "keeps P (ret x)" "keeps P (fail e)" "keeps P (lift r)" "keeps P (read g)"
  by (simp_all add: keeps_def)

lemma keeps_Pair [simp]: "keeps P (Pair r)"
  by (simp add: keeps_def)

lemma keeps_catch_err [keeps_intro]: "keeps P m \<Longrightarrow> keeps P (catch_err f m)"
  by (auto simp: keeps_def catch_err_def split: prod.splits)

lemma keeps_if [keeps_intro]: "(b \<Longrightarrow> keeps P m) \<Longrightarrow> (\<not> b \<Longrightarrow> keeps P n) \<Longrightarrow> keeps P (if b then m else n)"
  by simp

lemma keeps_Let [keeps_intro]: "(\<And>x. keeps P (f x)) \<Longrightarrow> keeps P (Let v f)"
  by simp

lemma keeps_option [keeps_intro]:
  "keeps P m \<Longrightarrow> (\<And>x. keeps P (f x)) \<Longrightarrow> keeps P (case v of None \<Rightarrow> m | Some x \<Rightarrow> f x)"
  by (cases v) simp_all

lemma keeps_prod [keeps_intro]: "(\<And>x y. keeps P (f x y)) \<Longrightarrow> keeps P (case v of (x, y) \<Rightarrow> f x y)"
  by (cases v) simp

text \<open>A property of the state that a piece of code keeps when it succeeds.\<close>

definition ok_keeps :: "('s \<Rightarrow> bool) \<Rightarrow> ('s, 'e, 'a) stm \<Rightarrow> bool" where
  "ok_keeps P m = (\<forall>s x s'. P s \<longrightarrow> m s = (Ok x, s') \<longrightarrow> P s')"

named_theorems ok_keeps_intro \<open>what sequential code keeps when it succeeds\<close>

lemma ok_keepsD: "ok_keeps P m \<Longrightarrow> m s = (Ok x, s') \<Longrightarrow> P s \<Longrightarrow> P s'"
  unfolding ok_keeps_def by blast

lemma ok_keeps_and_then [ok_keeps_intro]:
  "ok_keeps P m \<Longrightarrow> (\<And>x. ok_keeps P (f x)) \<Longrightarrow> ok_keeps P (and_then m f)"
  unfolding ok_keeps_def and_then_Ok by blast

lemma ok_keeps_pure [ok_keeps_intro]:
  "ok_keeps P (ret x)" "ok_keeps P (fail e)" "ok_keeps P (lift r)" "ok_keeps P (read g)"
  by (simp_all add: ok_keeps_def)

lemma ok_keeps_Pair [simp]: "ok_keeps P (Pair r)"
  by (simp add: ok_keeps_def)

lemma ok_keeps_catch_err [ok_keeps_intro]: "ok_keeps P m \<Longrightarrow> ok_keeps P (catch_err f m)"
  unfolding ok_keeps_def catch_err_def by (simp add: map_err_Ok_iff split: prod.split)

lemma ok_keeps_if [ok_keeps_intro]:
  "(b \<Longrightarrow> ok_keeps P m) \<Longrightarrow> (\<not> b \<Longrightarrow> ok_keeps P n) \<Longrightarrow> ok_keeps P (if b then m else n)"
  by simp

lemma ok_keeps_Let [ok_keeps_intro]: "(\<And>x. ok_keeps P (f x)) \<Longrightarrow> ok_keeps P (Let v f)"
  by simp

lemma ok_keeps_option [ok_keeps_intro]:
  "ok_keeps P m \<Longrightarrow> (\<And>x. ok_keeps P (f x)) \<Longrightarrow> ok_keeps P (case v of None \<Rightarrow> m | Some x \<Rightarrow> f x)"
  by (cases v) simp_all

lemma ok_keeps_prod [ok_keeps_intro]: "(\<And>x y. ok_keeps P (f x y)) \<Longrightarrow> ok_keeps P (case v of (x, y) \<Rightarrow> f x y)"
  by (cases v) simp

end
