(* ===== verification/Std_Types.thy ===== *)
theory Std_Types
  imports Stateful
begin

text \<open>
  The data types of the contract library (\<open>packages/std/src\<close>): errors, coins,
  the environment of a call, the messages and the responses of a contract, and
  the calling convention of contract code, which threads the storage and may
  fail or panic.
\<close>

section \<open>Errors\<close>

datatype StdError =
    GenericErr string
  | InvalidBase64 string
  | InvalidUtf8 string
  | NotFound string
  | ParseErr string string
  | SerializeErr string string
  | Unauthorized
  | Underflow string string

type_synonym 'a std_result = "(StdError, 'a) res"

section \<open>Addresses, numbers, coins\<close>

type_synonym HumanAddr = string
type_synonym CanonicalAddr = bytes
type_synonym Binary = bytes

datatype Uint128 = Uint128 (u128: u128)

datatype Decimal = Decimal (atomics: u128)

record Coin =
  denom :: string
  amount :: Uint128

definition coin :: "u128 \<Rightarrow> string \<Rightarrow> Coin" where
  "coin amt den = \<lparr>denom = den, amount = Uint128 amt\<rparr>"

definition coins :: "u128 \<Rightarrow> string \<Rightarrow> Coin list" where
  "coins amt den = [coin amt den]"

definition has_coins :: "Coin list \<Rightarrow> Coin \<Rightarrow> bool" where
  "has_coins cs required =
     (case find (\<lambda>c. denom c = denom required) cs of
        Some m \<Rightarrow> u128 (amount required) \<le> u128 (amount m)
      | None \<Rightarrow> False)"

section \<open>The environment of a call\<close>

record BlockInfo =
  height :: u64
  time :: u64
  chain_id :: string

record MessageInfo =
  sender :: HumanAddr
  sent_funds :: "Coin list"

record ContractInfo =
  address :: HumanAddr

record Env =
  block :: BlockInfo
  message :: MessageInfo
  contract :: ContractInfo
  contract_key :: "string option"
  contract_code_hash :: string

section \<open>Messages and responses\<close>

datatype VoteOption = Yes | No | Abstain | NoWithVeto

datatype GovMsg = Vote u64 VoteOption

datatype BankMsg = Send HumanAddr HumanAddr "Coin list"

datatype StakingMsg =
    Delegate HumanAddr Coin
  | Undelegate HumanAddr Coin
  | Withdraw HumanAddr "HumanAddr option"
  | Redelegate HumanAddr HumanAddr Coin

datatype WasmMsg =
    Execute HumanAddr string Binary "Coin list"
  | Instantiate u64 string Binary "Coin list" string

datatype 'c CosmosMsg =
    Bank BankMsg
  | Custom 'c
  | Staking StakingMsg
  | Wasm WasmMsg
  | Gov GovMsg

record LogAttribute =
  log_key :: string
  log_value :: string

definition log :: "string \<Rightarrow> string \<Rightarrow> LogAttribute" where
  "log k v = \<lparr>log_key = k, log_value = v\<rparr>"

record 'c HandleResponse =
  messages :: "'c CosmosMsg list"
  logs :: "LogAttribute list"
  rdata :: "Binary option"

record 'c InitResponse =
  init_messages :: "'c CosmosMsg list"
  init_logs :: "LogAttribute list"

definition handle_default :: "'c HandleResponse" where
  "handle_default = \<lparr>messages = [], logs = [], rdata = None\<rparr>"

definition init_default :: "'c InitResponse" where
  "init_default = \<lparr>init_messages = [], init_logs = []\<rparr>"

record 'c MigrateResponse =
  migrate_messages :: "'c CosmosMsg list"
  migrate_logs :: "LogAttribute list"
  migrate_data :: "Binary option"

definition migrate_default :: "'c MigrateResponse" where
  "migrate_default = \<lparr>migrate_messages = [], migrate_logs = [], migrate_data = None\<rparr>"

text \<open>The builder of responses.\<close>

record 'c Context =
  ctx_messages :: "'c CosmosMsg list"
  ctx_log :: "LogAttribute list"
  ctx_data :: "Binary option"

definition context_new :: "'c Context" where
  "context_new = \<lparr>ctx_messages = [], ctx_log = [], ctx_data = None\<rparr>"

definition add_log :: "string \<Rightarrow> string \<Rightarrow> 'c Context \<Rightarrow> 'c Context" where
  "add_log key value ctx = ctx\<lparr>ctx_log := ctx_log ctx @ [log key value]\<rparr>"

definition add_message :: "'c CosmosMsg \<Rightarrow> 'c Context \<Rightarrow> 'c Context" where
  "add_message msg ctx = ctx\<lparr>ctx_messages := ctx_messages ctx @ [msg]\<rparr>"

definition set_data :: "Binary \<Rightarrow> 'c Context \<Rightarrow> 'c Context" where
  "set_data d ctx = ctx\<lparr>ctx_data := Some d\<rparr>"

definition init_from_context :: "'c Context \<Rightarrow> 'c InitResponse std_result" where
  "init_from_context ctx =
     (if ctx_data ctx \<noteq> None then Err (GenericErr ''cannot convert Context with data to InitResponse'')
      else Ok \<lparr>init_messages = ctx_messages ctx, init_logs = ctx_log ctx\<rparr>)"

definition handle_from_context :: "'c Context \<Rightarrow> 'c HandleResponse" where
  "handle_from_context ctx = \<lparr>messages = ctx_messages ctx, logs = ctx_log ctx, rdata = ctx_data ctx\<rparr>"

definition migrate_from_context :: "'c Context \<Rightarrow> 'c MigrateResponse" where
  "migrate_from_context ctx =
     \<lparr>migrate_messages = ctx_messages ctx, migrate_logs = ctx_log ctx, migrate_data = ctx_data ctx\<rparr>"

section \<open>Contract code\<close>

text \<open>
  A contract function takes the storage and returns its result with the
  storage it leaves, also when it fails: it is the caller (the chain, or
  \<open>transactional\<close>) that drops the changes of a failed call.
\<close>

type_synonym ('s, 'a) act = "('s, StdError, 'a) stm"

end
