(* ===== verification/Std_Math.thy ===== *)
theory Std_Math
  imports Std_Types
begin

text \<open>
  Fixed-point decimals and 128 bit amounts (\<open>packages/std/src/math.rs\<close>; the
  enclave has the same code in \<open>wasmi-runtime/src/cosmwasm/math.rs\<close>). Contracts
  are built with overflow checks, so an overflowing operator panics.
\<close>

section \<open>Decimal digits\<close>

text \<open>The parts of \<open>core::fmt\<close> and \<open>core::num\<close> the code uses.\<close>

definition digit_char :: "nat \<Rightarrow> char" where
  "digit_char n = char_of (48 + n)"

definition digit_val :: "char \<Rightarrow> nat" where
  "digit_val c = of_char c - 48"

definition is_digit :: "char \<Rightarrow> bool" where
  "is_digit c = (48 \<le> (of_char c :: nat) \<and> (of_char c :: nat) \<le> 57)"

fun show_nat :: "nat \<Rightarrow> string" where
  "show_nat n = (if n < 10 then [digit_char n] else show_nat (n div 10) @ [digit_char (n mod 10)])"

declare show_nat.simps [simp del]

definition digits_val :: "string \<Rightarrow> nat" where
  "digits_val s = foldl (\<lambda>acc c. acc * 10 + digit_val c) 0 s"

text \<open>\<open>str::parse::<u128>\<close>: an optional plus sign, then at least one digit, no overflow.\<close>

definition parse_u128 :: "string \<Rightarrow> u128 option" where
  "parse_u128 s =
     (let ds = (case s of c # t \<Rightarrow> if c = CHR ''+'' then t else s | [] \<Rightarrow> [])
      in if ds = [] \<or> \<not> list_all is_digit ds then None
         else if digits_val ds < 2 ^ 128 then Some (word_of_nat (digits_val ds)) else None)"

definition show_u128 :: "u128 \<Rightarrow> string" where
  "show_u128 w = show_nat (unat w)"

fun split_on :: "char \<Rightarrow> string \<Rightarrow> string list" where
  "split_on c [] = [[]]"
| "split_on c (x # xs) =
     (if x = c then [] # split_on c xs
      else (case split_on c xs of [] \<Rightarrow> [[x]] | p # ps \<Rightarrow> (x # p) # ps))"

definition pad_zeros :: "nat \<Rightarrow> string \<Rightarrow> string" where
  "pad_zeros n s = replicate (n - length s) (CHR ''0'') @ s"

definition trim_end_zeros :: "string \<Rightarrow> string" where
  "trim_end_zeros s = rev (dropWhile (\<lambda>c. c = CHR ''0'') (rev s))"

section \<open>Decimal\<close>

definition DECIMAL_FRACTIONAL :: u128 where
  "DECIMAL_FRACTIONAL = 1000000000000000000"

definition decimal_one :: Decimal where
  "decimal_one = Decimal DECIMAL_FRACTIONAL"

definition decimal_zero :: Decimal where
  "decimal_zero = Decimal 0"

definition decimal_percent :: "u64 \<Rightarrow> Decimal std_result" where
  "decimal_percent x = or_panic (map_option Decimal (checked_mul (ucast x) 10000000000000000))"

definition decimal_permille :: "u64 \<Rightarrow> Decimal std_result" where
  "decimal_permille x = or_panic (map_option Decimal (checked_mul (ucast x) 1000000000000000))"

definition from_ratio :: "u128 \<Rightarrow> u128 \<Rightarrow> Decimal std_result" where
  "from_ratio nominator denominator =
     (if denominator = 0 then Panicked
      else (case checked_mul nominator DECIMAL_FRACTIONAL of
              None \<Rightarrow> Panicked
            | Some p \<Rightarrow> Ok (Decimal (p div denominator))))"

definition decimal_is_zero :: "Decimal \<Rightarrow> bool" where
  "decimal_is_zero d = (atomics d = 0)"

definition decimal_add :: "Decimal \<Rightarrow> Decimal \<Rightarrow> Decimal std_result" where
  "decimal_add a b = or_panic (map_option Decimal (checked_add (atomics a) (atomics b)))"

definition decimal_from_str :: "string \<Rightarrow> Decimal std_result" where
  "decimal_from_str input =
     (case split_on (CHR ''.'') input of
        [p0] \<Rightarrow>
          res_bind (ok_or (GenericErr ''Error parsing whole'') (parse_u128 p0)) (\<lambda>whole.
          res_bind (ok_or (GenericErr ''Value too big'') (checked_mul whole DECIMAL_FRACTIONAL))
            (\<lambda>whole_as_atomics.
          Ok (Decimal whole_as_atomics)))
      | [p0, p1] \<Rightarrow>
          res_bind (ok_or (GenericErr ''Error parsing whole'') (parse_u128 p0)) (\<lambda>whole.
          res_bind (ok_or (GenericErr ''Error parsing fractional'') (parse_u128 p1)) (\<lambda>fractional.
          res_bind (ok_or (GenericErr ''Cannot parse more than 18 fractional digits'')
                      (if length p1 \<le> 18 then Some (18 - length p1) else None)) (\<lambda>exp.
          res_bind (ok_or (GenericErr ''Cannot compute fractional factor'')
                      (if 10 ^ exp < (2::nat) ^ 128 then Some (word_of_nat (10 ^ exp)) else None))
            (\<lambda>fractional_factor.
          res_bind (ok_or (GenericErr ''Value too big'') (checked_mul whole DECIMAL_FRACTIONAL))
            (\<lambda>whole_as_atomics.
          res_bind (or_panic (checked_mul fractional fractional_factor)) (\<lambda>frac.
          res_bind (ok_or (GenericErr ''Value too big'') (checked_add whole_as_atomics frac)) (\<lambda>a.
          Ok (Decimal a))))))))
      | _ \<Rightarrow> Err (GenericErr ''Unexpected number of dots''))"

definition decimal_to_string :: "Decimal \<Rightarrow> string" where
  "decimal_to_string d =
     (let whole = atomics d div DECIMAL_FRACTIONAL;
          fractional = atomics d mod DECIMAL_FRACTIONAL
      in if fractional = 0 then show_u128 whole
         else show_u128 whole @ [CHR ''.''] @ trim_end_zeros (pad_zeros 18 (show_u128 fractional)))"

section \<open>Uint128\<close>

definition uint_is_zero :: "Uint128 \<Rightarrow> bool" where
  "uint_is_zero u = (u128 u = 0)"

definition uint_try_from :: "string \<Rightarrow> Uint128 std_result" where
  "uint_try_from val =
     (case parse_u128 val of
        Some u \<Rightarrow> Ok (Uint128 u)
      | None \<Rightarrow> Err (GenericErr ''Parsing coin''))"

definition uint_to_string :: "Uint128 \<Rightarrow> string" where
  "uint_to_string u = show_u128 (u128 u)"

definition uint_add :: "Uint128 \<Rightarrow> Uint128 \<Rightarrow> Uint128 std_result" where
  "uint_add a b = or_panic (map_option Uint128 (checked_add (u128 a) (u128 b)))"

definition uint_sub :: "Uint128 \<Rightarrow> Uint128 \<Rightarrow> Uint128 std_result" where
  "uint_sub a b =
     (let (min, sub) = (u128 a, u128 b)
      in if sub > min then Err (Underflow (show_u128 min) (show_u128 sub)) else Ok (Uint128 (min - sub)))"

definition multiply_ratio :: "Uint128 \<Rightarrow> u128 \<Rightarrow> u128 \<Rightarrow> Uint128 std_result" where
  "multiply_ratio self nominator denominator =
     (if denominator = 0 then Panicked
      else (case checked_mul (u128 self) nominator of
              None \<Rightarrow> Panicked
            | Some p \<Rightarrow> Ok (Uint128 (p div denominator))))"

definition uint_mul_decimal :: "Uint128 \<Rightarrow> Decimal \<Rightarrow> Uint128 std_result" where
  "uint_mul_decimal self rhs =
     (if uint_is_zero self \<or> decimal_is_zero rhs then Ok (Uint128 0)
      else multiply_ratio self (atomics rhs) DECIMAL_FRACTIONAL)"

section \<open>Digits\<close>

lemma of_char_digit_char [simp]: "n < 10 \<Longrightarrow> of_char (digit_char n) = (48 + n :: nat)"
  by (simp add: digit_char_def)

lemma digit_val_digit_char [simp]: "n < 10 \<Longrightarrow> digit_val (digit_char n) = n"
  by (simp add: digit_val_def)

lemma is_digit_digit_char [simp]: "n < 10 \<Longrightarrow> is_digit (digit_char n)"
  by (simp add: is_digit_def)

lemma not_is_digit [simp]: "\<not> is_digit (CHR ''.'')" "\<not> is_digit (CHR ''+'')"
  by (simp_all add: is_digit_def)

lemma digit_val_less: "is_digit c \<Longrightarrow> digit_val c < 10"
  by (auto simp: is_digit_def digit_val_def)

lemma digits_val_Nil [simp]: "digits_val [] = 0"
  by (simp add: digits_val_def)

lemma digits_val_snoc [simp]: "digits_val (s @ [c]) = digits_val s * 10 + digit_val c"
  by (simp add: digits_val_def)

lemma digits_val_append: "digits_val (s @ t) = digits_val s * 10 ^ length t + digits_val t"
proof (induction t rule: rev_induct)
  case (snoc c t)
  have "digits_val (s @ t @ [c]) = digits_val (s @ t) * 10 + digit_val c"
    using digits_val_snoc [of "s @ t" c] by simp
  then show ?case
    using snoc by (simp add: algebra_simps)
qed simp

lemma digits_val_zeros [simp]: "digits_val (replicate k (CHR ''0'')) = 0"
proof (induction k)
  case (Suc k)
  then show ?case
    using digits_val_snoc [of "replicate k (CHR ''0'')" "CHR ''0''"]
    by (simp add: replicate_append_same digit_val_def)
qed simp

lemma digits_val_less: "list_all is_digit s \<Longrightarrow> digits_val s < 10 ^ length s"
proof (induction s rule: rev_induct)
  case (snoc c s)
  then show ?case
    using digit_val_less [of c] by simp
qed simp

lemma show_nat_digits: "list_all is_digit (show_nat n) \<and> show_nat n \<noteq> [] \<and> digits_val (show_nat n) = n"
proof (induction n rule: show_nat.induct)
  case (1 n)
  show ?case
  proof (cases "n < 10")
    case True
    then show ?thesis
      using digits_val_snoc [of "[]" "digit_char n"] by (simp add: show_nat.simps [of n])
  next
    case False
    then show ?thesis
      using 1 by (simp add: show_nat.simps [of n])
  qed
qed

lemma length_show_nat: "n < 10 ^ k \<Longrightarrow> 0 < k \<Longrightarrow> length (show_nat n) \<le> k"
proof (induction k arbitrary: n)
  case (Suc k)
  show ?case
  proof (cases "n < 10")
    case False
    then have "n div 10 < 10 ^ k" and "0 < k"
      using Suc.prems by (auto intro: gr0I simp: less_mult_imp_div_less mult.commute)
    then have "length (show_nat (n div 10)) \<le> k"
      by (rule Suc.IH)
    then show ?thesis
      using False by (simp add: show_nat.simps [of n])
  qed (simp add: show_nat.simps [of n])
qed simp

lemma not_in_digits: "list_all is_digit s \<Longrightarrow> \<not> is_digit c \<Longrightarrow> c \<notin> set s"
  by (auto simp: list_all_iff)

lemma parse_digits:
  assumes "list_all is_digit s" and "s \<noteq> []" and "digits_val s < 2 ^ 128"
  shows "parse_u128 s = Some (word_of_nat (digits_val s))"
proof -
  obtain c t where s: "s = c # t"
    using assms(2) by (cases s) auto
  then have "c \<noteq> CHR ''+''"
    using not_in_digits [OF assms(1), of "CHR ''+''"] by auto
  then show ?thesis
    using assms s by (simp add: parse_u128_def)
qed

lemma parse_show_u128: "parse_u128 (show_u128 w) = Some w"
  unfolding show_u128_def
  using show_nat_digits [of "unat w"] unat_bound [of w] by (simp add: parse_digits)

lemma parse_u128_bound:
  assumes "parse_u128 s = Some w"
  shows "unat w < 10 ^ length s"
proof -
  define ds where "ds = (case s of c # t \<Rightarrow> if c = CHR ''+'' then t else s | [] \<Rightarrow> [])"
  then have ds: "list_all is_digit ds" "length ds \<le> length s" "digits_val ds < 2 ^ 128"
    "w = word_of_nat (digits_val ds)"
    using assms by (auto simp: parse_u128_def Let_def split: list.splits if_splits)
  then have "unat w = digits_val ds"
    by (simp add: unat_of_nat)
  also have "\<dots> < 10 ^ length ds"
    using ds(1) by (rule digits_val_less)
  also have "(10::nat) ^ length ds \<le> 10 ^ length s"
    using ds(2) by (simp add: power_increasing)
  finally show ?thesis .
qed

lemma split_on_none: "c \<notin> set p \<Longrightarrow> split_on c p = [p]"
  by (induction p) auto

lemma split_on_one: "c \<notin> set p \<Longrightarrow> c \<notin> set q \<Longrightarrow> split_on c (p @ c # q) = [p, q]"
  by (induction p) (auto simp: split_on_none)

lemma takeWhile_replicate:
  "takeWhile (\<lambda>c. c = x) xs = replicate (length (takeWhile (\<lambda>c. c = x) xs)) x"
  by (induction xs) auto

lemma trim_end_zeros_append:
  "\<exists>k. s = trim_end_zeros s @ replicate k (CHR ''0'')"
proof -
  let ?z = "takeWhile (\<lambda>c. c = CHR ''0'') (rev s)"
  have "s = trim_end_zeros s @ rev ?z"
    unfolding trim_end_zeros_def rev_append [symmetric] takeWhile_dropWhile_id by simp
  also have "rev ?z = replicate (length ?z) (CHR ''0'')"
    by (subst takeWhile_replicate) (simp only: rev_replicate)
  finally show ?thesis
    by blast
qed

section \<open>Printing and parsing decimals\<close>

lemma unat_u128_of_nat: "n < 2 ^ 128 \<Longrightarrow> unat (word_of_nat n :: u128) = n"
  by (simp add: unat_of_nat)

lemma pow10_fits:
  assumes "e \<le> 18"
  shows "10 ^ e < (2::nat) ^ 128" and "unat (word_of_nat (10 ^ e) :: u128) = 10 ^ e"
proof -
  have "(10::nat) ^ e \<le> 10 ^ 18"
    using assms by (rule power_increasing) simp
  then show lt: "10 ^ e < (2::nat) ^ 128"
    by simp
  show "unat (word_of_nat (10 ^ e) :: u128) = 10 ^ e"
    by (rule unat_u128_of_nat [OF lt])
qed

lemma is_digit_zero [simp]: "is_digit (CHR ''0'')"
  by (simp add: is_digit_def)

lemma unat_DECIMAL_FRACTIONAL [simp]: "unat DECIMAL_FRACTIONAL = 10 ^ 18"
  by (simp add: DECIMAL_FRACTIONAL_def)

lemma fractional_digits:
  assumes "0 < f" and "f < 10 ^ 18"
  obtains k where "k \<le> 18"
    and "length (trim_end_zeros (pad_zeros 18 (show_nat f))) = 18 - k"
    and "digits_val (trim_end_zeros (pad_zeros 18 (show_nat f))) * 10 ^ k = f"
    and "list_all is_digit (trim_end_zeros (pad_zeros 18 (show_nat f)))"
proof -
  let ?p = "pad_zeros 18 (show_nat f)"
  obtain k where k: "?p = trim_end_zeros ?p @ replicate k (CHR ''0'')"
    using trim_end_zeros_append by blast
  have p: "length ?p = 18" "list_all is_digit ?p" "digits_val ?p = f"
    using length_show_nat [OF assms(2)] show_nat_digits [of f]
    by (auto simp: pad_zeros_def digits_val_append list_all_iff)
  have "length (trim_end_zeros ?p) + k = 18"
    using p(1) by (subst (asm) k) simp
  moreover have "digits_val (trim_end_zeros ?p) * 10 ^ k = f"
    using p(3) by (subst (asm) k) (simp add: digits_val_append)
  moreover have "list_all is_digit (trim_end_zeros ?p)"
    using p(2) by (subst (asm) k) simp
  ultimately show thesis
    using that [of k] by linarith
qed

lemma decimal_parse_parts:
  assumes "CHR ''.'' \<notin> set p0" and "CHR ''.'' \<notin> set p1"
    and "parse_u128 p0 = Some w" and "parse_u128 p1 = Some f" and "length p1 \<le> 18"
    and "unat a = unat w * 10 ^ 18 + unat f * 10 ^ (18 - length p1)"
  shows "decimal_from_str (p0 @ CHR ''.'' # p1) = Ok (Decimal a)"
proof -
  let ?e = "18 - length p1"
  have e: "(10::nat) ^ ?e < 2 ^ 128" and ue: "unat (word_of_nat (10 ^ ?e) :: u128) = 10 ^ ?e"
    by (rule pow10_fits, simp)+
  have a: "unat a < 2 ^ 128"
    using unat_bound [of a] by simp
  define x :: u128 where "x = word_of_nat (unat w * 10 ^ 18)"
  define y :: u128 where "y = word_of_nat (unat f * 10 ^ ?e)"
  have x: "unat x = unat w * 10 ^ 18" and y: "unat y = unat f * 10 ^ ?e"
    unfolding x_def y_def by (rule unat_u128_of_nat, use a assms(6) in simp)+
  then have "checked_mul w DECIMAL_FRACTIONAL = Some x"
    and "checked_mul f (word_of_nat (10 ^ ?e)) = Some y"
    and "checked_add x y = Some a"
    using assms(6) ue by (simp_all add: arith_simps)
  then show ?thesis
    using assms(1-5) e by (simp add: decimal_from_str_def split_on_one)
qed

text \<open>Printing a decimal and parsing the text gives the decimal back, for every value.\<close>

lemma decimal_roundtrip: "decimal_from_str (decimal_to_string d) = Ok d"
proof -
  define n where "n = unat (atomics d)"
  define w :: u128 where "w = atomics d div DECIMAL_FRACTIONAL"
  define f :: u128 where "f = atomics d mod DECIMAL_FRACTIONAL"
  have n: "unat w * 10 ^ 18 + unat f = n" "unat f < 10 ^ 18"
    by (simp_all add: w_def f_def n_def unat_div unat_mod)
  have d: "d = Decimal (word_of_nat n)" and un: "unat (word_of_nat n :: u128) = n"
    using unat_bound [of "atomics d"] by (simp_all add: n_def unat_of_nat)
  have whole: "CHR ''.'' \<notin> set (show_u128 w)"
    using show_nat_digits [of "unat w"] by (simp add: show_u128_def not_in_digits)
  show ?thesis
  proof (cases "f = 0")
    case True
    then have "checked_mul w DECIMAL_FRACTIONAL = Some (word_of_nat n)"
      using n un by (simp add: arith_simps)
    then have "decimal_from_str (show_u128 w) = Ok (Decimal (word_of_nat n))"
      using whole by (simp add: decimal_from_str_def split_on_none parse_show_u128)
    moreover have "decimal_to_string d = show_u128 w"
      using True by (simp add: decimal_to_string_def flip: w_def f_def)
    ultimately show ?thesis
      using d by simp
  next
    case False
    then have "0 < unat f"
      by (simp add: unat_gt_0)
    then obtain k where k: "k \<le> 18"
      "length (trim_end_zeros (pad_zeros 18 (show_nat (unat f)))) = 18 - k"
      "digits_val (trim_end_zeros (pad_zeros 18 (show_nat (unat f)))) * 10 ^ k = unat f"
      "list_all is_digit (trim_end_zeros (pad_zeros 18 (show_nat (unat f))))"
      using n(2) by (rule fractional_digits)
    let ?t = "trim_end_zeros (pad_zeros 18 (show_nat (unat f)))"
    have "digits_val ?t \<le> unat f"
      using k(3) by (metis le_add1 mult.commute mult_le_mono2 nat_mult_1_right one_le_numeral one_le_power)
    then have lt: "digits_val ?t < 2 ^ 128"
      using unat_bound [of f] by simp
    moreover have "?t \<noteq> []"
      using k(3) \<open>0 < unat f\<close> by auto
    ultimately have parsed: "parse_u128 ?t = Some (word_of_nat (digits_val ?t))"
      using k(4) by (simp add: parse_digits)
    have "18 - length ?t = k"
      using k(1,2) by simp
    then have amount: "unat (word_of_nat n :: u128) =
        unat w * 10 ^ 18 + unat (word_of_nat (digits_val ?t) :: u128) * 10 ^ (18 - length ?t)"
      unfolding un unat_u128_of_nat [OF lt] using k(3) n(1) by presburger
    from parsed have "decimal_from_str (show_u128 w @ CHR ''.'' # ?t) = Ok (Decimal (word_of_nat n))"
      using k(2) whole amount not_in_digits [OF k(4), of "CHR ''.''"]
      by (intro decimal_parse_parts [where w = w]) (simp_all add: parse_show_u128)
    moreover have "decimal_to_string d = show_u128 w @ CHR ''.'' # ?t"
      using False by (simp add: decimal_to_string_def show_u128_def flip: w_def f_def)
    ultimately show ?thesis
      using d by simp
  qed
qed

text \<open>
  Parsing a decimal never panics: the fractional part of at most 18 digits,
  scaled to 18 digits, always fits.
\<close>

lemma decimal_from_str_no_panic: "decimal_from_str s \<noteq> Panicked"
proof -
  have fits: "checked_mul f (word_of_nat (10 ^ (18 - length p))) \<noteq> None"
    if "parse_u128 p = Some f" and "length p \<le> 18" for p f
  proof -
    let ?e = "18 - length p"
    have ue: "unat (word_of_nat (10 ^ ?e) :: u128) = 10 ^ ?e"
      by (rule pow10_fits) simp
    have "unat f * 10 ^ ?e < 10 ^ length p * 10 ^ ?e"
      using parse_u128_bound [OF that(1)] by simp
    also have "\<dots> = 10 ^ 18"
      using that(2) by (simp flip: power_add)
    finally show ?thesis
      using ue by (simp add: checked_mul_def)
  qed
  then show ?thesis
    unfolding decimal_from_str_def
    by (auto simp: res_simps split: list.split)
qed

text \<open>
  \<open>multiply_ratio\<close> returns the floor of the exact rational product, and it
  returns exactly when the denominator is positive and the product fits into
  128 bits; otherwise it panics.
\<close>

lemma multiply_ratio_exact:
  "multiply_ratio a n d =
     (if 0 < unat d \<and> unat (u128 a) * unat n < 2 ^ 128
      then Ok (Uint128 (word_of_nat (unat (u128 a) * unat n div unat d))) else Panicked)"
proof (cases "unat (u128 a) * unat n < 2 ^ 128")
  case True
  then have "u128 a * n div d = word_of_nat (unat (u128 a) * unat n div unat d)"
    by (simp add: word_unat_eq_iff unat_div unat_mul_fits unat_of_nat
        le_less_trans [OF div_le_dividend])
  then show ?thesis
    using True by (simp add: multiply_ratio_def checked_mul_def unat_gt_0)
qed (simp add: multiply_ratio_def checked_mul_def)

section \<open>Amounts as numbers\<close>

abbreviation nat_of :: "Uint128 \<Rightarrow> nat" where
  "nat_of u \<equiv> unat (Std_Types.u128 u)"

named_theorems amount_simps \<open>what arithmetic on amounts returns when it returns\<close>

lemma nat_of_inject: "nat_of a = nat_of b \<longleftrightarrow> a = b"
  by (cases a; cases b) (simp add: word_unat_eq_iff)

lemma uint_add_Ok [amount_simps]: "uint_add a b = Ok c \<longleftrightarrow> nat_of c = nat_of a + nat_of b"
proof
  assume "nat_of c = nat_of a + nat_of b"
  then have "checked_add (u128 a) (u128 b) = Some (u128 c)"
    using unat_bound [of "u128 c"] by (simp add: checked_add_Some_iff)
  then show "uint_add a b = Ok c"
    by (simp add: uint_add_def)
qed (auto simp: uint_add_def res_simps checked_add_Some_iff)

lemma uint_sub_Ok [amount_simps]: "uint_sub a b = Ok c \<longleftrightarrow> nat_of a = nat_of b + nat_of c"
  by (cases a; cases b; cases c) (auto simp: uint_sub_def word_less_nat_alt unat_sub_if' intro: word_unat_eq_iff [THEN iffD2])

lemma uint_sub_not_Panicked [simp]: "uint_sub a b \<noteq> Panicked"
  by (simp add: uint_sub_def)

lemma multiply_ratio_Ok [amount_simps]:
  "multiply_ratio a n d = Ok c \<Longrightarrow> nat_of c = nat_of a * unat n div unat d \<and> 0 < unat d"
  by (auto simp: multiply_ratio_def checked_mul_Some_iff unat_div_distrib word_less_nat_alt unat_gt_0 split: if_splits option.splits)

lemma uint_mul_decimal_Ok [amount_simps]:
  "uint_mul_decimal a d = Ok c \<Longrightarrow> nat_of c = nat_of a * unat (atomics d) div 10 ^ 18"
  by (auto simp: uint_mul_decimal_def uint_is_zero_def decimal_is_zero_def split: if_splits dest: multiply_ratio_Ok)

text \<open>
  A plus sign is accepted in front of the fractional digits and counts as a
  digit of their length.
\<close>

lemma decimal_plus_fraction: "decimal_from_str ''1.+5'' = Ok (Decimal 1050000000000000000)"
  by (simp add: decimal_from_str_def parse_u128_def digits_val_def digit_val_def is_digit_def
      checked_mul_def checked_add_def DECIMAL_FRACTIONAL_def)

end
