(* ===== verification/Typed_Storage.thy ===== *)
theory Typed_Storage
  imports Storage_Tx Std_Math
begin

text \<open>
  Typed views of a storage (\<open>packages/storage/src/type_helpers.rs\<close>,
  \<open>singleton.rs\<close>, \<open>bucket.rs\<close>, \<open>typed.rs\<close>, \<open>sequence.rs\<close>). The JSON serializer
  of the values is the pair of arguments \<open>ser\<close> and \<open>de\<close>; the storage
  operations are arguments too, as the source is generic in the storage. The
  read-only variants of the source have the same \<open>load\<close>, \<open>may_load\<close> and \<open>range\<close>.
\<close>

section \<open>type_helpers.rs\<close>

definition may_deserialize :: "(bytes \<Rightarrow> 't std_result) \<Rightarrow> bytes option \<Rightarrow> 't option std_result" where
  "may_deserialize de value =
     (case value of
        Some vec \<Rightarrow> res_bind (de vec) (\<lambda>t. Ok (Some t))
      | None \<Rightarrow> Ok None)"

definition must_deserialize :: "string \<Rightarrow> (bytes \<Rightarrow> 't std_result) \<Rightarrow> bytes option \<Rightarrow> 't std_result" where
  "must_deserialize type_name de value =
     (case value of
        Some vec \<Rightarrow> de vec
      | None \<Rightarrow> Err (NotFound type_name))"

definition deserialize_kv :: "(bytes \<Rightarrow> 't std_result) \<Rightarrow> bytes \<times> bytes \<Rightarrow> (bytes \<times> 't) std_result" where
  "deserialize_kv de kv = (let (k, v) = kv in res_bind (de v) (\<lambda>t. Ok (k, t)))"

section \<open>TypedStorage\<close>

definition ty_save ::
  "('s \<Rightarrow> bytes \<Rightarrow> bytes \<Rightarrow> 's) \<Rightarrow> ('t \<Rightarrow> bytes std_result) \<Rightarrow> bytes \<Rightarrow> 't \<Rightarrow> ('s, unit) act" where
  "ty_save set_kv ser key t =
     and_then (lift (ser t)) (\<lambda>bs. modify (\<lambda>s. set_kv s key bs))"

definition ty_load ::
  "('s \<Rightarrow> bytes \<Rightarrow> bytes option) \<Rightarrow> string \<Rightarrow> (bytes \<Rightarrow> 't std_result) \<Rightarrow> bytes \<Rightarrow> 's \<Rightarrow> 't std_result" where
  "ty_load get type_name de key s = must_deserialize type_name de (get s key)"

definition ty_may_load ::
  "('s \<Rightarrow> bytes \<Rightarrow> bytes option) \<Rightarrow> (bytes \<Rightarrow> 't std_result) \<Rightarrow> bytes \<Rightarrow> 's \<Rightarrow> 't option std_result" where
  "ty_may_load get de key s = may_deserialize de (get s key)"

definition ty_range ::
  "('s \<Rightarrow> bytes option \<Rightarrow> bytes option \<Rightarrow> Order \<Rightarrow> (bytes \<times> bytes) list) \<Rightarrow> (bytes \<Rightarrow> 't std_result) \<Rightarrow>
   's \<Rightarrow> bytes option \<Rightarrow> bytes option \<Rightarrow> Order \<Rightarrow> (bytes \<times> 't) std_result list" where
  "ty_range range_kv de s start stop order = map (deserialize_kv de) (range_kv s start stop order)"

definition ty_update ::
  "('s \<Rightarrow> bytes \<Rightarrow> bytes option) \<Rightarrow> ('s \<Rightarrow> bytes \<Rightarrow> bytes \<Rightarrow> 's) \<Rightarrow> ('t \<Rightarrow> bytes std_result) \<Rightarrow>
   (bytes \<Rightarrow> 't std_result) \<Rightarrow> bytes \<Rightarrow> ('t option \<Rightarrow> 't std_result) \<Rightarrow> ('s, 't) act" where
  "ty_update get set_kv ser de key action s =
     and_then (lift (ty_may_load get de key s)) (\<lambda>input.
     and_then (lift (action input)) (\<lambda>output.
     and_then (ty_save set_kv ser key output) (\<lambda>_.
     ret output))) s"

section \<open>Singleton\<close>

text \<open>A singleton is the single key \<open>to_length_prefixed name\<close> of its storage.\<close>

record Singleton =
  sg_key :: bytes

definition sg_new :: "bytes \<Rightarrow> Singleton option" where
  "sg_new name = map_option (\<lambda>k. \<lparr>sg_key = k\<rparr>) (to_length_prefixed name)"

definition sg_save ::
  "('s \<Rightarrow> bytes \<Rightarrow> bytes \<Rightarrow> 's) \<Rightarrow> ('t \<Rightarrow> bytes std_result) \<Rightarrow> Singleton \<Rightarrow> 't \<Rightarrow> ('s, unit) act" where
  "sg_save set_kv ser sg t =
     and_then (lift (ser t)) (\<lambda>bs. modify (\<lambda>s. set_kv s (sg_key sg) bs))"

definition sg_remove :: "('s \<Rightarrow> bytes \<Rightarrow> 's) \<Rightarrow> Singleton \<Rightarrow> ('s, unit) act" where
  "sg_remove remove sg = modify (\<lambda>s. remove s (sg_key sg))"

definition sg_load ::
  "('s \<Rightarrow> bytes \<Rightarrow> bytes option) \<Rightarrow> string \<Rightarrow> (bytes \<Rightarrow> 't std_result) \<Rightarrow> Singleton \<Rightarrow> 's \<Rightarrow> 't std_result" where
  "sg_load get type_name de sg s = must_deserialize type_name de (get s (sg_key sg))"

definition sg_may_load ::
  "('s \<Rightarrow> bytes \<Rightarrow> bytes option) \<Rightarrow> (bytes \<Rightarrow> 't std_result) \<Rightarrow> Singleton \<Rightarrow> 's \<Rightarrow> 't option std_result" where
  "sg_may_load get de sg s = may_deserialize de (get s (sg_key sg))"

definition sg_update ::
  "('s \<Rightarrow> bytes \<Rightarrow> bytes option) \<Rightarrow> ('s \<Rightarrow> bytes \<Rightarrow> bytes \<Rightarrow> 's) \<Rightarrow> string \<Rightarrow>
   ('t \<Rightarrow> bytes std_result) \<Rightarrow> (bytes \<Rightarrow> 't std_result) \<Rightarrow> Singleton \<Rightarrow> ('t \<Rightarrow> 't std_result) \<Rightarrow>
   ('s, 't) act" where
  "sg_update get set_kv type_name ser de sg action s =
     and_then (lift (sg_load get type_name de sg s)) (\<lambda>input.
     and_then (lift (action input)) (\<lambda>output.
     and_then (sg_save set_kv ser sg output) (\<lambda>_.
     ret output))) s"

section \<open>Bucket\<close>

record Bucket =
  bk_prefix :: bytes

definition bk_new :: "bytes \<Rightarrow> Bucket option" where
  "bk_new namespace = map_option (\<lambda>p. \<lparr>bk_prefix = p\<rparr>) (to_length_prefixed namespace)"

definition bk_multilevel :: "bytes list \<Rightarrow> Bucket option" where
  "bk_multilevel namespaces = map_option (\<lambda>p. \<lparr>bk_prefix = p\<rparr>) (to_length_prefixed_nested namespaces)"

definition bk_save ::
  "('s \<Rightarrow> bytes \<Rightarrow> bytes \<Rightarrow> 's) \<Rightarrow> ('t \<Rightarrow> bytes std_result) \<Rightarrow> Bucket \<Rightarrow> bytes \<Rightarrow> 't \<Rightarrow> ('s, unit) act" where
  "bk_save set_kv ser b key t =
     and_then (lift (ser t)) (\<lambda>bs. modify (\<lambda>s. set_with_prefix set_kv s (bk_prefix b) key bs))"

definition bk_remove :: "('s \<Rightarrow> bytes \<Rightarrow> 's) \<Rightarrow> Bucket \<Rightarrow> bytes \<Rightarrow> ('s, unit) act" where
  "bk_remove remove b key = modify (\<lambda>s. remove_with_prefix remove s (bk_prefix b) key)"

definition bk_load ::
  "('s \<Rightarrow> bytes \<Rightarrow> bytes option) \<Rightarrow> string \<Rightarrow> (bytes \<Rightarrow> 't std_result) \<Rightarrow> Bucket \<Rightarrow> bytes \<Rightarrow> 's \<Rightarrow>
   't std_result" where
  "bk_load get type_name de b key s =
     must_deserialize type_name de (get_with_prefix get s (bk_prefix b) key)"

definition bk_may_load ::
  "('s \<Rightarrow> bytes \<Rightarrow> bytes option) \<Rightarrow> (bytes \<Rightarrow> 't std_result) \<Rightarrow> Bucket \<Rightarrow> bytes \<Rightarrow> 's \<Rightarrow>
   't option std_result" where
  "bk_may_load get de b key s = may_deserialize de (get_with_prefix get s (bk_prefix b) key)"

definition bk_range ::
  "('s \<Rightarrow> bytes option \<Rightarrow> bytes option \<Rightarrow> Order \<Rightarrow> (bytes \<times> bytes) list) \<Rightarrow> (bytes \<Rightarrow> 't std_result) \<Rightarrow>
   Bucket \<Rightarrow> 's \<Rightarrow> bytes option \<Rightarrow> bytes option \<Rightarrow> Order \<Rightarrow> (bytes \<times> 't) std_result list option" where
  "bk_range range_kv de b s start stop order =
     map_option (map (deserialize_kv de)) (range_with_prefix range_kv s (bk_prefix b) start stop order)"

definition bk_update ::
  "('s \<Rightarrow> bytes \<Rightarrow> bytes option) \<Rightarrow> ('s \<Rightarrow> bytes \<Rightarrow> bytes \<Rightarrow> 's) \<Rightarrow> ('t \<Rightarrow> bytes std_result) \<Rightarrow>
   (bytes \<Rightarrow> 't std_result) \<Rightarrow> Bucket \<Rightarrow> bytes \<Rightarrow> ('t option \<Rightarrow> 't std_result) \<Rightarrow> ('s, 't) act" where
  "bk_update get set_kv ser de b key action s =
     and_then (lift (bk_may_load get de b key s)) (\<lambda>input.
     and_then (lift (action input)) (\<lambda>output.
     and_then (bk_save set_kv ser b key output) (\<lambda>_.
     ret output))) s"

text \<open>
  \<open>update\<close> with a closure that also assigns a variable of its caller: the
  assigned value is returned beside the new one. Without such a variable it is
  the plain \<open>update\<close>.
\<close>

definition bk_update_with ::
  "('s \<Rightarrow> bytes \<Rightarrow> bytes option) \<Rightarrow> ('s \<Rightarrow> bytes \<Rightarrow> bytes \<Rightarrow> 's) \<Rightarrow> ('t \<Rightarrow> bytes std_result) \<Rightarrow>
   (bytes \<Rightarrow> 't std_result) \<Rightarrow> Bucket \<Rightarrow> bytes \<Rightarrow> ('t option \<Rightarrow> ('t \<times> 'x) std_result) \<Rightarrow> ('s, 't \<times> 'x) act" where
  "bk_update_with get set_kv ser de b key action s =
     and_then (lift (bk_may_load get de b key s)) (\<lambda>input.
     and_then (lift (action input)) (\<lambda>output.
     and_then (bk_save set_kv ser b key (fst output)) (\<lambda>_.
     ret output))) s"

definition sg_update_with ::
  "('s \<Rightarrow> bytes \<Rightarrow> bytes option) \<Rightarrow> ('s \<Rightarrow> bytes \<Rightarrow> bytes \<Rightarrow> 's) \<Rightarrow> string \<Rightarrow>
   ('t \<Rightarrow> bytes std_result) \<Rightarrow> (bytes \<Rightarrow> 't std_result) \<Rightarrow> Singleton \<Rightarrow> ('t \<Rightarrow> ('t \<times> 'x) std_result) \<Rightarrow>
   ('s, 't \<times> 'x) act" where
  "sg_update_with get set_kv type_name ser de sg action s =
     and_then (lift (sg_load get type_name de sg s)) (\<lambda>input.
     and_then (lift (action input)) (\<lambda>output.
     and_then (sg_save set_kv ser sg (fst output)) (\<lambda>_.
     ret output))) s"

section \<open>Sequences\<close>

definition currval ::
  "('s \<Rightarrow> bytes \<Rightarrow> bytes option) \<Rightarrow> (bytes \<Rightarrow> u64 std_result) \<Rightarrow> Singleton \<Rightarrow> 's \<Rightarrow> u64 std_result" where
  "currval get de seq s =
     res_bind (sg_may_load get de seq s) (\<lambda>v. Ok (case v of Some x \<Rightarrow> x | None \<Rightarrow> 0))"

definition nextval ::
  "('s \<Rightarrow> bytes \<Rightarrow> bytes option) \<Rightarrow> ('s \<Rightarrow> bytes \<Rightarrow> bytes \<Rightarrow> 's) \<Rightarrow> (u64 \<Rightarrow> bytes std_result) \<Rightarrow>
   (bytes \<Rightarrow> u64 std_result) \<Rightarrow> Singleton \<Rightarrow> ('s, u64) act" where
  "nextval get set_kv ser de seq s =
     and_then (lift (currval get de seq s)) (\<lambda>cur.
     and_then (lift (or_panic (checked_add cur 1))) (\<lambda>val.
     and_then (sg_save set_kv ser seq val) (\<lambda>_.
     ret val))) s"

lemmas typed_defs =
  may_deserialize_def must_deserialize_def sg_save_def sg_load_def sg_may_load_def
  bk_save_def bk_load_def bk_may_load_def ty_save_def ty_load_def ty_may_load_def

section \<open>Typed cells\<close>

text \<open>
  The serializer pair of a type, and the value a storage key holds. Buckets and
  singletons read and write such cells.
\<close>

record 't serde =
  sd_ser :: "'t \<Rightarrow> bytes std_result"
  sd_de :: "bytes \<Rightarrow> 't std_result"

definition cell :: "'t serde \<Rightarrow> bytes \<Rightarrow> MemoryStorage \<Rightarrow> 't option std_result" where
  "cell sd k s = may_deserialize (sd_de sd) (ms_get s k)"

named_theorems cell_simps \<open>what typed operations do to cells\<close>

lemma bk_may_load_cell [cell_simps]: "bk_may_load ms_get (sd_de sd) b k s = cell sd (bk_prefix b @ k) s"
  by (simp add: cell_def typed_defs prefix_op_defs)

lemma bk_save_Ok [cell_simps]:
  "bk_save ms_set (sd_ser sd) b k v s = (Ok u, s') \<longleftrightarrow> (\<exists>bs. sd_ser sd v = Ok bs \<and> s' = ms_set s (bk_prefix b @ k) bs)"
  by (auto simp: typed_defs prefix_op_defs and_then_lift split: res.splits)

lemma bk_update_Ok [cell_simps]:
  "bk_update ms_get ms_set (sd_ser sd) (sd_de sd) b k act s = (Ok v, s') \<longleftrightarrow>
     (\<exists>input bs. cell sd (bk_prefix b @ k) s = Ok input \<and> act input = Ok v \<and> sd_ser sd v = Ok bs \<and>
       s' = ms_set s (bk_prefix b @ k) bs)"
  by (auto simp: bk_update_def and_then_Ok bk_may_load_cell bk_save_Ok)

lemma bk_update_with_Ok [cell_simps]:
  "bk_update_with ms_get ms_set (sd_ser sd) (sd_de sd) b k act s = (Ok (v, x), s') \<longleftrightarrow>
     (\<exists>input bs. cell sd (bk_prefix b @ k) s = Ok input \<and> act input = Ok (v, x) \<and> sd_ser sd v = Ok bs \<and>
       s' = ms_set s (bk_prefix b @ k) bs)"
  by (auto simp: bk_update_with_def and_then_Ok bk_may_load_cell bk_save_Ok)

lemma sg_load_Ok [cell_simps]: "sg_load ms_get tn (sd_de sd) sg s = Ok v \<longleftrightarrow> cell sd (sg_key sg) s = Ok (Some v)"
  by (auto simp: cell_def typed_defs res_simps split: option.splits)

lemma sg_save_Ok [cell_simps]:
  "sg_save ms_set (sd_ser sd) sg v s = (Ok u, s') \<longleftrightarrow> (\<exists>bs. sd_ser sd v = Ok bs \<and> s' = ms_set s (sg_key sg) bs)"
  by (auto simp: typed_defs and_then_lift split: res.splits)

lemma sg_update_Ok [cell_simps]:
  "sg_update ms_get ms_set tn (sd_ser sd) (sd_de sd) sg act s = (Ok v, s') \<longleftrightarrow>
     (\<exists>input bs. cell sd (sg_key sg) s = Ok (Some input) \<and> act input = Ok v \<and> sd_ser sd v = Ok bs \<and>
       s' = ms_set s (sg_key sg) bs)"
  by (auto simp: sg_update_def and_then_Ok sg_load_Ok sg_save_Ok)

lemma sg_update_with_Ok [cell_simps]:
  "sg_update_with ms_get ms_set tn (sd_ser sd) (sd_de sd) sg act s = (Ok (v, x), s') \<longleftrightarrow>
     (\<exists>input bs. cell sd (sg_key sg) s = Ok (Some input) \<and> act input = Ok (v, x) \<and> sd_ser sd v = Ok bs \<and>
       s' = ms_set s (sg_key sg) bs)"
  by (auto simp: sg_update_with_def and_then_Ok sg_load_Ok sg_save_Ok)

section \<open>Properties of typed storage\<close>

text \<open>What the code needs of the serializer: what it writes, it reads back.\<close>

definition serde_ok :: "('t \<Rightarrow> bytes std_result) \<Rightarrow> (bytes \<Rightarrow> 't std_result) \<Rightarrow> bool" where
  "serde_ok ser de = (\<forall>t. \<exists>bs. ser t = Ok bs \<and> de bs = Ok t)"

lemma serde_okE:
  assumes "serde_ok ser de"
  obtains bs where "ser t = Ok bs" and "de bs = Ok t"
  using assms by (auto simp: serde_ok_def)

lemma cell_set_same:
  assumes "serde_ok (sd_ser sd) (sd_de sd)" and "sd_ser sd v = Ok bs"
  shows "cell sd k (ms_set s k bs) = Ok (Some v)"
proof -
  have "sd_de sd bs = Ok v"
    using serde_okE [OF assms(1), of v] assms(2) by force
  then show ?thesis
    by (simp add: cell_def may_deserialize_def)
qed

lemma cell_set_other [simp]: "k \<noteq> k' \<Longrightarrow> cell sd k (ms_set s k' bs) = cell sd k s"
  by (simp add: cell_def)

lemma cell_empty [simp]: "cell sd k ms_new = Ok None"
  by (simp add: cell_def may_deserialize_def)

text \<open>
  A value saved in a bucket is loaded from it, and the save is invisible
  under every other key and in every bucket of another namespace.
\<close>

lemma bucket_save_load:
  assumes "serde_ok ser de" and "bk_new ns = Some b" and "bk_new ns' = Some b'"
  shows "\<exists>s'. bk_save ms_set ser b k t s = (Ok (), s') \<and>
     bk_load ms_get tn de b' k' s' = (if ns' = ns \<and> k' = k then Ok t else bk_load ms_get tn de b' k' s)"
proof -
  from assms(1) obtain bs where bs: "ser t = Ok bs" "de bs = Ok t"
    by (rule serde_okE)
  obtain p q where pq: "to_length_prefixed ns = Some p" "to_length_prefixed ns' = Some q"
    "b = \<lparr>bk_prefix = p\<rparr>" "b' = \<lparr>bk_prefix = q\<rparr>"
    using assms(2,3) by (auto simp: bk_new_def)
  have "q @ k' = p @ k \<longleftrightarrow> ns' = ns \<and> k' = k"
    using length_prefixed_cancel [OF pq(2,1)] pq(1,2) by auto
  then show ?thesis
    using bs pq(3,4) by (simp add: typed_defs prefix_op_defs)
qed

text \<open>
  \<open>nextval\<close> returns the successor of \<open>currval\<close> and makes it the new current
  value; at the largest 64 bit value it panics and leaves the storage as it was.
\<close>

lemma nextval_increments:
  assumes "serde_ok ser de" and "currval ms_get de seq s = Ok v"
  shows "if v = - 1 then nextval ms_get ms_set ser de seq s = (Panicked, s)
     else \<exists>s'. nextval ms_get ms_set ser de seq s = (Ok (v + 1), s') \<and>
        currval ms_get de seq s' = Ok (v + 1) \<and>
        (\<forall>k. k \<noteq> sg_key seq \<longrightarrow> ms_get s' k = ms_get s k)"
proof (cases "v = - 1")
  case True
  then have "checked_add v 1 = None"
    unfolding unat_max_iff by (simp add: checked_add_def)
  then show ?thesis
    using True assms(2) by (simp add: nextval_def)
next
  case False
  then have "unat v + 1 < 2 ^ 64"
    using unat_bound [of v] unfolding unat_max_iff by simp
  then have "checked_add v 1 = Some (v + 1)"
    by (simp add: checked_add_def)
  moreover from assms(1) obtain bs where "ser (v + 1) = Ok bs" "de bs = Ok (v + 1)"
    by (rule serde_okE)
  ultimately show ?thesis
    using False assms(2) by (auto simp: nextval_def currval_def typed_defs)
qed

text \<open>A serializer that keeps what the two properties need: fixed width big endian.\<close>

definition be_ser :: "u64 \<Rightarrow> bytes std_result" where
  "be_ser v = Ok (to_be 8 (unat v))"

definition be_de :: "bytes \<Rightarrow> u64 std_result" where
  "be_de bs = Ok (word_of_nat (from_be bs))"

lemma be_serde_ok: "serde_ok be_ser be_de"
  unfolding serde_ok_def be_ser_def be_de_def
  using unat_bound [where 'a = 64] by (simp add: from_be_to_be)

lemma bucket_save_load_witness:
  "\<exists>s'. bk_save ms_set be_ser \<lparr>bk_prefix = [0, 1, 7]\<rparr> [1] 42 ms_new = (Ok (), s') \<and>
     bk_load ms_get ''u64'' be_de \<lparr>bk_prefix = [0, 1, 7]\<rparr> [1] s' = Ok 42"
  using bucket_save_load [OF be_serde_ok, of "[7]" "\<lparr>bk_prefix = [0, 1, 7]\<rparr>" "[7]"
      "\<lparr>bk_prefix = [0, 1, 7]\<rparr>" "[1]" 42 ms_new "''u64''" "[1]"]
  by (simp add: bk_new_def to_length_prefixed_eq to_be_numeral)

lemma nextval_increments_witness:
  "\<exists>s'. nextval ms_get ms_set be_ser be_de \<lparr>sg_key = [0, 1, 7]\<rparr> ms_new = (Ok 1, s') \<and>
     currval ms_get be_de \<lparr>sg_key = [0, 1, 7]\<rparr> s' = Ok 1"
  using nextval_increments [OF be_serde_ok, of "\<lparr>sg_key = [0, 1, 7]\<rparr>" ms_new 0]
  by (auto simp: currval_def typed_defs)

end
