(* ===== verification/Contract_Base.thy ===== *)
theory Contract_Base
  imports Typed_Storage
begin

text \<open>
  What the example contracts share: running code inside a prefixed storage,
  128 bit amounts stored as 16 big endian bytes, and ledgers, i.e. finitely
  supported balance functions with their total.
\<close>

section \<open>Code on a prefixed storage\<close>

text \<open>
  The scope of a \<open>PrefixedStorage\<close>: the constructor panics on a namespace that
  is too long; the changes made through the view stay in the storage it borrows.
\<close>

definition in_prefix :: "bytes \<Rightarrow> ('s PrefixedStorage, 'a) act \<Rightarrow> ('s, 'a) act" where
  "in_prefix namespace m s =
     (case ps_new namespace s of
        None \<Rightarrow> (Panicked, s)
      | Some ps \<Rightarrow> (case m ps of (r, ps') \<Rightarrow> (r, ps_storage ps')))"

definition gets :: "('s \<Rightarrow> 'a std_result) \<Rightarrow> ('s, 'a) act" where
  "gets f s = (f s, s)"

lemma gets_apply [simp]: "gets f s = (f s, s)"
  by (simp add: gets_def)

lemma in_prefix_ok:
  "length ns \<le> 0xFFFF \<Longrightarrow>
   in_prefix ns m s =
     (case m \<lparr>ps_prefix = to_be 2 (length ns) @ ns, ps_storage = s\<rparr> of (r, ps') \<Rightarrow> (r, ps_storage ps'))"
  by (simp add: in_prefix_def ps_new_def to_length_prefixed_eq)

section \<open>Typed cells of a contract\<close>

text \<open>Opening a bucket or a singleton panics on a namespace that is too long.\<close>

definition with_bucket :: "bytes \<Rightarrow> (Bucket \<Rightarrow> ('s, 'a) act) \<Rightarrow> ('s, 'a) act" where
  "with_bucket namespace f = (case bk_new namespace of None \<Rightarrow> lift Panicked | Some b \<Rightarrow> f b)"

definition with_singleton :: "bytes \<Rightarrow> (Singleton \<Rightarrow> ('s, 'a) act) \<Rightarrow> ('s, 'a) act" where
  "with_singleton key f = (case sg_new key of None \<Rightarrow> lift Panicked | Some sg \<Rightarrow> f sg)"

definition bucket_key :: "bytes \<Rightarrow> bytes \<Rightarrow> bytes" where
  "bucket_key ns k = (to_be 2 (length ns) @ ns) @ k"

definition singleton_key :: "bytes \<Rightarrow> bytes" where
  "singleton_key k = to_be 2 (length k) @ k"

lemma with_bucket_ok: "length ns \<le> 0xFFFF \<Longrightarrow> with_bucket ns f = f \<lparr>bk_prefix = to_be 2 (length ns) @ ns\<rparr>"
  by (simp add: with_bucket_def bk_new_def to_length_prefixed_eq)

lemma with_singleton_ok: "length k \<le> 0xFFFF \<Longrightarrow> with_singleton k f = f \<lparr>sg_key = singleton_key k\<rparr>"
  by (simp add: with_singleton_def sg_new_def to_length_prefixed_eq singleton_key_def)

lemma bucket_key_inject [simp]: "bucket_key ns k = bucket_key ns l \<longleftrightarrow> k = l"
  by (simp add: bucket_key_def)

lemma with_bucket_update_Ok [cell_simps]:
  assumes "length ns \<le> 0xFFFF"
  shows "with_bucket ns (\<lambda>b. bk_update ms_get ms_set (sd_ser sd) (sd_de sd) b k act) s = (Ok v, s') \<longleftrightarrow>
    (\<exists>input bs. cell sd (bucket_key ns k) s = Ok input \<and> act input = Ok v \<and> sd_ser sd v = Ok bs \<and>
      s' = ms_set s (bucket_key ns k) bs)"
  using assms by (simp add: with_bucket_ok bk_update_Ok bucket_key_def)

lemma with_bucket_update_with_Ok [cell_simps]:
  assumes "length ns \<le> 0xFFFF"
  shows "with_bucket ns (\<lambda>b. bk_update_with ms_get ms_set (sd_ser sd) (sd_de sd) b k act) s = (Ok (v, x), s') \<longleftrightarrow>
    (\<exists>input bs. cell sd (bucket_key ns k) s = Ok input \<and> act input = Ok (v, x) \<and> sd_ser sd v = Ok bs \<and>
      s' = ms_set s (bucket_key ns k) bs)"
  using assms by (simp add: with_bucket_ok bk_update_with_Ok bucket_key_def)

lemma with_bucket_may_load [cell_simps]:
  assumes "length ns \<le> 0xFFFF"
  shows "with_bucket ns (\<lambda>b. gets (bk_may_load ms_get (sd_de sd) b k)) s = (cell sd (bucket_key ns k) s, s)"
  using assms by (simp add: with_bucket_ok bk_may_load_cell bucket_key_def)

lemma with_singleton_load_Ok [cell_simps]:
  assumes "length k \<le> 0xFFFF"
  shows "with_singleton k (\<lambda>sg. gets (sg_load ms_get tn (sd_de sd) sg)) s = (Ok v, s') \<longleftrightarrow>
    cell sd (singleton_key k) s = Ok (Some v) \<and> s' = s"
  using assms by (auto simp: with_singleton_ok sg_load_Ok)

lemma with_singleton_save_Ok [cell_simps]:
  assumes "length k \<le> 0xFFFF"
  shows "with_singleton k (\<lambda>sg. sg_save ms_set (sd_ser sd) sg v) s = (Ok u, s') \<longleftrightarrow>
    (\<exists>bs. sd_ser sd v = Ok bs \<and> s' = ms_set s (singleton_key k) bs)"
  using assms by (simp add: with_singleton_ok sg_save_Ok)

lemma with_singleton_update_Ok [cell_simps]:
  assumes "length k \<le> 0xFFFF"
  shows "with_singleton k (\<lambda>sg. sg_update ms_get ms_set tn (sd_ser sd) (sd_de sd) sg act) s = (Ok v, s') \<longleftrightarrow>
    (\<exists>input bs. cell sd (singleton_key k) s = Ok (Some input) \<and> act input = Ok v \<and> sd_ser sd v = Ok bs \<and>
      s' = ms_set s (singleton_key k) bs)"
  using assms by (simp add: with_singleton_ok sg_update_Ok)

definition unwrap_or_default :: "Uint128 option \<Rightarrow> Uint128" where
  "unwrap_or_default v = (case v of None \<Rightarrow> Uint128 0 | Some u \<Rightarrow> u)"

definition quoted :: "string \<Rightarrow> string" where
  "quoted s = [CHR 0x27] @ s @ [CHR 0x27]"

section \<open>Stored amounts\<close>

definition be128 :: "u128 \<Rightarrow> bytes" where
  "be128 w = to_be 16 (unat w)"

definition of_be128 :: "bytes \<Rightarrow> u128" where
  "of_be128 bs = word_of_nat (from_be bs)"

lemma length_be128 [simp]: "length (be128 w) = 16"
  by (simp add: be128_def)

lemma of_be128_be128 [simp]: "of_be128 (be128 w) = w"
  using unat_bound [of w] by (simp add: of_be128_def be128_def from_be_to_be)

section \<open>Ledgers\<close>

definition ledger_total :: "('a \<Rightarrow> nat) \<Rightarrow> nat" where
  "ledger_total f = sum f {a. f a \<noteq> 0}"

definition finite_support :: "('a \<Rightarrow> nat) \<Rightarrow> bool" where
  "finite_support f = finite {a. f a \<noteq> 0}"

lemma total_superset: "finite A \<Longrightarrow> {a. f a \<noteq> 0} \<subseteq> A \<Longrightarrow> ledger_total f = sum f A"
  unfolding ledger_total_def by (rule sum.mono_neutral_left) auto

lemma finite_support_update [simp]: "finite_support f \<Longrightarrow> finite_support (f(a := v))"
  unfolding finite_support_def by (rule finite_subset [of _ "insert a {a. f a \<noteq> 0}"]) auto

lemma total_update:
  assumes "finite_support f"
  shows "ledger_total (f(a := v)) + f a = ledger_total f + v"
proof -
  let ?A = "insert a {a. f a \<noteq> 0}"
  have fin: "finite ?A"
    using assms by (simp add: finite_support_def)
  have "ledger_total (f(a := v)) = sum (f(a := v)) ?A" and "ledger_total f = sum f ?A"
    by (rule total_superset [OF fin]; force)+
  moreover have "sum g ?A = g a + sum g ({a. f a \<noteq> 0} - {a})" for g :: "'a \<Rightarrow> nat"
    using fin by (intro sum.insert_remove) simp
  moreover have "sum (f(a := v)) ({a. f a \<noteq> 0} - {a}) = sum f ({a. f a \<noteq> 0} - {a})"
    by (rule sum.cong) auto
  ultimately show ?thesis
    by simp
qed

lemma total_ge: "finite_support f \<Longrightarrow> f a \<le> ledger_total f"
  using total_update [of f a 0] by linarith

lemma total_move:
  assumes "finite_support f" and "v \<le> f a"
  shows "ledger_total ((f(a := f a - v))(b := (f(a := f a - v)) b + v)) = ledger_total f"
proof -
  let ?g = "f(a := f a - v)"
  have "ledger_total ?g + f a = ledger_total f + (f a - v)"
    using assms(1) by (rule total_update)
  moreover have "ledger_total (?g(b := ?g b + v)) + ?g b = ledger_total ?g + (?g b + v)"
    using assms(1) by (intro total_update) simp
  ultimately show ?thesis
    using assms(2) by linarith
qed

lemma total_two:
  assumes "finite_support f" and "a \<noteq> b"
  shows "f a + f b \<le> ledger_total f"
proof -
  have "ledger_total (f(a := 0)) + f a = ledger_total f"
    using total_update [OF assms(1), of a 0] by simp
  moreover have "(f(a := 0)) b \<le> ledger_total (f(a := 0))"
    by (rule total_ge [OF finite_support_update [OF assms(1)]])
  ultimately show ?thesis
    using assms(2) by simp
qed

lemma total_zero [simp]: "ledger_total (\<lambda>a. 0) = 0"
  by (simp add: ledger_total_def)

end
