(* ===== verification/Erc20.thy ===== *)
theory Erc20
  imports Contract_Base
begin

text \<open>
  The erc20 example contract (\<open>contracts/erc20/src/contract.rs\<close>, \<open>msg.rs\<close>).
  The address codec of the chain (\<open>canon\<close>) and the JSON serializer of the
  constants and of the query answers are arguments. The invariant is that the
  balances add up to the stored total supply.
\<close>

section \<open>Messages\<close>

record InitialBalance =
  ib_address :: HumanAddr
  ib_amount :: Uint128

record Erc20InitMsg =
  im_name :: string
  im_symbol :: string
  im_decimals :: u8
  im_initial_balances :: "InitialBalance list"

datatype Erc20HandleMsg =
    Approve HumanAddr Uint128
  | Transfer HumanAddr Uint128
  | TransferFrom HumanAddr HumanAddr Uint128
  | Burn Uint128

datatype Erc20QueryMsg =
    QBalance HumanAddr
  | QAllowance HumanAddr HumanAddr

record Constants =
  c_name :: string
  c_symbol :: string
  c_decimals :: u8

definition PREFIX_CONFIG :: bytes where
  "PREFIX_CONFIG = ascii ''config''"

definition PREFIX_BALANCES :: bytes where
  "PREFIX_BALANCES = ascii ''balances''"

definition PREFIX_ALLOWANCES :: bytes where
  "PREFIX_ALLOWANCES = ascii ''allowances''"

definition KEY_CONSTANTS :: bytes where
  "KEY_CONSTANTS = ascii ''constants''"

definition KEY_TOTAL_SUPPLY :: bytes where
  "KEY_TOTAL_SUPPLY = ascii ''total_supply''"

section \<open>Operations\<close>

text \<open>The slice \<open>data[0..16]\<close> panics on shorter data; 16 bytes always convert.\<close>

definition bytes_to_u128 :: "bytes \<Rightarrow> u128 std_result" where
  "bytes_to_u128 d = (if length d < 16 then Panicked else Ok (of_be128 (take 16 d)))"

definition read_u128 :: "('s \<Rightarrow> bytes \<Rightarrow> bytes option) \<Rightarrow> bytes \<Rightarrow> 's \<Rightarrow> u128 std_result" where
  "read_u128 get key store =
     (case get store key of
        Some d \<Rightarrow> bytes_to_u128 d
      | None \<Rightarrow> Ok 0)"

definition read_balance :: "CanonicalAddr \<Rightarrow> (MemoryStorage, u128) act" where
  "read_balance owner = in_prefix PREFIX_BALANCES (gets (read_u128 (ps_get ms_get) owner))"

definition read_allowance :: "CanonicalAddr \<Rightarrow> CanonicalAddr \<Rightarrow> (MemoryStorage, u128) act" where
  "read_allowance owner spender =
     in_prefix PREFIX_ALLOWANCES (in_prefix owner (gets (read_u128 (ps_get (ps_get ms_get)) spender)))"

definition write_allowance :: "CanonicalAddr \<Rightarrow> CanonicalAddr \<Rightarrow> u128 \<Rightarrow> (MemoryStorage, unit) act" where
  "write_allowance owner spender amt =
     in_prefix PREFIX_ALLOWANCES (in_prefix owner
       (modify (\<lambda>owner_store. ps_set (ps_set ms_set) owner_store spender (be128 amt))))"

definition perform_transfer :: "CanonicalAddr \<Rightarrow> CanonicalAddr \<Rightarrow> u128 \<Rightarrow> (MemoryStorage, unit) act" where
  "perform_transfer src dst amt =
     in_prefix PREFIX_BALANCES (
       and_then (gets (read_u128 (ps_get ms_get) src)) (\<lambda>from_balance.
       if from_balance < amt then
         fail (GenericErr (''Insufficient funds: balance='' @ show_u128 from_balance @
                 '', required='' @ show_u128 amt))
       else
       and_then (modify (\<lambda>st. ps_set ms_set st src (be128 (from_balance - amt)))) (\<lambda>_.
       and_then (gets (read_u128 (ps_get ms_get) dst)) (\<lambda>to_balance.
       and_then (lift (or_panic (checked_add to_balance amt))) (\<lambda>to_balance.
       modify (\<lambda>st. ps_set ms_set st dst (be128 to_balance)))))))"

definition is_valid_name :: "string \<Rightarrow> bool" where
  "is_valid_name name = (let bs = ascii name in \<not> (length bs < 3 \<or> length bs > 30))"

definition is_valid_symbol :: "string \<Rightarrow> bool" where
  "is_valid_symbol symbol =
     (let bs = ascii symbol
      in if length bs < 3 \<or> length bs > 6 then False
         else list_all (\<lambda>byte. \<not> (byte < 65 \<or> byte > 90)) bs)"

fun init_balances ::
  "(HumanAddr \<Rightarrow> CanonicalAddr std_result) \<Rightarrow> InitialBalance list \<Rightarrow> u128 \<Rightarrow>
   (MemoryStorage PrefixedStorage, u128) act" where
  "init_balances canon [] total_supply = ret total_supply"
| "init_balances canon (row # rows) total_supply =
     and_then (lift (canon (ib_address row))) (\<lambda>raw_address.
     let amount_raw = u128 (ib_amount row) in
     and_then (modify (\<lambda>st. ps_set ms_set st raw_address (be128 amount_raw))) (\<lambda>_.
     and_then (lift (or_panic (checked_add total_supply amount_raw))) (\<lambda>total_supply.
     init_balances canon rows total_supply)))"

definition erc20_init ::
  "(HumanAddr \<Rightarrow> CanonicalAddr std_result) \<Rightarrow> (Constants \<Rightarrow> bytes std_result) \<Rightarrow> Erc20InitMsg \<Rightarrow>
   (MemoryStorage, unit InitResponse) act" where
  "erc20_init canon ser msg =
     and_then (in_prefix PREFIX_BALANCES (init_balances canon (im_initial_balances msg) 0)) (\<lambda>total_supply.
     if \<not> is_valid_name (im_name msg) then
       fail (GenericErr ''Name is not in the expected format (3-30 UTF-8 bytes)'')
     else if \<not> is_valid_symbol (im_symbol msg) then
       fail (GenericErr ''Ticker symbol is not in expected format [A-Z]{3,6}'')
     else if im_decimals msg > 18 then
       fail (GenericErr ''Decimals must not exceed 18'')
     else
     and_then (in_prefix PREFIX_CONFIG (
       and_then (lift (ser \<lparr>c_name = im_name msg, c_symbol = im_symbol msg, c_decimals = im_decimals msg\<rparr>)) (\<lambda>constants.
       and_then (modify (\<lambda>st. ps_set ms_set st KEY_CONSTANTS constants)) (\<lambda>_.
       modify (\<lambda>st. ps_set ms_set st KEY_TOTAL_SUPPLY (be128 total_supply)))))) (\<lambda>_.
     ret init_default))"

definition try_transfer ::
  "(HumanAddr \<Rightarrow> CanonicalAddr std_result) \<Rightarrow> Env \<Rightarrow> HumanAddr \<Rightarrow> Uint128 \<Rightarrow>
   (MemoryStorage, unit HandleResponse) act" where
  "try_transfer canon env recipient amt =
     and_then (lift (canon (sender (message env)))) (\<lambda>sender_address_raw.
     and_then (lift (canon recipient)) (\<lambda>recipient_address_raw.
     let amount_raw = u128 amt in
     and_then (perform_transfer sender_address_raw recipient_address_raw amount_raw) (\<lambda>_.
     ret \<lparr>messages = [],
          logs = [log ''action'' ''transfer'', log ''sender'' (sender (message env)),
                  log ''recipient'' recipient],
          rdata = None\<rparr>)))"

definition try_transfer_from ::
  "(HumanAddr \<Rightarrow> CanonicalAddr std_result) \<Rightarrow> Env \<Rightarrow> HumanAddr \<Rightarrow> HumanAddr \<Rightarrow> Uint128 \<Rightarrow>
   (MemoryStorage, unit HandleResponse) act" where
  "try_transfer_from canon env owner recipient amt =
     and_then (lift (canon (sender (message env)))) (\<lambda>spender_address_raw.
     and_then (lift (canon owner)) (\<lambda>owner_address_raw.
     and_then (lift (canon recipient)) (\<lambda>recipient_address_raw.
     let amount_raw = u128 amt in
     and_then (read_allowance owner_address_raw spender_address_raw) (\<lambda>allowance.
     if allowance < amount_raw then
       fail (GenericErr (''Insufficient allowance: allowance='' @ show_u128 allowance @
               '', required='' @ show_u128 amount_raw))
     else
     and_then (write_allowance owner_address_raw spender_address_raw (allowance - amount_raw)) (\<lambda>_.
     and_then (perform_transfer owner_address_raw recipient_address_raw amount_raw) (\<lambda>_.
     ret \<lparr>messages = [],
          logs = [log ''action'' ''transfer_from'', log ''spender'' (sender (message env)),
                  log ''sender'' owner, log ''recipient'' recipient],
          rdata = None\<rparr>))))))"

definition try_approve ::
  "(HumanAddr \<Rightarrow> CanonicalAddr std_result) \<Rightarrow> Env \<Rightarrow> HumanAddr \<Rightarrow> Uint128 \<Rightarrow>
   (MemoryStorage, unit HandleResponse) act" where
  "try_approve canon env spender amt =
     and_then (lift (canon (sender (message env)))) (\<lambda>owner_address_raw.
     and_then (lift (canon spender)) (\<lambda>spender_address_raw.
     and_then (write_allowance owner_address_raw spender_address_raw (u128 amt)) (\<lambda>_.
     ret \<lparr>messages = [],
          logs = [log ''action'' ''approve'', log ''owner'' (sender (message env)),
                  log ''spender'' spender],
          rdata = None\<rparr>)))"

definition try_burn ::
  "(HumanAddr \<Rightarrow> CanonicalAddr std_result) \<Rightarrow> Env \<Rightarrow> Uint128 \<Rightarrow>
   (MemoryStorage, unit HandleResponse) act" where
  "try_burn canon env amt =
     and_then (lift (canon (sender (message env)))) (\<lambda>owner_address_raw.
     let amount_raw = u128 amt in
     and_then (read_balance owner_address_raw) (\<lambda>account_balance.
     if account_balance < amount_raw then
       fail (GenericErr (''insufficient funds to burn: balance='' @ show_u128 account_balance @
               '', required='' @ show_u128 amount_raw))
     else
     and_then (in_prefix PREFIX_BALANCES
       (modify (\<lambda>st. ps_set ms_set st owner_address_raw (be128 (account_balance - amount_raw))))) (\<lambda>_.
     and_then (in_prefix PREFIX_CONFIG (
       and_then (gets (\<lambda>st. or_panic (ps_get ms_get st KEY_TOTAL_SUPPLY))) (\<lambda>d.
       and_then (lift (case bytes_to_u128 d of Ok t \<Rightarrow> Ok t | _ \<Rightarrow> Panicked)) (\<lambda>total_supply.
       and_then (lift (or_panic (checked_sub total_supply amount_raw))) (\<lambda>total_supply.
       modify (\<lambda>st. ps_set ms_set st KEY_TOTAL_SUPPLY (be128 total_supply))))))) (\<lambda>_.
     ret \<lparr>messages = [],
          logs = [log ''action'' ''burn'', log ''account'' (sender (message env)),
                  log ''amount'' (uint_to_string amt)],
          rdata = None\<rparr>))))"

fun erc20_handle ::
  "(HumanAddr \<Rightarrow> CanonicalAddr std_result) \<Rightarrow> Env \<Rightarrow> Erc20HandleMsg \<Rightarrow>
   (MemoryStorage, unit HandleResponse) act" where
  "erc20_handle canon env (Approve spender amt) = try_approve canon env spender amt"
| "erc20_handle canon env (Transfer recipient amt) = try_transfer canon env recipient amt"
| "erc20_handle canon env (TransferFrom owner recipient amt) = try_transfer_from canon env owner recipient amt"
| "erc20_handle canon env (Burn amt) = try_burn canon env amt"

fun erc20_query ::
  "(HumanAddr \<Rightarrow> CanonicalAddr std_result) \<Rightarrow> (Uint128 \<Rightarrow> Binary std_result) \<Rightarrow> (Uint128 \<Rightarrow> Binary std_result) \<Rightarrow>
   Erc20QueryMsg \<Rightarrow> (MemoryStorage, Binary) act" where
  "erc20_query canon ser_balance ser_allowance (QBalance addr) =
     and_then (lift (canon addr)) (\<lambda>address_key.
     and_then (read_balance address_key) (\<lambda>balance.
     lift (ser_balance (Uint128 balance))))"
| "erc20_query canon ser_balance ser_allowance (QAllowance owner spender) =
     and_then (lift (canon owner)) (\<lambda>owner_key.
     and_then (lift (canon spender)) (\<lambda>spender_key.
     and_then (read_allowance owner_key spender_key) (\<lambda>allowance.
     lift (ser_allowance (Uint128 allowance)))))"

section \<open>Keys of the contract\<close>

definition bal_key :: "CanonicalAddr \<Rightarrow> bytes" where
  "bal_key a = (to_be 2 (length PREFIX_BALANCES) @ PREFIX_BALANCES) @ a"

definition cfg_key :: "bytes \<Rightarrow> bytes" where
  "cfg_key k = (to_be 2 (length PREFIX_CONFIG) @ PREFIX_CONFIG) @ k"

definition alw_key :: "CanonicalAddr \<Rightarrow> CanonicalAddr \<Rightarrow> bytes" where
  "alw_key owner spender =
     (to_be 2 (length PREFIX_ALLOWANCES) @ PREFIX_ALLOWANCES) @ (to_be 2 (length owner) @ owner) @ spender"

lemma prefix_lengths [simp]:
  "length PREFIX_BALANCES = 8" "length PREFIX_CONFIG = 6" "length PREFIX_ALLOWANCES = 10"
  by (simp_all add: PREFIX_BALANCES_def PREFIX_CONFIG_def PREFIX_ALLOWANCES_def)

lemma key_disjoint [simp]:
  "bal_key a \<noteq> cfg_key k" "cfg_key k \<noteq> bal_key a"
  "bal_key a \<noteq> alw_key b c" "alw_key b c \<noteq> bal_key a"
  "cfg_key k \<noteq> alw_key b c" "alw_key b c \<noteq> cfg_key k"
  by (simp_all add: bal_key_def cfg_key_def alw_key_def to_be_numeral)

lemma key_inject [simp]:
  "bal_key a = bal_key b \<longleftrightarrow> a = b" "cfg_key k = cfg_key l \<longleftrightarrow> k = l"
  by (simp_all add: bal_key_def cfg_key_def)

lemma alw_key_inject:
  "length a \<le> 0xFFFF \<Longrightarrow> length b \<le> 0xFFFF \<Longrightarrow> alw_key a c = alw_key b d \<longleftrightarrow> a = b \<and> c = d"
  using length_prefixed_cancel [of a "to_be 2 (length a) @ a" b "to_be 2 (length b) @ b" c d]
  by (auto simp: alw_key_def to_length_prefixed_eq)

abbreviation supply_key :: bytes where
  "supply_key \<equiv> cfg_key KEY_TOTAL_SUPPLY"

lemma constants_key [simp]: "KEY_CONSTANTS \<noteq> KEY_TOTAL_SUPPLY"
  by (simp add: KEY_CONSTANTS_def KEY_TOTAL_SUPPLY_def ascii_def)

section \<open>What the operations read and write\<close>

definition stored :: "MemoryStorage \<Rightarrow> bytes \<Rightarrow> u128" where
  "stored s k = (case ms_get s k of None \<Rightarrow> 0 | Some d \<Rightarrow> of_be128 (take 16 d))"

definition sized :: "MemoryStorage \<Rightarrow> bytes \<Rightarrow> bool" where
  "sized s k = (case ms_get s k of None \<Rightarrow> True | Some d \<Rightarrow> length d = 16)"

lemma stored_set [simp]: "stored (ms_set s k (be128 v)) k' = (if k' = k then v else stored s k')"
  by (simp add: stored_def)

lemma sized_set [simp]: "sized s k' \<Longrightarrow> sized (ms_set s k (be128 v)) k'"
  by (simp add: sized_def)

lemma ps_update [simp]: "(\<lparr>ps_prefix = p, ps_storage = s\<rparr>\<lparr>ps_storage := t\<rparr>) = \<lparr>ps_prefix = p, ps_storage = t\<rparr>"
  by simp

lemma read_u128_sized:
  "sized s k \<Longrightarrow> (case ms_get s k of None \<Rightarrow> Ok 0 | Some d \<Rightarrow> bytes_to_u128 d) = Ok (stored s k)"
  by (cases "ms_get s k") (simp_all add: sized_def stored_def bytes_to_u128_def)

lemma read_balance_eq:
  "sized s (bal_key a) \<Longrightarrow> read_balance a s = (Ok (stored s (bal_key a)), s)"
  using read_u128_sized [of s "bal_key a"]
  by (simp add: read_balance_def in_prefix_ok read_u128_def prefix_op_defs bal_key_def)

lemma read_allowance_eq:
  "length owner \<le> 0xFFFF \<Longrightarrow> sized s (alw_key owner spender) \<Longrightarrow>
   read_allowance owner spender s = (Ok (stored s (alw_key owner spender)), s)"
  using read_u128_sized [of s "alw_key owner spender"]
  by (simp add: read_allowance_def in_prefix_ok read_u128_def prefix_op_defs alw_key_def)

lemma write_allowance_eq:
  "length owner \<le> 0xFFFF \<Longrightarrow>
   write_allowance owner spender v s = (Ok (), ms_set s (alw_key owner spender) (be128 v))"
  by (simp add: write_allowance_def in_prefix_ok prefix_op_defs alw_key_def)

lemma perform_transfer_eq:
  assumes "sized s (bal_key a)" and "sized s (bal_key b)"
  shows "perform_transfer a b v s =
    (let fb = stored s (bal_key a); s1 = ms_set s (bal_key a) (be128 (fb - v)); tb = stored s1 (bal_key b)
     in if fb < v then
          (Err (GenericErr (''Insufficient funds: balance='' @ show_u128 fb @ '', required='' @ show_u128 v)), s)
        else (case checked_add tb v of
                None \<Rightarrow> (Panicked, s1)
              | Some t \<Rightarrow> (Ok (), ms_set s1 (bal_key b) (be128 t))))"
proof -
  let ?s1 = "ms_set s (bal_key a) (be128 (stored s (bal_key a) - v))"
  have "sized ?s1 (bal_key b)"
    using assms(2) by simp
  then show ?thesis
    using read_u128_sized [OF assms(1)] read_u128_sized [of ?s1 "bal_key b"]
    by (simp add: perform_transfer_def in_prefix_ok read_u128_def prefix_op_defs bal_key_def Let_def
        and_then_lift split: option.split)
qed

section \<open>The ledger and its specification\<close>

record ledger =
  bal :: "CanonicalAddr \<Rightarrow> nat"
  alw :: "CanonicalAddr \<Rightarrow> CanonicalAddr \<Rightarrow> nat"
  l_supply :: nat

definition balance :: "MemoryStorage \<Rightarrow> CanonicalAddr \<Rightarrow> nat" where
  "balance s a = unat (stored s (bal_key a))"

definition allowance :: "MemoryStorage \<Rightarrow> CanonicalAddr \<Rightarrow> CanonicalAddr \<Rightarrow> nat" where
  "allowance s owner spender =
     (if length owner \<le> 0xFFFF then unat (stored s (alw_key owner spender)) else 0)"

definition erc20_abs :: "MemoryStorage \<Rightarrow> ledger" where
  "erc20_abs s = \<lparr>bal = balance s, alw = allowance s, l_supply = unat (stored s supply_key)\<rparr>"

definition move :: "CanonicalAddr \<Rightarrow> CanonicalAddr \<Rightarrow> nat \<Rightarrow> (CanonicalAddr \<Rightarrow> nat) \<Rightarrow> CanonicalAddr \<Rightarrow> nat" where
  "move a b v f = (let g = f(a := f a - v) in g(b := g b + v))"

text \<open>What each message does to a ledger; \<open>None\<close> is a refused message.\<close>

fun erc20_spec :: "(HumanAddr \<Rightarrow> CanonicalAddr std_result) \<Rightarrow> HumanAddr \<Rightarrow> Erc20HandleMsg \<Rightarrow> ledger \<Rightarrow> ledger option" where
  "erc20_spec canon who (Approve spender v) l =
     (case (canon who, canon spender) of
        (Ok a, Ok b) \<Rightarrow> Some (l\<lparr>alw := (alw l)(a := (alw l a)(b := unat (u128 v)))\<rparr>)
      | _ \<Rightarrow> None)"
| "erc20_spec canon who (Transfer recipient v) l =
     (case (canon who, canon recipient) of
        (Ok a, Ok b) \<Rightarrow>
          if bal l a < unat (u128 v) then None else Some (l\<lparr>bal := move a b (unat (u128 v)) (bal l)\<rparr>)
      | _ \<Rightarrow> None)"
| "erc20_spec canon who (TransferFrom owner recipient v) l =
     (case (canon who, canon owner, canon recipient) of
        (Ok c, Ok a, Ok b) \<Rightarrow>
          if alw l a c < unat (u128 v) \<or> bal l a < unat (u128 v) then None
          else Some (l\<lparr>alw := (alw l)(a := (alw l a)(c := alw l a c - unat (u128 v))),
                        bal := move a b (unat (u128 v)) (bal l)\<rparr>)
      | _ \<Rightarrow> None)"
| "erc20_spec canon who (Burn v) l =
     (case canon who of
        Ok a \<Rightarrow>
          if bal l a < unat (u128 v) then None
          else Some (l\<lparr>bal := (bal l)(a := bal l a - unat (u128 v)), l_supply := l_supply l - unat (u128 v)\<rparr>)
      | _ \<Rightarrow> None)"

text \<open>
  The invariant: all amounts are stored in 16 bytes, the supply is stored, and
  it is the sum of the balances.
\<close>

definition erc20_inv :: "MemoryStorage \<Rightarrow> bool" where
  "erc20_inv s =
     ((\<forall>a. sized s (bal_key a)) \<and> (\<forall>a b. sized s (alw_key a b)) \<and>
      sized s supply_key \<and> ms_get s supply_key \<noteq> None \<and>
      ledger_total (balance s) = unat (stored s supply_key))"

text \<open>What the code relies on in the chain's address codec: it returns, with addresses of ordinary length.\<close>

definition canon_ok :: "(HumanAddr \<Rightarrow> CanonicalAddr std_result) \<Rightarrow> bool" where
  "canon_ok canon = (\<forall>h. canon h \<noteq> Panicked \<and> (\<forall>a. canon h = Ok a \<longrightarrow> length a \<le> 0xFFFF))"

lemma finite_balance: "finite_support (balance s)"
proof -
  have "finite (dom (ms_get s))"
    using finite_dom_map_of [of "data s"] by (simp add: ms_get_def bt_get_def dom_def)
  moreover have "bal_key ` {a. balance s a \<noteq> 0} \<subseteq> dom (ms_get s)"
    by (auto simp: balance_def stored_def dom_def split: option.splits)
  ultimately have "finite (bal_key ` {a. balance s a \<noteq> 0})"
    by (rule finite_subset [rotated])
  then show ?thesis
    unfolding finite_support_def by (rule finite_imageD) (simp add: inj_on_def)
qed

lemma balance_set_bal [simp]: "balance (ms_set s (bal_key a) (be128 v)) = (balance s)(a := unat v)"
  by (rule ext) (simp add: balance_def)

lemma balance_set_other [simp]:
  "balance (ms_set s (cfg_key k) d) = balance s" "balance (ms_set s (alw_key a b) d) = balance s"
  by (rule ext, simp add: balance_def stored_def)+

lemma allowance_set_alw:
  "length a \<le> 0xFFFF \<Longrightarrow>
   allowance (ms_set s (alw_key a b) (be128 v)) = (allowance s)(a := (allowance s a)(b := unat v))"
  by (rule ext)+ (auto simp: allowance_def alw_key_inject)

lemma allowance_set_other [simp]:
  "allowance (ms_set s (cfg_key k) d) = allowance s" "allowance (ms_set s (bal_key a) d) = allowance s"
  by (rule ext, rule ext, simp add: allowance_def stored_def)+

lemma inv_set_alw: "erc20_inv s \<Longrightarrow> erc20_inv (ms_set s (alw_key a b) (be128 v))"
  by (simp add: erc20_inv_def)

lemma transfer_correct:
  assumes inv: "erc20_inv s"
  shows "if balance s a < unat v
     then \<exists>e. perform_transfer a b v s = (Err e, s)
     else \<exists>s'. perform_transfer a b v s = (Ok (), s') \<and> erc20_inv s' \<and>
       erc20_abs s' = erc20_abs s\<lparr>bal := move a b (unat v) (balance s)\<rparr>"
proof -
  let ?fb = "stored s (bal_key a)"
  let ?s1 = "ms_set s (bal_key a) (be128 (?fb - v))"
  let ?tb = "stored ?s1 (bal_key b)"
  have lt: "?fb < v \<longleftrightarrow> balance s a < unat v"
    by (simp add: balance_def word_less_nat_alt)
  have eq: "perform_transfer a b v s =
     (if ?fb < v then
          (Err (GenericErr (''Insufficient funds: balance='' @ show_u128 ?fb @ '', required='' @ show_u128 v)), s)
        else (case checked_add ?tb v of
                None \<Rightarrow> (Panicked, ?s1)
              | Some t \<Rightarrow> (Ok (), ms_set ?s1 (bal_key b) (be128 t))))"
    using inv by (subst perform_transfer_eq) (simp_all add: erc20_inv_def Let_def)
  show ?thesis
  proof (cases "?fb < v")
    case True
    then show ?thesis
      using eq lt by simp
  next
    case False
    then have fb: "unat (?fb - v) = balance s a - unat v" and ge: "unat v \<le> balance s a"
      by (simp_all add: balance_def unat_sub word_le_nat_alt not_less)
    have tb: "unat ?tb = ((balance s)(a := balance s a - unat v)) b"
      by (simp add: balance_def fb)
    have "unat ?tb + unat v \<le> ledger_total (balance s)"
      using tb ge total_ge [OF finite_balance, of s a] total_two [OF finite_balance, of a b s]
      by (cases "a = b") auto
    also have "\<dots> < 2 ^ 128"
      using inv unat_bound [of "stored s supply_key"] by (simp add: erc20_inv_def)
    finally obtain t where t: "checked_add ?tb v = Some t" "unat t = unat ?tb + unat v"
      by (auto simp: checked_add_def unat_add_fits)
    let ?s2 = "ms_set ?s1 (bal_key b) (be128 t)"
    have bal: "balance ?s2 = move a b (unat v) (balance s)"
      by (simp only: balance_set_bal move_def Let_def fb t(2) tb)
    have "ledger_total (balance ?s2) = ledger_total (balance s)"
      unfolding bal move_def Let_def by (rule total_move [OF finite_balance ge])
    then have "erc20_inv ?s2"
      using inv by (simp add: erc20_inv_def)
    then show ?thesis
      using eq lt False t(1) bal by (simp add: erc20_abs_def)
  qed
qed

lemma burn_correct:
  assumes inv: "erc20_inv s" and a: "canon (sender (message env)) = Ok a"
  shows "if balance s a < unat (u128 v)
     then \<exists>e. try_burn canon env v s = (Err e, s)
     else \<exists>r s'. try_burn canon env v s = (Ok r, s') \<and> erc20_inv s' \<and>
       erc20_abs s' = erc20_abs s\<lparr>bal := (balance s)(a := balance s a - unat (u128 v)),
         l_supply := l_supply (erc20_abs s) - unat (u128 v)\<rparr>"
proof -
  let ?b = "stored s (bal_key a)" and ?v = "u128 v" and ?t = "stored s supply_key"
  have rb: "read_balance a s = (Ok ?b, s)"
    using inv by (simp add: read_balance_eq erc20_inv_def)
  have lt: "?b < ?v \<longleftrightarrow> balance s a < unat ?v"
    by (simp add: balance_def word_less_nat_alt)
  show ?thesis
  proof (cases "?b < ?v")
    case True
    then show ?thesis
      using rb lt a by (simp add: try_burn_def Let_def)
  next
    case False
    then have b: "unat (?b - ?v) = balance s a - unat ?v" and ge: "unat ?v \<le> balance s a"
      by (simp_all add: balance_def unat_sub word_le_nat_alt not_less)
    have tot: "ledger_total (balance s) = unat ?t"
      using inv by (simp add: erc20_inv_def)
    then have "unat ?v \<le> unat ?t"
      using ge total_ge [OF finite_balance, of s a] by simp
    then obtain t where t: "checked_sub ?t ?v = Some t" "unat t = unat ?t - unat ?v"
      by (auto simp: checked_sub_def word_le_nat_alt unat_sub)
    let ?s1 = "ms_set s (bal_key a) (be128 (?b - ?v))"
    let ?s2 = "ms_set ?s1 supply_key (be128 t)"
    obtain d where d: "ms_get s supply_key = Some d" "length d = 16"
      using inv by (auto simp: erc20_inv_def sized_def)
    then have "bytes_to_u128 d = Ok ?t"
      by (simp add: bytes_to_u128_def stored_def)
    then have "\<exists>r. try_burn canon env v s = (Ok r, ?s2)"
      using rb a False d t(1)
      by (simp add: try_burn_def Let_def in_prefix_ok prefix_op_defs bal_key_def cfg_key_def to_be_numeral)
    moreover have "ledger_total (balance ?s2) = unat t"
      using total_update [OF finite_balance, of s a "balance s a - unat ?v"] tot t(2) ge
      by (simp add: b)
    then have "erc20_inv ?s2"
      using inv by (simp add: erc20_inv_def)
    ultimately show ?thesis
      using lt False b t(2) by (auto simp: erc20_abs_def)
  qed
qed

lemma erc20_handle_correct:
  assumes canon: "canon_ok canon" and inv: "erc20_inv s"
    and run: "erc20_handle canon env msg s = (r, s')"
  shows "erc20_inv s' \<and>
    (case erc20_spec canon (sender (message env)) msg (erc20_abs s) of
       None \<Rightarrow> \<exists>e. r = Err e
     | Some l \<Rightarrow> is_ok r \<and> erc20_abs s' = l)"
proof (cases msg)
  case (Approve spender v)
  then show ?thesis
    using canon inv run
    by (cases "canon (sender (message env))"; cases "canon spender")
      (auto simp: try_approve_def and_then_lift write_allowance_eq canon_ok_def erc20_abs_def
        allowance_set_alw stored_def intro: inv_set_alw)
next
  case (Transfer recipient v)
  show ?thesis
  proof (cases "canon (sender (message env))")
    case (Ok a)
    show ?thesis
    proof (cases "canon recipient")
      fix b assume "canon recipient = Ok b"
      then show ?thesis
        using transfer_correct [OF inv, of a "u128 v" b] Transfer Ok inv run
        by (auto simp: try_transfer_def and_then_lift erc20_abs_def Let_def split: if_splits)
    qed (use Transfer Ok canon inv run in \<open>auto simp: try_transfer_def and_then_lift canon_ok_def\<close>)
  qed (use Transfer canon inv run in \<open>auto simp: try_transfer_def and_then_lift canon_ok_def\<close>)
next
  case (TransferFrom owner recipient v)
  consider a b c where "canon (sender (message env)) = Ok c" "canon owner = Ok a" "canon recipient = Ok b"
    | e where "canon (sender (message env)) = Err e"
    | c e where "canon (sender (message env)) = Ok c" "canon owner = Err e"
    | c a e where "canon (sender (message env)) = Ok c" "canon owner = Ok a" "canon recipient = Err e"
    using canon by (metis canon_ok_def res.exhaust)
  then show ?thesis
  proof cases
    case 1
    let ?k = "alw_key a c"
    let ?s1 = "ms_set s ?k (be128 (stored s ?k - u128 v))"
    have len: "length a \<le> 0xFFFF"
      using canon 1(2) by (auto simp: canon_ok_def)
    have ra: "read_allowance a c s = (Ok (stored s ?k), s)"
      using inv len by (simp add: read_allowance_eq erc20_inv_def)
    have lt: "stored s ?k < u128 v \<longleftrightarrow> allowance s a c < unat (u128 v)"
      using len by (simp add: allowance_def word_less_nat_alt)
    have inv1: "erc20_inv ?s1"
      using inv by (rule inv_set_alw)
    have "unat (stored s ?k - u128 v) = allowance s a c - unat (u128 v)" if "\<not> stored s ?k < u128 v"
      using that len by (simp add: allowance_def unat_sub not_less)
    then show ?thesis
      using transfer_correct [OF inv1, of a "u128 v" b] TransferFrom 1 inv inv1 run ra len lt
      by (auto simp: try_transfer_from_def and_then_lift write_allowance_eq erc20_abs_def Let_def
          allowance_set_alw stored_def [of _ supply_key] split: if_splits)
  qed (use TransferFrom inv run in \<open>auto simp: try_transfer_from_def and_then_lift\<close>)
next
  case (Burn v)
  show ?thesis
  proof (cases "canon (sender (message env))")
    case (Ok a)
    then show ?thesis
      using burn_correct [of s canon env a v, OF inv Ok] Burn inv run by (auto simp: erc20_abs_def split: if_splits)
  qed (use Burn canon inv run in \<open>auto simp: try_burn_def and_then_lift canon_ok_def\<close>)
qed

section \<open>Initialisation\<close>

lemma init_balances_correct:
  assumes "init_balances canon rows t \<lparr>ps_prefix = bal_key [], ps_storage = s\<rparr> = (Ok t', ps')"
    and "distinct (map (\<lambda>row. canon (ib_address row)) rows)"
    and "\<forall>row \<in> set rows. \<forall>a. canon (ib_address row) = Ok a \<longrightarrow> balance s a = 0"
    and "\<forall>a. sized s (bal_key a)"
  shows "ledger_total (balance (ps_storage ps')) + unat t = ledger_total (balance s) + unat t' \<and>
    (\<forall>a. sized (ps_storage ps') (bal_key a)) \<and>
    (\<forall>k. (\<forall>a. k \<noteq> bal_key a) \<longrightarrow> ms_get (ps_storage ps') k = ms_get s k)"
  using assms
proof (induction rows arbitrary: t s)
  case (Cons row rows)
  let ?v = "u128 (ib_amount row)"
  have set_row: "ps_set ms_set \<lparr>ps_prefix = bal_key [], ps_storage = s\<rparr> a d
      = \<lparr>ps_prefix = bal_key [], ps_storage = ms_set s (bal_key a) d\<rparr>" for a d
    by (simp add: prefix_op_defs bal_key_def)
  obtain a where a: "canon (ib_address row) = Ok a"
    using Cons.prems(1) by (cases "canon (ib_address row)") (simp_all add: and_then_lift)
  obtain u where u: "checked_add t ?v = Some u"
    using Cons.prems(1) a by (cases "checked_add t ?v") (simp_all add: and_then_lift Let_def)
  have run: "init_balances canon rows u \<lparr>ps_prefix = bal_key [], ps_storage = ms_set s (bal_key a) (be128 ?v)\<rparr> = (Ok t', ps')"
    using Cons.prems(1) a u by (simp add: and_then_lift Let_def set_row)
  let ?s = "ms_set s (bal_key a) (be128 ?v)"
  have zero: "balance s a = 0"
    using Cons.prems(3) a by simp
  have fresh: "\<forall>row \<in> set rows. \<forall>b. canon (ib_address row) = Ok b \<longrightarrow> balance ?s b = 0"
  proof (intro ballI allI impI)
    fix row' b
    assume "row' \<in> set rows" and b: "canon (ib_address row') = Ok b"
    then have "Ok b \<in> (\<lambda>row. canon (ib_address row)) ` set rows"
      by (metis image_eqI)
    then have "b \<noteq> a"
      using Cons.prems(2) a by auto
    then show "balance ?s b = 0"
      using Cons.prems(3) \<open>row' \<in> set rows\<close> b by simp
  qed
  have sz: "\<forall>a. sized ?s (bal_key a)"
    using Cons.prems(4) by simp
  have rest: "ledger_total (balance (ps_storage ps')) + unat u = ledger_total (balance ?s) + unat t' \<and>
      (\<forall>a. sized (ps_storage ps') (bal_key a)) \<and>
      (\<forall>k. (\<forall>a. k \<noteq> bal_key a) \<longrightarrow> ms_get (ps_storage ps') k = ms_get ?s k)"
    by (rule Cons.IH [OF run _ fresh sz]) (use Cons.prems(2) in simp)
  have new: "ledger_total (balance ?s) = ledger_total (balance s) + unat ?v"
    using total_update [OF finite_balance, of s a "unat ?v"] zero by simp
  have "unat u = unat t + unat ?v"
    using u by (simp add: arith_simps)
  then have "ledger_total (balance (ps_storage ps')) + unat t = ledger_total (balance s) + unat t'"
    using rest new by linarith
  moreover have "ms_get ?s k = ms_get s k" if "\<forall>a. k \<noteq> bal_key a" for k
    using that by simp
  ultimately show ?case
    using rest by simp
qed auto

definition distinct_rows :: "(HumanAddr \<Rightarrow> CanonicalAddr std_result) \<Rightarrow> Erc20InitMsg \<Rightarrow> bool" where
  "distinct_rows canon msg = distinct (map (\<lambda>row. canon (ib_address row)) (im_initial_balances msg))"

lemma erc20_init_inv:
  assumes "erc20_init canon ser msg ms_new = (Ok r, s)" and "distinct_rows canon msg"
  shows "erc20_inv s"
proof -
  let ?p = "\<lparr>ps_prefix = bal_key [], ps_storage = ms_new\<rparr>"
  have bn: "balance ms_new = (\<lambda>a. 0)"
    by (rule ext) (simp add: balance_def stored_def)
  obtain t ps' c where run: "init_balances canon (im_initial_balances msg) 0 ?p = (Ok t, ps')"
    and s: "s = ms_set (ms_set (ps_storage ps') (cfg_key KEY_CONSTANTS) c) supply_key (be128 t)"
    using assms(1)
    by (auto simp: erc20_init_def act_simps in_prefix_ok prefix_op_defs bal_key_def cfg_key_def
        split: prod.splits if_splits)
  have eff: "ledger_total (balance (ps_storage ps')) + unat (0::u128) = ledger_total (balance ms_new) + unat t \<and>
    (\<forall>a. sized (ps_storage ps') (bal_key a)) \<and>
    (\<forall>k. (\<forall>a. k \<noteq> bal_key a) \<longrightarrow> ms_get (ps_storage ps') k = ms_get ms_new k)"
    using assms(2) bn by (intro init_balances_correct [OF run]) (simp_all add: distinct_rows_def sized_def)
  then show ?thesis
    unfolding erc20_inv_def s using bn by (simp add: sized_def stored_def)
qed

section \<open>Properties of the token\<close>

text \<open>
  C16: the contract refines the ledger specification. From a state of the
  invariant every message either is refused with an error, exactly when the
  specification refuses it, or succeeds with the specified effect on balances,
  allowances and supply; no message panics, in particular no addition
  overflows, and the invariant is kept.
\<close>

theorem erc20_refines_ledger:
  assumes "canon_ok canon" and "erc20_inv s" and "erc20_handle canon env msg s = (r, s')"
  shows "erc20_inv s' \<and>
    (case erc20_spec canon (sender (message env)) msg (erc20_abs s) of
       None \<Rightarrow> \<exists>e. r = Err e
     | Some l \<Rightarrow> is_ok r \<and> erc20_abs s' = l)"
  by (rule erc20_handle_correct [OF assms])

text \<open>
  The states of a deployed contract: the chain keeps the storage of a
  successful call and drops the changes of a failed one.
\<close>

inductive erc20_reach :: "(HumanAddr \<Rightarrow> CanonicalAddr std_result) \<Rightarrow> (Constants \<Rightarrow> bytes std_result) \<Rightarrow> MemoryStorage \<Rightarrow> bool"
  for canon ser where
  reach_init: "erc20_init canon ser msg ms_new = (Ok r, s) \<Longrightarrow> distinct_rows canon msg \<Longrightarrow>
     erc20_reach canon ser s"
| reach_call: "erc20_reach canon ser s \<Longrightarrow> erc20_handle canon env msg s = (r, s') \<Longrightarrow>
     erc20_reach canon ser (if is_ok r then s' else s)"

text \<open>
  C17: in every state of a deployed contract, initialised without listing an
  address twice, the stored total supply is the sum of all balances.
\<close>

theorem erc20_supply_is_sum:
  assumes "erc20_reach canon ser s" and "canon_ok canon"
  shows "ledger_total (balance s) = unat (stored s supply_key)"
proof -
  from assms have "erc20_inv s"
  proof (induction rule: erc20_reach.induct)
    case (reach_init msg r s)
    then show ?case
      by (blast intro: erc20_init_inv)
  next
    case (reach_call s env msg r s')
    then show ?case
      using erc20_handle_correct by (cases "is_ok r") auto
  qed
  then show ?thesis
    by (simp add: erc20_inv_def)
qed

section \<open>A concrete token\<close>

definition demo_canon :: "HumanAddr \<Rightarrow> CanonicalAddr std_result" where
  "demo_canon h = Ok (take 20 (ascii h))"

definition demo_env :: "HumanAddr \<Rightarrow> Env" where
  "demo_env who =
     \<lparr>block = \<lparr>height = 1, time = 2, chain_id = ''secret''\<rparr>,
      message = \<lparr>sender = who, sent_funds = []\<rparr>,
      contract = \<lparr>address = ''token''\<rparr>, contract_key = None, contract_code_hash = []\<rparr>"

definition demo_init :: Erc20InitMsg where
  "demo_init = \<lparr>im_name = ''token'', im_symbol = ''TOK'', im_decimals = 6,
     im_initial_balances = [\<lparr>ib_address = ''ann'', ib_amount = Uint128 5\<rparr>]\<rparr>"

definition demo_state :: MemoryStorage where
  "demo_state = snd (erc20_init demo_canon (\<lambda>c. Ok []) demo_init ms_new)"

lemma demo_canon_ok: "canon_ok demo_canon"
  by (auto simp: canon_ok_def demo_canon_def)

lemma demo_init_ok: "erc20_init demo_canon (\<lambda>c. Ok []) demo_init ms_new = (Ok init_default, demo_state)"
  unfolding demo_state_def
  by (simp add: erc20_init_def demo_init_def in_prefix_ok demo_canon_def and_then_lift checked_add_def
      is_valid_name_def is_valid_symbol_def ascii_def)

lemma demo_distinct: "distinct_rows demo_canon demo_init"
  by (simp add: distinct_rows_def demo_init_def)

lemma demo_balance: "balance demo_state (ascii ''ann'') = 5"
  by (simp add: balance_def demo_state_def erc20_init_def demo_init_def in_prefix_ok demo_canon_def
      and_then_lift checked_add_def is_valid_name_def is_valid_symbol_def ascii_def prefix_op_defs
      bal_key_def PREFIX_BALANCES_def PREFIX_CONFIG_def to_be_numeral stored_def)

theorem erc20_refines_ledger_witness:
  "case erc20_handle demo_canon (demo_env ''ann'') (Transfer ''bob'' (Uint128 3)) demo_state of
     (r, s') \<Rightarrow> is_ok r \<and> balance s' (ascii ''ann'') = 2"
proof -
  obtain r s' where run:
    "erc20_handle demo_canon (demo_env ''ann'') (Transfer ''bob'' (Uint128 3)) demo_state = (r, s')"
    by fastforce
  have "erc20_inv demo_state"
    using demo_init_ok demo_distinct by (rule erc20_init_inv)
  note erc20_refines_ledger [OF demo_canon_ok this run]
  then have "is_ok r \<and> balance s' (ascii ''ann'') = 2"
    using demo_balance by (auto simp: erc20_abs_def demo_env_def demo_canon_def move_def ascii_def)
  then show ?thesis
    by (simp only: run prod.case)
qed

theorem erc20_supply_is_sum_witness:
  "ledger_total (balance demo_state) = unat (stored demo_state supply_key)"
  using erc20_supply_is_sum [OF reach_init [OF demo_init_ok demo_distinct] demo_canon_ok] .

text \<open>
  Listing an address twice at initialisation overwrites its balance but adds
  both amounts to the supply.
\<close>

lemma init_duplicate_rows:
  fixes s
  defines "s \<equiv> snd (erc20_init demo_canon (\<lambda>c. Ok [])
     (demo_init\<lparr>im_initial_balances := [\<lparr>ib_address = ''ann'', ib_amount = Uint128 5\<rparr>,
                                         \<lparr>ib_address = ''ann'', ib_amount = Uint128 7\<rparr>]\<rparr>) ms_new)"
  shows "balance s (ascii ''ann'') = 7 \<and> unat (stored s supply_key) = 12"
  by (simp add: s_def balance_def erc20_init_def demo_init_def in_prefix_ok demo_canon_def
      and_then_lift checked_add_def is_valid_name_def is_valid_symbol_def ascii_def prefix_op_defs
      bal_key_def cfg_key_def PREFIX_BALANCES_def PREFIX_CONFIG_def to_be_numeral stored_def
      KEY_TOTAL_SUPPLY_def KEY_CONSTANTS_def)

end
