(* ===== verification/Sample_Serde.thy ===== *)
theory Sample_Serde
  imports Contract_Base
begin

text \<open>
  A concrete serializer for contract values: a record is the list of its parts
  as byte strings, packed with one marker per byte. It shows that what the
  properties ask of the JSON serializer can be had.
\<close>

primrec pack_one :: "bytes \<Rightarrow> bytes" where
  "pack_one [] = [0]"
| "pack_one (b # bs) = 1 # b # pack_one bs"

definition pack :: "bytes list \<Rightarrow> bytes" where
  "pack parts = concat (map pack_one parts)"

fun unpack :: "bytes \<Rightarrow> bytes \<Rightarrow> bytes list" where
  "unpack acc [] = []"
| "unpack acc (t # bs) =
     (if t = 0 then rev acc # unpack [] bs
      else case bs of [] \<Rightarrow> [] | b # rest \<Rightarrow> unpack (b # acc) rest)"

lemma unpack_one: "unpack acc (pack_one f @ rest) = (rev acc @ f) # unpack [] rest"
  by (induction f arbitrary: acc) simp_all

lemma unpack_pack [simp]: "unpack [] (pack parts) = parts"
  by (induction parts) (simp_all add: pack_def unpack_one)

definition record_serde :: "('t \<Rightarrow> bytes list) \<Rightarrow> (bytes list \<Rightarrow> 't) \<Rightarrow> 't serde" where
  "record_serde parts build = \<lparr>sd_ser = (\<lambda>t. Ok (pack (parts t))), sd_de = (\<lambda>bs. Ok (build (unpack [] bs)))\<rparr>"

lemma record_serde_ok: "(\<And>t. build (parts t) = t) \<Longrightarrow> serde_ok (sd_ser (record_serde parts build)) (sd_de (record_serde parts build))"
  by (simp add: serde_ok_def record_serde_def)

lemma record_ser [simp]: "sd_ser (record_serde parts build) t = Ok (pack (parts t))"
  by (simp add: record_serde_def)

lemma cell_record_serde [simp]:
  "(\<And>t. build (parts t) = t) \<Longrightarrow> cell (record_serde parts build) k (ms_set s k (pack (parts t))) = Ok (Some t)"
  by (simp add: cell_set_same record_serde_ok)

definition u128_serde :: "Uint128 serde" where
  "u128_serde = record_serde (\<lambda>u. [be128 (u128 u)]) (\<lambda>fs. Uint128 (of_be128 (fs ! 0)))"

lemma u128_serde_ok [simp]: "serde_ok (sd_ser u128_serde) (sd_de u128_serde)"
  unfolding u128_serde_def by (rule record_serde_ok) simp

lemma ser_u128_serde [simp]: "sd_ser u128_serde u = Ok (pack [be128 (u128 u)])"
  by (simp add: u128_serde_def)

lemma cell_u128_serde [simp]: "cell u128_serde k (ms_set s k (pack [be128 v])) = Ok (Some (Uint128 v))"
  using cell_set_same [OF u128_serde_ok, of "Uint128 v"] by simp

end
