(* ===== verification/Querier.thy ===== *)
theory Querier
  imports Std_Math
begin

text \<open>
  How contract code queries the chain (\<open>packages/std/src/query.rs\<close>, the trait
  \<open>Querier\<close> of \<open>traits.rs\<close>, the displayed text of errors). The trait's
  \<open>raw_query\<close> and the JSON format of requests and answers are arguments.
\<close>

section \<open>Errors as text\<close>

fun std_error_display :: "StdError \<Rightarrow> string" where
  "std_error_display (GenericErr msg) = ''Generic error: '' @ msg"
| "std_error_display (InvalidBase64 msg) = ''Invalid Base64 string: '' @ msg"
| "std_error_display (InvalidUtf8 msg) = ''Cannot decode UTF8 bytes into string: '' @ msg"
| "std_error_display (NotFound kind) = kind @ '' not found''"
| "std_error_display (ParseErr target msg) = ''Error parsing into type '' @ target @ '': '' @ msg"
| "std_error_display (SerializeErr source msg) = ''Error serializing type '' @ source @ '': '' @ msg"
| "std_error_display Unauthorized = ''Unauthorized''"
| "std_error_display (Underflow minuend subtrahend) = ''Cannot subtract '' @ subtrahend @ '' from '' @ minuend"

datatype SystemError =
    InvalidRequest string Binary
  | InvalidResponse string Binary
  | NoSuchContract HumanAddr
  | Unknown
  | UnsupportedRequest string
  | ExceededRecursionLimit

text \<open>
  \<open>String::from_utf8_lossy\<close>: how many bytes after a first byte continue its
  character, and whether they complete it. Each ill-formed piece becomes one
  replacement character.
\<close>

definition in_range :: "u8 \<Rightarrow> u8 \<Rightarrow> bytes \<Rightarrow> nat \<Rightarrow> bool" where
  "in_range lo hi bs i = (i < length bs \<and> lo \<le> bs ! i \<and> bs ! i \<le> hi)"

definition utf8_piece :: "u8 \<Rightarrow> bytes \<Rightarrow> bool \<times> nat" where
  "utf8_piece b bs =
     (let (lo, hi) = (if b = 0xE0 then (0xA0, 0xBF) else if b = 0xED then (0x80, 0x9F)
                      else if b = 0xF0 then (0x90, 0xBF) else if b = 0xF4 then (0x80, 0x8F) else (0x80, 0xBF));
          width = (if b < 0x80 then 1 else if 0xC2 \<le> b \<and> b \<le> 0xDF then 2 else if 0xE0 \<le> b \<and> b \<le> 0xEF then 3
                   else if 0xF0 \<le> b \<and> b \<le> 0xF4 then 4 else 0 :: nat)
      in if width = 0 then (False, 0)
         else if width = 1 then (True, 0)
         else if \<not> in_range lo hi bs 0 then (False, 0)
         else if width = 2 then (True, 1)
         else if \<not> in_range 0x80 0xBF bs 1 then (False, 1)
         else if width = 3 then (True, 2)
         else if \<not> in_range 0x80 0xBF bs 2 then (False, 2)
         else (True, 3))"

function from_utf8_lossy :: "bytes \<Rightarrow> bytes" where
  "from_utf8_lossy [] = []"
| "from_utf8_lossy (b # bs) =
     (case utf8_piece b bs of (ok, n) \<Rightarrow>
       (if ok then b # take n bs else [0xEF, 0xBF, 0xBD]) @ from_utf8_lossy (drop n bs))"
  by pat_completeness auto

termination from_utf8_lossy
  by (relation "measure length") auto

fun system_error_display :: "SystemError \<Rightarrow> string" where
  "system_error_display (InvalidRequest err request) =
     ''Cannot parse request: '' @ err @ '' in: '' @ chars (from_utf8_lossy request)"
| "system_error_display (InvalidResponse err response) =
     ''Cannot parse response: '' @ err @ '' in: '' @ chars (from_utf8_lossy response)"
| "system_error_display (NoSuchContract addr) = ''No such contract: '' @ addr"
| "system_error_display Unknown = ''Unknown system error''"
| "system_error_display (UnsupportedRequest kind) = ''Unsupported query type: '' @ kind"
| "system_error_display ExceededRecursionLimit = ''Query recursion limit exceeded''"

section \<open>Requests and answers\<close>

datatype BankQuery = Balance HumanAddr string | AllBalances HumanAddr

datatype GovQuery = Proposals

datatype DistQuery = Rewards HumanAddr

datatype MintQuery = Inflation | BondedRatio

datatype WasmQuery =
    Smart HumanAddr string Binary
  | Raw HumanAddr Binary string

datatype StakingQuery =
    BondedDenom
  | AllDelegations HumanAddr
  | DelegationOf HumanAddr HumanAddr
  | Validators
  | UnbondingDelegations HumanAddr

datatype 'c QueryRequest =
    BankRequest BankQuery
  | CustomRequest 'c
  | StakingRequest StakingQuery
  | WasmRequest WasmQuery
  | DistRequest DistQuery
  | MintRequest MintQuery
  | GovRequest GovQuery

record Delegation =
  delegator :: HumanAddr
  del_validator :: HumanAddr
  del_amount :: Coin

record FullDelegation = Delegation +
  can_redelegate :: Coin
  accumulated_rewards :: Coin

definition delegation_from :: "FullDelegation \<Rightarrow> Delegation" where
  "delegation_from full = \<lparr>delegator = delegator full, del_validator = del_validator full, del_amount = del_amount full\<rparr>"

record Validator =
  val_address :: HumanAddr
  commission :: Decimal
  max_commission :: Decimal
  max_change_rate :: Decimal

text \<open>
  The answers of the chain. The response structs have one field each; the
  answer stands for that field.
\<close>

record 'c answer_format =
  request_to_vec :: "'c QueryRequest \<Rightarrow> bytes std_result"
  parse_balance :: "Binary \<Rightarrow> Coin std_result"
  parse_all_balances :: "Binary \<Rightarrow> Coin list std_result"
  parse_validators :: "Binary \<Rightarrow> Validator list std_result"
  parse_bonded_denom :: "Binary \<Rightarrow> string std_result"
  parse_all_delegations :: "Binary \<Rightarrow> Delegation list std_result"
  parse_delegation :: "Binary \<Rightarrow> FullDelegation option std_result"

type_synonym QuerierResult = "(SystemError, Binary std_result) res"

section \<open>The trait Querier\<close>

definition custom_query ::
  "('r \<Rightarrow> bytes std_result) \<Rightarrow> (bytes \<Rightarrow> QuerierResult) \<Rightarrow> (Binary \<Rightarrow> 'u std_result) \<Rightarrow> 'r \<Rightarrow> 'u std_result" where
  "custom_query to_vec raw_query from_binary request =
     (case to_vec request of
        Err e \<Rightarrow> Err (GenericErr (''Serializing QueryRequest: '' @ std_error_display e))
      | Panicked \<Rightarrow> Panicked
      | Ok raw \<Rightarrow>
          (case raw_query raw of
             Err sys \<Rightarrow> Err (GenericErr (''Querier system error: '' @ system_error_display sys))
           | Ok (Err err) \<Rightarrow> Err err
           | Ok (Ok res) \<Rightarrow> from_binary res
           | _ \<Rightarrow> Panicked))"

definition query_balance ::
  "'c answer_format \<Rightarrow> (bytes \<Rightarrow> QuerierResult) \<Rightarrow> HumanAddr \<Rightarrow> string \<Rightarrow> Coin std_result" where
  "query_balance af raw_query addr den =
     custom_query (request_to_vec af) raw_query (parse_balance af) (BankRequest (Balance addr den))"

definition query_all_balances ::
  "'c answer_format \<Rightarrow> (bytes \<Rightarrow> QuerierResult) \<Rightarrow> HumanAddr \<Rightarrow> Coin list std_result" where
  "query_all_balances af raw_query addr =
     custom_query (request_to_vec af) raw_query (parse_all_balances af) (BankRequest (AllBalances addr))"

definition query_validators :: "'c answer_format \<Rightarrow> (bytes \<Rightarrow> QuerierResult) \<Rightarrow> Validator list std_result" where
  "query_validators af raw_query =
     custom_query (request_to_vec af) raw_query (parse_validators af) (StakingRequest Validators)"

definition query_bonded_denom :: "'c answer_format \<Rightarrow> (bytes \<Rightarrow> QuerierResult) \<Rightarrow> string std_result" where
  "query_bonded_denom af raw_query =
     custom_query (request_to_vec af) raw_query (parse_bonded_denom af) (StakingRequest BondedDenom)"

definition query_all_delegations ::
  "'c answer_format \<Rightarrow> (bytes \<Rightarrow> QuerierResult) \<Rightarrow> HumanAddr \<Rightarrow> Delegation list std_result" where
  "query_all_delegations af raw_query who =
     custom_query (request_to_vec af) raw_query (parse_all_delegations af) (StakingRequest (AllDelegations who))"

definition query_delegation ::
  "'c answer_format \<Rightarrow> (bytes \<Rightarrow> QuerierResult) \<Rightarrow> HumanAddr \<Rightarrow> HumanAddr \<Rightarrow> FullDelegation option std_result" where
  "query_delegation af raw_query who validator =
     custom_query (request_to_vec af) raw_query (parse_delegation af) (StakingRequest (DelegationOf who validator))"

end
