(* ===== verification/Staking.thy ===== *)
theory Staking
  imports Sample_Serde Querier
begin

text \<open>
  The staking derivative contract (\<open>contracts/staking/src/contract.rs\<close>,
  \<open>state.rs\<close>, \<open>msg.rs\<close>). Users bond native tokens and get derivative tokens;
  unbonding burns them for a claim on native tokens. The chain (addresses,
  queries) and the JSON serializers are one record of arguments.
\<close>

section \<open>State\<close>

record InvestmentInfo =
  owner :: CanonicalAddr
  bond_denom :: string
  exit_tax :: Decimal
  validator :: HumanAddr
  min_withdrawal :: Uint128

record Supply =
  issued :: Uint128
  bonded :: Uint128
  claims :: Uint128

definition supply_default :: Supply where
  "supply_default = \<lparr>issued = Uint128 0, bonded = Uint128 0, claims = Uint128 0\<rparr>"

record TokenInfoResponse =
  ti_name :: string
  ti_symbol :: string
  ti_decimals :: u8

definition KEY_INVESTMENT :: bytes where
  "KEY_INVESTMENT = ascii ''invest''"

definition KEY_TOKEN_INFO :: bytes where
  "KEY_TOKEN_INFO = ascii ''token''"

definition KEY_STAKING_SUPPLY :: bytes where
  "KEY_STAKING_SUPPLY = ascii ''total_supply''"

definition PREFIX_BALANCE :: bytes where
  "PREFIX_BALANCE = ascii ''balance''"

definition PREFIX_CLAIMS :: bytes where
  "PREFIX_CLAIMS = ascii ''claim''"

section \<open>Messages\<close>

record StakingInitMsg =
  sim_name :: string
  sim_symbol :: string
  sim_decimals :: u8
  sim_validator :: HumanAddr
  sim_exit_tax :: Decimal
  sim_min_withdrawal :: Uint128

datatype StakingHandleMsg =
    Transfer HumanAddr Uint128
  | Bond
  | Unbond Uint128
  | Claim
  | Reinvest
  | BondAllTokens

datatype StakingQueryMsg =
    BalanceOf HumanAddr
  | Claims HumanAddr
  | TokenInfo
  | Investment

record InvestmentResponse =
  token_supply :: Uint128
  staked_tokens :: Coin
  nominal_value :: Decimal
  ir_owner :: HumanAddr
  ir_exit_tax :: Decimal
  ir_validator :: HumanAddr
  ir_min_withdrawal :: Uint128

section \<open>Dependencies\<close>

record staking_deps =
  canonical_address :: "HumanAddr \<Rightarrow> CanonicalAddr std_result"
  human_address :: "CanonicalAddr \<Rightarrow> HumanAddr std_result"
  format :: "unit answer_format"
  raw_query :: "bytes \<Rightarrow> QuerierResult"
  uint_serde :: "Uint128 serde"
  supply_serde :: "Supply serde"
  invest_serde :: "InvestmentInfo serde"
  token_serde :: "TokenInfoResponse serde"
  msg_to_binary :: "StakingHandleMsg \<Rightarrow> Binary std_result"
  balance_to_binary :: "Uint128 \<Rightarrow> Binary std_result"
  claims_to_binary :: "Uint128 \<Rightarrow> Binary std_result"
  token_to_binary :: "TokenInfoResponse \<Rightarrow> Binary std_result"
  investment_to_binary :: "InvestmentResponse \<Rightarrow> Binary std_result"

definition update_amount ::
  "staking_deps \<Rightarrow> bytes \<Rightarrow> CanonicalAddr \<Rightarrow> (Uint128 option \<Rightarrow> Uint128 std_result) \<Rightarrow> (MemoryStorage, Uint128) act" where
  "update_amount deps namespace addr f =
     with_bucket namespace (\<lambda>b. bk_update ms_get ms_set (sd_ser (uint_serde deps)) (sd_de (uint_serde deps)) b addr f)"

definition invest_info_load :: "staking_deps \<Rightarrow> (MemoryStorage, InvestmentInfo) act" where
  "invest_info_load deps =
     with_singleton KEY_INVESTMENT (\<lambda>sg. gets (sg_load ms_get ''staking::state::InvestmentInfo'' (sd_de (invest_serde deps)) sg))"

definition total_supply_load :: "staking_deps \<Rightarrow> (MemoryStorage, Supply) act" where
  "total_supply_load deps =
     with_singleton KEY_STAKING_SUPPLY (\<lambda>sg. gets (sg_load ms_get ''staking::state::Supply'' (sd_de (supply_serde deps)) sg))"

definition total_supply_save :: "staking_deps \<Rightarrow> Supply \<Rightarrow> (MemoryStorage, unit) act" where
  "total_supply_save deps supply =
     with_singleton KEY_STAKING_SUPPLY (\<lambda>sg. sg_save ms_set (sd_ser (supply_serde deps)) sg supply)"

section \<open>Operations\<close>

definition FALLBACK_RATIO :: Decimal where
  "FALLBACK_RATIO = decimal_one"

definition staking_init :: "staking_deps \<Rightarrow> Env \<Rightarrow> StakingInitMsg \<Rightarrow> (MemoryStorage, unit InitResponse) act" where
  "staking_init deps env msg =
     and_then (lift (query_validators (format deps) (raw_query deps))) (\<lambda>vals.
     if \<not> list_ex (\<lambda>v. val_address v = sim_validator msg) vals then
       fail (GenericErr (sim_validator msg @ '' is not in the current validator set''))
     else
     and_then (with_singleton KEY_TOKEN_INFO (\<lambda>sg. sg_save ms_set (sd_ser (token_serde deps)) sg
       \<lparr>ti_name = sim_name msg, ti_symbol = sim_symbol msg, ti_decimals = sim_decimals msg\<rparr>)) (\<lambda>_.
     and_then (lift (query_bonded_denom (format deps) (raw_query deps))) (\<lambda>den.
     and_then (lift (canonical_address deps (sender (message env)))) (\<lambda>own.
     and_then (with_singleton KEY_INVESTMENT (\<lambda>sg. sg_save ms_set (sd_ser (invest_serde deps)) sg
       \<lparr>owner = own, bond_denom = den, exit_tax = sim_exit_tax msg, validator = sim_validator msg,
        min_withdrawal = sim_min_withdrawal msg\<rparr>)) (\<lambda>_.
     and_then (total_supply_save deps supply_default) (\<lambda>_.
     ret init_default))))))"

definition transfer ::
  "staking_deps \<Rightarrow> Env \<Rightarrow> HumanAddr \<Rightarrow> Uint128 \<Rightarrow> (MemoryStorage, unit HandleResponse) act" where
  "transfer deps env recipient send =
     and_then (lift (canonical_address deps recipient)) (\<lambda>rcpt_raw.
     and_then (lift (canonical_address deps (sender (message env)))) (\<lambda>sender_raw.
     and_then (update_amount deps PREFIX_BALANCE sender_raw (\<lambda>balance. uint_sub (unwrap_or_default balance) send)) (\<lambda>_.
     and_then (update_amount deps PREFIX_BALANCE rcpt_raw (\<lambda>balance. uint_add (unwrap_or_default balance) send)) (\<lambda>_.
     ret \<lparr>messages = [],
          logs = [log ''action'' ''transfer'', log ''from'' (sender (message env)), log ''to'' recipient,
                  log ''amount'' (uint_to_string send)],
          rdata = None\<rparr>))))"

fun sum_bonds :: "string \<Rightarrow> Uint128 std_result \<Rightarrow> Delegation list \<Rightarrow> Uint128 std_result" where
  "sum_bonds den racc [] = racc"
| "sum_bonds den racc (d # ds) =
     sum_bonds den
       (res_bind racc (\<lambda>acc.
          if denom (del_amount d) \<noteq> den then
            Err (GenericErr (''different denoms in bonds: '' @ quoted den @ '' vs '' @ quoted (denom (del_amount d))))
          else uint_add acc (amount (del_amount d)))) ds"

definition get_bonded :: "staking_deps \<Rightarrow> HumanAddr \<Rightarrow> Uint128 std_result" where
  "get_bonded deps contract_addr =
     res_bind (query_all_delegations (format deps) (raw_query deps) contract_addr) (\<lambda>bonds.
     case bonds of
       [] \<Rightarrow> Ok (Uint128 0)
     | b # _ \<Rightarrow> sum_bonds (denom (del_amount b)) (Ok (Uint128 0)) bonds)"

definition assert_bonds :: "Supply \<Rightarrow> Uint128 \<Rightarrow> unit std_result" where
  "assert_bonds supply bnd =
     (if bonded supply \<noteq> bnd then
        Err (GenericErr (''Stored bonded '' @ uint_to_string (bonded supply) @ '', but query bonded: '' @ uint_to_string bnd))
      else Ok ())"

definition bond :: "staking_deps \<Rightarrow> Env \<Rightarrow> (MemoryStorage, unit HandleResponse) act" where
  "bond deps env =
     and_then (lift (canonical_address deps (sender (message env)))) (\<lambda>sender_raw.
     and_then (invest_info_load deps) (\<lambda>invest.
     and_then (lift (ok_or (GenericErr (''No '' @ bond_denom invest @ '' tokens sent''))
       (find (\<lambda>x. denom x = bond_denom invest) (sent_funds (message env))))) (\<lambda>payment.
     and_then (lift (get_bonded deps (address (contract env)))) (\<lambda>bnd.
     and_then (total_supply_load deps) (\<lambda>supply.
     and_then (lift (assert_bonds supply bnd)) (\<lambda>_.
     and_then (lift (if uint_is_zero (issued supply) \<or> uint_is_zero bnd then uint_mul_decimal (amount payment) FALLBACK_RATIO
                     else multiply_ratio (amount payment) (u128 (issued supply)) (u128 bnd))) (\<lambda>to_mint.
     and_then (lift (uint_add bnd (amount payment))) (\<lambda>new_bonded.
     and_then (lift (uint_add (issued supply) to_mint)) (\<lambda>new_issued.
     and_then (total_supply_save deps (supply\<lparr>bonded := new_bonded, issued := new_issued\<rparr>)) (\<lambda>_.
     and_then (update_amount deps PREFIX_BALANCE sender_raw (\<lambda>balance. uint_add (unwrap_or_default balance) to_mint)) (\<lambda>_.
     ret \<lparr>messages = [Staking (Delegate (validator invest) payment)],
          logs = [log ''action'' ''bond'', log ''from'' (sender (message env)),
                  log ''bonded'' (uint_to_string (amount payment)), log ''minted'' (uint_to_string to_mint)],
          rdata = None\<rparr>)))))))))))"

definition pay_tax :: "staking_deps \<Rightarrow> CanonicalAddr \<Rightarrow> Uint128 \<Rightarrow> (MemoryStorage, unit) act" where
  "pay_tax deps own tax =
     (if u128 tax > 0
      then and_then (update_amount deps PREFIX_BALANCE own (\<lambda>balance. uint_add (unwrap_or_default balance) tax)) (\<lambda>_. ret ())
      else ret ())"

definition unbond :: "staking_deps \<Rightarrow> Env \<Rightarrow> Uint128 \<Rightarrow> (MemoryStorage, unit HandleResponse) act" where
  "unbond deps env amt =
     and_then (lift (canonical_address deps (sender (message env)))) (\<lambda>sender_raw.
     and_then (invest_info_load deps) (\<lambda>invest.
     if u128 amt < u128 (min_withdrawal invest) then
       fail (GenericErr (''Must unbond at least '' @ uint_to_string (min_withdrawal invest) @ '' '' @ bond_denom invest))
     else
     and_then (lift (uint_mul_decimal amt (exit_tax invest))) (\<lambda>tax.
     and_then (update_amount deps PREFIX_BALANCE sender_raw (\<lambda>balance. uint_sub (unwrap_or_default balance) amt)) (\<lambda>_.
     and_then (pay_tax deps (owner invest) tax) (\<lambda>_.
     and_then (lift (get_bonded deps (address (contract env)))) (\<lambda>bnd.
     and_then (lift (uint_sub amt tax)) (\<lambda>remainder.
     and_then (total_supply_load deps) (\<lambda>supply.
     and_then (lift (assert_bonds supply bnd)) (\<lambda>_.
     and_then (lift (multiply_ratio remainder (u128 bnd) (u128 (issued supply)))) (\<lambda>unbnd.
     and_then (lift (uint_sub bnd unbnd)) (\<lambda>new_bonded.
     and_then (lift (uint_sub (issued supply) remainder)) (\<lambda>new_issued.
     and_then (lift (uint_add (claims supply) unbnd)) (\<lambda>new_claims.
     and_then (total_supply_save deps \<lparr>issued = new_issued, bonded = new_bonded, claims = new_claims\<rparr>) (\<lambda>_.
     and_then (update_amount deps PREFIX_CLAIMS sender_raw (\<lambda>claim. uint_add (unwrap_or_default claim) unbnd)) (\<lambda>_.
     ret \<lparr>messages = [Staking (Undelegate (validator invest) (coin (u128 unbnd) (bond_denom invest)))],
          logs = [log ''action'' ''unbond'', log ''to'' (sender (message env)),
                  log ''unbonded'' (uint_to_string unbnd), log ''burnt'' (uint_to_string amt)],
          rdata = None\<rparr>)))))))))))))))"

definition claim :: "staking_deps \<Rightarrow> Env \<Rightarrow> (MemoryStorage, unit HandleResponse) act" where
  "claim deps env =
     and_then (invest_info_load deps) (\<lambda>invest.
     and_then (lift (query_balance (format deps) (raw_query deps) (address (contract env)) (bond_denom invest))) (\<lambda>balance.
     if u128 (amount balance) < u128 (min_withdrawal invest) then
       fail (GenericErr ''Insufficient balance in contract to process claim'')
     else
     and_then (lift (canonical_address deps (sender (message env)))) (\<lambda>sender_raw.
     and_then (with_bucket PREFIX_CLAIMS (\<lambda>b.
       bk_update_with ms_get ms_set (sd_ser (uint_serde deps)) (sd_de (uint_serde deps)) b sender_raw (\<lambda>entry.
         res_bind (ok_or (GenericErr ''no claim for this address'') entry) (\<lambda>claim.
         let to_send = Uint128 (min (u128 (amount balance)) (u128 claim))
         in res_bind (uint_sub claim to_send) (\<lambda>rest. Ok (rest, to_send)))))) (\<lambda>(_, to_send).
     and_then (with_singleton KEY_STAKING_SUPPLY (\<lambda>sg.
       sg_update ms_get ms_set ''staking::state::Supply'' (sd_ser (supply_serde deps)) (sd_de (supply_serde deps)) sg (\<lambda>supply.
         res_bind (uint_sub (claims supply) to_send) (\<lambda>rest. Ok (supply\<lparr>claims := rest\<rparr>))))) (\<lambda>_.
     ret \<lparr>messages = [Bank (Send (address (contract env)) (sender (message env)) [balance\<lparr>amount := to_send\<rparr>])],
          logs = [log ''action'' ''claim'', log ''from'' (sender (message env)), log ''amount'' (uint_to_string to_send)],
          rdata = None\<rparr>)))))"

definition reinvest :: "staking_deps \<Rightarrow> Env \<Rightarrow> (MemoryStorage, unit HandleResponse) act" where
  "reinvest deps env =
     and_then (invest_info_load deps) (\<lambda>invest.
     and_then (lift (msg_to_binary deps BondAllTokens)) (\<lambda>msg.
     ret \<lparr>messages =
            [Staking (Withdraw (validator invest) (Some (address (contract env)))),
             Wasm (Execute (address (contract env)) (contract_code_hash env) msg [])],
          logs = [], rdata = None\<rparr>))"

definition reserve_surplus :: "staking_deps \<Rightarrow> InvestmentInfo \<Rightarrow> Coin \<Rightarrow> (MemoryStorage, Supply \<times> Uint128) act" where
  "reserve_surplus deps invest balance =
     with_singleton KEY_STAKING_SUPPLY (\<lambda>sg.
       sg_update_with ms_get ms_set ''staking::state::Supply'' (sd_ser (supply_serde deps)) (sd_de (supply_serde deps)) sg (\<lambda>supply.
         res_bind (uint_sub (amount balance) (claims supply)) (\<lambda>rest.
         res_bind (uint_sub rest (min_withdrawal invest)) (\<lambda>_.
         res_bind (uint_add (bonded supply) rest) (\<lambda>new_bonded.
         Ok (supply\<lparr>bonded := new_bonded\<rparr>, rest))))))"

definition bond_all_tokens :: "staking_deps \<Rightarrow> Env \<Rightarrow> (MemoryStorage, unit HandleResponse) act" where
  "bond_all_tokens deps env =
     (if sender (message env) \<noteq> address (contract env) then fail Unauthorized
      else
      and_then (invest_info_load deps) (\<lambda>invest.
      and_then (lift (query_balance (format deps) (raw_query deps) (address (contract env)) (bond_denom invest))) (\<lambda>balance s.
      case reserve_surplus deps invest balance s of
        (Ok (_, rest), s') \<Rightarrow>
          ret \<lparr>messages = [Staking (Delegate (validator invest) (balance\<lparr>amount := rest\<rparr>))],
               logs = [log ''action'' ''reinvest'', log ''bonded'' (uint_to_string rest)], rdata = None\<rparr> s'
      | (Err (Underflow _ _), s') \<Rightarrow> ret handle_default s'
      | (Err e, s') \<Rightarrow> fail e s'
      | (Panicked, s') \<Rightarrow> (Panicked, s'))))"

fun staking_handle :: "staking_deps \<Rightarrow> Env \<Rightarrow> StakingHandleMsg \<Rightarrow> (MemoryStorage, unit HandleResponse) act" where
  "staking_handle deps env (Transfer recipient amt) = transfer deps env recipient amt"
| "staking_handle deps env Bond = bond deps env"
| "staking_handle deps env (Unbond amt) = unbond deps env amt"
| "staking_handle deps env Claim = claim deps env"
| "staking_handle deps env Reinvest = reinvest deps env"
| "staking_handle deps env BondAllTokens = bond_all_tokens deps env"

section \<open>Queries\<close>

definition query_token_info :: "staking_deps \<Rightarrow> (MemoryStorage, TokenInfoResponse) act" where
  "query_token_info deps =
     with_singleton KEY_TOKEN_INFO (\<lambda>sg. gets (sg_load ms_get ''staking::msg::TokenInfoResponse'' (sd_de (token_serde deps)) sg))"

definition amount_of :: "staking_deps \<Rightarrow> bytes \<Rightarrow> HumanAddr \<Rightarrow> (MemoryStorage, Uint128) act" where
  "amount_of deps namespace addr =
     and_then (lift (canonical_address deps addr)) (\<lambda>address_raw.
     and_then (with_bucket namespace (\<lambda>b. gets (bk_may_load ms_get (sd_de (uint_serde deps)) b address_raw))) (\<lambda>v.
     ret (unwrap_or_default v)))"

definition staking_query_balance :: "staking_deps \<Rightarrow> HumanAddr \<Rightarrow> (MemoryStorage, Uint128) act" where
  "staking_query_balance deps addr = amount_of deps PREFIX_BALANCE addr"

definition query_claims :: "staking_deps \<Rightarrow> HumanAddr \<Rightarrow> (MemoryStorage, Uint128) act" where
  "query_claims deps addr = amount_of deps PREFIX_CLAIMS addr"

definition query_investment :: "staking_deps \<Rightarrow> (MemoryStorage, InvestmentResponse) act" where
  "query_investment deps =
     and_then (invest_info_load deps) (\<lambda>invest.
     and_then (total_supply_load deps) (\<lambda>supply.
     and_then (lift (human_address deps (owner invest))) (\<lambda>own.
     and_then (lift (if uint_is_zero (issued supply) then Ok FALLBACK_RATIO
                     else from_ratio (u128 (bonded supply)) (u128 (issued supply)))) (\<lambda>nominal.
     ret \<lparr>token_supply = issued supply, staked_tokens = coin (u128 (bonded supply)) (bond_denom invest),
          nominal_value = nominal, ir_owner = own, ir_exit_tax = exit_tax invest, ir_validator = validator invest,
          ir_min_withdrawal = min_withdrawal invest\<rparr>))))"

fun staking_query :: "staking_deps \<Rightarrow> StakingQueryMsg \<Rightarrow> (MemoryStorage, Binary) act" where
  "staking_query deps TokenInfo = and_then (query_token_info deps) (\<lambda>r. lift (token_to_binary deps r))"
| "staking_query deps Investment = and_then (query_investment deps) (\<lambda>r. lift (investment_to_binary deps r))"
| "staking_query deps (BalanceOf addr) = and_then (staking_query_balance deps addr) (\<lambda>r. lift (balance_to_binary deps r))"
| "staking_query deps (Claims addr) = and_then (query_claims deps addr) (\<lambda>r. lift (claims_to_binary deps r))"

section \<open>Cells\<close>

lemma staking_names [simp]:
  "length PREFIX_BALANCE = 7" "length PREFIX_CLAIMS = 5" "length KEY_INVESTMENT = 6" "length KEY_TOKEN_INFO = 5"
  "length KEY_STAKING_SUPPLY = 12"
  by (simp_all add: PREFIX_BALANCE_def PREFIX_CLAIMS_def KEY_INVESTMENT_def KEY_TOKEN_INFO_def KEY_STAKING_SUPPLY_def)

abbreviation supply_cell :: bytes where
  "supply_cell \<equiv> singleton_key KEY_STAKING_SUPPLY"

abbreviation invest_cell :: bytes where
  "invest_cell \<equiv> singleton_key KEY_INVESTMENT"

lemma staking_keys_distinct [simp]:
  "bucket_key PREFIX_BALANCE a \<noteq> bucket_key PREFIX_CLAIMS b" "bucket_key PREFIX_CLAIMS b \<noteq> bucket_key PREFIX_BALANCE a"
  "bucket_key PREFIX_BALANCE a \<noteq> supply_cell" "supply_cell \<noteq> bucket_key PREFIX_BALANCE a"
  "bucket_key PREFIX_CLAIMS a \<noteq> supply_cell" "supply_cell \<noteq> bucket_key PREFIX_CLAIMS a"
  "bucket_key PREFIX_BALANCE a \<noteq> invest_cell" "invest_cell \<noteq> bucket_key PREFIX_BALANCE a"
  "bucket_key PREFIX_CLAIMS a \<noteq> invest_cell" "invest_cell \<noteq> bucket_key PREFIX_CLAIMS a"
  "supply_cell \<noteq> invest_cell" "invest_cell \<noteq> supply_cell"
  "singleton_key KEY_TOKEN_INFO \<noteq> supply_cell" "singleton_key KEY_TOKEN_INFO \<noteq> invest_cell"
  "bucket_key PREFIX_BALANCE a \<noteq> singleton_key KEY_TOKEN_INFO" "bucket_key PREFIX_CLAIMS a \<noteq> singleton_key KEY_TOKEN_INFO"
  by (simp_all add: bucket_key_def singleton_key_def to_be_numeral)
    (simp_all add: PREFIX_CLAIMS_def KEY_TOKEN_INFO_def ascii_def)

definition serdes_ok :: "staking_deps \<Rightarrow> bool" where
  "serdes_ok deps =
     (serde_ok (sd_ser (uint_serde deps)) (sd_de (uint_serde deps)) \<and>
      serde_ok (sd_ser (supply_serde deps)) (sd_de (supply_serde deps)) \<and>
      serde_ok (sd_ser (invest_serde deps)) (sd_de (invest_serde deps)) \<and>
      serde_ok (sd_ser (token_serde deps)) (sd_de (token_serde deps)))"

text \<open>The amounts filed under a namespace, as a ledger.\<close>

definition ledger :: "staking_deps \<Rightarrow> bytes \<Rightarrow> MemoryStorage \<Rightarrow> CanonicalAddr \<Rightarrow> nat" where
  "ledger deps ns s a =
     (case cell (uint_serde deps) (bucket_key ns a) s of Ok v \<Rightarrow> nat_of (unwrap_or_default v) | _ \<Rightarrow> 0)"

named_theorems staking_simps \<open>steps of the staking contract that succeed\<close>

lemma update_amount_Ok [staking_simps]:
  assumes "length ns \<le> 0xFFFF"
  shows "update_amount deps ns a f s = (Ok v, s') \<longleftrightarrow>
    (\<exists>input bs. cell (uint_serde deps) (bucket_key ns a) s = Ok input \<and> f input = Ok v \<and>
      sd_ser (uint_serde deps) v = Ok bs \<and> s' = ms_set s (bucket_key ns a) bs)"
  using assms by (simp add: update_amount_def with_bucket_update_Ok)

lemma invest_info_load_Ok [staking_simps]:
  "invest_info_load deps s = (Ok v, s') \<longleftrightarrow> cell (invest_serde deps) invest_cell s = Ok (Some v) \<and> s' = s"
  by (simp add: invest_info_load_def with_singleton_load_Ok)

lemma total_supply_load_Ok [staking_simps]:
  "total_supply_load deps s = (Ok v, s') \<longleftrightarrow> cell (supply_serde deps) supply_cell s = Ok (Some v) \<and> s' = s"
  by (simp add: total_supply_load_def with_singleton_load_Ok)

lemma total_supply_save_Ok [staking_simps]:
  "total_supply_save deps v s = (Ok u, s') \<longleftrightarrow> (\<exists>bs. sd_ser (supply_serde deps) v = Ok bs \<and> s' = ms_set s supply_cell bs)"
  by (simp add: total_supply_save_def with_singleton_save_Ok)

lemma lift_Ok [staking_simps]: "lift r s = (Ok v, s') \<longleftrightarrow> r = Ok v \<and> s' = s"
  by auto

lemma ret_Ok [staking_simps]: "ret x s = (Ok v, s') \<longleftrightarrow> x = v \<and> s' = s"
  by auto

lemma assert_bonds_Ok [staking_simps]: "assert_bonds supply b = Ok u \<longleftrightarrow> bonded supply = b"
  by (simp add: assert_bonds_def)

lemma ledger_set [simp]:
  assumes "serdes_ok deps" and "sd_ser (uint_serde deps) v = Ok bs"
  shows "ledger deps ns (ms_set s (bucket_key ns a) bs) = (ledger deps ns s)(a := nat_of v)"
  using assms cell_set_same [of "uint_serde deps" v bs]
  by (auto simp: ledger_def serdes_ok_def unwrap_or_default_def)

lemma ledger_set_other [simp]:
  "(\<And>b. bucket_key ns b \<noteq> k) \<Longrightarrow> ledger deps ns (ms_set s k bs) = ledger deps ns s"
  by (auto simp: ledger_def)

lemma supply_set [simp]:
  "serdes_ok deps \<Longrightarrow> sd_ser (supply_serde deps) v = Ok bs \<Longrightarrow>
   cell (supply_serde deps) supply_cell (ms_set s supply_cell bs) = Ok (Some v)"
  by (simp add: serdes_ok_def cell_set_same)

lemma ledger_read: "cell (uint_serde deps) (bucket_key ns a) s = Ok input \<Longrightarrow> ledger deps ns s a = nat_of (unwrap_or_default input)"
  by (simp add: ledger_def)

section \<open>Specification\<close>

text \<open>
  What the contract promises, on plain numbers: the derivative tokens and the
  claims of every user, and their totals.
\<close>

record staked =
  a_issued :: nat
  a_bonded :: nat
  a_claims :: nat
  a_bal :: "CanonicalAddr \<Rightarrow> nat"
  a_clm :: "CanonicalAddr \<Rightarrow> nat"

datatype staking_event =
    Moved CanonicalAddr CanonicalAddr nat
  | Bonded CanonicalAddr nat
  | Unbonded CanonicalAddr CanonicalAddr nat nat
  | Claimed CanonicalAddr nat
  | Reinvested nat
  | Nothing

definition credit :: "CanonicalAddr \<Rightarrow> nat \<Rightarrow> (CanonicalAddr \<Rightarrow> nat) \<Rightarrow> CanonicalAddr \<Rightarrow> nat" where
  "credit a v f = f(a := f a + v)"

definition debit :: "CanonicalAddr \<Rightarrow> nat \<Rightarrow> (CanonicalAddr \<Rightarrow> nat) \<Rightarrow> CanonicalAddr \<Rightarrow> nat" where
  "debit a v f = f(a := f a - v)"

fun staking_spec :: "staking_event \<Rightarrow> staked \<Rightarrow> staked option" where
  "staking_spec (Moved a b v) A =
     (if v \<le> a_bal A a then Some (A\<lparr>a_bal := credit b v (debit a v (a_bal A))\<rparr>) else None)"
| "staking_spec (Bonded a p) A =
     (let mint = (if a_issued A = 0 \<or> a_bonded A = 0 then p else p * a_issued A div a_bonded A)
      in Some (A\<lparr>a_issued := a_issued A + mint, a_bonded := a_bonded A + p, a_bal := credit a mint (a_bal A)\<rparr>))"
| "staking_spec (Unbonded a own v tax) A =
     (let burnt = v - tax; paid = burnt * a_bonded A div a_issued A
      in if v \<le> a_bal A a \<and> tax \<le> v \<and> 0 < a_issued A \<and> burnt \<le> a_issued A
         then Some (A\<lparr>a_issued := a_issued A - burnt, a_bonded := a_bonded A - paid, a_claims := a_claims A + paid,
                      a_bal := credit own tax (debit a v (a_bal A)), a_clm := credit a paid (a_clm A)\<rparr>)
         else None)"
| "staking_spec (Claimed a v) A =
     (if v \<le> a_clm A a \<and> v \<le> a_claims A
      then Some (A\<lparr>a_claims := a_claims A - v, a_clm := debit a v (a_clm A)\<rparr>) else None)"
| "staking_spec (Reinvested v) A = Some (A\<lparr>a_bonded := a_bonded A + v\<rparr>)"
| "staking_spec Nothing A = Some A"

definition staked_with :: "staking_deps \<Rightarrow> MemoryStorage \<Rightarrow> Supply \<Rightarrow> staked" where
  "staked_with deps s supply =
     \<lparr>a_issued = nat_of (issued supply), a_bonded = nat_of (bonded supply), a_claims = nat_of (claims supply),
      a_bal = ledger deps PREFIX_BALANCE s, a_clm = ledger deps PREFIX_CLAIMS s\<rparr>"

definition staked_of :: "staking_deps \<Rightarrow> MemoryStorage \<Rightarrow> staked option" where
  "staked_of deps s =
     (case cell (supply_serde deps) supply_cell s of
        Ok (Some supply) \<Rightarrow> Some (staked_with deps s supply)
      | _ \<Rightarrow> None)"

text \<open>The event a message stands for, read off its sender, its funds and the chain.\<close>

inductive staking_event_of ::
  "staking_deps \<Rightarrow> Env \<Rightarrow> MemoryStorage \<Rightarrow> staked \<Rightarrow> StakingHandleMsg \<Rightarrow> staking_event \<Rightarrow> bool"
  for deps env s A where
  transfer: "canonical_address deps (sender (message env)) = Ok a \<Longrightarrow> canonical_address deps recipient = Ok b \<Longrightarrow>
    staking_event_of deps env s A (Transfer recipient v) (Moved a b (nat_of v))"
| bond: "canonical_address deps (sender (message env)) = Ok a \<Longrightarrow> cell (invest_serde deps) invest_cell s = Ok (Some invest) \<Longrightarrow>
    find (\<lambda>x. denom x = bond_denom invest) (sent_funds (message env)) = Some payment \<Longrightarrow>
    get_bonded deps (address (contract env)) = Ok b \<Longrightarrow> nat_of b = a_bonded A \<Longrightarrow>
    staking_event_of deps env s A Bond (Bonded a (nat_of (amount payment)))"
| unbond: "canonical_address deps (sender (message env)) = Ok a \<Longrightarrow> cell (invest_serde deps) invest_cell s = Ok (Some invest) \<Longrightarrow>
    nat_of (min_withdrawal invest) \<le> nat_of v \<Longrightarrow> get_bonded deps (address (contract env)) = Ok b \<Longrightarrow> nat_of b = a_bonded A \<Longrightarrow>
    staking_event_of deps env s A (Unbond v) (Unbonded a (owner invest) (nat_of v) (nat_of v * unat (atomics (exit_tax invest)) div 10 ^ 18))"
| claim: "canonical_address deps (sender (message env)) = Ok a \<Longrightarrow> cell (invest_serde deps) invest_cell s = Ok (Some invest) \<Longrightarrow>
    query_balance (format deps) (raw_query deps) (address (contract env)) (bond_denom invest) = Ok balance \<Longrightarrow>
    nat_of (min_withdrawal invest) \<le> nat_of (amount balance) \<Longrightarrow>
    staking_event_of deps env s A Claim (Claimed a (min (nat_of (amount balance)) (a_clm A a)))"
| reinvest: "staking_event_of deps env s A Reinvest Nothing"
| bond_all: "sender (message env) = address (contract env) \<Longrightarrow> cell (invest_serde deps) invest_cell s = Ok (Some invest) \<Longrightarrow>
    query_balance (format deps) (raw_query deps) (address (contract env)) (bond_denom invest) = Ok balance \<Longrightarrow>
    ev = (if a_claims A + nat_of (min_withdrawal invest) \<le> nat_of (amount balance)
          then Reinvested (nat_of (amount balance) - a_claims A) else Nothing) \<Longrightarrow>
    staking_event_of deps env s A BondAllTokens ev"

section \<open>Refinement\<close>

lemma staked_ofE:
  assumes "staked_of deps s = Some A"
  obtains sp where "cell (supply_serde deps) supply_cell s = Ok (Some sp)" and "A = staked_with deps s sp"
  using assms by (auto simp: staked_of_def split: res.splits option.splits)

definition step_refined :: "staking_deps \<Rightarrow> Env \<Rightarrow> StakingHandleMsg \<Rightarrow> staked \<Rightarrow> MemoryStorage \<Rightarrow> MemoryStorage \<Rightarrow> bool" where
  "step_refined deps env msg A s s' =
     (\<exists>ev A'. staking_event_of deps env s A msg ev \<and> staking_spec ev A = Some A' \<and> staked_of deps s' = Some A')"

lemma step_refinedI:
  assumes "staking_event_of deps env s A msg ev" and "staking_spec ev A = staked_of deps s'" and "staked_of deps s' \<noteq> None"
  shows "step_refined deps env msg A s s'"
  using assms unfolding step_refined_def by auto

lemmas ledger_simps = staked_of_def staked_with_def credit_def debit_def

lemma transfer_refined:
  assumes ok: "serdes_ok deps" and A: "staked_of deps s = Some A" and run: "transfer deps env recipient v s = (Ok r, s')"
  shows "step_refined deps env (Transfer recipient v) A s s'"
proof -
  obtain sp where sp: "cell (supply_serde deps) supply_cell s = Ok (Some sp)" and A': "A = staked_with deps s sp"
    using A by (rule staked_ofE)
  obtain a b i1 i2 w1 w2 bs1 bs2 where
    addrs: "canonical_address deps (sender (message env)) = Ok a" "canonical_address deps recipient = Ok b" and
    c1: "cell (uint_serde deps) (bucket_key PREFIX_BALANCE a) s = Ok i1" "nat_of (unwrap_or_default i1) = nat_of v + nat_of w1"
      "sd_ser (uint_serde deps) w1 = Ok bs1" and
    c2: "cell (uint_serde deps) (bucket_key PREFIX_BALANCE b) (ms_set s (bucket_key PREFIX_BALANCE a) bs1) = Ok i2"
      "nat_of w2 = nat_of (unwrap_or_default i2) + nat_of v" "sd_ser (uint_serde deps) w2 = Ok bs2" and
    s': "s' = ms_set (ms_set s (bucket_key PREFIX_BALANCE a) bs1) (bucket_key PREFIX_BALANCE b) bs2"
    using run by (auto simp: transfer_def and_then_Ok staking_simps amount_simps)
  note l1 = ledger_read [OF c1(1)] and l2 = ledger_read [OF c2(1)]
  show ?thesis
    by (rule step_refinedI [OF staking_event_of.transfer [OF addrs]])
      (use ok sp c1 c2 l1 l2 in \<open>auto simp: ledger_simps A' s'\<close>)
qed

lemma bond_refined:
  assumes ok: "serdes_ok deps" and A: "staked_of deps s = Some A" and run: "bond deps env s = (Ok r, s')"
  shows "step_refined deps env Bond A s s'"
proof -
  obtain sp where sp: "cell (supply_serde deps) supply_cell s = Ok (Some sp)" and A': "A = staked_with deps s sp"
    using A by (rule staked_ofE)
  obtain a invest payment mint nb ni bs1 i w bs2 where
    ev: "canonical_address deps (sender (message env)) = Ok a" "cell (invest_serde deps) invest_cell s = Ok (Some invest)"
      "find (\<lambda>x. denom x = bond_denom invest) (sent_funds (message env)) = Some payment"
      "get_bonded deps (address (contract env)) = Ok (bonded sp)" and
    mint: "(if uint_is_zero (issued sp) \<or> uint_is_zero (bonded sp) then uint_mul_decimal (amount payment) FALLBACK_RATIO
            else multiply_ratio (amount payment) (u128 (issued sp)) (u128 (bonded sp))) = Ok mint" and
    n: "nat_of nb = nat_of (bonded sp) + nat_of (amount payment)" "nat_of ni = nat_of (issued sp) + nat_of mint"
      "sd_ser (supply_serde deps) (sp\<lparr>bonded := nb, issued := ni\<rparr>) = Ok bs1" and
    c: "cell (uint_serde deps) (bucket_key PREFIX_BALANCE a) (ms_set s supply_cell bs1) = Ok i"
      "nat_of w = nat_of (unwrap_or_default i) + nat_of mint" "sd_ser (uint_serde deps) w = Ok bs2" and
    s': "s' = ms_set (ms_set s supply_cell bs1) (bucket_key PREFIX_BALANCE a) bs2"
    using run sp unfolding bond_def by (auto simp: and_then_Ok staking_simps uint_add_Ok res_simps)
  have m: "nat_of mint = (if nat_of (issued sp) = 0 \<or> nat_of (bonded sp) = 0 then nat_of (amount payment)
      else nat_of (amount payment) * nat_of (issued sp) div nat_of (bonded sp))"
    using mint by (auto simp: uint_is_zero_def FALLBACK_RATIO_def decimal_one_def unat_eq_0 split: if_splits
        dest!: multiply_ratio_Ok uint_mul_decimal_Ok)
  note l = ledger_read [OF c(1)]
  show ?thesis
    by (rule step_refinedI [OF staking_event_of.bond [OF ev]])
      (use ok sp n c l m in \<open>simp_all add: ledger_simps A' s' Let_def\<close>)
qed

lemma tax_step:
  assumes "serdes_ok deps"
    and "pay_tax deps own tax s = (Ok u, s')"
  shows "ledger deps PREFIX_BALANCE s' = credit own (nat_of tax) (ledger deps PREFIX_BALANCE s)"
    and "ledger deps PREFIX_CLAIMS s' = ledger deps PREFIX_CLAIMS s"
    and "cell (supply_serde deps) supply_cell s' = cell (supply_serde deps) supply_cell s"
    and "cell (uint_serde deps) (bucket_key PREFIX_CLAIMS a) s' = cell (uint_serde deps) (bucket_key PREFIX_CLAIMS a) s"
  using assms
  by (auto simp: pay_tax_def and_then_Ok staking_simps uint_add_Ok credit_def word_less_nat_alt split: if_splits dest: ledger_read)

lemma unbond_refined:
  assumes ok: "serdes_ok deps" and A: "staked_of deps s = Some A" and run: "unbond deps env v s = (Ok r, s')"
  shows "step_refined deps env (Unbond v) A s s'"
proof -
  obtain sp where sp: "cell (supply_serde deps) supply_cell s = Ok (Some sp)" and A': "A = staked_with deps s sp"
    using A by (rule staked_ofE)
  obtain a invest tax i1 w1 bs1 s1 s2 b rest sp' out nb ni nc bs2 i2 w2 bs3 where
    ev: "canonical_address deps (sender (message env)) = Ok a" "cell (invest_serde deps) invest_cell s = Ok (Some invest)"
      "\<not> u128 v < u128 (min_withdrawal invest)" "get_bonded deps (address (contract env)) = Ok b" and
    tax: "uint_mul_decimal v (exit_tax invest) = Ok tax" and
    c1: "cell (uint_serde deps) (bucket_key PREFIX_BALANCE a) s = Ok i1" "nat_of (unwrap_or_default i1) = nat_of v + nat_of w1"
      "sd_ser (uint_serde deps) w1 = Ok bs1" "s1 = ms_set s (bucket_key PREFIX_BALANCE a) bs1" and
    own: "pay_tax deps (owner invest) tax s1 = (Ok (), s2)" and
    n: "nat_of v = nat_of tax + nat_of rest" "cell (supply_serde deps) supply_cell s2 = Ok (Some sp')" "bonded sp' = b"
      "multiply_ratio rest (u128 b) (u128 (issued sp')) = Ok out" "nat_of b = nat_of out + nat_of nb"
      "nat_of (issued sp') = nat_of rest + nat_of ni" "nat_of nc = nat_of (claims sp') + nat_of out"
      "sd_ser (supply_serde deps) \<lparr>issued = ni, bonded = nb, claims = nc\<rparr> = Ok bs2" and
    c2: "cell (uint_serde deps) (bucket_key PREFIX_CLAIMS a) (ms_set s2 supply_cell bs2) = Ok i2"
      "nat_of w2 = nat_of (unwrap_or_default i2) + nat_of out" "sd_ser (uint_serde deps) w2 = Ok bs3" and
    s': "s' = ms_set (ms_set s2 supply_cell bs2) (bucket_key PREFIX_CLAIMS a) bs3"
    using run unfolding unbond_def
    by (auto simp: and_then_Ok staking_simps uint_add_Ok uint_sub_Ok split: if_splits)
  note l1 = ledger_read [OF c1(1)] and l2 = ledger_read [OF c2(1)] and t = tax_step [OF ok own]
  have [simp]: "sp' = sp"
    using n(2) t(3) sp c1(4) by simp
  have m: "nat_of out = nat_of rest * nat_of (bonded sp) div nat_of (issued sp)" "0 < nat_of (issued sp)"
    "nat_of tax = nat_of v * unat (atomics (exit_tax invest)) div 10 ^ 18"
    using multiply_ratio_Ok [OF n(4)] uint_mul_decimal_Ok [OF tax] n(3) by simp_all
  show ?thesis
  proof (rule step_refinedI)
    show "staking_event_of deps env s A (Unbond v) (Unbonded a (owner invest) (nat_of v) (nat_of tax))"
      unfolding m(3)
      by (rule staking_event_of.unbond [OF ev(1,2) _ ev(4)])
        (use ev(3) n(3) in \<open>simp_all add: word_less_nat_alt A' staked_with_def\<close>)
  qed (use ok sp n c1 c2 l1 l2 m(1,2) t in \<open>simp_all add: ledger_simps A' s' Let_def\<close>)
qed

lemma claim_refined:
  assumes ok: "serdes_ok deps" and A: "staked_of deps s = Some A" and run: "claim deps env s = (Ok r, s')"
  shows "step_refined deps env Claim A s s'"
proof -
  obtain sp where sp: "cell (supply_serde deps) supply_cell s = Ok (Some sp)" and A': "A = staked_with deps s sp"
    using A by (rule staked_ofE)
  obtain invest balance a v w bs1 rest bs2 where
    ev: "canonical_address deps (sender (message env)) = Ok a" "cell (invest_serde deps) invest_cell s = Ok (Some invest)"
      "query_balance (format deps) (raw_query deps) (address (contract env)) (bond_denom invest) = Ok balance"
      "\<not> u128 (amount balance) < u128 (min_withdrawal invest)" and
    c: "cell (uint_serde deps) (bucket_key PREFIX_CLAIMS a) s = Ok (Some v)"
      "nat_of v = min (nat_of (amount balance)) (nat_of v) + nat_of w" "sd_ser (uint_serde deps) w = Ok bs1" and
    n: "nat_of (claims sp) = min (nat_of (amount balance)) (nat_of v) + nat_of rest"
      "sd_ser (supply_serde deps) (sp\<lparr>claims := rest\<rparr>) = Ok bs2" and
    s': "s' = ms_set (ms_set s (bucket_key PREFIX_CLAIMS a) bs1) supply_cell bs2"
    using run sp unfolding claim_def
    by (auto simp: and_then_Ok staking_simps uint_sub_Ok with_bucket_update_with_Ok with_singleton_update_Ok
        res_simps Let_def unat_min split: if_splits)
  note l = ledger_read [OF c(1)]
  have w: "nat_of w = nat_of v - min (nat_of (amount balance)) (nat_of v)"
    using c(2) by linarith
  have "staking_event_of deps env s A Claim (Claimed a (min (nat_of (amount balance)) (a_clm A a)))"
    by (rule staking_event_of.claim [OF ev(1-3)]) (use ev(4) in \<open>simp add: word_less_nat_alt\<close>)
  then show ?thesis
    by (rule step_refinedI) (use ok sp n c(3) w l in \<open>auto simp: ledger_simps A' s' unwrap_or_default_def\<close>)
qed

lemma reinvest_refined:
  assumes ok: "serdes_ok deps" and A: "staked_of deps s = Some A" and run: "reinvest deps env s = (Ok r, s')"
  shows "step_refined deps env Reinvest A s s'"
  by (rule step_refinedI [OF staking_event_of.reinvest])
    (use run A in \<open>auto simp: reinvest_def and_then_Ok staking_simps\<close>)

lemma uint_sub_Err: "uint_sub a b = Err e \<longleftrightarrow> nat_of a < nat_of b \<and> e = Underflow (uint_to_string a) (uint_to_string b)"
  by (auto simp: uint_sub_def uint_to_string_def word_less_nat_alt)

lemma reserve_surplus_cases:
  assumes ok: "serdes_ok deps" and sp: "cell (supply_serde deps) supply_cell s = Ok (Some sp)"
  shows "if nat_of (claims sp) + nat_of (min_withdrawal invest) \<le> nat_of (amount balance)
    then reserve_surplus deps invest balance s = (Panicked, s) \<or>
      (\<exists>rest b bs. nat_of rest = nat_of (amount balance) - nat_of (claims sp) \<and> nat_of b = nat_of (bonded sp) + nat_of rest \<and>
        sd_ser (supply_serde deps) (sp\<lparr>bonded := b\<rparr>) = Ok bs \<and>
        reserve_surplus deps invest balance s = (Ok (sp\<lparr>bonded := b\<rparr>, rest), ms_set s supply_cell bs))
    else (\<exists>m u. reserve_surplus deps invest balance s = (Err (Underflow m u), s))"
proof -
  have load: "sg_load ms_get ''staking::state::Supply'' (sd_de (supply_serde deps)) \<lparr>sg_key = supply_cell\<rparr> s = Ok sp"
    using sp by (simp add: sg_load_Ok)
  note defs = reserve_surplus_def with_singleton_ok sg_update_with_def and_then_lift load
  show ?thesis
  proof (cases "uint_sub (amount balance) (claims sp)")
    case (Ok rest)
    then have rest: "nat_of rest = nat_of (amount balance) - nat_of (claims sp)" "nat_of (claims sp) \<le> nat_of (amount balance)"
      by (simp_all add: uint_sub_Ok)
    show ?thesis
    proof (cases "uint_sub rest (min_withdrawal invest)")
      case (Ok q)
      then have le: "nat_of (claims sp) + nat_of (min_withdrawal invest) \<le> nat_of (amount balance)"
        using rest by (simp add: uint_sub_Ok)
      show ?thesis
      proof (cases "uint_add (bonded sp) rest")
        case b: (Ok b)
        obtain bs where "sd_ser (supply_serde deps) (sp\<lparr>bonded := b\<rparr>) = Ok bs"
          using ok unfolding serdes_ok_def by (blast elim: serde_okE)
        moreover from this have "reserve_surplus deps invest balance s = (Ok (sp\<lparr>bonded := b\<rparr>, rest), ms_set s supply_cell bs)"
          using Ok b \<open>uint_sub (amount balance) (claims sp) = Ok rest\<close> by (simp add: defs sg_save_def)
        moreover have "nat_of b = nat_of (bonded sp) + nat_of rest"
          using b by (simp add: uint_add_Ok)
        ultimately show ?thesis
          unfolding if_P [OF le] using rest(1) by blast
      qed (use le Ok \<open>uint_sub (amount balance) (claims sp) = Ok rest\<close> in \<open>auto simp: defs uint_add_def res_simps\<close>)
    next
      case (Err e)
      then have "nat_of rest < nat_of (min_withdrawal invest)" "\<exists>m u. e = Underflow m u"
        by (simp_all add: uint_sub_Err)
      then show ?thesis
        using Err rest \<open>uint_sub (amount balance) (claims sp) = Ok rest\<close> by (auto simp: defs)
    qed simp
  next
    case (Err e)
    then have "nat_of (amount balance) < nat_of (claims sp)" "\<exists>m u. e = Underflow m u"
      by (simp_all add: uint_sub_Err)
    then show ?thesis
      using Err by (auto simp: defs)
  qed simp
qed

lemma bond_all_refined:
  assumes ok: "serdes_ok deps" and A: "staked_of deps s = Some A" and run: "bond_all_tokens deps env s = (Ok r, s')"
  shows "step_refined deps env BondAllTokens A s s'"
proof -
  obtain sp where sp: "cell (supply_serde deps) supply_cell s = Ok (Some sp)" and A': "A = staked_with deps s sp"
    using A by (rule staked_ofE)
  obtain invest balance where
    ev: "sender (message env) = address (contract env)" "cell (invest_serde deps) invest_cell s = Ok (Some invest)"
      "query_balance (format deps) (raw_query deps) (address (contract env)) (bond_denom invest) = Ok balance"
    using run by (auto simp: bond_all_tokens_def and_then_Ok staking_simps split: if_splits)
  note upd = reserve_surplus_cases [OF ok sp, of invest balance]
  show ?thesis
  proof (cases "nat_of (claims sp) + nat_of (min_withdrawal invest) \<le> nat_of (amount balance)")
    case True
    with upd run ev obtain rest b bs where "nat_of rest = nat_of (amount balance) - nat_of (claims sp)"
      "nat_of b = nat_of (bonded sp) + nat_of rest" "sd_ser (supply_serde deps) (sp\<lparr>bonded := b\<rparr>) = Ok bs"
      "s' = ms_set s supply_cell bs"
      by (auto simp: bond_all_tokens_def and_then_Ok staking_simps)
    then show ?thesis
      by (intro step_refinedI [OF staking_event_of.bond_all [OF ev refl]])
        (use True ok sp in \<open>auto simp: A' ledger_simps\<close>)
  next
    case False
    with upd run ev have "s' = s"
      by (auto simp: bond_all_tokens_def and_then_Ok staking_simps)
    then show ?thesis
      by (intro step_refinedI [OF staking_event_of.bond_all [OF ev refl]])
        (use False A in \<open>auto simp: A' ledger_simps\<close>)
  qed
qed

lemma staking_step_refined:
  assumes "serdes_ok deps" and "staked_of deps s = Some A" and "staking_handle deps env msg s = (Ok r, s')"
  shows "step_refined deps env msg A s s'"
  using assms transfer_refined bond_refined unbond_refined claim_refined reinvest_refined bond_all_refined
  by (cases msg) simp_all

text \<open>
  C31: the contract refines its specification. Every successful message is the
  event it stands for (who moves, bonds, unbonds or claims how much, at the
  exchange rate of issued to bonded tokens, rounded down), and changes supply,
  balances and claims exactly as the specification of that event.
\<close>

theorem staking_refines:
  assumes "serdes_ok deps" and "staked_of deps s = Some A" and "staking_handle deps env msg s = (Ok r, s')"
  shows "\<exists>ev A'. staking_event_of deps env s A msg ev \<and> staking_spec ev A = Some A' \<and> staked_of deps s' = Some A'"
  using staking_step_refined [OF assms] by (simp add: step_refined_def)

section \<open>Reachable states\<close>

text \<open>
  The chain runs the messages one after the other and keeps the storage only of
  those that succeed. Addresses, delegations and balances may change between
  calls; the serializers are those of the contract's code.
\<close>

definition same_store :: "staking_deps \<Rightarrow> staking_deps \<Rightarrow> bool" where
  "same_store d d' =
     (uint_serde d' = uint_serde d \<and> supply_serde d' = supply_serde d \<and> invest_serde d' = invest_serde d \<and>
      token_serde d' = token_serde d)"

inductive staking_reach :: "staking_deps \<Rightarrow> MemoryStorage \<Rightarrow> bool" for d where
  start: "same_store d d' \<Longrightarrow> staking_init d' env msg ms_new = (Ok r, s) \<Longrightarrow> staking_reach d s"
| step: "staking_reach d s \<Longrightarrow> same_store d d' \<Longrightarrow> staking_handle d' env msg s = (Ok r, s') \<Longrightarrow> staking_reach d s'"

definition backed :: "staked \<Rightarrow> bool" where
  "backed A =
     (finite_support (a_bal A) \<and> finite_support (a_clm A) \<and>
      a_issued A = ledger_total (a_bal A) \<and> a_claims A = ledger_total (a_clm A))"

lemma same_store_simps:
  assumes "same_store d d'"
  shows "staked_of d' = staked_of d" and "serdes_ok d' = serdes_ok d"
proof -
  have "ledger d' = ledger d"
    using assms by (intro ext) (simp add: ledger_def same_store_def)
  then have "staked_with d' = staked_with d"
    by (intro ext) (simp add: staked_with_def)
  then show "staked_of d' = staked_of d"
    using assms by (intro ext) (simp add: staked_of_def same_store_def split: res.split option.split)
  show "serdes_ok d' = serdes_ok d"
    using assms by (simp add: same_store_def serdes_ok_def)
qed

lemma total_credit [simp]: "finite_support f \<Longrightarrow> ledger_total (credit a v f) = ledger_total f + v"
  using total_update [of f a "f a + v"] by (simp add: credit_def)

lemma total_debit [simp]: "finite_support f \<Longrightarrow> v \<le> f a \<Longrightarrow> ledger_total (debit a v f) = ledger_total f - v"
  using total_update [of f a "f a - v"] by (simp add: debit_def)

lemma support_credit [simp]: "finite_support f \<Longrightarrow> finite_support (credit a v f)"
  by (simp add: credit_def)

lemma support_debit [simp]: "finite_support f \<Longrightarrow> finite_support (debit a v f)"
  by (simp add: debit_def)

lemma staking_spec_backed:
  assumes "backed A" and "staking_spec ev A = Some A'"
  shows "backed A'"
proof -
  have "v \<le> a_bal A a \<Longrightarrow> v \<le> ledger_total (a_bal A)" for v a
    using assms(1) total_ge [of "a_bal A" a] by (simp add: backed_def)
  then show ?thesis
    using assms by (cases ev) (auto simp: backed_def Let_def split: if_splits)
qed

lemma init_staked:
  assumes "serdes_ok d" and "staking_init d env msg ms_new = (Ok r, s)"
  shows "staked_of d s = Some \<lparr>a_issued = 0, a_bonded = 0, a_claims = 0, a_bal = \<lambda>_. 0, a_clm = \<lambda>_. 0\<rparr>"
proof -
  have empty: "ledger d ns ms_new = (\<lambda>_. 0)" for ns
    by (intro ext) (simp add: ledger_def unwrap_or_default_def)
  show ?thesis
    using assms
    by (auto simp: staking_init_def and_then_Ok staking_simps with_singleton_save_Ok staked_of_def staked_with_def
        supply_default_def empty split: if_splits)
qed

text \<open>
  C32: the derivative tokens and the claims are always backed by the totals. In
  every reachable state the issued supply is the sum of all balances and the
  reserved claims are the sum of all claims.
\<close>

theorem staking_backed:
  assumes "serdes_ok d" and "staking_reach d s"
  shows "\<exists>A. staked_of d s = Some A \<and> a_issued A = ledger_total (ledger d PREFIX_BALANCE s) \<and>
    a_claims A = ledger_total (ledger d PREFIX_CLAIMS s)"
proof -
  from assms(2) have "\<exists>A. staked_of d s = Some A \<and> backed A"
  proof induction
    case (start d' env msg r s)
    then show ?case
      using init_staked [of d' env msg r s] assms(1) same_store_simps [OF start(1)]
      by (auto simp: backed_def finite_support_def)
  next
    case (step s d' env msg r s')
    note same = same_store_simps [OF step(2)]
    obtain A where "staked_of d' s = Some A" and "backed A"
      using step same by auto
    then show ?case
      using staking_step_refined [OF _ _ step(3)] assms(1) same by (auto simp: step_refined_def dest: staking_spec_backed)
  qed
  then show ?thesis
    by (auto simp: backed_def staked_of_def staked_with_def split: res.splits option.splits)
qed

lemma staking_spec_price:
  assumes "staking_spec ev A = Some A'" and "0 < a_issued A"
  shows "a_bonded A * a_issued A' \<le> a_bonded A' * a_issued A"
proof (cases ev)
  case (Bonded a p)
  have "a_bonded A * (p * a_issued A div a_bonded A) \<le> p * a_issued A"
    by (simp add: mult.commute)
  then show ?thesis
    using assms Bonded by (auto simp: Let_def algebra_simps)
next
  case (Unbonded a own v tax)
  let ?burnt = "v - tax" and ?i = "a_issued A" and ?b = "a_bonded A"
  have "?burnt * ?b div ?i * ?i \<le> ?burnt * ?b"
    by simp
  then have "?b * (?i - ?burnt) \<le> (?b - ?burnt * ?b div ?i) * ?i"
    by (simp add: diff_mult_distrib diff_mult_distrib2 mult.commute diff_le_mono2)
  then show ?thesis
    using assms Unbonded by (auto simp: Let_def split: if_splits)
qed (use assms in \<open>auto split: if_splits\<close>)

text \<open>
  C33: while any are issued, no message lowers the value of a derivative token: the
  number of bonded tokens behind each issued one never falls (cross-multiplied, so that the
  rounding of the exchange rate is included).
\<close>

theorem share_value_never_falls:
  assumes "serdes_ok deps" and "staked_of deps s = Some A" and "staking_handle deps env msg s = (Ok r, s')"
    and "0 < a_issued A"
  shows "\<exists>A'. staked_of deps s' = Some A' \<and> a_bonded A * a_issued A' \<le> a_bonded A' * a_issued A"
  using staking_step_refined [OF assms(1-3)] staking_spec_price [OF _ assms(4)] by (auto simp: step_refined_def)

text \<open>
  C34: claims are paid. In a backed state a user with a claim, asking a contract
  that holds at least the minimal withdrawal, is sent the smaller of the claim
  and the contract's balance: no check or subtraction on the way can fail.
\<close>

theorem claim_is_paid:
  assumes ok: "serdes_ok deps" and A: "staked_of deps s = Some A" and "backed A"
    and invest: "cell (invest_serde deps) invest_cell s = Ok (Some invest)"
    and balance: "query_balance (format deps) (raw_query deps) (address (contract env)) (bond_denom invest) = Ok balance"
    and min: "nat_of (min_withdrawal invest) \<le> nat_of (amount balance)"
    and a: "canonical_address deps (sender (message env)) = Ok a"
    and v: "cell (uint_serde deps) (bucket_key PREFIX_CLAIMS a) s = Ok (Some v)"
  shows "\<exists>r s' paid. staking_handle deps env Claim s = (Ok r, s') \<and>
    messages r = [Bank (Send (address (contract env)) (sender (message env)) [balance\<lparr>amount := paid\<rparr>])] \<and>
    nat_of paid = min (nat_of (amount balance)) (nat_of v) \<and> ledger deps PREFIX_CLAIMS s' a = nat_of v - nat_of paid"
proof -
  obtain sp where sp: "cell (supply_serde deps) supply_cell s = Ok (Some sp)" and A': "A = staked_with deps s sp"
    using A by (rule staked_ofE)
  let ?paid = "Uint128 (min (u128 (amount balance)) (u128 v))"
  have paid: "nat_of ?paid = min (nat_of (amount balance)) (nat_of v)"
    by (simp add: unat_min)
  have "nat_of v \<le> nat_of (claims sp)"
    using \<open>backed A\<close> total_ge [of "a_clm A" a] ledger_read [OF v]
    by (simp add: backed_def A' staked_with_def unwrap_or_default_def)
  then have le: "nat_of ?paid \<le> nat_of (claims sp)" "nat_of ?paid \<le> nat_of v"
    using paid by simp_all
  obtain w where w: "uint_sub v ?paid = Ok w"
    using le(2) uint_sub_Err [of v ?paid] by (cases "uint_sub v ?paid") auto
  obtain rest where rest: "uint_sub (claims sp) ?paid = Ok rest"
    using le(1) uint_sub_Err [of "claims sp" ?paid] by (cases "uint_sub (claims sp) ?paid") auto
  obtain bs1 bs2 where bs: "sd_ser (uint_serde deps) w = Ok bs1" "sd_ser (supply_serde deps) (sp\<lparr>claims := rest\<rparr>) = Ok bs2"
    using ok unfolding serdes_ok_def by (blast elim: serde_okE)
  have "\<exists>r. staking_handle deps env Claim s = (Ok r, ms_set (ms_set s (bucket_key PREFIX_CLAIMS a) bs1) supply_cell bs2) \<and>
    messages r = [Bank (Send (address (contract env)) (sender (message env)) [balance\<lparr>amount := ?paid\<rparr>])]"
    unfolding staking_handle.simps claim_def
    using invest balance min a v sp w rest bs
    by (auto simp: and_then_Ok staking_simps with_bucket_update_with_Ok with_singleton_update_Ok res_simps Let_def
        word_less_nat_alt)
  moreover have "ledger deps PREFIX_CLAIMS (ms_set (ms_set s (bucket_key PREFIX_CLAIMS a) bs1) supply_cell bs2) a = nat_of v - nat_of ?paid"
    using ok bs w by (simp add: uint_sub_Ok)
  ultimately show ?thesis
    using paid by blast
qed

section \<open>A concrete deployment\<close>

definition supply_sample :: "Supply serde" where
  "supply_sample = record_serde (\<lambda>t. [be128 (u128 (issued t)), be128 (u128 (bonded t)), be128 (u128 (claims t))])
     (\<lambda>fs. \<lparr>issued = Uint128 (of_be128 (fs ! 0)), bonded = Uint128 (of_be128 (fs ! 1)), claims = Uint128 (of_be128 (fs ! 2))\<rparr>)"

definition invest_sample :: "InvestmentInfo serde" where
  "invest_sample = record_serde
     (\<lambda>t. [owner t, ascii (bond_denom t), be128 (atomics (exit_tax t)), ascii (validator t), be128 (u128 (min_withdrawal t))])
     (\<lambda>fs. \<lparr>owner = fs ! 0, bond_denom = chars (fs ! 1), exit_tax = Decimal (of_be128 (fs ! 2)), validator = chars (fs ! 3),
            min_withdrawal = Uint128 (of_be128 (fs ! 4))\<rparr>)"

definition token_sample :: "TokenInfoResponse serde" where
  "token_sample = record_serde (\<lambda>t. [ascii (ti_name t), ascii (ti_symbol t), [ti_decimals t]])
     (\<lambda>fs. \<lparr>ti_name = chars (fs ! 0), ti_symbol = chars (fs ! 1), ti_decimals = hd (fs ! 2)\<rparr>)"

definition staking_sample :: staking_deps where
  "staking_sample =
     \<lparr>canonical_address = (\<lambda>h. Ok (ascii h)), human_address = (\<lambda>c. Ok (chars c)),
      format = \<lparr>request_to_vec = (\<lambda>_. Ok []), parse_balance = (\<lambda>_. Ok (coin 1000 ''uscrt'')), parse_all_balances = (\<lambda>_. Ok []),
        parse_validators = (\<lambda>_. Ok [\<lparr>val_address = ''val'', commission = decimal_zero, max_commission = decimal_zero,
          max_change_rate = decimal_zero\<rparr>]),
        parse_bonded_denom = (\<lambda>_. Ok ''uscrt''),
        parse_all_delegations = (\<lambda>_. Ok [\<lparr>delegator = ''c'', del_validator = ''val'', del_amount = coin 200 ''uscrt''\<rparr>]),
        parse_delegation = (\<lambda>_. Ok None)\<rparr>,
      raw_query = (\<lambda>_. Ok (Ok [])), uint_serde = u128_serde, supply_serde = supply_sample, invest_serde = invest_sample,
      token_serde = token_sample, msg_to_binary = (\<lambda>_. Ok []), balance_to_binary = (\<lambda>_. Ok []),
      claims_to_binary = (\<lambda>_. Ok []), token_to_binary = (\<lambda>_. Ok []), investment_to_binary = (\<lambda>_. Ok [])\<rparr>"

definition env_sample :: Env where
  "env_sample = \<lparr>block = \<lparr>height = 1, time = 1, chain_id = ''secret''\<rparr>,
     message = \<lparr>sender = ''alice'', sent_funds = [coin 10 ''uscrt'']\<rparr>, contract = \<lparr>address = ''c''\<rparr>,
     contract_key = None, contract_code_hash = ''''\<rparr>"

definition invest_info_sample :: InvestmentInfo where
  "invest_info_sample = \<lparr>owner = ascii ''bob'', bond_denom = ''uscrt'', exit_tax = decimal_zero, validator = ''val'',
     min_withdrawal = Uint128 5\<rparr>"

definition supply_info_sample :: Supply where
  "supply_info_sample = \<lparr>issued = Uint128 100, bonded = Uint128 200, claims = Uint128 50\<rparr>"

definition storage_sample :: MemoryStorage where
  "storage_sample =
     (let put = (\<lambda>k bs s. ms_set s k bs)
      in put (bucket_key PREFIX_CLAIMS (ascii ''alice'')) (pack [be128 50])
        (put (bucket_key PREFIX_BALANCE (ascii ''alice'')) (pack [be128 100])
        (put supply_cell (case sd_ser supply_sample supply_info_sample of Ok bs \<Rightarrow> bs | _ \<Rightarrow> [])
        (put invest_cell (case sd_ser invest_sample invest_info_sample of Ok bs \<Rightarrow> bs | _ \<Rightarrow> []) ms_new))))"

lemma staking_sample_ok: "serdes_ok staking_sample"
  by (simp add: serdes_ok_def staking_sample_def)
    (simp add: supply_sample_def invest_sample_def token_sample_def record_serde_ok)

lemma sample_cells:
  "cell (uint_serde staking_sample) (bucket_key PREFIX_CLAIMS (ascii ''alice'')) storage_sample = Ok (Some (Uint128 50))"
  "cell (uint_serde staking_sample) (bucket_key PREFIX_BALANCE (ascii ''alice'')) storage_sample = Ok (Some (Uint128 100))"
  "cell (supply_serde staking_sample) supply_cell storage_sample = Ok (Some supply_info_sample)"
  "cell (invest_serde staking_sample) invest_cell storage_sample = Ok (Some invest_info_sample)"
  by (simp_all add: storage_sample_def Let_def staking_sample_def)
    (simp_all add: supply_sample_def invest_sample_def cell_set_same record_serde_ok)

lemma sample_ledgers:
  "ledger staking_sample PREFIX_BALANCE storage_sample = (\<lambda>_. 0)(ascii ''alice'' := 100)"
  "ledger staking_sample PREFIX_CLAIMS storage_sample = (\<lambda>_. 0)(ascii ''alice'' := 50)"
  by (auto simp: ledger_def fun_eq_iff sample_cells unwrap_or_default_def)
    (simp_all add: storage_sample_def Let_def staking_sample_def unwrap_or_default_def)

definition staked_sample :: staked where
  "staked_sample = \<lparr>a_issued = 100, a_bonded = 200, a_claims = 50,
     a_bal = (\<lambda>_. 0)(ascii ''alice'' := 100), a_clm = (\<lambda>_. 0)(ascii ''alice'' := 50)\<rparr>"

lemma sample_staked: "staked_of staking_sample storage_sample = Some staked_sample"
  by (simp add: staked_of_def staked_with_def sample_cells sample_ledgers supply_info_sample_def staked_sample_def)

lemma sample_backed: "backed staked_sample"
  using total_update [of "\<lambda>_. 0" "ascii ''alice''" 100] total_update [of "\<lambda>_. 0" "ascii ''alice''" 50]
  by (simp add: backed_def staked_sample_def finite_support_def)

lemma sample_queries:
  "canonical_address staking_sample h = Ok (ascii h)"
  "query_balance (format staking_sample) (raw_query staking_sample) x y = Ok (coin 1000 ''uscrt'')"
  "get_bonded staking_sample x = Ok (Uint128 200)"
  "query_bonded_denom (format staking_sample) (raw_query staking_sample) = Ok ''uscrt''"
  "query_validators (format staking_sample) (raw_query staking_sample) =
     Ok [\<lparr>val_address = ''val'', commission = decimal_zero, max_commission = decimal_zero, max_change_rate = decimal_zero\<rparr>]"
  by (simp_all add: staking_sample_def query_balance_def query_bonded_denom_def query_validators_def get_bonded_def query_all_delegations_def custom_query_def coin_def
      uint_add_def checked_add_def)

lemma sample_bond: "\<exists>r s'. staking_handle staking_sample env_sample Bond storage_sample = (Ok r, s')"
proof -
  have "find (\<lambda>x. denom x = bond_denom invest_info_sample) (sent_funds (message env_sample)) = Some (coin 10 ''uscrt'')"
    by (simp add: invest_info_sample_def env_sample_def coin_def)
  moreover have "multiply_ratio (Uint128 10) 100 200 = Ok (Uint128 5)"
    by (simp add: multiply_ratio_def checked_mul_def)
  moreover have "uint_add (Uint128 200) (Uint128 10) = Ok (Uint128 210)" "uint_add (Uint128 100) (Uint128 5) = Ok (Uint128 105)"
    by (simp_all add: uint_add_def checked_add_def)
  ultimately show ?thesis
    unfolding staking_handle.simps bond_def
    by (simp add: and_then_Ok staking_simps sample_queries sample_cells supply_info_sample_def uint_is_zero_def coin_def
        env_sample_def unwrap_or_default_def)
      (use sample_cells(2) in \<open>simp add: staking_sample_def supply_sample_def\<close>)
qed

theorem staking_refines_witness:
  "\<exists>ev A'. staking_event_of staking_sample env_sample storage_sample staked_sample Bond ev \<and> staking_spec ev staked_sample = Some A' \<and>
     staked_of staking_sample (snd (staking_handle staking_sample env_sample Bond storage_sample)) = Some A'"
  using sample_bond staking_refines [OF staking_sample_ok sample_staked, of env_sample Bond] by fastforce

theorem share_value_never_falls_witness:
  "\<exists>A'. staked_of staking_sample (snd (staking_handle staking_sample env_sample Bond storage_sample)) = Some A' \<and>
     200 * a_issued A' \<le> a_bonded A' * 100"
  using sample_bond share_value_never_falls [OF staking_sample_ok sample_staked, of env_sample Bond]
  by (fastforce simp: staked_sample_def)

theorem claim_is_paid_witness:
  "\<exists>r s'. staking_handle staking_sample env_sample Claim storage_sample = (Ok r, s') \<and>
     messages r = [Bank (Send ''c'' ''alice'' [coin 50 ''uscrt''])] \<and> ledger staking_sample PREFIX_CLAIMS s' (ascii ''alice'') = 0"
proof -
  have "nat_of (min_withdrawal invest_info_sample) \<le> nat_of (amount (coin 1000 ''uscrt''))"
    by (simp add: invest_info_sample_def coin_def)
  then obtain r s' paid where run: "staking_handle staking_sample env_sample Claim storage_sample = (Ok r, s')"
    "messages r = [Bank (Send (address (contract env_sample)) (sender (message env_sample)) [(coin 1000 ''uscrt'')\<lparr>amount := paid\<rparr>])]"
    "nat_of paid = min 1000 50" "ledger staking_sample PREFIX_CLAIMS s' (ascii ''alice'') = 50 - nat_of paid"
    using claim_is_paid [OF staking_sample_ok sample_staked sample_backed sample_cells(4), of env_sample "coin 1000 ''uscrt''"
        "ascii ''alice''" "Uint128 50"]
    by (auto simp: sample_queries sample_cells env_sample_def coin_def)
  moreover have "paid = Uint128 50"
    using run(3) nat_of_inject [of paid "Uint128 50"] by simp
  ultimately show ?thesis
    by (simp add: env_sample_def coin_def)
qed

theorem staking_backed_witness:
  "\<exists>s A. staking_reach staking_sample s \<and> staked_of staking_sample s = Some A \<and>
     a_issued A = ledger_total (ledger staking_sample PREFIX_BALANCE s)"
proof -
  have "\<exists>r s. staking_init staking_sample env_sample \<lparr>sim_name = ''n'', sim_symbol = ''S'', sim_decimals = 6, sim_validator = ''val'',
     sim_exit_tax = decimal_zero, sim_min_withdrawal = Uint128 5\<rparr> ms_new = (Ok r, s)"
    by (simp add: staking_init_def and_then_Ok staking_simps with_singleton_save_Ok sample_queries)
      (simp add: staking_sample_def token_sample_def invest_sample_def supply_sample_def)
  then obtain r s where init: "staking_init staking_sample env_sample \<lparr>sim_name = ''n'', sim_symbol = ''S'', sim_decimals = 6,
     sim_validator = ''val'', sim_exit_tax = decimal_zero, sim_min_withdrawal = Uint128 5\<rparr> ms_new = (Ok r, s)"
    by (elim exE)
  have "staking_reach staking_sample s"
    by (rule staking_reach.start [OF _ init]) (simp add: same_store_def)
  then show ?thesis
    using staking_backed [OF staking_sample_ok] by blast
qed

end
