(* ===== verification/Queue.thy ===== *)
theory Queue
  imports Sample_Serde
begin

text \<open>
  The queue example contract (\<open>contracts/queue/src/contract.rs\<close>): items under one
  byte keys of the contract's storage, enqueued after the last key, dequeued at
  the first. The interface of a first in, first out queue is the locale \<open>fifo\<close>,
  interpreted on the contract.
\<close>

section \<open>Messages\<close>

record Item =
  item_value :: i32

datatype QueueHandleMsg = Enqueue i32 | Dequeue

datatype QueueQueryMsg = Count | Sum | Reducer

record queue_deps =
  item_serde :: "Item serde"
  count_to_binary :: "u32 \<Rightarrow> Binary std_result"
  sum_to_binary :: "i32 \<Rightarrow> Binary std_result"
  reducer_to_binary :: "(i32 \<times> i32) list \<Rightarrow> Binary std_result"

section \<open>Operations\<close>

definition queue_init :: "(MemoryStorage, unit InitResponse) act" where
  "queue_init = ret init_default"

definition FIRST_KEY :: u8 where
  "FIRST_KEY = 0"

definition enqueue :: "queue_deps \<Rightarrow> i32 \<Rightarrow> (MemoryStorage, unit HandleResponse) act" where
  "enqueue deps value =
     and_then (read (\<lambda>s. ms_range s None None Descending)) (\<lambda>items.
     and_then (lift (case items of
         [] \<Rightarrow> Ok FIRST_KEY
       | (key, _) # _ \<Rightarrow>
           res_bind (or_panic (if key = [] then None else Some (key ! 0))) (\<lambda>k. or_panic (checked_add k 1)))) (\<lambda>new_key.
     and_then (lift (sd_ser (item_serde deps) \<lparr>item_value = value\<rparr>)) (\<lambda>new_value.
     and_then (modify (\<lambda>s. ms_set s [new_key] new_value)) (\<lambda>_.
     ret handle_default))))"

definition dequeue :: "(MemoryStorage, unit HandleResponse) act" where
  "dequeue =
     and_then (read (\<lambda>s. ms_range s None None Ascending)) (\<lambda>items.
     case items of
       (key, value) # _ \<Rightarrow>
         and_then (modify (\<lambda>s. ms_remove s key)) (\<lambda>_. ret (handle_default\<lparr>rdata := Some value\<rparr>))
     | [] \<Rightarrow> ret handle_default)"

fun queue_handle :: "queue_deps \<Rightarrow> QueueHandleMsg \<Rightarrow> (MemoryStorage, unit HandleResponse) act" where
  "queue_handle deps (Enqueue value) = enqueue deps value"
| "queue_handle deps Dequeue = dequeue"

section \<open>Queries\<close>

text \<open>Signed addition of the crate, which is built with overflow checks.\<close>

definition checked_sadd :: "i32 \<Rightarrow> i32 \<Rightarrow> i32 option" where
  "checked_sadd x y =
     (let s = sint x + sint y in if - (2 ^ 31) \<le> s \<and> s < 2 ^ 31 then Some (x + y) else None)"

fun sum_i32 :: "i32 \<Rightarrow> i32 list \<Rightarrow> i32 std_result" where
  "sum_i32 acc [] = Ok acc"
| "sum_i32 acc (x # xs) = res_bind (or_panic (checked_sadd acc x)) (\<lambda>acc'. sum_i32 acc' xs)"

fun parse_items :: "queue_deps \<Rightarrow> (bytes \<times> bytes) list \<Rightarrow> Item list std_result" where
  "parse_items deps [] = Ok []"
| "parse_items deps ((_, v) # rest) =
     res_bind (sd_de (item_serde deps) v) (\<lambda>i. res_bind (parse_items deps rest) (\<lambda>is. Ok (i # is)))"

definition query_count :: "MemoryStorage \<Rightarrow> u32 std_result" where
  "query_count s = Ok (word_of_nat (length (ms_range s None None Ascending)))"

definition query_sum :: "queue_deps \<Rightarrow> MemoryStorage \<Rightarrow> i32 std_result" where
  "query_sum deps s =
     res_bind (parse_items deps (ms_range s None None Ascending)) (\<lambda>values. sum_i32 0 (map item_value values))"

text \<open>The inner iterator of the reducer: a value that does not parse is a panic.\<close>

fun expect_values :: "queue_deps \<Rightarrow> (bytes \<times> bytes) list \<Rightarrow> i32 list std_result" where
  "expect_values deps [] = Ok []"
| "expect_values deps ((_, v) # rest) =
     res_bind (unwrap (sd_de (item_serde deps) v)) (\<lambda>i. res_bind (expect_values deps rest) (\<lambda>is. Ok (item_value i # is)))"

fun reduce :: "queue_deps \<Rightarrow> (bytes \<times> bytes) list \<Rightarrow> (bytes \<times> bytes) list \<Rightarrow> (i32 \<times> i32) list std_result" where
  "reduce deps all [] = Ok []"
| "reduce deps all ((_, v) # rest) =
     res_bind (sd_de (item_serde deps) v) (\<lambda>item.
     let my_val = item_value item in
     res_bind (expect_values deps all) (\<lambda>values.
     res_bind (sum_i32 0 (filter (\<lambda>v. my_val <s v) values)) (\<lambda>total.
     res_bind (reduce deps all rest) (\<lambda>out.
     Ok ((my_val, total) # out)))))"

definition query_reducer :: "queue_deps \<Rightarrow> MemoryStorage \<Rightarrow> (i32 \<times> i32) list std_result" where
  "query_reducer deps s = reduce deps (ms_range s None None Ascending) (ms_range s None None Ascending)"

fun queue_query :: "queue_deps \<Rightarrow> QueueQueryMsg \<Rightarrow> MemoryStorage \<Rightarrow> Binary std_result" where
  "queue_query deps Count s = res_bind (query_count s) (count_to_binary deps)"
| "queue_query deps Sum s = res_bind (query_sum deps s) (sum_to_binary deps)"
| "queue_query deps Reducer s = res_bind (query_reducer deps s) (reducer_to_binary deps)"

section \<open>First in, first out\<close>

text \<open>Commands of a queue: \<open>Some v\<close> enqueues, \<open>None\<close> dequeues. The run returns what was dequeued.\<close>

fun run_queue :: "('v \<Rightarrow> 's \<Rightarrow> 's option) \<Rightarrow> ('s \<Rightarrow> 'v option \<times> 's) \<Rightarrow> 'v option list \<Rightarrow> 's \<Rightarrow> ('v list \<times> 's) option" where
  "run_queue enq deq [] s = Some ([], s)"
| "run_queue enq deq (Some v # cs) s = Option.bind (enq v s) (run_queue enq deq cs)"
| "run_queue enq deq (None # cs) s =
     (case deq s of (r, s') \<Rightarrow>
      map_option (\<lambda>(out, t). (case r of None \<Rightarrow> out | Some v \<Rightarrow> v # out, t)) (run_queue enq deq cs s'))"

locale fifo =
  fixes items :: "'s \<Rightarrow> 'v list"
    and invar :: "'s \<Rightarrow> bool"
    and enq :: "'v \<Rightarrow> 's \<Rightarrow> 's option"
    and deq :: "'s \<Rightarrow> 'v option \<times> 's"
  assumes enq_items: "invar s \<Longrightarrow> enq v s = Some s' \<Longrightarrow> invar s' \<and> items s' = items s @ [v]"
    and deq_empty: "invar s \<Longrightarrow> items s = [] \<Longrightarrow> deq s = (None, s)"
    and deq_items: "invar s \<Longrightarrow> items s = x # xs \<Longrightarrow> \<exists>s'. deq s = (Some x, s') \<and> invar s' \<and> items s' = xs"
begin

lemma run_in_order:
  "invar s \<Longrightarrow> run_queue enq deq cs s = Some (out, t) \<Longrightarrow>
   invar t \<and> out @ items t = items s @ List.map_filter id cs"
proof (induction cs arbitrary: s out)
  case (Cons c cs)
  show ?case
  proof (cases c)
    case (Some v)
    then obtain s' where s': "enq v s = Some s'" "run_queue enq deq cs s' = Some (out, t)"
      using Cons.prems(2) by (auto simp: bind_eq_Some_conv)
    with Cons.IH [of s' out] enq_items [OF Cons.prems(1) s'(1)] Some show ?thesis
      by (simp add: map_filter_simps)
  next
    case None
    show ?thesis
    proof (cases "items s")
      case Nil
      with None Cons deq_empty [OF Cons.prems(1) Nil] show ?thesis
        by (auto simp: map_filter_simps)
    next
      case (Cons x xs)
      then obtain s' where "deq s = (Some x, s')" and inv: "invar s'" and "items s' = xs"
        using deq_items Cons.prems(1) by blast
      with Cons None Cons.prems(2) Cons.IH [OF inv] show ?thesis
        by (auto simp: map_filter_simps)
    qed
  qed
qed (simp add: map_filter_simps)

end

section \<open>The contract as a queue\<close>

definition item_of :: "queue_deps \<Rightarrow> bytes \<Rightarrow> i32" where
  "item_of deps v = (case sd_de (item_serde deps) v of Ok i \<Rightarrow> item_value i | _ \<Rightarrow> 0)"

definition queue_items :: "queue_deps \<Rightarrow> MemoryStorage \<Rightarrow> i32 list" where
  "queue_items deps s = map (\<lambda>e. item_of deps (snd e)) (data s)"

definition queue_ok :: "queue_deps \<Rightarrow> MemoryStorage \<Rightarrow> bool" where
  "queue_ok deps s =
     (serde_ok (sd_ser (item_serde deps)) (sd_de (item_serde deps)) \<and> ms_ok s \<and>
      (\<forall>(k, v) \<in> set (data s). length k = 1 \<and> (\<exists>i. sd_de (item_serde deps) v = Ok i)))"

definition queue_enq :: "queue_deps \<Rightarrow> i32 \<Rightarrow> MemoryStorage \<Rightarrow> MemoryStorage option" where
  "queue_enq deps v s = (case queue_handle deps (Enqueue v) s of (Ok _, s') \<Rightarrow> Some s' | _ \<Rightarrow> None)"

definition queue_deq :: "queue_deps \<Rightarrow> MemoryStorage \<Rightarrow> i32 option \<times> MemoryStorage" where
  "queue_deq deps s =
     (case queue_handle deps Dequeue s of
        (Ok r, s') \<Rightarrow> (map_option (item_of deps) (rdata r), s')
      | (_, s') \<Rightarrow> (None, s'))"

lemma full_range: "ms_range s None None ord = directed ord (data s)"
  by (simp add: ms_range_directed bt_range_def range_bounds_def)

lemma bt_insert_last: "(\<And>a b. (a, b) \<in> set t \<Longrightarrow> a < k) \<Longrightarrow> bt_insert k v t = t @ [(k, v)]"
  by (induction k v t rule: bt_insert.induct) (auto dest: less_asym)

lemma singleton_less [simp]: "[a] < [b] \<longleftrightarrow> a < (b :: u8)"
  by (simp add: Cons_less_Cons)

lemma queue_ok_key: "queue_ok deps s \<Longrightarrow> (k, v) \<in> set (data s) \<Longrightarrow> \<exists>c. k = [c]"
  by (auto simp: queue_ok_def length_Suc_conv)

lemma last_key_greatest:
  assumes "queue_ok deps s" and "data s = es @ [([c], x)]" and "([d], v) \<in> set (data s)"
  shows "d \<le> c"
  using assms by (auto simp: queue_ok_def ms_ok_def bt_ok_def sorted_wrt_append)

text \<open>What \<open>enqueue\<close> does: nothing but adding one entry at the end, or a panic.\<close>

lemma enqueue_eq:
  assumes ok: "queue_ok deps s" and ser: "sd_ser (item_serde deps) \<lparr>item_value = v\<rparr> = Ok bs"
  shows "enqueue deps v s =
    (if data s \<noteq> [] \<and> fst (last (data s)) = [255] then (Panicked, s)
     else (Ok handle_default,
       \<lparr>data = data s @ [([if data s = [] then 0 else hd (fst (last (data s))) + 1], bs)]\<rparr>))"
proof (cases "data s" rule: rev_cases)
  case Nil
  then show ?thesis
    using ser by (simp add: enqueue_def full_range directed_def FIRST_KEY_def ms_set_def)
next
  case (snoc es e)
  then obtain c x where e: "e = ([c], x)"
    using queue_ok_key [OF ok, of "fst e" "snd e"] by (cases e) auto
  have range: "ms_range s None None Descending = ([c], x) # rev es"
    using snoc e by (simp add: full_range directed_def)
  show ?thesis
  proof (cases "c = 255")
    case True
    then have "checked_add c 1 = None"
      by (simp add: checked_add_def)
    then show ?thesis
      using True snoc e range by (simp add: enqueue_def and_then_def)
  next
    case False
    have max: "(255 :: u8) = - 1"
      by simp
    have c: "checked_add c 1 = Some (c + 1)"
      using False unat_bound [of c] unat_max_iff [of c] unfolding max by (simp add: checked_add_def)
    then have "unat (c + 1) = unat c + 1"
      by (simp add: checked_add_Some_iff)
    then have "a < [c + 1]" if "(a, b) \<in> set (data s)" for a b
      using last_key_greatest [OF ok snoc [unfolded e], of _ b] queue_ok_key [OF ok that] that
      by (fastforce simp: word_less_nat_alt word_le_nat_alt)
    then have "ms_set s [c + 1] bs = \<lparr>data = data s @ [([c + 1], bs)]\<rparr>"
      by (simp add: ms_set_def bt_insert_last)
    then show ?thesis
      using False c snoc e range ser by (simp add: enqueue_def and_then_def)
  qed
qed

interpretation queue: fifo "queue_items deps" "queue_ok deps" "queue_enq deps" "queue_deq deps" for deps
proof
  fix s v s'
  assume ok: "queue_ok deps s" and run: "queue_enq deps v s = Some s'"
  obtain bs where bs: "sd_ser (item_serde deps) \<lparr>item_value = v\<rparr> = Ok bs" "sd_de (item_serde deps) bs = Ok \<lparr>item_value = v\<rparr>"
    using ok by (auto simp: queue_ok_def elim: serde_okE)
  have notfull: "\<not> (data s \<noteq> [] \<and> fst (last (data s)) = [255])"
    and s': "s' = \<lparr>data = data s @ [([if data s = [] then 0 else hd (fst (last (data s))) + 1], bs)]\<rparr>"
    using run by (auto simp: queue_enq_def enqueue_eq [OF ok bs(1)] split: if_splits)
  have "ms_ok s'"
  proof -
    have "s' = snd (enqueue deps v s)"
      using notfull s' by (simp add: enqueue_eq [OF ok bs(1)])
    then show ?thesis
      using ok by (simp add: enqueue_def and_then_def queue_ok_def split: res.splits list.splits)
  qed
  then show "queue_ok deps s' \<and> queue_items deps s' = queue_items deps s @ [v]"
    using ok bs(2) unfolding s' by (auto simp: queue_ok_def queue_items_def item_of_def)
next
  fix s
  assume "queue_ok deps s" and "queue_items deps s = []"
  then show "queue_deq deps s = (None, s)"
    by (simp add: queue_deq_def dequeue_def queue_items_def full_range directed_def handle_default_def)
next
  fix s x xs
  assume ok: "queue_ok deps s" and items: "queue_items deps s = x # xs"
  then obtain k v es where d: "data s = (k, v) # es" "x = item_of deps v" "xs = map (\<lambda>e. item_of deps (snd e)) es"
    by (cases "data s") (auto simp: queue_items_def)
  have "\<forall>e \<in> set es. k < fst e"
    using ok d(1) by (simp add: queue_ok_def ms_ok_def bt_ok_def)
  then have "filter (\<lambda>e. fst e \<noteq> k) es = es"
    by (auto simp: filter_id_conv)
  then have "ms_remove s k = \<lparr>data = es\<rparr>"
    using d(1) by (simp add: ms_remove_def bt_remove_def)
  then show "\<exists>s'. queue_deq deps s = (Some x, s') \<and> queue_ok deps s' \<and> queue_items deps s' = xs"
    using ok d by (auto simp: queue_deq_def dequeue_def queue_items_def full_range directed_def queue_ok_def ms_ok_def bt_ok_def)
qed

text \<open>
  C35: the queue contract is first in, first out. Whatever messages run, the
  values handed out followed by the values still stored are the values that
  were stored at the start followed by the values enqueued, in that order.
\<close>

theorem queue_fifo:
  assumes "queue_ok deps s" and "run_queue (queue_enq deps) (queue_deq deps) cs s = Some (out, t)"
  shows "out @ queue_items deps t = queue_items deps s @ List.map_filter id cs"
  using queue.run_in_order [OF assms] by simp

text \<open>
  C36: when the queue refuses. Enqueueing panics exactly when the last key is 255,
  however few items are stored, and otherwise succeeds.
\<close>

theorem enqueue_panics_iff:
  assumes "queue_ok deps s"
  shows "fst (queue_handle deps (Enqueue v) s) =
    (if data s \<noteq> [] \<and> fst (last (data s)) = [255] then Panicked else Ok handle_default)"
proof -
  obtain bs where "sd_ser (item_serde deps) \<lparr>item_value = v\<rparr> = Ok bs"
    using assms by (auto simp: queue_ok_def elim: serde_okE)
  from enqueue_eq [OF assms this] show ?thesis
    by simp
qed

section \<open>The reducer\<close>

lemma checked_sadd_Some: "checked_sadd x y = Some z \<Longrightarrow> sint z = sint x + sint y"
  by (auto simp: checked_sadd_def Let_def sint_word_ariths signed_take_bit_int_eq_self_iff split: if_splits)

lemma sum_i32_Ok: "sum_i32 acc xs = Ok t \<Longrightarrow> sint t = sint acc + sum_list (map sint xs)"
  by (induction xs arbitrary: acc) (auto simp: res_simps dest: checked_sadd_Some)

lemma expect_values_Ok: "expect_values deps es = Ok vs \<Longrightarrow> vs = map (\<lambda>e. item_of deps (snd e)) es"
  by (induction deps es arbitrary: vs rule: expect_values.induct) (auto simp: res_simps item_of_def)

text \<open>Reference: for every value the sum of the values that are larger.\<close>

definition sums_above :: "int list \<Rightarrow> (int \<times> int) list" where
  "sums_above vs = map (\<lambda>v. (v, sum_list (filter (\<lambda>w. v < w) vs))) vs"

lemma reduce_Ok:
  "reduce deps all es = Ok out \<Longrightarrow>
   map (map_prod sint sint) out =
     map (\<lambda>v. (v, sum_list (filter (\<lambda>w. v < w) (map (\<lambda>e. sint (item_of deps (snd e))) all)))) (map (\<lambda>e. sint (item_of deps (snd e))) es)"
proof (induction deps all es arbitrary: out rule: reduce.induct)
  case (2 deps all k v rest)
  have filter: "map sint (filter (\<lambda>w. x <s w) ws) = filter (\<lambda>w. sint x < w) (map sint ws)" for x :: i32 and ws
    by (induction ws) (auto simp: word_sless_alt)
  show ?case
    using 2 by (auto simp: res_simps Let_def item_of_def filter case_prod_beta comp_def dest!: sum_i32_Ok expect_values_Ok)
qed simp

lemma sum_i32_total:
  assumes "\<bar>sint acc\<bar> + sum_list (map (\<lambda>x. \<bar>sint x\<bar>) xs) < 2 ^ 31"
  shows "\<exists>t. sum_i32 acc xs = Ok t"
  using assms
proof (induction xs arbitrary: acc)
  case (Cons x xs)
  have "0 \<le> sum_list (map (\<lambda>x. \<bar>sint x\<bar>) xs)"
    by (rule sum_list_nonneg) auto
  with Cons.prems have "- (2 ^ 31) \<le> sint acc + sint x \<and> sint acc + sint x < 2 ^ 31"
    by simp arith
  then have "checked_sadd acc x = Some (acc + x)"
    by (simp add: checked_sadd_def)
  moreover from this have "sint (acc + x) = sint acc + sint x"
    by (rule checked_sadd_Some)
  ultimately show ?case
    using Cons.IH [of "acc + x"] Cons.prems by simp
qed simp

lemma sum_abs_filter: "sum_list (map (\<lambda>x. \<bar>sint x\<bar>) (filter P xs)) \<le> sum_list (map (\<lambda>x. \<bar>sint x\<bar>) xs)"
  for xs :: "i32 list"
  by (induction xs) auto

lemma expect_values_total:
  "\<forall>e \<in> set es. \<exists>i. sd_de (item_serde deps) (snd e) = Ok i \<Longrightarrow>
   expect_values deps es = Ok (map (\<lambda>e. item_of deps (snd e)) es)"
  by (induction deps es rule: expect_values.induct) (auto simp: item_of_def)

lemma reduce_total:
  assumes "\<forall>e \<in> set all. \<exists>i. sd_de (item_serde deps) (snd e) = Ok i" and "set es \<subseteq> set all"
    and "sum_list (map (\<lambda>e. \<bar>sint (item_of deps (snd e))\<bar>) all) < 2 ^ 31"
  shows "\<exists>out. reduce deps all es = Ok out"
  using assms(2)
proof (induction es)
  case (Cons e es)
  obtain k v where e: "e = (k, v)"
    by (cases e)
  then obtain i where i: "sd_de (item_serde deps) v = Ok i"
    using Cons.prems assms(1) by force
  have "\<exists>t. sum_i32 0 (filter (\<lambda>w. item_value i <s w) (map (\<lambda>e. item_of deps (snd e)) all)) = Ok t"
    by (rule sum_i32_total, simp del: filter_map, rule le_less_trans [OF sum_abs_filter])
      (use assms(3) in \<open>simp add: comp_def\<close>)
  then show ?case
    using Cons i by (auto simp: e expect_values_total [OF assms(1)])
qed simp

text \<open>
  The reducer of the queue agrees with its reference. What the nested
  iterators return lists, for every item in order, its value and the sum of all
  larger values; and they do return when the absolute values stored add up to less
  than the range of a 32 bit sum.
\<close>

lemma reducer_is_sums_above:
  assumes "queue_ok deps s"
  shows "(\<forall>out. query_reducer deps s = Ok out \<longrightarrow> map (map_prod sint sint) out = sums_above (map sint (queue_items deps s))) \<and>
    (sum_list (map (\<lambda>v. \<bar>sint v\<bar>) (queue_items deps s)) < 2 ^ 31 \<longrightarrow> (\<exists>out. query_reducer deps s = Ok out))"
proof (intro conjI allI impI)
  fix out
  assume "query_reducer deps s = Ok out"
  from reduce_Ok [OF this [unfolded query_reducer_def]]
  show "map (map_prod sint sint) out = sums_above (map sint (queue_items deps s))"
    by (simp add: sums_above_def queue_items_def full_range directed_def comp_def case_prod_beta)
next
  assume "sum_list (map (\<lambda>v. \<bar>sint v\<bar>) (queue_items deps s)) < 2 ^ 31"
  then show "\<exists>out. query_reducer deps s = Ok out"
    unfolding query_reducer_def using assms
    by (intro reduce_total) (auto simp: full_range directed_def queue_ok_def queue_items_def comp_def)
qed

section \<open>A concrete queue\<close>

definition queue_sample :: queue_deps where
  "queue_sample =
     \<lparr>item_serde = record_serde (\<lambda>i. [to_be 4 (unat (item_value i))]) (\<lambda>fs. \<lparr>item_value = word_of_nat (from_be (fs ! 0))\<rparr>),
      count_to_binary = (\<lambda>_. Ok []), sum_to_binary = (\<lambda>_. Ok []), reducer_to_binary = (\<lambda>_. Ok [])\<rparr>"

lemma queue_sample_ok: "serde_ok (sd_ser (item_serde queue_sample)) (sd_de (item_serde queue_sample))"
proof -
  have "word_of_nat (from_be (to_be 4 (unat w))) = w" for w :: i32
    using unat_bound [of w] by (simp add: from_be_to_be)
  then show ?thesis
    unfolding queue_sample_def by (simp add: record_serde_ok)
qed

lemma queue_sample_empty: "queue_ok queue_sample ms_new"
  using queue_sample_ok by (simp add: queue_ok_def ms_new_def ms_ok_def)

definition full_queue :: MemoryStorage where
  "full_queue = \<lparr>data = [([255], pack [to_be 4 7])]\<rparr>"

lemma full_queue_ok: "queue_ok queue_sample full_queue"
  using queue_sample_ok by (simp add: queue_ok_def full_queue_def ms_ok_def bt_ok_def) (simp add: queue_sample_def record_serde_def)

lemma queue_sample_ser: "sd_ser (item_serde queue_sample) i = Ok (pack [to_be 4 (unat (item_value i))])"
  by (simp add: queue_sample_def)

theorem queue_fifo_witness:
  "\<exists>t. run_queue (queue_enq queue_sample) (queue_deq queue_sample) [Some 5, Some 6, None] ms_new = Some ([5], t) \<and>
     [5] @ queue_items queue_sample t = [5, 6]"
proof -
  let ?e = "\<lambda>k v. ([k], pack [to_be 4 v])"
  have e1: "queue_enq queue_sample 5 ms_new = Some \<lparr>data = [?e 0 5]\<rparr>"
    by (simp add: queue_enq_def enqueue_eq [OF queue_sample_empty queue_sample_ser]) (simp add: ms_new_def)
  then have ok: "queue_ok queue_sample \<lparr>data = [?e 0 5]\<rparr>"
    using queue.enq_items [OF queue_sample_empty] by blast
  have e2: "queue_enq queue_sample 6 \<lparr>data = [?e 0 5]\<rparr> = Some \<lparr>data = [?e 0 5, ?e 1 6]\<rparr>"
    by (simp add: queue_enq_def enqueue_eq [OF ok queue_sample_ser])
  have d: "queue_deq queue_sample \<lparr>data = [?e 0 5, ?e 1 6]\<rparr> = (Some 5, \<lparr>data = [?e 1 6]\<rparr>)"
    by (simp add: queue_deq_def dequeue_def full_range directed_def item_of_def ms_remove_def bt_remove_def)
      (simp add: queue_sample_def record_serde_def from_be_to_be)
  have run: "run_queue (queue_enq queue_sample) (queue_deq queue_sample) [Some 5, Some 6, None] ms_new = Some ([5], \<lparr>data = [?e 1 6]\<rparr>)"
    by (simp add: e1 e2 d)
  moreover have "queue_items queue_sample ms_new = []"
    by (simp add: queue_items_def ms_new_def)
  ultimately show ?thesis
    using queue_fifo [OF queue_sample_empty run] by (simp add: map_filter_simps)
qed

theorem enqueue_panics_iff_witness: "fst (queue_handle queue_sample (Enqueue 1) full_queue) = Panicked"
  using enqueue_panics_iff [OF full_queue_ok, of 1] by (simp add: full_queue_def)

lemma reducer_is_sums_above_witness:
  "\<exists>out. query_reducer queue_sample full_queue = Ok out \<and> map (map_prod sint sint) out = sums_above [7]"
proof -
  have items: "queue_items queue_sample full_queue = [7]"
    by (simp add: queue_items_def item_of_def full_queue_def queue_sample_def record_serde_def from_be_to_be)
  then show ?thesis
    using reducer_is_sums_above [OF full_queue_ok] by auto
qed

end
