(* ===== verification/Example_Contracts.thy ===== *)
theory Example_Contracts
  imports Sample_Serde Querier
begin

text \<open>
  The smaller example contracts: escrow, burner, reflect, hackatom and the
  contracts that read the gov, dist and mint modules
  (\<open>contracts/<name>/src/contract.rs\<close> with \<open>msg.rs\<close> and \<open>state.rs\<close>). Addresses,
  queries and serializers are arguments.
\<close>

record 'c chain =
  canon :: "HumanAddr \<Rightarrow> CanonicalAddr std_result"
  human :: "CanonicalAddr \<Rightarrow> HumanAddr std_result"
  fmt :: "'c answer_format"
  raw :: "bytes \<Rightarrow> QuerierResult"

definition CONFIG_KEY :: bytes where
  "CONFIG_KEY = ascii ''config''"

lemma length_CONFIG_KEY [simp]: "length CONFIG_KEY = 6"
  by (simp add: CONFIG_KEY_def)

section \<open>escrow\<close>

text \<open>
  The contract is written for an environment whose addresses are canonical, an
  older one than that of the standard library beside it.
\<close>

record EscrowEnv =
  eblock :: BlockInfo
  esender :: CanonicalAddr
  eaddress :: CanonicalAddr

record EscrowState =
  arbiter :: CanonicalAddr
  recipient :: CanonicalAddr
  source :: CanonicalAddr
  end_height :: "u64 option"
  end_time :: "u64 option"

record EscrowInitMsg =
  eim_arbiter :: HumanAddr
  eim_recipient :: HumanAddr
  eim_end_height :: "u64 option"
  eim_end_time :: "u64 option"

datatype EscrowHandleMsg = Approve "Coin list option" | Refund

definition is_expired :: "EscrowState \<Rightarrow> EscrowEnv \<Rightarrow> bool" where
  "is_expired st env =
     ((case end_height st of Some h \<Rightarrow> height (eblock env) > h | None \<Rightarrow> False) \<or>
      (case end_time st of Some t \<Rightarrow> time (eblock env) > t | None \<Rightarrow> False))"

definition escrow_init ::
  "unit chain \<Rightarrow> EscrowState serde \<Rightarrow> EscrowEnv \<Rightarrow> EscrowInitMsg \<Rightarrow> (MemoryStorage, unit InitResponse) act" where
  "escrow_init deps sd env msg =
     and_then (lift (canon deps (eim_arbiter msg))) (\<lambda>arb.
     and_then (lift (canon deps (eim_recipient msg))) (\<lambda>rcpt.
     let st = \<lparr>arbiter = arb, recipient = rcpt, source = esender env, end_height = eim_end_height msg, end_time = eim_end_time msg\<rparr>
     in if is_expired st env then fail (GenericErr ''creating expired escrow'')
        else and_then (with_singleton CONFIG_KEY (\<lambda>sg. sg_save ms_set (sd_ser sd) sg st)) (\<lambda>_. ret init_default)))"

definition send_tokens ::
  "unit chain \<Rightarrow> CanonicalAddr \<Rightarrow> CanonicalAddr \<Rightarrow> Coin list \<Rightarrow> string \<Rightarrow> unit HandleResponse std_result" where
  "send_tokens deps from_address to_address amt action =
     res_bind (human deps from_address) (\<lambda>from_human.
     res_bind (human deps to_address) (\<lambda>to_human.
     Ok \<lparr>messages = [Bank (Send from_human to_human amt)],
         logs = [log ''action'' action, log ''to'' to_human], rdata = None\<rparr>))"

definition try_approve ::
  "unit chain \<Rightarrow> EscrowEnv \<Rightarrow> EscrowState \<Rightarrow> Coin list option \<Rightarrow> unit HandleResponse std_result" where
  "try_approve deps env st quantity =
     (if esender env \<noteq> arbiter st then Err Unauthorized
      else if is_expired st env then Err (GenericErr ''escrow expired'')
      else
        res_bind (case quantity of
            Some q \<Rightarrow> Ok q
          | None \<Rightarrow> res_bind (human deps (eaddress env)) (\<lambda>h. query_all_balances (fmt deps) (raw deps) h)) (\<lambda>amt.
        send_tokens deps (eaddress env) (recipient st) amt ''approve''))"

definition try_refund :: "unit chain \<Rightarrow> EscrowEnv \<Rightarrow> EscrowState \<Rightarrow> unit HandleResponse std_result" where
  "try_refund deps env st =
     (if \<not> is_expired st env then Err (GenericErr ''escrow not yet expired'')
      else
        res_bind (human deps (eaddress env)) (\<lambda>h.
        res_bind (query_all_balances (fmt deps) (raw deps) h) (\<lambda>balance.
        send_tokens deps (eaddress env) (source st) balance ''refund'')))"

definition escrow_handle ::
  "unit chain \<Rightarrow> EscrowState serde \<Rightarrow> EscrowEnv \<Rightarrow> EscrowHandleMsg \<Rightarrow> (MemoryStorage, unit HandleResponse) act" where
  "escrow_handle deps sd env msg =
     and_then (with_singleton CONFIG_KEY (\<lambda>sg. gets (sg_load ms_get ''escrow::state::State'' (sd_de sd) sg))) (\<lambda>st.
     lift (case msg of Approve quantity \<Rightarrow> try_approve deps env st quantity | Refund \<Rightarrow> try_refund deps env st))"

definition escrow_migrate :: "(MemoryStorage, unit MigrateResponse) act" where
  "escrow_migrate = ret migrate_default"

text \<open>
  C38: the escrow pays the right party. A message that succeeds moves coins once,
  out of the contract: before the expiry only when the arbiter approves, and to
  the recipient; after the expiry only as a refund, to the source.
\<close>

theorem escrow_pays_right_party:
  assumes "escrow_handle deps sd env msg s = (Ok r, s')"
  shows "s' = s \<and> (\<exists>st frm to coins. cell sd (singleton_key CONFIG_KEY) s = Ok (Some st) \<and>
    messages r = [Bank (Send frm to coins)] \<and> human deps (eaddress env) = Ok frm \<and>
    (if is_expired st env then msg = Refund \<and> human deps (source st) = Ok to
     else msg \<noteq> Refund \<and> esender env = arbiter st \<and> human deps (recipient st) = Ok to))"
  using assms
  by (cases msg)
    (auto simp: escrow_handle_def and_then_Ok with_singleton_load_Ok try_approve_def try_refund_def send_tokens_def res_simps
      split: if_splits)

lemma is_expired_later:
  assumes "is_expired st env" and "height (eblock env) \<le> height (eblock env')" and "time (eblock env) \<le> time (eblock env')"
  shows "is_expired st env'"
  using assms by (auto simp: is_expired_def split: option.splits)

section \<open>burner\<close>

record BurnerMigrateMsg =
  payout :: HumanAddr

definition burner_refuse :: "'a std_result" where
  "burner_refuse = Err (GenericErr ''You can only use this contract for migrations'')"

definition burner_init :: "(MemoryStorage, unit InitResponse) act" where
  "burner_init = lift burner_refuse"

definition burner_handle :: "(MemoryStorage, unit HandleResponse) act" where
  "burner_handle = lift burner_refuse"

definition burner_query :: "(MemoryStorage, Binary) act" where
  "burner_query = lift burner_refuse"

definition burner_migrate :: "unit chain \<Rightarrow> Env \<Rightarrow> BurnerMigrateMsg \<Rightarrow> (MemoryStorage, unit MigrateResponse) act" where
  "burner_migrate deps env msg =
     and_then (read (\<lambda>s. map fst (ms_range s None None Ascending))) (\<lambda>keys.
     and_then (modify (\<lambda>s. foldl ms_remove s keys)) (\<lambda>_.
     and_then (lift (query_all_balances (fmt deps) (raw deps) (address (contract env)))) (\<lambda>balance.
     ret \<lparr>migrate_messages = [Bank (Send (address (contract env)) (payout msg) balance)],
          migrate_logs = [log ''action'' ''burn'', log ''payout'' (payout msg)],
          migrate_data = Some (ascii (''burnt '' @ show_nat (length keys) @ '' keys''))\<rparr>)))"

lemma foldl_remove_data: "data (foldl ms_remove s ks) = filter (\<lambda>e. fst e \<notin> set ks) (data s)"
  by (induction ks arbitrary: s) (auto simp: ms_remove_def bt_remove_def intro: filter_cong)

text \<open>
  Migrating to the burner deletes everything. Whatever was stored, afterwards
  the storage is empty, all coins of the contract go to the payout address, and
  the number reported is the number of deleted keys.
\<close>

lemma burner_empties_storage:
  assumes "burner_migrate deps env msg s = (Ok r, s')"
  shows "data s' = [] \<and>
    (\<exists>balance. query_all_balances (fmt deps) (raw deps) (address (contract env)) = Ok balance \<and>
      migrate_messages r = [Bank (Send (address (contract env)) (payout msg) balance)]) \<and>
    migrate_data r = Some (ascii (''burnt '' @ show_nat (length (data s)) @ '' keys''))"
proof -
  have range: "ms_range s None None Ascending = data s"
    by (simp add: ms_range_directed bt_range_def range_bounds_def directed_def)
  have "filter (\<lambda>e. fst e \<notin> set (map fst (data s))) (data s) = []"
    by (auto simp: filter_empty_conv)
  then show ?thesis
    using assms by (auto simp: burner_migrate_def and_then_Ok foldl_remove_data range)
qed

section \<open>reflect\<close>

datatype CustomMsg = Debug string | RawMsg Binary

datatype CustomQuery = Ping | Capital string

datatype ReflectHandleMsg = ReflectMsg "CustomMsg CosmosMsg list" | ChangeOwner HumanAddr

datatype ReflectQueryMsg = Owner | ReflectCustom string

record ReflectState =
  rowner :: CanonicalAddr

definition reflect_init ::
  "CustomQuery chain \<Rightarrow> ReflectState serde \<Rightarrow> Env \<Rightarrow> (MemoryStorage, CustomMsg InitResponse) act" where
  "reflect_init deps sd env =
     and_then (lift (canon deps (sender (message env)))) (\<lambda>own.
     and_then (with_singleton CONFIG_KEY (\<lambda>sg. sg_save ms_set (sd_ser sd) sg \<lparr>rowner = own\<rparr>)) (\<lambda>_.
     ret init_default))"

definition try_reflect ::
  "CustomQuery chain \<Rightarrow> ReflectState serde \<Rightarrow> Env \<Rightarrow> CustomMsg CosmosMsg list \<Rightarrow> (MemoryStorage, CustomMsg HandleResponse) act" where
  "try_reflect deps sd env msgs =
     and_then (with_singleton CONFIG_KEY (\<lambda>sg. gets (sg_load ms_get ''reflect::state::State'' (sd_de sd) sg))) (\<lambda>st.
     and_then (lift (canon deps (sender (message env)))) (\<lambda>snd_raw.
     if snd_raw \<noteq> rowner st then fail Unauthorized
     else if msgs = [] then fail (GenericErr ''Must reflect at least one message'')
     else ret \<lparr>messages = msgs, logs = [log ''action'' ''reflect''], rdata = None\<rparr>))"

definition try_change_owner ::
  "CustomQuery chain \<Rightarrow> ReflectState serde \<Rightarrow> Env \<Rightarrow> HumanAddr \<Rightarrow> (MemoryStorage, CustomMsg HandleResponse) act" where
  "try_change_owner deps sd env own =
     and_then (with_singleton CONFIG_KEY (\<lambda>sg.
       sg_update ms_get ms_set ''reflect::state::State'' (sd_ser sd) (sd_de sd) sg (\<lambda>st.
         res_bind (canon deps (sender (message env))) (\<lambda>snd_raw.
         if snd_raw \<noteq> rowner st then Err Unauthorized
         else res_bind (canon deps own) (\<lambda>own_raw. Ok (st\<lparr>rowner := own_raw\<rparr>)))))) (\<lambda>_.
     ret (handle_default\<lparr>logs := [log ''action'' ''change_owner'', log ''owner'' own]\<rparr>))"

fun reflect_handle ::
  "CustomQuery chain \<Rightarrow> ReflectState serde \<Rightarrow> Env \<Rightarrow> ReflectHandleMsg \<Rightarrow> (MemoryStorage, CustomMsg HandleResponse) act" where
  "reflect_handle deps sd env (ReflectMsg msgs) = try_reflect deps sd env msgs"
| "reflect_handle deps sd env (ChangeOwner own) = try_change_owner deps sd env own"

definition query_owner :: "CustomQuery chain \<Rightarrow> ReflectState serde \<Rightarrow> (MemoryStorage, HumanAddr) act" where
  "query_owner deps sd =
     and_then (with_singleton CONFIG_KEY (\<lambda>sg. gets (sg_load ms_get ''reflect::state::State'' (sd_de sd) sg))) (\<lambda>st.
     lift (human deps (rowner st)))"

definition query_reflect :: "CustomQuery chain \<Rightarrow> (Binary \<Rightarrow> string std_result) \<Rightarrow> string \<Rightarrow> string std_result" where
  "query_reflect deps parse_response txt =
     custom_query (request_to_vec (fmt deps)) (raw deps) parse_response (CustomRequest (Capital txt))"

fun reflect_query ::
  "CustomQuery chain \<Rightarrow> ReflectState serde \<Rightarrow> (Binary \<Rightarrow> string std_result) \<Rightarrow> (HumanAddr \<Rightarrow> Binary std_result) \<Rightarrow>
   (string \<Rightarrow> Binary std_result) \<Rightarrow> ReflectQueryMsg \<Rightarrow> (MemoryStorage, Binary) act" where
  "reflect_query deps sd parse_response ser_owner ser_custom Owner = and_then (query_owner deps sd) (\<lambda>own. lift (ser_owner own))"
| "reflect_query deps sd parse_response ser_owner ser_custom (ReflectCustom txt) =
     lift (res_bind (query_reflect deps parse_response txt) ser_custom)"

text \<open>
  Only the owner of the reflect contract makes it act. A message that
  succeeds was sent by the stored owner; it either emits exactly the messages it
  carries and keeps the owner, or emits nothing and changes the owner to the
  address it names.
\<close>

lemma reflect_only_owner:
  assumes "serde_ok (sd_ser sd) (sd_de sd)" and "reflect_handle deps sd env msg s = (Ok r, s')"
  shows "\<exists>st. cell sd (singleton_key CONFIG_KEY) s = Ok (Some st) \<and> canon deps (sender (message env)) = Ok (rowner st) \<and>
    (case msg of
       ReflectMsg msgs \<Rightarrow> messages r = msgs \<and> msgs \<noteq> [] \<and> s' = s
     | ChangeOwner own \<Rightarrow> messages r = [] \<and>
         (\<exists>own_raw. canon deps own = Ok own_raw \<and> cell sd (singleton_key CONFIG_KEY) s' = Ok (Some (st\<lparr>rowner := own_raw\<rparr>))))"
  using assms
  by (cases msg)
    (auto simp: try_reflect_def try_change_owner_def and_then_Ok with_singleton_load_Ok with_singleton_update_Ok res_simps
      handle_default_def cell_set_same split: if_splits)

section \<open>hackatom\<close>

record HackState =
  verifier :: CanonicalAddr
  beneficiary :: CanonicalAddr
  funder :: CanonicalAddr

record HackInitMsg =
  him_verifier :: HumanAddr
  him_beneficiary :: HumanAddr

record HackMigrateMsg =
  hmm_verifier :: HumanAddr

datatype HackHandleMsg =
    Release
  | CpuLoop
  | StorageLoop
  | MemoryLoop
  | AllocateLargeMemory
  | PanicMsg
  | UserErrorsInApiCalls

datatype HackQueryMsg =
    Verifier
  | OtherBalance HumanAddr
  | Recurse u32 u32 HumanAddr string

text \<open>
  What the wasm machine and the libraries decide: how many elements the
  allocator grants to the memory loop, the result of growing the memory, SHA-256
  and the debug text of errors.
\<close>

record hack_machine =
  granted :: nat
  memory_grow :: "u32 \<Rightarrow> u32"
  sha256 :: "bytes \<Rightarrow> bytes"
  debug_error :: "StdError \<Rightarrow> string"

definition load_state :: "HackState serde \<Rightarrow> (MemoryStorage, HackState) act" where
  "load_state sd =
     and_then (gets (\<lambda>s. ok_or (NotFound ''State'') (ms_get s CONFIG_KEY))) (\<lambda>d. lift (sd_de sd d))"

definition hack_init :: "unit chain \<Rightarrow> HackState serde \<Rightarrow> Env \<Rightarrow> HackInitMsg \<Rightarrow> (MemoryStorage, unit InitResponse) act" where
  "hack_init deps sd env msg =
     and_then (lift (canon deps (him_verifier msg))) (\<lambda>v.
     and_then (lift (canon deps (him_beneficiary msg))) (\<lambda>b.
     and_then (lift (canon deps (sender (message env)))) (\<lambda>f.
     and_then (lift (sd_ser sd \<lparr>verifier = v, beneficiary = b, funder = f\<rparr>)) (\<lambda>bs.
     and_then (modify (\<lambda>s. ms_set s CONFIG_KEY bs)) (\<lambda>_.
     lift (init_from_context (add_log ''Let the'' ''hacking begin'' context_new)))))))"

definition hack_migrate :: "unit chain \<Rightarrow> HackState serde \<Rightarrow> HackMigrateMsg \<Rightarrow> (MemoryStorage, unit MigrateResponse) act" where
  "hack_migrate deps sd msg =
     and_then (load_state sd) (\<lambda>config.
     and_then (lift (canon deps (hmm_verifier msg))) (\<lambda>v.
     and_then (lift (sd_ser sd (config\<lparr>verifier := v\<rparr>))) (\<lambda>bs.
     and_then (modify (\<lambda>s. ms_set s CONFIG_KEY bs)) (\<lambda>_.
     ret migrate_default))))"

definition do_release :: "unit chain \<Rightarrow> HackState serde \<Rightarrow> Env \<Rightarrow> (MemoryStorage, unit HandleResponse) act" where
  "do_release deps sd env =
     and_then (load_state sd) (\<lambda>st.
     and_then (lift (canon deps (sender (message env)))) (\<lambda>snd_raw.
     if snd_raw = verifier st then
       and_then (lift (human deps (beneficiary st))) (\<lambda>to_addr.
       and_then (lift (query_all_balances (fmt deps) (raw deps) (address (contract env)))) (\<lambda>balance.
       ret (handle_from_context (set_data [0xF0, 0x0B, 0xAA]
         (add_message (Bank (Send (address (contract env)) to_addr balance))
         (add_log ''destination'' to_addr (add_log ''action'' ''release'' context_new)))))))
     else fail Unauthorized))"

partial_function (option) cpu_loop :: "u64 \<Rightarrow> unit HandleResponse std_result option" where
  "cpu_loop counter =
     (case checked_add counter 1 of
        None \<Rightarrow> Some Panicked
      | Some c \<Rightarrow> cpu_loop (if c \<ge> 9000000000 then 0 else c))"

function storage_loop :: "u64 \<Rightarrow> (MemoryStorage, unit HandleResponse) act" where
  "storage_loop test_case s =
     (let s' = ms_set s (ascii ''test.key'') (ascii (show_nat (unat test_case)))
      in case checked_add test_case 1 of None \<Rightarrow> (Panicked, s') | Some t \<Rightarrow> storage_loop t s')"
  by pat_completeness auto

termination storage_loop
proof (relation "measure (\<lambda>(t, _). 2 ^ 64 - unat t)")
  fix t t' :: u64 and s s' :: MemoryStorage
  assume "checked_add t 1 = Some t'"
  then show "((t', s'), (t, s)) \<in> measure (\<lambda>(t, _). 2 ^ 64 - unat t)"
    using unat_bound [of t'] by (simp add: checked_add_Some_iff)
qed simp

function memory_loop :: "nat \<Rightarrow> nat \<Rightarrow> u32 \<Rightarrow> unit HandleResponse std_result" where
  "memory_loop limit len last_elem =
     (case checked_add last_elem 1 of
        None \<Rightarrow> Panicked
      | Some v \<Rightarrow> if len < limit then memory_loop limit (len + 1) v else Panicked)"
  by pat_completeness auto

termination memory_loop
  by (relation "measure (\<lambda>(limit, len, _). limit - len)") auto

definition allocate_large_memory :: "hack_machine \<Rightarrow> unit HandleResponse std_result" where
  "allocate_large_memory m =
     (if memory_grow m 1600 = - 1 then Err (GenericErr ''Error in memory.grow instruction'') else Ok handle_default)"

fun expect_generic :: "hack_machine \<Rightarrow> 'a std_result \<Rightarrow> unit std_result" where
  "expect_generic m (Ok x) = Panicked"
| "expect_generic m Panicked = Panicked"
| "expect_generic m (Err (GenericErr _)) = Ok ()"
| "expect_generic m (Err e) = Err (GenericErr (''Unexpected error in do_user_errors_in_api_calls: '' @ debug_error m e))"

definition user_errors_in_api_calls :: "hack_machine \<Rightarrow> unit chain \<Rightarrow> unit HandleResponse std_result" where
  "user_errors_in_api_calls m deps =
     res_bind (expect_generic m (canon deps '''')) (\<lambda>_.
     res_bind (expect_generic m (canon deps ''bn93hg934hg08q340g8u4jcau3'')) (\<lambda>_.
     res_bind (expect_generic m (human deps [])) (\<lambda>_.
     res_bind (expect_generic m (human deps [0xAA, 0xBB, 0xCC])) (\<lambda>_.
     res_bind (expect_generic m (human deps (replicate 17 0xA6))) (\<lambda>_.
     Ok handle_default)))))"

text \<open>The answer of a message is \<open>None\<close> when the code never returns.\<close>

fun hack_handle ::
  "hack_machine \<Rightarrow> unit chain \<Rightarrow> HackState serde \<Rightarrow> Env \<Rightarrow> HackHandleMsg \<Rightarrow> MemoryStorage
     \<Rightarrow> (unit HandleResponse std_result \<times> MemoryStorage) option" where
  "hack_handle m deps sd env Release s = Some (do_release deps sd env s)"
| "hack_handle m deps sd env CpuLoop s = map_option (\<lambda>r. (r, s)) (cpu_loop 0)"
| "hack_handle m deps sd env StorageLoop s = Some (storage_loop 0 s)"
| "hack_handle m deps sd env MemoryLoop s = Some (memory_loop (granted m) 1 1, s)"
| "hack_handle m deps sd env AllocateLargeMemory s = Some (allocate_large_memory m, s)"
| "hack_handle m deps sd env PanicMsg s = Some (Panicked, s)"
| "hack_handle m deps sd env UserErrorsInApiCalls s = Some (user_errors_in_api_calls m deps, s)"

definition query_verifier :: "unit chain \<Rightarrow> HackState serde \<Rightarrow> (MemoryStorage, HumanAddr) act" where
  "query_verifier deps sd = and_then (load_state sd) (\<lambda>st. lift (human deps (verifier st)))"

definition query_other_balance :: "unit chain \<Rightarrow> HumanAddr \<Rightarrow> Coin list std_result" where
  "query_other_balance deps addr = query_all_balances (fmt deps) (raw deps) addr"

definition query_recurse ::
  "hack_machine \<Rightarrow> unit chain \<Rightarrow> (HackQueryMsg \<Rightarrow> Binary std_result) \<Rightarrow> (Binary \<Rightarrow> Binary std_result) \<Rightarrow>
   u32 \<Rightarrow> u32 \<Rightarrow> HumanAddr \<Rightarrow> string \<Rightarrow> Binary std_result" where
  "query_recurse m deps ser_msg parse_response depth work contract_addr code_hash =
     (let hashed = (sha256 m ^^ unat work) (ascii contract_addr)
      in if depth = 0 then Ok hashed
         else
           res_bind (ser_msg (Recurse (depth - 1) work contract_addr code_hash)) (\<lambda>msg.
           custom_query (request_to_vec (fmt deps)) (raw deps) parse_response
             (WasmRequest (Smart contract_addr code_hash msg))))"

text \<open>The three serializers are those of the answers of the three queries.\<close>

fun hack_query ::
  "hack_machine \<Rightarrow> unit chain \<Rightarrow> HackState serde \<Rightarrow> (HackQueryMsg \<Rightarrow> Binary std_result) \<Rightarrow> (Binary \<Rightarrow> Binary std_result) \<Rightarrow>
   (HumanAddr \<Rightarrow> Binary std_result) \<Rightarrow> (Coin list \<Rightarrow> Binary std_result) \<Rightarrow> (Binary \<Rightarrow> Binary std_result) \<Rightarrow>
   HackQueryMsg \<Rightarrow> (MemoryStorage, Binary) act" where
  "hack_query m deps sd ser_msg parse_response ser_verifier ser_balance ser_recurse Verifier =
     and_then (query_verifier deps sd) (\<lambda>v. lift (ser_verifier v))"
| "hack_query m deps sd ser_msg parse_response ser_verifier ser_balance ser_recurse (OtherBalance addr) =
     lift (res_bind (query_other_balance deps addr) ser_balance)"
| "hack_query m deps sd ser_msg parse_response ser_verifier ser_balance ser_recurse (Recurse depth work addr code_hash) =
     lift (res_bind (query_recurse m deps ser_msg parse_response depth work addr code_hash) ser_recurse)"

lemma load_state_Ok: "load_state sd s = (Ok st, s') \<longleftrightarrow> cell sd CONFIG_KEY s = Ok (Some st) \<and> s' = s"
  by (auto simp: load_state_def and_then_Ok cell_def may_deserialize_def res_simps split: option.splits res.splits)

lemma cpu_loop_never_returns:
  assumes "unat counter < 9000000000"
  shows "cpu_loop counter = None"
proof -
  have "\<not> unat counter < 9000000000" if "cpu_loop counter = Some r" for counter r
    using that
  proof (rule cpu_loop.raw_induct [where P = "\<lambda>c r. \<not> unat c < 9000000000", rotated])
    fix f :: "u64 \<Rightarrow> unit HandleResponse std_result option" and c r
    assume IH: "\<And>c r. f c = Some r \<Longrightarrow> \<not> unat c < 9000000000"
      and step: "(case checked_add c 1 of None \<Rightarrow> Some Panicked | Some c \<Rightarrow> f (if c \<ge> 9000000000 then 0 else c)) = Some r"
    show "\<not> unat c < 9000000000"
    proof
      assume "unat c < 9000000000"
      then have "checked_add c 1 = Some (c + 1)"
        by (simp add: checked_add_def)
      then show False
        using step IH [of "if c + 1 \<ge> 9000000000 then 0 else c + 1" r] by (auto simp: word_le_nat_alt split: if_splits)
    qed
  qed
  then show ?thesis
    using assms by (cases "cpu_loop counter") auto
qed

text \<open>
  How the failure messages of hackatom end. The CPU loop never returns; the
  storage loop ends when its counter overflows, which the release profile checks,
  and the memory loop when the allocator refuses, however much it grants; both
  end in a panic, as the panic message does.
\<close>

lemma hack_handle_outcome:
  "hack_handle m deps sd env CpuLoop s = None \<and>
   map_option fst (hack_handle m deps sd env StorageLoop s) = Some Panicked \<and>
   map_option fst (hack_handle m deps sd env MemoryLoop s) = Some Panicked \<and>
   map_option fst (hack_handle m deps sd env PanicMsg s) = Some Panicked"
proof -
  have "fst (storage_loop t s) = Panicked" for t s
    by (induction t s rule: storage_loop.induct) (subst storage_loop.simps, simp add: Let_def split: option.split)
  moreover have "memory_loop limit len v = Panicked" for limit len v
    by (induction limit len v rule: memory_loop.induct) (subst memory_loop.simps, simp split: option.split)
  ultimately show ?thesis
    by (simp add: cpu_loop_never_returns del: storage_loop.simps memory_loop.simps)
qed

text \<open>
  Hackatom pays out only for its verifier. A release that succeeds was sent by
  the stored verifier, sends the whole balance of the contract to the stored
  beneficiary and nothing else, and keeps the storage.
\<close>

lemma release_only_verifier:
  assumes "hack_handle m deps sd env Release s = Some (Ok r, s')"
  shows "\<exists>st to balance. cell sd CONFIG_KEY s = Ok (Some st) \<and> canon deps (sender (message env)) = Ok (verifier st) \<and>
    human deps (beneficiary st) = Ok to \<and> query_all_balances (fmt deps) (raw deps) (address (contract env)) = Ok balance \<and>
    messages r = [Bank (Send (address (contract env)) to balance)] \<and> s' = s"
  using assms
  by (auto simp: do_release_def and_then_Ok load_state_Ok handle_from_context_def set_data_def add_message_def add_log_def
      context_new_def split: if_splits)

text \<open>
  What the chain promises about a smart query of a contract to itself: it runs the
  contract's own query on the message, and its answer comes back unchanged.
\<close>

definition answers_itself ::
  "hack_machine \<Rightarrow> unit chain \<Rightarrow> (HackQueryMsg \<Rightarrow> Binary std_result) \<Rightarrow> (Binary \<Rightarrow> Binary std_result) \<Rightarrow> HumanAddr \<Rightarrow> string \<Rightarrow> bool" where
  "answers_itself m deps ser_msg parse_response addr code_hash \<longleftrightarrow>
     (\<forall>depth work. \<exists>msg. ser_msg (Recurse depth work addr code_hash) = Ok msg \<and>
        custom_query (request_to_vec (fmt deps)) (raw deps) parse_response (WasmRequest (Smart addr code_hash msg)) =
        query_recurse m deps ser_msg parse_response depth work addr code_hash)"

text \<open>
  The recursive query returns, whatever the depth: on a chain that runs the
  nested queries its answer is the contract's address hashed \<open>work\<close> times.
\<close>

lemma recursion_returns_hash:
  assumes "answers_itself m deps ser_msg parse_response addr code_hash"
  shows "query_recurse m deps ser_msg parse_response depth work addr code_hash = Ok ((sha256 m ^^ unat work) (ascii addr))"
proof (induction "unat depth" arbitrary: depth)
  case 0
  then have "depth = 0"
    by (simp add: unat_eq_zero)
  then show ?case
    by (simp add: query_recurse_def)
next
  case (Suc n)
  then have nz: "depth \<noteq> 0"
    by auto
  moreover have "n = unat (depth - 1)"
    using Suc.hyps(2) unat_minus_one [OF nz] by simp
  moreover obtain msg where "ser_msg (Recurse (depth - 1) work addr code_hash) = Ok msg"
    and "custom_query (request_to_vec (fmt deps)) (raw deps) parse_response (WasmRequest (Smart addr code_hash msg)) =
      query_recurse m deps ser_msg parse_response (depth - 1) work addr code_hash"
    using assms unfolding answers_itself_def by blast
  ultimately show ?case
    using Suc.hyps(1) [of "depth - 1"] by (subst query_recurse_def) simp
qed

section \<open>gov, dist, mint\<close>

fun or_default :: "'a \<Rightarrow> 'a std_result \<Rightarrow> 'a std_result" where
  "or_default x (Err _) = Ok x"
| "or_default x r = r"

definition data_response :: "bytes \<Rightarrow> unit HandleResponse" where
  "data_response d = \<lparr>messages = [], logs = [], rdata = Some d\<rparr>"

definition try_vote :: "unit HandleResponse std_result" where
  "try_vote = Ok \<lparr>messages = [Gov (Vote 1 Yes)], logs = [], rdata = None\<rparr>"

definition try_query_proposal :: "unit chain \<Rightarrow> (Binary \<Rightarrow> 'p list std_result) \<Rightarrow> unit HandleResponse std_result" where
  "try_query_proposal deps parse_proposals =
     res_bind (or_default [] (custom_query (request_to_vec (fmt deps)) (raw deps) parse_proposals (GovRequest Proposals))) (\<lambda>ps.
     Ok (data_response (to_be 8 (length ps mod 2 ^ 64))))"

definition try_query_rewards :: "unit chain \<Rightarrow> (Binary \<Rightarrow> Coin list std_result) \<Rightarrow> HumanAddr \<Rightarrow> unit HandleResponse std_result" where
  "try_query_rewards deps parse_total addr =
     res_bind (or_default [] (custom_query (request_to_vec (fmt deps)) (raw deps) parse_total (DistRequest (Rewards addr)))) (\<lambda>total.
     let c = (if total = [] then \<lparr>denom = ''stake'', amount = Uint128 0\<rparr> else last total)
     in Ok (data_response (to_be 8 (unat (ucast (u128 (amount c)) :: u64)))))"

definition try_inflation_rate :: "unit chain \<Rightarrow> (Binary \<Rightarrow> string std_result) \<Rightarrow> unit HandleResponse std_result" where
  "try_inflation_rate deps parse_rate =
     res_bind (or_default '''' (custom_query (request_to_vec (fmt deps)) (raw deps) parse_rate (MintRequest Inflation))) (\<lambda>r.
     Ok (data_response (ascii r)))"

definition try_bonded_ratio :: "unit chain \<Rightarrow> (Binary \<Rightarrow> string std_result) \<Rightarrow> unit HandleResponse std_result" where
  "try_bonded_ratio deps parse_ratio =
     res_bind (or_default '''' (custom_query (request_to_vec (fmt deps)) (raw deps) parse_ratio (MintRequest BondedRatio))) (\<lambda>r.
     Ok (data_response (ascii r)))"

datatype GovHandleMsg = QueryProposals | CastVote

datatype DistHandleMsg = QueryRewards HumanAddr

datatype MintHandleMsg = InflationRate | QueryBondedRatio

definition module_init :: "unit InitResponse std_result" where
  "module_init = Ok init_default"

fun gov_handle :: "unit chain \<Rightarrow> (Binary \<Rightarrow> 'p list std_result) \<Rightarrow> GovHandleMsg \<Rightarrow> unit HandleResponse std_result" where
  "gov_handle deps parse_proposals QueryProposals = try_query_proposal deps parse_proposals"
| "gov_handle deps parse_proposals CastVote = try_vote"

fun dist_handle :: "unit chain \<Rightarrow> (Binary \<Rightarrow> Coin list std_result) \<Rightarrow> DistHandleMsg \<Rightarrow> unit HandleResponse std_result" where
  "dist_handle deps parse_total (QueryRewards addr) = try_query_rewards deps parse_total addr"

fun mint_handle ::
  "unit chain \<Rightarrow> (Binary \<Rightarrow> string std_result) \<Rightarrow> (Binary \<Rightarrow> string std_result) \<Rightarrow> MintHandleMsg \<Rightarrow> unit HandleResponse std_result" where
  "mint_handle deps parse_rate parse_ratio InflationRate = try_inflation_rate deps parse_rate"
| "mint_handle deps parse_rate parse_ratio QueryBondedRatio = try_bonded_ratio deps parse_ratio"

section \<open>Concrete runs\<close>

definition format_sample :: "'c answer_format" where
  "format_sample =
     \<lparr>request_to_vec = (\<lambda>_. Ok []), parse_balance = (\<lambda>_. Ok (coin 7 ''uscrt'')), parse_all_balances = (\<lambda>_. Ok [coin 7 ''uscrt'']),
      parse_validators = (\<lambda>_. Ok []), parse_bonded_denom = (\<lambda>_. Ok ''uscrt''), parse_all_delegations = (\<lambda>_. Ok []),
      parse_delegation = (\<lambda>_. Ok None)\<rparr>"

definition chain_sample :: "'c chain" where
  "chain_sample = \<lparr>canon = (\<lambda>h. Ok (ascii h)), human = (\<lambda>c. Ok (chars c)), fmt = format_sample, raw = (\<lambda>_. Ok (Ok []))\<rparr>"

definition alice_env :: Env where
  "alice_env = \<lparr>block = \<lparr>height = 1, time = 1, chain_id = ''secret''\<rparr>, message = \<lparr>sender = ''alice'', sent_funds = []\<rparr>,
     contract = \<lparr>address = ''c''\<rparr>, contract_key = None, contract_code_hash = ''''\<rparr>"

definition escrow_env :: EscrowEnv where
  "escrow_env = \<lparr>eblock = \<lparr>height = 1, time = 1, chain_id = ''secret''\<rparr>, esender = ascii ''alice'', eaddress = ascii ''c''\<rparr>"

definition escrow_state :: EscrowState where
  "escrow_state = \<lparr>arbiter = ascii ''alice'', recipient = ascii ''bob'', source = ascii ''carol'', end_height = Some 9, end_time = None\<rparr>"

definition u64_parts :: "u64 option \<Rightarrow> bytes" where
  "u64_parts t = (case t of None \<Rightarrow> [] | Some v \<Rightarrow> be128 (ucast v))"

definition u64_build :: "bytes \<Rightarrow> u64 option" where
  "u64_build bs = (if bs = [] then None else Some (ucast (of_be128 bs)))"

definition escrow_serde :: "EscrowState serde" where
  "escrow_serde = record_serde
     (\<lambda>t. [arbiter t, recipient t, source t, u64_parts (end_height t), u64_parts (end_time t)])
     (\<lambda>fs. \<lparr>arbiter = fs ! 0, recipient = fs ! 1, source = fs ! 2, end_height = u64_build (fs ! 3), end_time = u64_build (fs ! 4)\<rparr>)"

definition reflect_serde :: "ReflectState serde" where
  "reflect_serde = record_serde (\<lambda>t. [rowner t]) (\<lambda>fs. \<lparr>rowner = fs ! 0\<rparr>)"

definition hack_serde :: "HackState serde" where
  "hack_serde = record_serde (\<lambda>t. [verifier t, beneficiary t, funder t])
     (\<lambda>fs. \<lparr>verifier = fs ! 0, beneficiary = fs ! 1, funder = fs ! 2\<rparr>)"

definition stored_as :: "'t serde \<Rightarrow> bytes \<Rightarrow> 't \<Rightarrow> MemoryStorage" where
  "stored_as sd k t = (case sd_ser sd t of Ok bs \<Rightarrow> ms_set ms_new k bs | _ \<Rightarrow> ms_new)"

lemma cell_stored:
  assumes "serde_ok (sd_ser sd) (sd_de sd)" and "sd_ser sd t = Ok bs"
  shows "cell sd k (stored_as sd k t) = Ok (Some t)"
  using assms by (simp add: stored_as_def cell_set_same)

lemma u64_build_parts [simp]: "u64_build (u64_parts t) = t"
proof (cases t)
  case (Some v)
  have "be128 (ucast v) \<noteq> []"
    by (metis length_be128 list.size(3) zero_neq_numeral)
  then show ?thesis
    using Some by (simp add: u64_build_def u64_parts_def unsigned_ucast_eq take_bit_word_eq_self)
qed (simp add: u64_build_def u64_parts_def)

lemma contract_serdes_ok [simp]:
  "serde_ok (sd_ser escrow_serde) (sd_de escrow_serde)"
  "serde_ok (sd_ser reflect_serde) (sd_de reflect_serde)"
  "serde_ok (sd_ser hack_serde) (sd_de hack_serde)"
  unfolding escrow_serde_def reflect_serde_def hack_serde_def by (rule record_serde_ok, simp)+

lemma balances_sample: "query_all_balances (fmt chain_sample) (raw chain_sample) x = Ok [coin 7 ''uscrt'']"
  by (simp add: query_all_balances_def custom_query_def chain_sample_def format_sample_def res_simps)

lemma addresses_sample: "canon chain_sample h = Ok (ascii h)" "human chain_sample c = Ok (chars c)"
  by (simp_all add: chain_sample_def)

theorem escrow_pays_right_party_witness:
  "\<exists>r s'. escrow_handle chain_sample escrow_serde escrow_env (Approve None)
       (stored_as escrow_serde (singleton_key CONFIG_KEY) escrow_state) = (Ok r, s') \<and>
     (\<exists>coins. messages r = [Bank (Send ''c'' ''bob'' coins)])"
proof -
  let ?s = "stored_as escrow_serde (singleton_key CONFIG_KEY) escrow_state"
  have c: "cell escrow_serde (singleton_key CONFIG_KEY) ?s = Ok (Some escrow_state)"
    by (rule cell_stored, simp, simp add: escrow_serde_def)
  then obtain r where run: "escrow_handle chain_sample escrow_serde escrow_env (Approve None) ?s = (Ok r, ?s)"
    by (auto simp: escrow_handle_def and_then_Ok with_singleton_load_Ok try_approve_def send_tokens_def res_simps
        balances_sample addresses_sample escrow_state_def escrow_env_def is_expired_def)
  then show ?thesis
    using escrow_pays_right_party [OF run] c
    by (auto simp: addresses_sample escrow_state_def escrow_env_def is_expired_def)
qed

lemma burner_empties_storage_witness:
  "\<exists>r s'. burner_migrate chain_sample alice_env \<lparr>payout = ''bob''\<rparr> (ms_set ms_new [1] [2]) = (Ok r, s') \<and> data s' = []"
proof -
  obtain r s' where run: "burner_migrate chain_sample alice_env \<lparr>payout = ''bob''\<rparr> (ms_set ms_new [1] [2]) = (Ok r, s')"
    by (auto simp: burner_migrate_def and_then_Ok balances_sample)
  then show ?thesis
    using burner_empties_storage [OF run] by blast
qed

lemma reflect_only_owner_witness:
  "\<exists>r s'. reflect_handle chain_sample reflect_serde alice_env (ChangeOwner ''bob'')
       (stored_as reflect_serde (singleton_key CONFIG_KEY) \<lparr>rowner = ascii ''alice''\<rparr>) = (Ok r, s') \<and>
     cell reflect_serde (singleton_key CONFIG_KEY) s' = Ok (Some \<lparr>rowner = ascii ''bob''\<rparr>)"
proof -
  let ?s = "stored_as reflect_serde (singleton_key CONFIG_KEY) \<lparr>rowner = ascii ''alice''\<rparr>"
  have c: "cell reflect_serde (singleton_key CONFIG_KEY) ?s = Ok (Some \<lparr>rowner = ascii ''alice''\<rparr>)"
    by (rule cell_stored, simp, simp add: reflect_serde_def)
  then obtain r s' where run: "reflect_handle chain_sample reflect_serde alice_env (ChangeOwner ''bob'') ?s = (Ok r, s')"
    by (auto simp: try_change_owner_def and_then_Ok with_singleton_update_Ok res_simps addresses_sample alice_env_def)
      (simp add: reflect_serde_def)
  then show ?thesis
    using reflect_only_owner [OF contract_serdes_ok(2) run] c by (auto simp: addresses_sample)
qed

lemma release_only_verifier_witness:
  "\<exists>r s' balance. hack_handle \<lparr>granted = 0, memory_grow = id, sha256 = id, debug_error = (\<lambda>_. [])\<rparr> chain_sample hack_serde alice_env
       Release (stored_as hack_serde CONFIG_KEY \<lparr>verifier = ascii ''alice'', beneficiary = ascii ''bob'', funder = []\<rparr>) = Some (Ok r, s') \<and>
     messages r = [Bank (Send ''c'' ''bob'' balance)]"
proof -
  let ?st = "\<lparr>verifier = ascii ''alice'', beneficiary = ascii ''bob'', funder = []\<rparr>"
  let ?s = "stored_as hack_serde CONFIG_KEY ?st"
  let ?m = "\<lparr>granted = 0, memory_grow = id, sha256 = id, debug_error = (\<lambda>_. [])\<rparr>"
  have c: "cell hack_serde CONFIG_KEY ?s = Ok (Some ?st)"
    by (rule cell_stored, simp, simp add: hack_serde_def)
  then obtain r s' where run: "hack_handle ?m chain_sample hack_serde alice_env Release ?s = Some (Ok r, s')"
    by (auto simp: do_release_def and_then_Ok load_state_Ok addresses_sample balances_sample alice_env_def)
  then show ?thesis
    using release_only_verifier [OF run] c by (auto simp: addresses_sample alice_env_def)
qed

text \<open>A chain that carries the work in the message and runs the query it is asked to.\<close>

definition recursion_machine :: hack_machine where
  "recursion_machine = \<lparr>granted = 0, memory_grow = id, sha256 = (\<lambda>bs. 0 # bs), debug_error = (\<lambda>_. [])\<rparr>"

fun recursion_ser :: "HackQueryMsg \<Rightarrow> Binary std_result" where
  "recursion_ser (Recurse depth work addr code_hash) = Ok (be128 (ucast work))"
| "recursion_ser msg = Ok []"

definition recursion_parse :: "Binary \<Rightarrow> Binary std_result" where
  "recursion_parse bs = Ok ((sha256 recursion_machine ^^ unat (of_be128 bs)) (ascii ''c''))"

definition recursion_chain :: "unit chain" where
  "recursion_chain = chain_sample
     \<lparr>fmt := format_sample\<lparr>request_to_vec := (\<lambda>req. case req of WasmRequest (Smart a h msg) \<Rightarrow> Ok msg | _ \<Rightarrow> Ok [])\<rparr>,
      raw := (\<lambda>bs. Ok (Ok bs))\<rparr>"

lemma recursion_chain_answers: "answers_itself recursion_machine recursion_chain recursion_ser recursion_parse ''c'' ''h''"
proof -
  have up: "unat (ucast w :: u128) = unat w" for w :: u32
    by (simp add: unsigned_ucast_eq take_bit_nat_eq_self less_le_trans [OF unsigned_less])
  have "custom_query (request_to_vec (fmt recursion_chain)) (raw recursion_chain) recursion_parse
      (WasmRequest (Smart ''c'' ''h'' (be128 (ucast w)))) = Ok ((sha256 recursion_machine ^^ unat w) (ascii ''c''))" for w :: u32
    by (simp add: custom_query_def recursion_chain_def recursion_parse_def res_simps up)
  then show ?thesis
    by (simp add: answers_itself_def query_recurse_def Let_def res_simps)
qed

lemma funpow_numeral_2: "(f ^^ 2) x = f (f x)"
  by (simp add: numeral_2_eq_2)

lemma recursion_returns_hash_witness:
  "query_recurse recursion_machine recursion_chain recursion_ser recursion_parse 5 2 ''c'' ''h'' = Ok (0 # 0 # ascii ''c'')"
  using recursion_returns_hash [OF recursion_chain_answers, of 5 2] by (simp add: recursion_machine_def funpow_numeral_2)

end
