(* ===== verification/Enclave_Types.thy ===== *)
theory Enclave_Types
  imports Prelude
begin

text \<open>
  Data of the enclave (\<open>packages/enclave-ffi-types/src/types.rs\<close>,
  \<open>packages/wasmi-runtime/src/cosmwasm/types.rs\<close>, \<open>crypto/errors.rs\<close>): error
  codes, the environment of a call as the enclave parses it, messages between
  contracts, signed documents and public keys.
\<close>

section \<open>Errors\<close>

text \<open>
  \<open>FailedOcall\<close> carries the pointer to an error object of the host; the enclave
  never looks at it.
\<close>

datatype EnclaveError =
    FailedOcall u64
  | ValidationFailure
  | InvalidWasm
  | CannotInitializeWasmMemory
  | WasmModuleWithStart
  | WasmModuleWithFP
  | FailedGasMeteringInjection
  | InternalError
  | OutOfGas
  | FailedFunctionCall
  | ContractPanicUnreachable
  | ContractPanicMemoryAccessOutOfBounds
  | ContractPanicTableAccessOutOfBounds
  | ContractPanicElemUninitialized
  | ContractPanicDivisionByZero
  | ContractPanicInvalidConversionToInt
  | ContractPanicStackOverflow
  | ContractPanicUnexpectedSignature
  | FailedSeal
  | FailedUnseal
  | FailedContractAuthentication
  | FailedToDeserialize
  | FailedToSerialize
  | EncryptionError
  | DecryptionError
  | MemoryAllocationError
  | MemorySafetyAllocationError
  | MemoryReadError
  | MemoryWriteError
  | NotImplemented
  | FailedTxVerification
  | UnauthorizedWrite
  | HostMisbehavior
  | Panic
  | OutOfMemory
  | ExceededRecursionLimit
  | Unknown

type_synonym 'a enclave_result = "(EnclaveError, 'a) res"

datatype CryptoError =
    DerivingKeyError
  | MissingKeyError
  | CryptoDecryptionError
  | ImproperEncryption
  | CryptoEncryptionError
  | SigningError
  | ParsingError
  | RecoveryError
  | KeyError
  | RandomError
  | VerificationError

datatype OcallReturn = OcallSuccess | OcallFailure | OcallPanic

section \<open>The environment of a call\<close>

type_synonym HumanAddr = string
type_synonym CanonicalAddr = bytes
type_synonym Binary = bytes

record Coin =
  denom :: string
  amount :: string

record BlockInfo =
  height :: u64
  time :: u64
  chain_id :: string

record MessageInfo =
  sender :: HumanAddr
  sent_funds :: "Coin list"

record ContractInfo =
  address :: HumanAddr

record Env =
  block :: BlockInfo
  message :: MessageInfo
  contract :: ContractInfo
  contract_key :: "string option"
  contract_code_hash :: string

section \<open>Messages of contracts\<close>

text \<open>
  Messages that the enclave passes through unread (bank, staking, governance,
  custom) are their serialized form.
\<close>

datatype WasmMsg =
    WasmExecute HumanAddr string Binary "Coin list" "bytes option"
  | WasmInstantiate u64 string Binary "Coin list" string "bytes option"

datatype CosmosMsg =
    Bank bytes
  | Custom bytes
  | Staking bytes
  | Wasm WasmMsg
  | Gov bytes

record LogAttribute =
  log_key :: string
  log_value :: string

record ContractResult =
  cr_messages :: "CosmosMsg list"
  cr_log :: "LogAttribute list"
  cr_data :: "Binary option"

text \<open>The output of a contract: an error value (as JSON text), a query answer or a result object.\<close>

datatype WasmOutput =
    ErrObject string
  | OkString string
  | OkObject ContractResult

section \<open>Signed transactions\<close>

datatype PubKeyKind =
    Secp256k1 bytes
  | Multisig u8 "PubKeyKind list"

record CosmosSignature =
  pub_key :: PubKeyKind
  signature :: Binary

datatype SignDocWasmMsg =
    SignExecute HumanAddr string "Coin list" "bytes option"
  | SignInstantiate string string "Coin list" "string option" "bytes option"

record SignDoc =
  account_number :: string
  sd_chain_id :: string
  fee :: bytes
  memo :: string
  msgs :: "SignDocWasmMsg list"
  sequence :: string

record SigInfo =
  sign_bytes :: Binary
  sig_signature :: CosmosSignature
  callback_sig :: "Binary option"

end
