(* ===== verification/Enclave_State.thy ===== *)
theory Enclave_State
  imports Enclave_Types Stateful "HOL-Library.Multiset"
begin

text \<open>
  The global state of the enclave: buffers that the host allocates for the
  answers of its calls (\<open>ecall_allocate\<close> and \<open>recover_buffer\<close> of \<open>exports.rs\<close>), the
  depth of nested computations (\<open>recursion_depth.rs\<close>) and the memory reserve for
  unwinding (\<open>oom_handler.rs\<close>).
\<close>

section \<open>recursion_depth.rs\<close>

definition RECURSION_LIMIT :: u8 where
  "RECURSION_LIMIT = 5"

definition increment :: "u8 \<Rightarrow> unit enclave_result \<times> u8" where
  "increment depth =
     (if depth = RECURSION_LIMIT then (Err ExceededRecursionLimit, depth)
      else (Ok (), if depth = 255 then 255 else depth + 1))"

definition decrement :: "u8 \<Rightarrow> u8" where
  "decrement depth = saturating_sub depth 1"

definition limit_reached :: "u8 \<Rightarrow> bool" where
  "limit_reached depth = (depth = RECURSION_LIMIT)"

lemma increment_Ok:
  "unat depth \<le> 5 \<Longrightarrow> increment depth = (Ok (), d) \<longleftrightarrow> unat depth < 5 \<and> unat d = unat depth + 1"
proof -
  assume bound: "unat depth \<le> 5"
  have "unat (depth + 1) = unat depth + 1"
    using bound by (subst unat_add_fits) simp_all
  moreover have "depth = 5 \<longleftrightarrow> unat depth = 5" "depth \<noteq> 255"
    using bound by (auto simp: word_unat_eq_iff)
  ultimately show ?thesis
    using bound by (auto simp: increment_def RECURSION_LIMIT_def word_unat_eq_iff)
qed

lemma unat_decrement: "unat (decrement depth) = unat depth - 1"
  by (simp add: decrement_def unat_saturating_sub)

section \<open>exports.rs: buffers\<close>

text \<open>
  \<open>alloc_stack\<close> is \<open>ECALL_ALLOCATE_STACK\<close>; \<open>heap\<close> holds the boxed vectors by
  address. The allocator is a parameter: \<open>None\<close> stands for a failed allocation.
\<close>

type_synonym ptr = u64

record buffers =
  alloc_stack :: "ptr list"
  heap :: "ptr \<rightharpoonup> bytes"

type_synonym allocator = "(ptr \<rightharpoonup> bytes) \<Rightarrow> bytes \<Rightarrow> ptr option"

definition allocator_ok :: "allocator \<Rightarrow> bool" where
  "allocator_ok al = (\<forall>h d p. al h d = Some p \<longrightarrow> p \<noteq> 0 \<and> h p = None)"

text \<open>
  One call of \<open>ecall_allocate\<close>: the data the pointer designates (\<open>None\<close> for the
  null pointer) and the results of registering and restoring the memory reserve.
\<close>

record alloc_call =
  ac_buffer :: "bytes option"
  ac_register :: "unit enclave_result"
  ac_restore :: "unit enclave_result"

definition ecall_allocate :: "allocator \<Rightarrow> alloc_call \<Rightarrow> buffers \<Rightarrow> ptr \<times> buffers" where
  "ecall_allocate al call b =
     (if \<not> is_ok (ac_register call) then (0, b)
      else (case ac_buffer call of
          None \<Rightarrow> (0, b)
        | Some sl \<Rightarrow>
            if sl = [] then (0, b)
            else (case al (heap b) sl of
                None \<Rightarrow> (0, b)
              | Some p \<Rightarrow>
                  (let b' = b\<lparr>alloc_stack := alloc_stack b @ [p], heap := (heap b)(p \<mapsto> sl)\<rparr>
                   in if \<not> is_ok (ac_restore call) then (0, b') else (p, b')))))"

fun position :: "('a \<Rightarrow> bool) \<Rightarrow> 'a list \<Rightarrow> nat option" where
  "position P [] = None"
| "position P (x # xs) = (if P x then Some 0 else map_option Suc (position P xs))"

definition swap_remove :: "nat \<Rightarrow> 'a list \<Rightarrow> 'a list" where
  "swap_remove i xs = butlast (xs[i := last xs])"

definition recover_buffer :: "ptr \<Rightarrow> buffers \<Rightarrow> (unit, bytes option) res \<times> buffers" where
  "recover_buffer p b =
     (if p = 0 then (Ok None, b)
      else (case position (\<lambda>buffer. buffer = p) (rev (alloc_stack b)) of
          None \<Rightarrow> (Err (), b)
        | Some index_from_the_end \<Rightarrow>
            (let index = length (alloc_stack b) - index_from_the_end - 1;
                 b' = b\<lparr>alloc_stack := swap_remove index (alloc_stack b)\<rparr>
             in (case heap b p of
                   None \<Rightarrow> (Panicked, b')
                 | Some v \<Rightarrow> (Ok (Some v), b'\<lparr>heap := (heap b)(p := None)\<rparr>)))))"

text \<open>The buffers the enclave owns are exactly those on the stack, none of them twice.\<close>

definition bufs_ok :: "buffers \<Rightarrow> bool" where
  "bufs_ok b = (distinct (alloc_stack b) \<and> dom (heap b) = set (alloc_stack b) \<and> 0 \<notin> set (alloc_stack b))"

lemma position_Some: "position P xs = Some i \<Longrightarrow> i < length xs \<and> P (xs ! i)"
  by (induction xs arbitrary: i) (auto split: if_splits)

lemma position_None: "position P xs = None \<longleftrightarrow> (\<forall>x \<in> set xs. \<not> P x)"
  by (induction xs) auto

lemma mset_swap_remove: "i < length xs \<Longrightarrow> mset (swap_remove i xs) = mset xs - {#xs ! i#}"
proof -
  assume i: "i < length xs"
  then have ne: "xs[i := last xs] \<noteq> []"
    by auto
  have "last (xs[i := last xs]) = last xs"
    using i ne by (simp add: last_conv_nth nth_list_update)
  then have "xs[i := last xs] = swap_remove i xs @ [last xs]"
    using append_butlast_last_id [OF ne] by (simp add: swap_remove_def)
  then have "mset (xs[i := last xs]) = mset (swap_remove i xs) + {#last xs#}"
    by (metis mset.simps mset_append)
  then have "mset (swap_remove i xs) = mset (xs[i := last xs]) - {#last xs#}"
    by simp
  also have "\<dots> = mset xs - {#xs ! i#}"
    using i by (simp add: mset_update)
  finally show ?thesis .
qed

lemma swap_remove_distinct:
  assumes "distinct xs" and "i < length xs"
  shows "distinct (swap_remove i xs)" and "set (swap_remove i xs) = set xs - {xs ! i}"
proof -
  have m: "mset (swap_remove i xs) = mset (remove1 (xs ! i) xs)"
    using assms(2) by (simp add: mset_swap_remove)
  show "distinct (swap_remove i xs)"
    using mset_eq_imp_distinct_iff [OF m] assms(1) by simp
  show "set (swap_remove i xs) = set xs - {xs ! i}"
    using mset_eq_setD [OF m] assms(1) by simp
qed

lemma bufs_ok_allocate:
  assumes "allocator_ok al" and "bufs_ok b" and "ecall_allocate al call b = (p, b')"
  shows "bufs_ok b'"
proof -
  have "bufs_ok (b\<lparr>alloc_stack := alloc_stack b @ [q], heap := (heap b)(q \<mapsto> d)\<rparr>)" if "al (heap b) d = Some q" for q d
  proof -
    have "q \<noteq> 0" "heap b q = None"
      using assms(1) that unfolding allocator_ok_def by blast+
    moreover have "q \<notin> set (alloc_stack b)"
      using assms(2) \<open>heap b q = None\<close> unfolding bufs_ok_def by (metis domIff)
    ultimately show ?thesis
      using assms(2) by (simp add: bufs_ok_def)
  qed
  then show ?thesis
    using assms(2,3) by (auto simp: ecall_allocate_def Let_def split: option.splits if_splits)
qed

lemma recover_buffer_known:
  assumes "bufs_ok b" and "p \<in> set (alloc_stack b)"
  obtains v b' where "recover_buffer p b = (Ok (Some v), b')" and "heap b p = Some v" and "bufs_ok b'"
    and "set (alloc_stack b') = set (alloc_stack b) - {p}" and "heap b' = (heap b)(p := None)"
proof -
  obtain i where i: "position (\<lambda>q. q = p) (rev (alloc_stack b)) = Some i"
    using assms(2) position_None [of "\<lambda>q. q = p" "rev (alloc_stack b)"] by fastforce
  let ?j = "length (alloc_stack b) - i - 1"
  have j: "?j < length (alloc_stack b)" "alloc_stack b ! ?j = p"
    using position_Some [OF i] by (auto simp: rev_nth)
  obtain v where v: "heap b p = Some v"
    using assms by (auto simp: bufs_ok_def)
  note dist = swap_remove_distinct [of "alloc_stack b" ?j]
  have "p \<noteq> 0"
    using assms by (auto simp: bufs_ok_def)
  moreover have "bufs_ok (b\<lparr>alloc_stack := swap_remove ?j (alloc_stack b), heap := (heap b)(p := None)\<rparr>)"
    using assms(1) dist j by (auto simp: bufs_ok_def)
  ultimately show ?thesis
    using i v dist j assms(1)
    by (intro that [of v "b\<lparr>alloc_stack := swap_remove ?j (alloc_stack b), heap := (heap b)(p := None)\<rparr>"])
      (simp_all add: recover_buffer_def bufs_ok_def)
qed

lemma recover_buffer_forged:
  "p \<noteq> 0 \<Longrightarrow> p \<notin> set (alloc_stack b) \<Longrightarrow> recover_buffer p b = (Err (), b)"
  using position_None [of "\<lambda>q. q = p" "rev (alloc_stack b)"]
  by (auto simp: recover_buffer_def split: option.splits)

lemma recover_buffer_null: "recover_buffer 0 b = (Ok None, b)"
  by (simp add: recover_buffer_def)

lemma recover_buffer_keeps:
  assumes "bufs_ok b" and "recover_buffer p b = (r, b')"
  shows "bufs_ok b' \<and> r \<noteq> Panicked"
proof -
  consider "p = 0" | "p \<noteq> 0" "p \<notin> set (alloc_stack b)" | "p \<in> set (alloc_stack b)"
    by blast
  then show ?thesis
  proof cases
    case 3
    then show ?thesis
      by (rule recover_buffer_known [OF assms(1)]) (use assms(2) in simp)
  qed (use assms recover_buffer_null recover_buffer_forged in auto)
qed

text \<open>
  Recovering a buffer hands out what the host put in, once, and nothing
  else. A pointer that \<open>ecall_allocate\<close> returned and that was not recovered since
  gives its data back and leaves every other buffer; afterwards, and for any
  pointer the enclave did not hand out, recovery is refused without a change.
  A null pointer means no data. No case is undefined.
\<close>

lemma recover_buffer_exact:
  assumes "bufs_ok b" and "recover_buffer p b = (r, b')"
  shows "bufs_ok b' \<and>
    (r = (if p = 0 then Ok None
          else case heap b p of Some v \<Rightarrow> Ok (Some v) | None \<Rightarrow> Err ())) \<and>
    heap b' = (heap b)(p := None) \<and>
    (p \<noteq> 0 \<longrightarrow> recover_buffer p b' = (Err (), b'))"
proof -
  have null: "heap b 0 = None"
    using assms(1) by (auto simp: bufs_ok_def)
  consider "p = 0" | "p \<noteq> 0" "p \<notin> set (alloc_stack b)" | "p \<in> set (alloc_stack b)"
    by blast
  then show ?thesis
  proof cases
    case 1
    then have "r = Ok None" "b' = b"
      using assms(2) by (simp_all add: recover_buffer_null)
    then show ?thesis
      using assms(1) 1 null by (simp add: fun_upd_idem)
  next
    case 2
    have "r = Err ()" "b' = b"
      using assms(2) 2 by (simp_all add: recover_buffer_forged)
    moreover have "heap b p = None"
      using assms(1) 2(2) unfolding bufs_ok_def by (metis domIff)
    ultimately show ?thesis
      using assms(1) 2 by (simp add: fun_upd_idem recover_buffer_forged)
  next
    case 3
    then obtain v c where *: "recover_buffer p b = (Ok (Some v), c)" "heap b p = Some v" "bufs_ok c"
      "set (alloc_stack c) = set (alloc_stack b) - {p}" "heap c = (heap b)(p := None)"
      by (rule recover_buffer_known [OF assms(1)])
    have "p \<noteq> 0"
      using *(2) null by (cases "p = 0") simp_all
    moreover have "p \<notin> set (alloc_stack c)"
      by (simp add: *(4))
    ultimately have "recover_buffer p c = (Err (), c)"
      by (rule recover_buffer_forged)
    moreover have "r = Ok (Some v)" "b' = c"
      using *(1) assms(2) by simp_all
    ultimately show ?thesis
      using *(2,3,5) \<open>p \<noteq> 0\<close> by simp
  qed
qed

definition demo_alloc :: allocator where
  "demo_alloc h d = (if h 8 = None then Some 8 else None)"

definition demo_buffers :: buffers where
  "demo_buffers = snd (ecall_allocate demo_alloc
     \<lparr>ac_buffer = Some [65, 66], ac_register = Ok (), ac_restore = Ok ()\<rparr> \<lparr>alloc_stack = [], heap = Map.empty\<rparr>)"

lemma demo_buffers_eq: "demo_buffers = \<lparr>alloc_stack = [8], heap = [8 \<mapsto> [65, 66]]\<rparr>"
  by (simp add: demo_buffers_def ecall_allocate_def demo_alloc_def Let_def)

lemma recover_buffer_exact_witness:
  "fst (recover_buffer 8 demo_buffers) = Ok (Some [65, 66])"
proof -
  have "bufs_ok demo_buffers"
    by (simp add: demo_buffers_eq bufs_ok_def)
  then show ?thesis
    using recover_buffer_exact [of demo_buffers 8 "fst (recover_buffer 8 demo_buffers)"
        "snd (recover_buffer 8 demo_buffers)"]
    by (simp add: demo_buffers_eq)
qed

section \<open>oom_handler.rs\<close>

text \<open>
  The reserve is a vector of chunks: how many it holds and its capacity, which
  doubles when it is full (\<open>Vec::push\<close>). Whether the reservation of chunk \<open>i\<close>
  succeeds is an argument.
\<close>

record SafetyBuffer =
  chunks :: nat
  min_chunks :: nat
  held :: nat
  capacity :: nat

definition push_chunk :: "SafetyBuffer \<Rightarrow> SafetyBuffer" where
  "push_chunk sb = sb\<lparr>held := held sb + 1,
     capacity := (if held sb = capacity sb then max (2 * capacity sb) 4 else capacity sb)\<rparr>"

function top_up_buffer :: "(nat \<Rightarrow> bool) \<Rightarrow> SafetyBuffer \<Rightarrow> unit enclave_result \<times> SafetyBuffer" where
  "top_up_buffer available sb =
     (if chunks sb \<le> held sb then (Ok (), sb)
      else if \<not> available (held sb) then
        (if min_chunks sb < held sb then (Ok (), sb) else (Err MemorySafetyAllocationError, sb))
      else top_up_buffer available (push_chunk sb))"
  by pat_completeness auto

termination
  by (relation "measure (\<lambda>(_, sb). chunks sb - held sb)") (auto simp: push_chunk_def)

declare top_up_buffer.simps [simp del]

definition sb_new :: "(nat \<Rightarrow> bool) \<Rightarrow> nat \<Rightarrow> nat \<Rightarrow> (EnclaveError, SafetyBuffer) res" where
  "sb_new available c m =
     (case top_up_buffer available \<lparr>chunks = c, min_chunks = m, held = 0, capacity = c\<rparr> of
        (Ok _, sb) \<Rightarrow> Ok sb
      | (_, sb) \<Rightarrow> Panicked)"

definition sb_clear :: "SafetyBuffer \<Rightarrow> SafetyBuffer" where
  "sb_clear sb = sb\<lparr>held := 0, capacity := 0\<rparr>"

definition sb_restore :: "(nat \<Rightarrow> bool) \<Rightarrow> SafetyBuffer \<Rightarrow> unit enclave_result \<times> SafetyBuffer" where
  "sb_restore available sb =
     (if capacity sb < chunks sb then top_up_buffer available sb else (Ok (), sb))"

inductive sb_reach :: "SafetyBuffer \<Rightarrow> bool" where
  reach_new: "sb_new available (4 * 1024) (2 * 1024) = Ok sb \<Longrightarrow> sb_reach sb"
| reach_clear: "sb_reach sb \<Longrightarrow> sb_reach (sb_clear sb)"
| reach_restore: "sb_reach sb \<Longrightarrow> sb_restore available sb = (r, sb') \<Longrightarrow> sb_reach sb'"

definition sb_inv :: "SafetyBuffer \<Rightarrow> bool" where
  "sb_inv sb = (chunks sb = 4096 \<and> min_chunks sb = 2048 \<and> held sb \<le> 4096 \<and> held sb \<le> capacity sb \<and>
     (2048 < held sb \<or> capacity sb \<le> 4 \<or> capacity sb < 2 * held sb))"

lemma top_up_inv:
  assumes "sb_inv sb" and "top_up_buffer available sb = (r, sb')"
  shows "sb_inv sb' \<and> (r = Ok () \<longrightarrow> 2048 < held sb') \<and> r \<noteq> Panicked"
  using assms
proof (induction available sb rule: top_up_buffer.induct)
  case (1 available sb)
  note step = top_up_buffer.simps [of available sb]
  show ?case
  proof (cases "chunks sb \<le> held sb \<or> \<not> available (held sb)")
    case True
    then show ?thesis
      using 1(2,3) unfolding step by (auto simp: sb_inv_def split: if_splits)
  next
    case False
    moreover have "sb_inv (push_chunk sb)"
      using 1(2) False by (auto simp: sb_inv_def push_chunk_def)
    ultimately show ?thesis
      using 1(1,3) step by simp
  qed
qed

lemma top_up_from_new:
  assumes "top_up_buffer available sb = (Ok (), sb')" and "capacity sb = 4096" and "chunks sb = 4096"
    and "min_chunks sb = 2048" and "held sb \<le> 4096"
  shows "sb_inv sb'"
  using assms
proof (induction available sb rule: top_up_buffer.induct)
  case (1 available sb)
  note step = top_up_buffer.simps [of available sb]
  show ?case
  proof (cases "chunks sb \<le> held sb \<or> \<not> available (held sb)")
    case True
    then show ?thesis
      using 1(2-6) unfolding step by (auto simp: sb_inv_def split: if_splits)
  next
    case False
    then have "top_up_buffer available (push_chunk sb) = (Ok (), sb')"
      using 1(2) step by simp
    then show ?thesis
      using False 1(3-6) by (intro 1(1)) (auto simp: push_chunk_def)
  qed
qed

lemma sb_reach_inv: "sb_reach sb \<Longrightarrow> sb_inv sb"
proof (induction rule: sb_reach.induct)
  case (reach_new available sb)
  then show ?case
    using top_up_from_new by (auto simp: sb_new_def split: prod.splits res.splits)
next
  case (reach_clear sb)
  then show ?case
    by (simp add: sb_inv_def sb_clear_def)
next
  case (reach_restore sb available r sb')
  then show ?case
    using top_up_inv by (auto simp: sb_restore_def split: if_splits)
qed

text \<open>
  The reserve of 4096 chunks with minimum 2048, after any history of being
  freed and restored: whenever restoring reports success the enclave holds more
  than the minimum, and restoring never panics.
\<close>

lemma safety_buffer_minimum:
  assumes "sb_reach sb" and "sb_restore available sb = (r, sb')"
  shows "r \<noteq> Panicked \<and> (r = Ok () \<longrightarrow> min_chunks sb' < held sb' \<and> held sb' \<le> chunks sb')"
proof -
  have inv: "sb_inv sb"
    using assms(1) by (rule sb_reach_inv)
  show ?thesis
  proof (cases "capacity sb < chunks sb")
    case True
    then show ?thesis
      using top_up_inv [OF inv, of available r sb'] assms(2) by (auto simp: sb_restore_def sb_inv_def)
  next
    case False
    then show ?thesis
      using assms(2) inv by (auto simp: sb_restore_def sb_inv_def)
  qed
qed

lemma top_up_all:
  assumes "held sb \<le> chunks sb"
  shows "\<exists>c. (capacity sb = chunks sb \<longrightarrow> c = chunks sb) \<and>
    top_up_buffer (\<lambda>_. True) sb = (Ok (), sb\<lparr>held := chunks sb, capacity := c\<rparr>)"
  using assms
proof (induction "chunks sb - held sb" arbitrary: sb)
  case 0
  then show ?case
    by (subst top_up_buffer.simps) (auto intro!: exI [of _ "capacity sb"])
next
  case (Suc n)
  let ?sb = "push_chunk sb"
  have "n = chunks ?sb - held ?sb" "held ?sb \<le> chunks ?sb" and eq: "chunks ?sb = chunks sb"
    using Suc(2) by (auto simp: push_chunk_def)
  from Suc(1) [OF this(1,2)] obtain c where c: "capacity ?sb = chunks sb \<longrightarrow> c = chunks sb"
    "top_up_buffer (\<lambda>_. True) ?sb = (Ok (), ?sb\<lparr>held := chunks sb, capacity := c\<rparr>)"
    by (auto simp: eq)
  moreover have "top_up_buffer (\<lambda>_. True) sb = top_up_buffer (\<lambda>_. True) ?sb"
    using Suc(2) by (subst top_up_buffer.simps) auto
  moreover have "?sb\<lparr>held := chunks sb, capacity := c\<rparr> = sb\<lparr>held := chunks sb, capacity := c\<rparr>"
    by (simp add: push_chunk_def)
  moreover have "capacity sb = chunks sb \<longrightarrow> capacity ?sb = chunks sb"
    using Suc(2) by (auto simp: push_chunk_def)
  ultimately show ?case
    by auto
qed

definition full_reserve :: SafetyBuffer where
  "full_reserve = \<lparr>chunks = 4096, min_chunks = 2048, held = 4096, capacity = 4096\<rparr>"

lemma new_full_reserve: "sb_reach full_reserve"
proof (rule reach_new [where available = "\<lambda>_. True"])
  show "sb_new (\<lambda>_. True) (4 * 1024) (2 * 1024) = Ok full_reserve"
    using top_up_all [of "\<lparr>chunks = 4096, min_chunks = 2048, held = 0, capacity = 4096\<rparr>"]
    by (auto simp: sb_new_def full_reserve_def)
qed

lemma safety_buffer_minimum_witness:
  "case sb_restore (\<lambda>_. True) (sb_clear full_reserve) of (r, sb) \<Rightarrow> r = Ok () \<and> 2048 < held sb"
proof -
  obtain c where "sb_restore (\<lambda>_. True) (sb_clear full_reserve) = (Ok (), full_reserve\<lparr>capacity := c\<rparr>)"
    using top_up_all [of "sb_clear full_reserve"]
    by (auto simp: sb_restore_def sb_clear_def full_reserve_def)
  then show ?thesis
    using safety_buffer_minimum [OF reach_clear [OF new_full_reserve], of "\<lambda>_. True"]
    by (simp add: full_reserve_def)
qed

text \<open>
  A reserve that could only be filled in part is not completed later: its
  capacity is already that of the full reserve, so restoring does nothing even
  when memory is available again.
\<close>

lemma partial_reserve_stays:
  "sb_restore (\<lambda>_. True) \<lparr>chunks = 4096, min_chunks = 2048, held = h, capacity = 4096\<rparr>
     = (Ok (), \<lparr>chunks = 4096, min_chunks = 2048, held = h, capacity = 4096\<rparr>)"
  by (simp add: sb_restore_def)

end
