(* ===== verification/Enclave_Crypto.thy ===== *)
theory Enclave_Crypto
  imports Enclave_Types
begin

text \<open>
  The crypto layer of the enclave (\<open>wasmi-runtime/src/crypto\<close>): key derivation,
  deterministic encryption, key pairs, sealing of keys to disk and the key
  chain derived from the consensus seed. The primitives (SHA-256, HKDF, HMAC,
  AES-SIV, X25519) are third-party code: they are the fields of the record
  \<open>prims\<close>, and \<open>prims_ok\<close> collects the documented behaviour the code relies on.
\<close>

section \<open>Primitives\<close>

record prims =
  p_sha256 :: "bytes \<Rightarrow> bytes"
  p_hkdf :: "bytes \<Rightarrow> bytes \<Rightarrow> bytes list \<Rightarrow> bytes"
  p_hmac :: "bytes \<Rightarrow> bytes \<Rightarrow> bytes"
  p_siv_encrypt :: "bytes \<Rightarrow> bytes list \<Rightarrow> bytes \<Rightarrow> bytes option"
  p_siv_decrypt :: "bytes \<Rightarrow> bytes list \<Rightarrow> bytes \<Rightarrow> bytes option"
  p_x25519_public :: "bytes \<Rightarrow> bytes"
  p_x25519_shared :: "bytes \<Rightarrow> bytes \<Rightarrow> bytes"

definition prims_ok :: "prims \<Rightarrow> bool" where
  "prims_ok p =
     ((\<forall>x. length (p_sha256 p x) = 32) \<and>
      (\<forall>s x i. length (p_hkdf p s x i) = 32) \<and>
      (\<forall>k x. length (p_hmac p k x) = 32) \<and>
      (\<forall>k. length (p_x25519_public p k) = 32) \<and>
      (\<forall>k ad m. \<exists>c. p_siv_encrypt p k ad m = Some c \<and> p_siv_decrypt p k ad c = Some m \<and>
                     length c = length m + 16) \<and>
      (\<forall>a b. p_x25519_shared p a (p_x25519_public p b) = p_x25519_shared p b (p_x25519_public p a)))"

definition HASH_SIZE :: nat where "HASH_SIZE = 32"
definition SECRET_KEY_SIZE :: nat where "SECRET_KEY_SIZE = 32"
definition PUBLIC_KEY_SIZE :: nat where "PUBLIC_KEY_SIZE = 32"
definition HMAC_SIGNATURE_SIZE :: nat where "HMAC_SIGNATURE_SIZE = 32"

text \<open>Symmetric keys, seeds and shared secrets are 32 byte strings.\<close>

type_synonym AESKey = bytes
type_synonym Seed = bytes

record KeyPair =
  secret_key :: bytes
  public_key :: bytes

section \<open>sha.rs, hmac.rs, kdf.rs\<close>

definition sha_256 :: "prims \<Rightarrow> bytes \<Rightarrow> bytes" where
  "sha_256 p d = p_sha256 p d"

definition sign_sha_256 :: "prims \<Rightarrow> AESKey \<Rightarrow> bytes \<Rightarrow> bytes" where
  "sign_sha_256 p key to_sign = p_hmac p key to_sign"

definition KDF_SALT :: bytes where
  "KDF_SALT =
     [0x00, 0x00, 0x00, 0x00, 0x00, 0x00, 0x00, 0x00, 0x00, 0x02, 0x4b, 0xea, 0xd8, 0xdf, 0x69, 0x99,
      0x08, 0x52, 0xc2, 0x02, 0xdb, 0x0e, 0x00, 0x97, 0xc1, 0xa1, 0x2e, 0xa6, 0x37, 0xd7, 0xe9, 0x6d]"

definition derive_key :: "prims \<Rightarrow> bytes \<Rightarrow> bytes list \<Rightarrow> AESKey" where
  "derive_key p input_bytes info = p_hkdf p KDF_SALT input_bytes info"

definition derive_key_from_key :: "prims \<Rightarrow> AESKey \<Rightarrow> bytes \<Rightarrow> AESKey" where
  "derive_key_from_key p self d = derive_key p (self @ d) []"

definition derive_key_from_seed :: "prims \<Rightarrow> Seed \<Rightarrow> bytes \<Rightarrow> AESKey" where
  "derive_key_from_seed p self d = derive_key p (self @ d) [ascii ''seed'']"

section \<open>aes_siv.rs\<close>

definition aes_siv_encrypt :: "prims \<Rightarrow> bytes \<Rightarrow> bytes list option \<Rightarrow> AESKey \<Rightarrow> (CryptoError, bytes) res" where
  "aes_siv_encrypt p plaintext ad key =
     (let ad = (case ad of Some x \<Rightarrow> x | None \<Rightarrow> [[]])
      in ok_or CryptoEncryptionError (p_siv_encrypt p key ad plaintext))"

definition aes_siv_decrypt :: "prims \<Rightarrow> bytes \<Rightarrow> bytes list option \<Rightarrow> AESKey \<Rightarrow> (CryptoError, bytes) res" where
  "aes_siv_decrypt p ciphertext ad key =
     (let ad = (case ad of Some x \<Rightarrow> x | None \<Rightarrow> [[]])
      in ok_or CryptoDecryptionError (p_siv_decrypt p key ad ciphertext))"

definition encrypt_siv :: "prims \<Rightarrow> AESKey \<Rightarrow> bytes \<Rightarrow> bytes list option \<Rightarrow> (CryptoError, bytes) res" where
  "encrypt_siv p self plaintext ad = aes_siv_encrypt p plaintext ad self"

definition decrypt_siv :: "prims \<Rightarrow> AESKey \<Rightarrow> bytes \<Rightarrow> bytes list option \<Rightarrow> (CryptoError, bytes) res" where
  "decrypt_siv p self ciphertext ad = aes_siv_decrypt p ciphertext ad self"

section \<open>ed25519.rs\<close>

text \<open>\<open>rand\<close> is what the hardware generator delivers, \<open>None\<close> if it fails.\<close>

definition keypair_from :: "prims \<Rightarrow> bytes \<Rightarrow> KeyPair" where
  "keypair_from p key = \<lparr>secret_key = key, public_key = p_x25519_public p key\<rparr>"

definition keypair_new :: "prims \<Rightarrow> bytes option \<Rightarrow> (CryptoError, KeyPair) res" where
  "keypair_new p rand = res_bind (ok_or RandomError rand) (\<lambda>sk. Ok (keypair_from p sk))"

definition diffie_hellman :: "prims \<Rightarrow> KeyPair \<Rightarrow> bytes \<Rightarrow> bytes" where
  "diffie_hellman p self your_public = p_x25519_shared p (secret_key self) your_public"

definition get_pubkey :: "KeyPair \<Rightarrow> bytes" where
  "get_pubkey self = public_key self"

definition seed_new :: "bytes option \<Rightarrow> (CryptoError, Seed) res" where
  "seed_new rand = ok_or RandomError rand"

section \<open>storage.rs: sealed files\<close>

text \<open>
  The protected file system of the SGX SDK, over a state \<open>'f\<close>: creating a
  file, writing it, and reading at most 32 bytes of it.
\<close>

record 'f sgxfs =
  sf_create :: "string \<Rightarrow> 'f \<Rightarrow> bool \<times> 'f"
  sf_write_all :: "string \<Rightarrow> bytes \<Rightarrow> 'f \<Rightarrow> bool \<times> 'f"
  sf_open :: "string \<Rightarrow> 'f \<Rightarrow> bool"
  sf_read :: "string \<Rightarrow> 'f \<Rightarrow> bytes option"

definition seal :: "'f sgxfs \<Rightarrow> bytes \<Rightarrow> string \<Rightarrow> 'f \<Rightarrow> unit enclave_result \<times> 'f" where
  "seal fs d filepath w =
     (case sf_create fs filepath w of
        (False, w1) \<Rightarrow> (Err FailedUnseal, w1)
      | (True, w1) \<Rightarrow> (case sf_write_all fs filepath d w1 of
            (True, w2) \<Rightarrow> (Ok (), w2)
          | (False, w2) \<Rightarrow> (Err FailedUnseal, w2)))"

definition open_sealed :: "'f sgxfs \<Rightarrow> string \<Rightarrow> 'f \<Rightarrow> bytes enclave_result" where
  "open_sealed fs filepath w =
     (if \<not> sf_open fs filepath w then Err FailedUnseal
      else (case sf_read fs filepath w of
              None \<Rightarrow> Err FailedUnseal
            | Some buf \<Rightarrow> if length buf < SECRET_KEY_SIZE then Err FailedUnseal else Ok buf))"

section \<open>key_manager.rs\<close>

record Keychain =
  consensus_seed :: "Seed option"
  consensus_state_ikm :: "AESKey option"
  consensus_seed_exchange_keypair :: "KeyPair option"
  consensus_io_exchange_keypair :: "KeyPair option"
  consensus_callback_secret :: "AESKey option"
  registration_key :: "KeyPair option"

definition CONSENSUS_SEED_EXCHANGE_KEYPAIR_DERIVE_ORDER :: u32 where
  "CONSENSUS_SEED_EXCHANGE_KEYPAIR_DERIVE_ORDER = 1"
definition CONSENSUS_IO_EXCHANGE_KEYPAIR_DERIVE_ORDER :: u32 where
  "CONSENSUS_IO_EXCHANGE_KEYPAIR_DERIVE_ORDER = 2"
definition CONSENSUS_STATE_IKM_DERIVE_ORDER :: u32 where
  "CONSENSUS_STATE_IKM_DERIVE_ORDER = 3"
definition CONSENSUS_CALLBACK_SECRET_DERIVE_ORDER :: u32 where
  "CONSENSUS_CALLBACK_SECRET_DERIVE_ORDER = 4"

definition be32 :: "u32 \<Rightarrow> bytes" where
  "be32 w = to_be 4 (unat w)"

definition is_consensus_seed_set :: "Keychain \<Rightarrow> bool" where
  "is_consensus_seed_set kc = (consensus_seed kc \<noteq> None)"

definition get_consensus_state_ikm :: "Keychain \<Rightarrow> (CryptoError, AESKey) res" where
  "get_consensus_state_ikm kc = ok_or ParsingError (consensus_state_ikm kc)"

definition get_consensus_seed :: "Keychain \<Rightarrow> (CryptoError, Seed) res" where
  "get_consensus_seed kc = ok_or ParsingError (consensus_seed kc)"

definition seed_exchange_key :: "Keychain \<Rightarrow> (CryptoError, KeyPair) res" where
  "seed_exchange_key kc = ok_or ParsingError (consensus_seed_exchange_keypair kc)"

definition get_consensus_io_exchange_keypair :: "Keychain \<Rightarrow> (CryptoError, KeyPair) res" where
  "get_consensus_io_exchange_keypair kc = ok_or ParsingError (consensus_io_exchange_keypair kc)"

definition get_consensus_callback_secret :: "Keychain \<Rightarrow> (CryptoError, AESKey) res" where
  "get_consensus_callback_secret kc = ok_or ParsingError (consensus_callback_secret kc)"

definition get_registration_key :: "Keychain \<Rightarrow> (CryptoError, KeyPair) res" where
  "get_registration_key kc = ok_or ParsingError (registration_key kc)"

definition CONSENSUS_SEED_SEALING_PATH :: "string option \<Rightarrow> string" where
  "CONSENSUS_SEED_SEALING_PATH env_var =
     (case env_var of Some d \<Rightarrow> d | None \<Rightarrow> ''./.sgx_secrets/'') @ ''consensus_seed.sealed''"

definition REGISTRATION_KEY_SEALING_PATH :: "string option \<Rightarrow> string" where
  "REGISTRATION_KEY_SEALING_PATH env_var =
     (case env_var of Some d \<Rightarrow> d | None \<Rightarrow> ''./.sgx_secrets/'') @ ''new_node_seed_exchange_keypair.sealed''"

definition set_registration_key ::
  "'f sgxfs \<Rightarrow> string option \<Rightarrow> KeyPair \<Rightarrow> Keychain \<times> 'f \<Rightarrow> unit enclave_result \<times> Keychain \<times> 'f" where
  "set_registration_key fs ev kp st =
     (case st of (kc, w) \<Rightarrow> (case seal fs (secret_key kp) (REGISTRATION_KEY_SEALING_PATH ev) w of
        (Ok _, w') \<Rightarrow> (Ok (), kc\<lparr>registration_key := Some kp\<rparr>, w')
      | (Err e, w') \<Rightarrow> (Err e, kc, w')
      | (Panicked, w') \<Rightarrow> (Panicked, kc, w')))"

definition set_consensus_seed ::
  "'f sgxfs \<Rightarrow> string option \<Rightarrow> Seed \<Rightarrow> Keychain \<times> 'f \<Rightarrow> unit enclave_result \<times> Keychain \<times> 'f" where
  "set_consensus_seed fs ev seed st =
     (case st of (kc, w) \<Rightarrow> (case seal fs seed (CONSENSUS_SEED_SEALING_PATH ev) w of
        (Ok _, w') \<Rightarrow> (Ok (), kc\<lparr>consensus_seed := Some seed\<rparr>, w')
      | (Err e, w') \<Rightarrow> (Err e, kc, w')
      | (Panicked, w') \<Rightarrow> (Panicked, kc, w')))"

definition create_consensus_seed ::
  "'f sgxfs \<Rightarrow> string option \<Rightarrow> bytes option \<Rightarrow> Keychain \<times> 'f \<Rightarrow> (CryptoError, unit) res \<times> Keychain \<times> 'f" where
  "create_consensus_seed fs ev rand st =
     (case seed_new rand of
        Ok seed \<Rightarrow> (case set_consensus_seed fs ev seed st of
            (Ok _, st') \<Rightarrow> (Ok (), st')
          | (_, st') \<Rightarrow> (Err KeyError, st'))
      | Err err \<Rightarrow> (Err err, st)
      | Panicked \<Rightarrow> (Panicked, st))"

definition create_registration_key ::
  "prims \<Rightarrow> 'f sgxfs \<Rightarrow> string option \<Rightarrow> bytes option \<Rightarrow> Keychain \<times> 'f \<Rightarrow> (CryptoError, unit) res \<times> Keychain \<times> 'f" where
  "create_registration_key p fs ev rand st =
     (case keypair_new p rand of
        Ok key \<Rightarrow> (case set_registration_key fs ev key st of
            (Ok _, st') \<Rightarrow> (Ok (), st')
          | (_, st') \<Rightarrow> (Err KeyError, st'))
      | Err err \<Rightarrow> (Err err, st)
      | Panicked \<Rightarrow> (Panicked, st))"

text \<open>Without a seed the derivation is skipped and the keys stay absent.\<close>

definition generate_consensus_master_keys :: "prims \<Rightarrow> Keychain \<Rightarrow> unit enclave_result \<times> Keychain" where
  "generate_consensus_master_keys p kc =
     (if \<not> is_consensus_seed_set kc then (Ok (), kc)
      else
        (let seed = the (consensus_seed kc);
             kc1 = kc\<lparr>consensus_seed_exchange_keypair := Some (keypair_from p
                      (derive_key_from_seed p seed (be32 CONSENSUS_SEED_EXCHANGE_KEYPAIR_DERIVE_ORDER)))\<rparr>;
             kc2 = kc1\<lparr>consensus_io_exchange_keypair := Some (keypair_from p
                      (derive_key_from_seed p seed (be32 CONSENSUS_IO_EXCHANGE_KEYPAIR_DERIVE_ORDER)))\<rparr>;
             kc3 = kc2\<lparr>consensus_state_ikm := Some
                      (derive_key_from_seed p seed (be32 CONSENSUS_STATE_IKM_DERIVE_ORDER))\<rparr>;
             kc4 = kc3\<lparr>consensus_callback_secret := Some
                      (derive_key_from_seed p seed (be32 CONSENSUS_CALLBACK_SECRET_DERIVE_ORDER))\<rparr>
         in (Ok (), kc4)))"

definition keychain_new :: "prims \<Rightarrow> 'f sgxfs \<Rightarrow> string option \<Rightarrow> 'f \<Rightarrow> Keychain" where
  "keychain_new p fs ev w =
     (let seed = (case open_sealed fs (CONSENSUS_SEED_SEALING_PATH ev) w of Ok k \<Rightarrow> Some k | _ \<Rightarrow> None);
          reg = (case open_sealed fs (REGISTRATION_KEY_SEALING_PATH ev) w of
                   Ok k \<Rightarrow> Some (keypair_from p k) | _ \<Rightarrow> None);
          x = \<lparr>consensus_seed = seed, consensus_state_ikm = None,
               consensus_seed_exchange_keypair = None, consensus_io_exchange_keypair = None,
               consensus_callback_secret = None, registration_key = reg\<rparr>
      in snd (generate_consensus_master_keys p x))"

section \<open>The key chain survives a restart\<close>

text \<open>
  What the code relies on of the protected file system: a file that was created
  and written reads back (32 bytes of it), and other files are left alone.
\<close>

definition fs_ok :: "'f sgxfs \<Rightarrow> bool" where
  "fs_ok fs =
     (\<forall>path d w w1 w2. sf_create fs path w = (True, w1) \<longrightarrow> sf_write_all fs path d w1 = (True, w2) \<longrightarrow>
        sf_open fs path w2 \<and> sf_read fs path w2 = Some (take 32 d) \<and>
        (\<forall>other. other \<noteq> path \<longrightarrow> sf_open fs other w2 = sf_open fs other w \<and>
                                    sf_read fs other w2 = sf_read fs other w))"

lemma seal_then_open:
  assumes "fs_ok fs" and "seal fs d path w = (Ok (), w')" and "length d = SECRET_KEY_SIZE"
  shows "open_sealed fs path w' = Ok d"
  using assms by (auto simp: seal_def fs_ok_def open_sealed_def SECRET_KEY_SIZE_def split: prod.splits bool.splits)

lemma seal_elsewhere:
  assumes "fs_ok fs" and "seal fs d path w = (Ok (), w')" and "other \<noteq> path"
  shows "open_sealed fs other w' = open_sealed fs other w"
proof -
  obtain w1 where w1: "sf_create fs path w = (True, w1)" "sf_write_all fs path d w1 = (True, w')"
    using assms(2) by (auto simp: seal_def split: prod.splits bool.splits)
  then have "sf_open fs other w' = sf_open fs other w \<and> sf_read fs other w' = sf_read fs other w"
    using assms(1,3) unfolding fs_ok_def by blast
  then show ?thesis
    by (simp add: open_sealed_def)
qed

lemma sealing_paths_differ: "REGISTRATION_KEY_SEALING_PATH ev \<noteq> CONSENSUS_SEED_SEALING_PATH ev"
  by (simp add: REGISTRATION_KEY_SEALING_PATH_def CONSENSUS_SEED_SEALING_PATH_def)

lemma create_consensus_seed_Ok:
  "create_consensus_seed fs ev rand (kc, w) = (Ok (), kc', w') \<longleftrightarrow>
     (\<exists>seed. rand = Some seed \<and> kc' = kc\<lparr>consensus_seed := Some seed\<rparr> \<and>
             seal fs seed (CONSENSUS_SEED_SEALING_PATH ev) w = (Ok (), w'))"
  by (cases rand) (auto simp: create_consensus_seed_def seed_new_def set_consensus_seed_def
      split: prod.splits res.splits)

text \<open>
  C27: a node that created its seed and derived its master keys finds the same
  seed and the same keys when it starts again from the sealed files, and its
  registration key is whatever was sealed before.
\<close>

theorem keychain_restart:
  assumes "fs_ok fs" and "length seed = SECRET_KEY_SIZE"
    and "create_consensus_seed fs ev (Some seed) (kc, w) = (Ok (), kc', w')"
  shows "keychain_new p fs ev w' =
    (snd (generate_consensus_master_keys p kc'))
      \<lparr>registration_key := registration_key (keychain_new p fs ev w)\<rparr>"
proof -
  have kc': "kc' = kc\<lparr>consensus_seed := Some seed\<rparr>"
    and sealed: "seal fs seed (CONSENSUS_SEED_SEALING_PATH ev) w = (Ok (), w')"
    using assms(3) by (auto simp: create_consensus_seed_Ok)
  note seal_then_open [OF assms(1) sealed assms(2)] seal_elsewhere [OF assms(1) sealed sealing_paths_differ]
  then show ?thesis
    by (cases kc) (simp add: kc' keychain_new_def generate_consensus_master_keys_def is_consensus_seed_set_def Let_def)
qed

text \<open>A disk as a map from paths to contents.\<close>

definition disk_fs :: "(string \<rightharpoonup> bytes) sgxfs" where
  "disk_fs = \<lparr>sf_create = (\<lambda>path w. (True, w(path \<mapsto> []))), sf_write_all = (\<lambda>path d w. (True, w(path \<mapsto> d))),
     sf_open = (\<lambda>path w. w path \<noteq> None), sf_read = (\<lambda>path w. map_option (take 32) (w path))\<rparr>"

lemma disk_fs_ok: "fs_ok disk_fs"
  by (auto simp: fs_ok_def disk_fs_def)

text \<open>Primitives that only keep the lengths, for concrete instances.\<close>

definition demo_prims :: prims where
  "demo_prims = \<lparr>p_sha256 = (\<lambda>x. take 32 (x @ replicate 32 0)),
     p_hkdf = (\<lambda>s x i. take 32 (x @ replicate 32 7)), p_hmac = (\<lambda>k x. take 32 (k @ replicate 32 9)),
     p_siv_encrypt = (\<lambda>k ad m. Some (replicate 16 1 @ m)), p_siv_decrypt = (\<lambda>k ad c. Some (drop 16 c)),
     p_x25519_public = (\<lambda>k. take 32 (k @ replicate 32 5)), p_x25519_shared = (\<lambda>a b. replicate 32 3)\<rparr>"

lemma demo_prims_ok: "prims_ok demo_prims"
  by (simp add: prims_ok_def demo_prims_def min_def)

theorem keychain_restart_witness:
  "keychain_new demo_prims disk_fs None [CONSENSUS_SEED_SEALING_PATH None \<mapsto> replicate 32 8]
     = \<lparr>consensus_seed = Some (replicate 32 8), consensus_state_ikm = Some (replicate 32 8),
        consensus_seed_exchange_keypair = Some (keypair_from demo_prims (replicate 32 8)),
        consensus_io_exchange_keypair = Some (keypair_from demo_prims (replicate 32 8)),
        consensus_callback_secret = Some (replicate 32 8), registration_key = None\<rparr>"
proof -
  let ?kc = "\<lparr>consensus_seed = None, consensus_state_ikm = None, consensus_seed_exchange_keypair = None,
     consensus_io_exchange_keypair = None, consensus_callback_secret = None, registration_key = None\<rparr>"
  have run: "create_consensus_seed disk_fs None (Some (replicate 32 8)) (?kc, Map.empty)
      = (Ok (), ?kc\<lparr>consensus_seed := Some (replicate 32 8)\<rparr>, [CONSENSUS_SEED_SEALING_PATH None \<mapsto> replicate 32 8])"
    by (auto simp: create_consensus_seed_Ok seal_def disk_fs_def)
  have len: "length (replicate 32 8 :: bytes) = SECRET_KEY_SIZE"
    by (simp add: SECRET_KEY_SIZE_def)
  have reg: "registration_key (keychain_new demo_prims disk_fs None Map.empty) = None"
    by (simp add: keychain_new_def open_sealed_def disk_fs_def generate_consensus_master_keys_def is_consensus_seed_set_def)
  show ?thesis
    using keychain_restart [OF disk_fs_ok len run, of demo_prims] reg
    by (simp add: generate_consensus_master_keys_def is_consensus_seed_set_def Let_def derive_key_from_seed_def
        derive_key_def demo_prims_def)
qed

end
