(* ===== verification/Secret_Io.thy ===== *)
theory Secret_Io
  imports Enclave_Crypto
begin

text \<open>
  Encrypted messages of users and contracts (\<open>wasm/types.rs\<close>, \<open>wasm/io.rs\<close>,
  \<open>Binary\<close> of \<open>cosmwasm/encoding.rs\<close>, addresses of \<open>cosmwasm/types.rs\<close>): the
  layout of a secret message, the key a transaction is encrypted with, the
  encryption of a contract's output, and the callback signature on messages
  from one contract to another.
\<close>

section \<open>Third-party encodings\<close>

text \<open>
  Base64, hex and bech32 are crates, JSON is serde: each is a field of \<open>codecs\<close>.
  A printer returns \<open>None\<close> where it can report an error; for bech32 the text of
  the error is a function of the input.
\<close>

record codecs =
  base64_encode :: "bytes \<Rightarrow> string"
  base64_decode :: "string \<Rightarrow> bytes option"
  hex_encode :: "bytes \<Rightarrow> string"
  hex_decode :: "bytes \<Rightarrow> bytes option"
  bech32_encode :: "string \<Rightarrow> bytes \<Rightarrow> string option"
  bech32_encode_error :: "string \<Rightarrow> bytes \<Rightarrow> string"
  bech32_decode :: "string \<Rightarrow> (string \<times> bytes) option"
  bech32_decode_error :: "string \<Rightarrow> string"
  to_base32 :: "bytes \<Rightarrow> bytes"
  from_base32 :: "bytes \<Rightarrow> bytes option"
  json_string :: "string \<Rightarrow> string option"
  json_coins :: "Coin list \<Rightarrow> bytes option"
  parse_output :: "bytes \<Rightarrow> WasmOutput option"
  print_output :: "WasmOutput \<Rightarrow> bytes option"
  parse_env :: "bytes \<Rightarrow> Env option"
  print_env :: "Env \<Rightarrow> bytes option"
  parse_sig_info :: "bytes \<Rightarrow> SigInfo option"
  parse_sign_doc :: "bytes \<Rightarrow> SignDoc option"

text \<open>The documented behaviour of the encodings that the code relies on.\<close>

definition codecs_ok :: "codecs \<Rightarrow> bool" where
  "codecs_ok cd =
     ((\<forall>bs. base64_decode cd (base64_encode cd bs) = Some bs) \<and>
      (\<forall>bs. hex_decode cd (ascii (hex_encode cd bs)) = Some bs \<and>
             length (hex_encode cd bs) = 2 * length bs) \<and>
      (\<forall>bs. from_base32 cd (to_base32 cd bs) = Some bs) \<and>
      (\<forall>funds. json_coins cd funds \<noteq> None))"

section \<open>encoding.rs and addresses\<close>

definition to_base64 :: "codecs \<Rightarrow> Binary \<Rightarrow> string" where
  "to_base64 cd self = base64_encode cd self"

definition binary_from_base64 :: "codecs \<Rightarrow> string \<Rightarrow> Binary enclave_result" where
  "binary_from_base64 cd encoded = ok_or FailedToDeserialize (base64_decode cd encoded)"

definition BECH32_PREFIX_ACC_ADDR :: string where
  "BECH32_PREFIX_ACC_ADDR = ''secret''"

definition from_canonical :: "codecs \<Rightarrow> CanonicalAddr \<Rightarrow> HumanAddr option" where
  "from_canonical cd canonical_addr =
     bech32_encode cd BECH32_PREFIX_ACC_ADDR (to_base32 cd canonical_addr)"

definition from_human :: "codecs \<Rightarrow> HumanAddr \<Rightarrow> CanonicalAddr option" where
  "from_human cd human_addr =
     (case bech32_decode cd human_addr of
        None \<Rightarrow> None
      | Some (decoded_prefix, d) \<Rightarrow> from_base32 cd d)"

section \<open>types.rs: the layout of a message\<close>

type_synonym IoNonce = bytes

record SecretMessage =
  nonce :: IoNonce
  user_public_key :: bytes
  msg :: bytes

definition from_slice :: "bytes \<Rightarrow> SecretMessage enclave_result" where
  "from_slice m =
     (if length m < 82 then Err DecryptionError
      else Ok \<lparr>nonce = sub_slice 0 32 m, user_public_key = sub_slice 32 64 m, msg = drop 64 m\<rparr>)"

definition to_vec :: "SecretMessage \<Rightarrow> bytes" where
  "to_vec self = nonce self @ user_public_key self @ msg self"

definition secret_from_base64 :: "codecs \<Rightarrow> string \<Rightarrow> IoNonce \<Rightarrow> bytes \<Rightarrow> SecretMessage enclave_result" where
  "secret_from_base64 cd msg_b64 n pk =
     res_bind (ok_or FailedToDeserialize (base64_decode cd msg_b64)) (\<lambda>m.
     Ok \<lparr>nonce = n, user_public_key = pk, msg = m\<rparr>)"

section \<open>io.rs: encryption\<close>

definition calc_encryption_key :: "prims \<Rightarrow> Keychain \<Rightarrow> IoNonce \<Rightarrow> bytes \<Rightarrow> AESKey enclave_result" where
  "calc_encryption_key p kc n pk =
     res_bind (unwrap (get_consensus_io_exchange_keypair kc)) (\<lambda>enclave_io_key.
     (let tx_encryption_ikm = diffie_hellman p enclave_io_key pk
      in Ok (derive_key_from_key p tx_encryption_ikm n)))"

definition encryption_key :: "prims \<Rightarrow> Keychain \<Rightarrow> SecretMessage \<Rightarrow> AESKey enclave_result" where
  "encryption_key p kc self = calc_encryption_key p kc (nonce self) (user_public_key self)"

definition encrypt_in_place :: "prims \<Rightarrow> Keychain \<Rightarrow> SecretMessage \<Rightarrow> SecretMessage enclave_result" where
  "encrypt_in_place p kc self =
     res_bind (encryption_key p kc self) (\<lambda>key.
     res_bind (map_err (\<lambda>_. EncryptionError) (encrypt_siv p key (msg self) None)) (\<lambda>c.
     Ok (self\<lparr>msg := c\<rparr>)))"

definition decrypt :: "prims \<Rightarrow> Keychain \<Rightarrow> SecretMessage \<Rightarrow> bytes enclave_result" where
  "decrypt p kc self =
     res_bind (encryption_key p kc self) (\<lambda>key.
     map_err (\<lambda>_. DecryptionError) (decrypt_siv p key (msg self) None))"

definition trim_start_matches :: "char \<Rightarrow> string \<Rightarrow> string" where
  "trim_start_matches c s = dropWhile (\<lambda>x. x = c) s"

definition trim_end_matches :: "char \<Rightarrow> string \<Rightarrow> string" where
  "trim_end_matches c s = rev (dropWhile (\<lambda>x. x = c) (rev s))"

text \<open>\<open>serialized\<close> is what \<open>serde_json::to_string\<close> returned for the value.\<close>

definition encrypt_serializable :: "prims \<Rightarrow> codecs \<Rightarrow> AESKey \<Rightarrow> string option \<Rightarrow> string enclave_result" where
  "encrypt_serializable p cd key serialized =
     res_bind (ok_or EncryptionError serialized) (\<lambda>serialized.
     (let trimmed = trim_end_matches (CHR 0x22) (trim_start_matches (CHR 0x22) serialized)
      in res_bind (map_err (\<lambda>_. EncryptionError) (encrypt_siv p key (ascii trimmed) None)) (\<lambda>encrypted_data.
         Ok (base64_encode cd encrypted_data))))"

definition encrypt_preserialized_string :: "prims \<Rightarrow> codecs \<Rightarrow> AESKey \<Rightarrow> string \<Rightarrow> string enclave_result" where
  "encrypt_preserialized_string p cd key val =
     res_bind (map_err (\<lambda>_. EncryptionError) (encrypt_siv p key (ascii val) None)) (\<lambda>encrypted_data.
     Ok (base64_encode cd encrypted_data))"

definition create_callback_signature ::
  "prims \<Rightarrow> codecs \<Rightarrow> Keychain \<Rightarrow> CanonicalAddr \<Rightarrow> SecretMessage \<Rightarrow> Coin list \<Rightarrow> bytes enclave_result" where
  "create_callback_signature p cd kc contract_addr msg_to_sign funds_to_send =
     res_bind (unwrap (get_consensus_callback_secret kc)) (\<lambda>secret.
     res_bind (or_panic (json_coins cd funds_to_send)) (\<lambda>funds.
     Ok (sha_256 p (secret @ contract_addr @ msg msg_to_sign @ funds))))"

text \<open>The part of \<open>encrypt_wasm_msg\<close> both kinds of message share: the encrypted message and its signature.\<close>

definition seal_message ::
  "prims \<Rightarrow> codecs \<Rightarrow> Keychain \<Rightarrow> string \<Rightarrow> Binary \<Rightarrow> Coin list \<Rightarrow> IoNonce \<Rightarrow> bytes \<Rightarrow> CanonicalAddr
     \<Rightarrow> (Binary \<times> bytes) enclave_result" where
  "seal_message p cd kc callback_code_hash m send n pk contract_addr =
     (let hash_appended_msg = ascii callback_code_hash @ m
      in res_bind (secret_from_base64 cd (to_base64 cd hash_appended_msg) n pk) (\<lambda>msg_to_pass.
         res_bind (encrypt_in_place p kc msg_to_pass) (\<lambda>msg_to_pass.
         res_bind (create_callback_signature p cd kc contract_addr msg_to_pass send) (\<lambda>sig.
         Ok (to_vec msg_to_pass, sig)))))"

fun encrypt_wasm_msg ::
  "prims \<Rightarrow> codecs \<Rightarrow> Keychain \<Rightarrow> WasmMsg \<Rightarrow> IoNonce \<Rightarrow> bytes \<Rightarrow> CanonicalAddr \<Rightarrow> WasmMsg enclave_result" where
  "encrypt_wasm_msg p cd kc (WasmExecute to callback_code_hash m send sig) n pk contract_addr =
     res_bind (seal_message p cd kc callback_code_hash m send n pk contract_addr) (\<lambda>(m', sig').
     Ok (WasmExecute to callback_code_hash m' send (Some sig')))"
| "encrypt_wasm_msg p cd kc (WasmInstantiate code_id callback_code_hash m send label sig) n pk contract_addr =
     res_bind (seal_message p cd kc callback_code_hash m send n pk contract_addr) (\<lambda>(m', sig').
     Ok (WasmInstantiate code_id callback_code_hash m' send label (Some sig')))"

fun encrypt_messages ::
  "prims \<Rightarrow> codecs \<Rightarrow> Keychain \<Rightarrow> IoNonce \<Rightarrow> bytes \<Rightarrow> CanonicalAddr \<Rightarrow> CosmosMsg list \<Rightarrow> CosmosMsg list enclave_result" where
  "encrypt_messages p cd kc n pk contract_addr [] = Ok []"
| "encrypt_messages p cd kc n pk contract_addr (Wasm wasm_msg # ms) =
     res_bind (encrypt_wasm_msg p cd kc wasm_msg n pk contract_addr) (\<lambda>wasm_msg'.
     res_bind (encrypt_messages p cd kc n pk contract_addr ms) (\<lambda>ms'. Ok (Wasm wasm_msg' # ms')))"
| "encrypt_messages p cd kc n pk contract_addr (m # ms) =
     res_bind (encrypt_messages p cd kc n pk contract_addr ms) (\<lambda>ms'. Ok (m # ms'))"

fun encrypt_logs :: "prims \<Rightarrow> codecs \<Rightarrow> AESKey \<Rightarrow> LogAttribute list \<Rightarrow> LogAttribute list enclave_result" where
  "encrypt_logs p cd key [] = Ok []"
| "encrypt_logs p cd key (log # logs) =
     res_bind (encrypt_preserialized_string p cd key (log_key log)) (\<lambda>k.
     res_bind (encrypt_preserialized_string p cd key (log_value log)) (\<lambda>v.
     res_bind (encrypt_logs p cd key logs) (\<lambda>logs'. Ok (\<lparr>log_key = k, log_value = v\<rparr> # logs'))))"

text \<open>The envelope \<open>{"generic_err":{"msg":...}}\<close>; Base64 text needs no escapes.\<close>

definition generic_err :: "string \<Rightarrow> string" where
  "generic_err encrypted_err =
     ''{'' @ [CHR 0x22] @ ''generic_err'' @ [CHR 0x22] @ '':{'' @ [CHR 0x22] @ ''msg'' @ [CHR 0x22] @ '':'' @
     [CHR 0x22] @ encrypted_err @ [CHR 0x22] @ ''}}''"

fun encrypt_parsed_output ::
  "prims \<Rightarrow> codecs \<Rightarrow> Keychain \<Rightarrow> AESKey \<Rightarrow> WasmOutput \<Rightarrow> IoNonce \<Rightarrow> bytes \<Rightarrow> CanonicalAddr \<Rightarrow> WasmOutput enclave_result" where
  "encrypt_parsed_output p cd kc key (ErrObject err) n pk contract_addr =
     res_bind (encrypt_serializable p cd key (Some err)) (\<lambda>encrypted_err.
     Ok (ErrObject (generic_err encrypted_err)))"
| "encrypt_parsed_output p cd kc key (OkString ok) n pk contract_addr =
     res_bind (encrypt_serializable p cd key (json_string cd ok)) (\<lambda>ok'. Ok (OkString ok'))"
| "encrypt_parsed_output p cd kc key (OkObject ok) n pk contract_addr =
     res_bind (encrypt_messages p cd kc n pk contract_addr (cr_messages ok)) (\<lambda>messages.
     res_bind (encrypt_logs p cd key (cr_log ok)) (\<lambda>logs.
     res_bind (case cr_data ok of
         None \<Rightarrow> Ok None
       | Some d \<Rightarrow>
           res_bind (encrypt_serializable p cd key (json_string cd (to_base64 cd d))) (\<lambda>e.
           res_bind (binary_from_base64 cd e) (\<lambda>d'. Ok (Some d')))) (\<lambda>d'.
     Ok (OkObject \<lparr>cr_messages = messages, cr_log = logs, cr_data = d'\<rparr>))))"

definition encrypt_output ::
  "prims \<Rightarrow> codecs \<Rightarrow> Keychain \<Rightarrow> bytes \<Rightarrow> IoNonce \<Rightarrow> bytes \<Rightarrow> CanonicalAddr \<Rightarrow> bytes enclave_result" where
  "encrypt_output p cd kc output n pk contract_addr =
     res_bind (calc_encryption_key p kc n pk) (\<lambda>key.
     res_bind (ok_or FailedToDeserialize (parse_output cd output)) (\<lambda>output.
     res_bind (encrypt_parsed_output p cd kc key output n pk contract_addr) (\<lambda>output.
     ok_or FailedToSerialize (print_output cd output))))"

section \<open>Properties of messages\<close>

lemma from_slice_Ok_iff:
  "from_slice bs = Ok m \<longleftrightarrow>
     to_vec m = bs \<and> length (nonce m) = 32 \<and> length (user_public_key m) = 32 \<and> 18 \<le> length (msg m)"
proof
  assume "from_slice bs = Ok m"
  moreover have "take 32 bs @ take 32 (drop 32 bs) @ drop 64 bs = bs"
    by (metis append_take_drop_id drop_drop numeral_Bit0)
  ultimately show "to_vec m = bs \<and> length (nonce m) = 32 \<and> length (user_public_key m) = 32 \<and> 18 \<le> length (msg m)"
    by (auto simp: from_slice_def to_vec_def sub_slice_def split: if_splits)
next
  assume "to_vec m = bs \<and> length (nonce m) = 32 \<and> length (user_public_key m) = 32 \<and> 18 \<le> length (msg m)"
  then show "from_slice bs = Ok m"
    by (auto simp: from_slice_def to_vec_def sub_slice_def)
qed

text \<open>
  Parsing a secret message inverts printing it. The bytes that parse are
  exactly those of a 32 byte nonce, a 32 byte key and at least 18 bytes of
  cipher text, anything else is refused with \<open>DecryptionError\<close>.
\<close>

lemma secret_message_roundtrip:
  "(\<forall>m. from_slice bs = Ok m \<longleftrightarrow>
      to_vec m = bs \<and> length (nonce m) = 32 \<and> length (user_public_key m) = 32 \<and> 18 \<le> length (msg m)) \<and>
   (length bs < 82 \<longleftrightarrow> from_slice bs = Err DecryptionError)"
  by (simp add: from_slice_Ok_iff) (simp add: from_slice_def)

lemma siv_roundtrip:
  assumes "prims_ok p"
  obtains c where "encrypt_siv p key m ad = Ok c" and "decrypt_siv p key c ad = Ok m" and "length c = length m + 16"
proof -
  obtain c where "p_siv_encrypt p key (case ad of Some x \<Rightarrow> x | None \<Rightarrow> [[]]) m = Some c"
    "p_siv_decrypt p key (case ad of Some x \<Rightarrow> x | None \<Rightarrow> [[]]) c = Some m" "length c = length m + 16"
    using assms unfolding prims_ok_def by blast
  then show ?thesis
    by (intro that [of c]) (simp_all add: encrypt_siv_def decrypt_siv_def aes_siv_encrypt_def aes_siv_decrypt_def)
qed

lemma encrypt_then_decrypt:
  assumes "prims_ok p" and "consensus_io_exchange_keypair kc \<noteq> None"
  obtains c where "encrypt_in_place p kc m = Ok (m\<lparr>msg := c\<rparr>)" and "decrypt p kc (m\<lparr>msg := c\<rparr>) = Ok (msg m)"
    and "length c = length (msg m) + 16"
proof -
  obtain kp where kp: "consensus_io_exchange_keypair kc = Some kp"
    using assms(2) by auto
  let ?key = "derive_key_from_key p (diffie_hellman p kp (user_public_key m)) (nonce m)"
  obtain c where "encrypt_siv p ?key (msg m) None = Ok c" "decrypt_siv p ?key c None = Ok (msg m)"
    "length c = length (msg m) + 16"
    by (rule siv_roundtrip [OF assms(1)])
  then show ?thesis
    by (intro that [of c]) (simp_all add: encrypt_in_place_def decrypt_def encryption_key_def calc_encryption_key_def
        get_consensus_io_exchange_keypair_def kp)
qed

text \<open>
  A user and the enclave agree on the transaction key. The cipher text a
  user makes with the key derived from their own secret key, the enclave's
  public key and the nonce is decrypted by the enclave.
\<close>

lemma user_message_decrypts:
  assumes "prims_ok p" and "consensus_io_exchange_keypair kc = Some (keypair_from p io_secret)"
    and "encrypt_siv p (derive_key_from_key p (p_x25519_shared p user_secret (get_pubkey (keypair_from p io_secret))) n)
           plain None = Ok c"
  shows "decrypt p kc \<lparr>nonce = n, user_public_key = p_x25519_public p user_secret, msg = c\<rparr> = Ok plain"
proof -
  let ?key = "derive_key_from_key p (p_x25519_shared p user_secret (get_pubkey (keypair_from p io_secret))) n"
  have "p_x25519_shared p io_secret (p_x25519_public p user_secret)
      = p_x25519_shared p user_secret (p_x25519_public p io_secret)"
    using assms(1) unfolding prims_ok_def by blast
  then have "encryption_key p kc \<lparr>nonce = n, user_public_key = p_x25519_public p user_secret, msg = c\<rparr> = Ok ?key"
    by (simp add: encryption_key_def calc_encryption_key_def get_consensus_io_exchange_keypair_def assms(2)
        diffie_hellman_def keypair_from_def get_pubkey_def)
  moreover have "decrypt_siv p ?key c None = Ok plain"
    by (rule siv_roundtrip [OF assms(1), of ?key plain None]) (use assms(3) in simp)
  ultimately show ?thesis
    by (simp add: decrypt_def)
qed

definition demo_keychain :: Keychain where
  "demo_keychain = \<lparr>consensus_seed = Some (replicate 32 8), consensus_state_ikm = Some (replicate 32 8),
     consensus_seed_exchange_keypair = Some (keypair_from demo_prims (replicate 32 8)),
     consensus_io_exchange_keypair = Some (keypair_from demo_prims (replicate 32 8)),
     consensus_callback_secret = Some (replicate 32 8), registration_key = None\<rparr>"

lemma user_message_decrypts_witness:
  "decrypt demo_prims demo_keychain
     \<lparr>nonce = replicate 32 2, user_public_key = p_x25519_public demo_prims (replicate 32 4),
      msg = replicate 16 1 @ [65, 66]\<rparr> = Ok [65, 66]"
  by (rule user_message_decrypts [OF demo_prims_ok, where io_secret = "replicate 32 8"])
    (simp_all add: demo_keychain_def encrypt_siv_def aes_siv_encrypt_def demo_prims_def)

lemma seal_message_Ok:
  assumes "prims_ok p" and "codecs_ok cd" and "consensus_io_exchange_keypair kc \<noteq> None"
    and "consensus_callback_secret kc \<noteq> None"
  obtains c sig where
    "seal_message p cd kc callback_code_hash m send n pk contract_addr = Ok (n @ pk @ c, sig)"
    and "create_callback_signature p cd kc contract_addr \<lparr>nonce = n, user_public_key = pk, msg = c\<rparr> send = Ok sig"
    and "decrypt p kc \<lparr>nonce = n, user_public_key = pk, msg = c\<rparr> = Ok (ascii callback_code_hash @ m)"
    and "length c = length callback_code_hash + length m + 16"
    and "length sig = 32"
proof -
  let ?m = "\<lparr>nonce = n, user_public_key = pk, msg = ascii callback_code_hash @ m\<rparr>"
  obtain c where c: "encrypt_in_place p kc ?m = Ok (?m\<lparr>msg := c\<rparr>)" "decrypt p kc (?m\<lparr>msg := c\<rparr>) = Ok (msg ?m)"
    "length c = length (msg ?m) + 16"
    by (rule encrypt_then_decrypt [OF assms(1,3)])
  have "json_coins cd send \<noteq> None"
    using assms(2) by (simp only: codecs_ok_def) blast
  then obtain secret funds where sf: "consensus_callback_secret kc = Some secret" "json_coins cd send = Some funds"
    using assms(4) by auto
  let ?sig = "sha_256 p (secret @ contract_addr @ c @ funds)"
  have sig: "create_callback_signature p cd kc contract_addr (?m\<lparr>msg := c\<rparr>) send = Ok ?sig"
    by (simp add: create_callback_signature_def get_consensus_callback_secret_def sf)
  have "secret_from_base64 cd (to_base64 cd (ascii callback_code_hash @ m)) n pk = Ok ?m"
    using assms(2) by (simp add: secret_from_base64_def to_base64_def codecs_ok_def)
  moreover have "length ?sig = 32"
    using assms(1) by (simp add: sha_256_def prims_ok_def)
  ultimately show ?thesis
    using c sig by (intro that [of c ?sig]) (simp_all add: seal_message_def to_vec_def)
qed

end
