(* ===== verification/Enclave_Sigs.thy ===== *)
theory Enclave_Sigs
  imports Enclave_Crypto
begin

text \<open>
  Public keys and signatures of transactions (\<open>crypto/secp256k1.rs\<close>,
  \<open>crypto/multisig.rs\<close>, and \<open>PubKeyKind\<close> of \<open>cosmwasm/types.rs\<close>). RIPEMD-160,
  the secp256k1 library and the length delimiter of the prost crate are fields
  of \<open>sig_prims\<close>.
\<close>

record sig_prims =
  ripemd160 :: "bytes \<Rightarrow> bytes"
  secp_signature_ok :: "bytes \<Rightarrow> bool"
  secp_key_ok :: "bytes \<Rightarrow> bool"
  secp_verify :: "bytes \<Rightarrow> bytes \<Rightarrow> bytes \<Rightarrow> bool"
  encode_length_delimiter :: "nat \<Rightarrow> bytes option"
  decode_length_delimiter :: "bytes \<Rightarrow> nat option"
  length_delimiter_len :: "nat \<Rightarrow> nat"

section \<open>Encodings\<close>

definition SECP256K1_PREFIX :: bytes where
  "SECP256K1_PREFIX = [235, 90, 233, 135]"

definition THRESHOLD_PREFIX :: bytes where
  "THRESHOLD_PREFIX = [34, 193, 247, 226, 8]"

definition GENERIC_PREFIX :: u8 where
  "GENERIC_PREFIX = 18"

definition secp_bytes :: "sig_prims \<Rightarrow> bytes \<Rightarrow> bytes" where
  "secp_bytes sp key =
     (case encode_length_delimiter sp (length key) of
        None \<Rightarrow> []
      | Some len \<Rightarrow> SECP256K1_PREFIX @ len @ key)"

fun pubkey_bytes :: "sig_prims \<Rightarrow> PubKeyKind \<Rightarrow> bytes" where
  "pubkey_bytes sp (Secp256k1 key) = secp_bytes sp key"
| "pubkey_bytes sp (Multisig threshold pubkeys) =
     (case those (map (\<lambda>k. case encode_length_delimiter sp (length (pubkey_bytes sp k)) of
                             None \<Rightarrow> None
                           | Some len \<Rightarrow> Some (GENERIC_PREFIX # len @ pubkey_bytes sp k)) pubkeys) of
        None \<Rightarrow> []
      | Some parts \<Rightarrow> THRESHOLD_PREFIX @ [threshold] @ concat parts)"

fun get_address :: "prims \<Rightarrow> sig_prims \<Rightarrow> PubKeyKind \<Rightarrow> CanonicalAddr" where
  "get_address p sp (Secp256k1 key) = ripemd160 sp (sha_256 p key)"
| "get_address p sp (Multisig threshold pubkeys) =
     take 20 (sha_256 p (pubkey_bytes sp (Multisig threshold pubkeys)))"

section \<open>Decoding a multisig signature\<close>

text \<open>
  The loop over the blob behind its seven byte header, on the window that is
  left. A length that would wrap around the 64 bit index gives an end before
  the start, so the slice is refused.
\<close>

function decode_windows :: "sig_prims \<Rightarrow> bytes \<Rightarrow> (CryptoError, bytes list) res" where
  "decode_windows sp window =
     (if window = [] then Ok []
      else if hd window \<noteq> 0x12 then Err ParsingError
      else
        (let sig_including_len = tl window
         in case decode_length_delimiter sp sig_including_len of
              None \<Rightarrow> Err ParsingError
            | Some current_sig_len \<Rightarrow>
                (let len_size = length_delimiter_len sp current_sig_len;
                     stop = (current_sig_len + len_size) mod 2 ^ 64
                 in if len_size \<le> stop \<and> stop \<le> length sig_including_len
                    then res_bind (decode_windows sp (drop (1 + len_size + current_sig_len) window))
                           (\<lambda>signatures. Ok (sub_slice len_size stop sig_including_len # signatures))
                    else Err ParsingError)))"
  by pat_completeness auto

termination
  by (relation "measure (\<lambda>(sp, w). length w)") auto

declare decode_windows.simps [simp del]

definition decode_multisig_signature :: "sig_prims \<Rightarrow> bytes \<Rightarrow> (CryptoError, bytes list) res" where
  "decode_multisig_signature sp raw_blob =
     (if length raw_blob < 8 then Err ParsingError
      else res_bind (decode_windows sp (drop 7 raw_blob)) (\<lambda>signatures.
           if signatures = [] then Err ParsingError else Ok signatures))"

section \<open>Verification\<close>

definition secp_verify_bytes :: "prims \<Rightarrow> sig_prims \<Rightarrow> bytes \<Rightarrow> bytes \<Rightarrow> bytes \<Rightarrow> (CryptoError, unit) res" where
  "secp_verify_bytes p sp key bs sig =
     (let sign_bytes_hash = sha_256 p bs
      in if length sign_bytes_hash \<noteq> 32 then Err VerificationError
         else if \<not> secp_signature_ok sp sig then Err VerificationError
         else if \<not> secp_key_ok sp key then Err VerificationError
         else if \<not> secp_verify sp sign_bytes_hash sig key then Err VerificationError
         else Ok ())"

fun verify_bytes :: "prims \<Rightarrow> sig_prims \<Rightarrow> PubKeyKind \<Rightarrow> bytes \<Rightarrow> bytes \<Rightarrow> (CryptoError, unit) res" where
  "verify_bytes p sp (Secp256k1 key) bs sig = secp_verify_bytes p sp key bs sig"
| "verify_bytes p sp (Multisig threshold pubkeys) bs sig =
     res_bind (decode_multisig_signature sp sig) (\<lambda>signatures.
     if length signatures < unat threshold \<or> length signatures > length pubkeys then
       Err VerificationError
     else
       (let verified_counter = length (filter
              (\<lambda>current_sig. list_ex (\<lambda>current_pubkey.
                 is_ok (verify_bytes p sp current_pubkey bs current_sig)) pubkeys) signatures)
        in if verified_counter < length signatures then Err VerificationError else Ok ()))"

section \<open>Properties of signatures\<close>

text \<open>The documented behaviour of the length delimiter: a prefix code whose length is known.\<close>

definition delimiter_ok :: "sig_prims \<Rightarrow> bool" where
  "delimiter_ok sp =
     (\<forall>n. \<exists>len. encode_length_delimiter sp n = Some len \<and> length len = length_delimiter_len sp n \<and>
       (\<forall>rest. decode_length_delimiter sp (len @ rest) = Some n))"

text \<open>A multisig blob: seven header bytes, then each signature with its length.\<close>

definition encode_signature :: "sig_prims \<Rightarrow> bytes \<Rightarrow> bytes" where
  "encode_signature sp sig = 0x12 # the (encode_length_delimiter sp (length sig)) @ sig"

definition encode_multisig :: "sig_prims \<Rightarrow> bytes \<Rightarrow> bytes list \<Rightarrow> bytes" where
  "encode_multisig sp header sigs = header @ concat (map (encode_signature sp) sigs)"

lemma decode_windows_Cons:
  assumes "delimiter_ok sp" and "length (encode_signature sp sig) < 2 ^ 64"
  shows "decode_windows sp (encode_signature sp sig @ rest)
    = res_bind (decode_windows sp rest) (\<lambda>signatures. Ok (sig # signatures))"
proof -
  obtain len where len: "encode_length_delimiter sp (length sig) = Some len"
    "length len = length_delimiter_len sp (length sig)"
    "\<And>rest. decode_length_delimiter sp (len @ rest) = Some (length sig)"
    using assms(1) unfolding delimiter_ok_def by blast
  define n where "n = length_delimiter_len sp (length sig)"
  have n: "length len = n"
    by (simp add: n_def len(2))
  have fits: "(length sig + n) mod 18446744073709551616 = length sig + n"
    using assms(2) len(1) n by (simp add: encode_signature_def)
  show ?thesis
    by (subst decode_windows.simps)
      (simp add: encode_signature_def Let_def sub_slice_def len(1) len(3) n_def [symmetric] n fits)
qed

lemma decode_windows_concat:
  assumes "delimiter_ok sp" and "\<forall>sig \<in> set sigs. length (encode_signature sp sig) < 2 ^ 64"
  shows "decode_windows sp (concat (map (encode_signature sp) sigs)) = Ok sigs"
  using assms(2)
proof (induction sigs)
  case Nil
  then show ?case
    by (subst decode_windows.simps) simp
next
  case (Cons sig sigs)
  then show ?case
    using decode_windows_Cons [OF assms(1)] by simp
qed

lemma decode_encode_multisig:
  assumes "delimiter_ok sp" and "length header = 7" and "sigs \<noteq> []"
    and "\<forall>sig \<in> set sigs. length (encode_signature sp sig) < 2 ^ 64"
  shows "decode_multisig_signature sp (encode_multisig sp header sigs) = Ok sigs"
proof -
  let ?c = "concat (map (encode_signature sp) sigs)"
  have "0 < length ?c"
    using assms(3) by (cases sigs) (simp_all add: encode_signature_def)
  then have "\<not> length (encode_multisig sp header sigs) < 8"
    using assms(2) by (simp only: encode_multisig_def length_append)
  moreover have "drop 7 (encode_multisig sp header sigs) = ?c"
    using assms(2) by (simp add: encode_multisig_def)
  ultimately show ?thesis
    using assms(3) decode_windows_concat [OF assms(1,4)]
    by (simp only: decode_multisig_signature_def) simp
qed

lemma some_unverified: "length (filter P xs) < length xs \<longleftrightarrow> (\<exists>x \<in> set xs. \<not> P x)"
  by (induction xs) (auto simp: less_Suc_eq_le)

lemma is_ok_unit: "is_ok r \<longleftrightarrow> r = Ok ()"
  by (cases r) auto

lemma multisig_verify_char:
  "verify_bytes p sp (Multisig threshold pubkeys) bs sig = Ok () \<longleftrightarrow>
     (\<exists>sigs. decode_multisig_signature sp sig = Ok sigs \<and>
        unat threshold \<le> length sigs \<and> length sigs \<le> length pubkeys \<and>
        (\<forall>s \<in> set sigs. \<exists>k \<in> set pubkeys. verify_bytes p sp k bs s = Ok ()))"
proof (cases "decode_multisig_signature sp sig")
  case (Ok sigs)
  then show ?thesis
    by (auto simp: Let_def some_unverified is_ok_unit list_ex_iff not_less)
qed simp_all

text \<open>A concrete length delimiter, in unary, for the instances below.\<close>

definition unary_prims :: sig_prims where
  "unary_prims = \<lparr>ripemd160 = take 20, secp_signature_ok = (\<lambda>s. s \<noteq> []), secp_key_ok = (\<lambda>k. k \<noteq> []),
     secp_verify = (\<lambda>h s k. s = k),
     encode_length_delimiter = (\<lambda>n. Some (replicate n 1 @ [0])),
     decode_length_delimiter = (\<lambda>b. Some (length (takeWhile (\<lambda>x. x = 1) b))),
     length_delimiter_len = Suc\<rparr>"

lemma takeWhile_unary: "takeWhile (\<lambda>x. x = 1) (replicate n (1::u8) @ 0 # rest) = replicate n 1"
  by (induction n) simp_all

lemma unary_delimiter_ok: "delimiter_ok unary_prims"
  by (simp add: delimiter_ok_def unary_prims_def takeWhile_unary)

text \<open>Decoding a multisig blob returns the list of signatures that was encoded.\<close>

lemma decode_multisig_roundtrip:
  assumes "delimiter_ok sp" and "length header = 7" and "sigs \<noteq> []"
    and "\<forall>sig \<in> set sigs. length (encode_signature sp sig) < 2 ^ 64"
  shows "decode_multisig_signature sp (encode_multisig sp header sigs) = Ok sigs"
  by (rule decode_encode_multisig [OF assms])

lemma decode_multisig_roundtrip_witness:
  "decode_multisig_signature unary_prims (encode_multisig unary_prims (replicate 7 0) [[5], [6, 7]])
     = Ok [[5], [6, 7]]"
  using decode_multisig_roundtrip [of unary_prims "replicate 7 0" "[[5], [6, 7]]"] unary_delimiter_ok
  by (simp add: encode_signature_def unary_prims_def)

text \<open>
  C28: a multisig key accepts exactly the blobs that decode to at least
  threshold and at most as many signatures as it has keys, each of them valid
  under one of its keys.
\<close>

theorem multisig_verify_iff:
  "verify_bytes p sp (Multisig threshold pubkeys) bs sig = Ok () \<longleftrightarrow>
     (\<exists>sigs. decode_multisig_signature sp sig = Ok sigs \<and>
        unat threshold \<le> length sigs \<and> length sigs \<le> length pubkeys \<and>
        (\<forall>s \<in> set sigs. \<exists>k \<in> set pubkeys. verify_bytes p sp k bs s = Ok ()))"
  by (rule multisig_verify_char)

theorem multisig_verify_iff_witness:
  "verify_bytes demo_prims unary_prims (Multisig 1 [Secp256k1 [5]]) [1]
     (encode_multisig unary_prims (replicate 7 0) [[5]]) = Ok ()"
proof -
  have "decode_multisig_signature unary_prims (encode_multisig unary_prims (replicate 7 0) [[5]]) = Ok [[5]]"
    by (rule decode_encode_multisig [OF unary_delimiter_ok])
      (simp_all add: encode_signature_def unary_prims_def)
  moreover have "verify_bytes demo_prims unary_prims (Secp256k1 [5]) [1] [5] = Ok ()"
    by (simp add: secp_verify_bytes_def sha_256_def demo_prims_def unary_prims_def Let_def)
  ultimately show ?thesis
    unfolding multisig_verify_iff by simp
qed

text \<open>
  The signatures need not come from different keys: one valid signature,
  repeated as often as the threshold asks, is accepted.
\<close>

lemma multisig_repeated_signature:
  assumes "delimiter_ok sp" and "length header = 7" and "0 < threshold"
    and "unat threshold \<le> length pubkeys" and "k \<in> set pubkeys"
    and "verify_bytes p sp k bs s = Ok ()" and "length (encode_signature sp s) < 2 ^ 64"
  shows "verify_bytes p sp (Multisig threshold pubkeys) bs
     (encode_multisig sp header (replicate (unat threshold) s)) = Ok ()"
proof -
  have "0 < unat threshold"
    using assms(3) by (simp add: word_less_nat_alt)
  then have "decode_multisig_signature sp (encode_multisig sp header (replicate (unat threshold) s))
      = Ok (replicate (unat threshold) s)"
    using assms by (intro decode_encode_multisig) auto
  then show ?thesis
    unfolding multisig_verify_char using assms by (intro exI) auto
qed

end
