(* ===== verification/Contract_Validation.thy ===== *)
theory Contract_Validation
  imports Secret_Io Enclave_Sigs
begin

text \<open>
  Authentication of contracts and messages
  (\<open>wasm/contract_validation.rs\<close>): the contract key made at initialisation and
  checked on every execution, the code hash in front of a message, and the
  check of a message against the signed transaction or the calling contract.
\<close>

type_synonym ContractKey = bytes

definition CONTRACT_KEY_LENGTH :: nat where
  "CONTRACT_KEY_LENGTH = HASH_SIZE + HASH_SIZE"

definition HEX_ENCODED_HASH_SIZE :: nat where
  "HEX_ENCODED_HASH_SIZE = HASH_SIZE * 2"

lemmas size_defs = CONTRACT_KEY_LENGTH_def HEX_ENCODED_HASH_SIZE_def HASH_SIZE_def

section \<open>Contract keys\<close>

definition generate_sender_id :: "prims \<Rightarrow> bytes \<Rightarrow> u64 \<Rightarrow> bytes" where
  "generate_sender_id p msg_sender block_height = sha_256 p (msg_sender @ to_be 8 (unat block_height))"

definition generate_contract_id :: "prims \<Rightarrow> AESKey \<Rightarrow> bytes \<Rightarrow> bytes \<Rightarrow> bytes \<Rightarrow> bytes" where
  "generate_contract_id p ikm sender_id code_hash contract_address =
     (let authentication_key = derive_key_from_key p ikm sender_id
      in sign_sha_256 p authentication_key (sender_id @ code_hash @ contract_address))"

definition calc_contract_hash :: "prims \<Rightarrow> bytes \<Rightarrow> bytes" where
  "calc_contract_hash p contract_bytes = sha_256 p contract_bytes"

definition generate_encryption_key ::
  "prims \<Rightarrow> codecs \<Rightarrow> Keychain \<Rightarrow> Env \<Rightarrow> bytes \<Rightarrow> bytes \<Rightarrow> ContractKey enclave_result" where
  "generate_encryption_key p cd kc env code contract_address =
     res_bind (unwrap (get_consensus_state_ikm kc)) (\<lambda>ikm.
     (let contract_hash = calc_contract_hash p code
      in res_bind (ok_or FailedToDeserialize (bech32_decode cd (sender (message env)))) (\<lambda>(_, snder_address).
         (let sender_id = generate_sender_id p snder_address (height (block env));
              authenticated_contract_id = generate_contract_id p ikm sender_id contract_hash contract_address
          in Ok (sender_id @ authenticated_contract_id)))))"

definition extract_contract_key :: "codecs \<Rightarrow> Env \<Rightarrow> ContractKey enclave_result" where
  "extract_contract_key cd env =
     (case contract_key env of
        None \<Rightarrow> Err FailedContractAuthentication
      | Some k \<Rightarrow>
          res_bind (ok_or FailedContractAuthentication (base64_decode cd k)) (\<lambda>key.
          if length key \<noteq> CONTRACT_KEY_LENGTH then Err FailedContractAuthentication else Ok key))"

definition validate_contract_key ::
  "prims \<Rightarrow> Keychain \<Rightarrow> ContractKey \<Rightarrow> bytes \<Rightarrow> bytes \<Rightarrow> bool enclave_result" where
  "validate_contract_key p kc key contract_address contract_code =
     (let signer_id = take HASH_SIZE key;
          expected_authentication_id = drop HASH_SIZE key;
          contract_hash = calc_contract_hash p contract_code
      in res_bind (unwrap (get_consensus_state_ikm kc)) (\<lambda>enclave_key.
         Ok (generate_contract_id p enclave_key signer_id contract_hash contract_address
               = expected_authentication_id)))"

definition validate_msg :: "prims \<Rightarrow> codecs \<Rightarrow> bytes \<Rightarrow> bytes \<Rightarrow> bytes enclave_result" where
  "validate_msg p cd m contract_code =
     (if length m < HEX_ENCODED_HASH_SIZE then Err ValidationFailure
      else
        (let calc_hash = calc_contract_hash p contract_code;
             received_contract_hash = sub_slice 0 HEX_ENCODED_HASH_SIZE m
         in res_bind (ok_or ValidationFailure (hex_decode cd received_contract_hash)) (\<lambda>decoded_hash.
            if decoded_hash \<noteq> calc_hash then Err ValidationFailure
            else Ok (drop HEX_ENCODED_HASH_SIZE m))))"

section \<open>Verification of the sender\<close>

definition verify_callback_sig ::
  "prims \<Rightarrow> codecs \<Rightarrow> Keychain \<Rightarrow> bytes \<Rightarrow> CanonicalAddr \<Rightarrow> SecretMessage \<Rightarrow> Coin list \<Rightarrow> bool enclave_result" where
  "verify_callback_sig p cd kc callback_signature sndr m funds =
     (if callback_signature = [] then Ok False
      else res_bind (create_callback_signature p cd kc sndr m funds) (\<lambda>sig. Ok (callback_signature = sig)))"

definition verify_sender :: "prims \<Rightarrow> sig_prims \<Rightarrow> CosmosSignature \<Rightarrow> CanonicalAddr \<Rightarrow> bool" where
  "verify_sender p sp sig msg_sender = (get_address p sp (pub_key sig) = msg_sender)"

fun signed_msg :: "SignDocWasmMsg \<Rightarrow> string" where
  "signed_msg (SignExecute to m funds sig) = m"
| "signed_msg (SignInstantiate code_id init_msg init_funds label sig) = init_msg"

definition get_verified_msg :: "codecs \<Rightarrow> SignDoc \<Rightarrow> SecretMessage \<Rightarrow> SignDocWasmMsg option" where
  "get_verified_msg cd sign_doc sent_msg =
     find (\<lambda>m. case binary_from_base64 cd (signed_msg m) of
                 Ok binary_msg \<Rightarrow> to_vec sent_msg = binary_msg
               | _ \<Rightarrow> False) (msgs sign_doc)"

fun verify_contract :: "SignDocWasmMsg \<Rightarrow> Env \<Rightarrow> bool" where
  "verify_contract (SignExecute to m funds sig) env = (address (contract env) = to)"
| "verify_contract (SignInstantiate code_id init_msg init_funds label sig) env = True"

fun verify_funds :: "SignDocWasmMsg \<Rightarrow> Env \<Rightarrow> bool" where
  "verify_funds (SignExecute to m funds sig) env = (sent_funds (message env) = funds)"
| "verify_funds (SignInstantiate code_id init_msg init_funds label sig) env = (sent_funds (message env) = init_funds)"

definition verify_signature_params ::
  "prims \<Rightarrow> sig_prims \<Rightarrow> codecs \<Rightarrow> SignDoc \<Rightarrow> SigInfo \<Rightarrow> Env \<Rightarrow> SecretMessage \<Rightarrow> bool" where
  "verify_signature_params p sp cd sign_doc sig_info env sent_msg =
     (case from_human cd (sender (message env)) of
        None \<Rightarrow> False
      | Some msg_sender \<Rightarrow>
          if \<not> verify_sender p sp (sig_signature sig_info) msg_sender then False
          else (case get_verified_msg cd sign_doc sent_msg of
                  None \<Rightarrow> False
                | Some m \<Rightarrow>
                    if \<not> verify_contract m env then False
                    else if \<not> verify_funds m env then False
                    else True))"

definition verify_params ::
  "prims \<Rightarrow> sig_prims \<Rightarrow> codecs \<Rightarrow> Keychain \<Rightarrow> SigInfo \<Rightarrow> Env \<Rightarrow> SecretMessage \<Rightarrow> unit enclave_result" where
  "verify_params p sp cd kc sig_info env m =
     (case callback_sig sig_info of
        Some callback_signature \<Rightarrow>
          res_bind (ok_or FailedToSerialize (from_human cd (sender (message env)))) (\<lambda>sndr.
          res_bind (verify_callback_sig p cd kc callback_signature sndr m (sent_funds (message env))) (\<lambda>ok.
          if ok then Ok () else Err FailedTxVerification))
      | None \<Rightarrow>
          res_bind (ok_or FailedToDeserialize (parse_sign_doc cd (sign_bytes sig_info))) (\<lambda>sign_doc.
          res_bind (map_err (\<lambda>_. FailedTxVerification)
                     (verify_bytes p sp (pub_key (sig_signature sig_info)) (sign_bytes sig_info)
                       (signature (sig_signature sig_info)))) (\<lambda>_.
          if verify_signature_params p sp cd sign_doc sig_info env m then Ok ()
          else Err FailedTxVerification)))"

fun every_other :: "'a list \<Rightarrow> 'a list" where
  "every_other (x # y # xs) = x # every_other xs"
| "every_other xs = []"

lemma every_other_pairs: "every_other (concat (map (\<lambda>b. [b, x]) bs)) = bs"
  by (induction bs) simp_all

text \<open>Simple encodings for concrete instances.\<close>

definition demo_env :: "string option \<Rightarrow> Env" where
  "demo_env key = \<lparr>block = \<lparr>height = 7, time = 1, chain_id = ''c''\<rparr>,
     message = \<lparr>sender = ''ann'', sent_funds = []\<rparr>, contract = \<lparr>address = ''token''\<rparr>,
     contract_key = key, contract_code_hash = []\<rparr>"

definition demo_sig_info :: SigInfo where
  "demo_sig_info = \<lparr>sign_bytes = [1], sig_signature = \<lparr>pub_key = Secp256k1 (ascii ''ann''), signature = ascii ''ann''\<rparr>,
     callback_sig = None\<rparr>"

definition demo_codecs :: codecs where
  "demo_codecs = \<lparr>base64_encode = chars, base64_decode = (\<lambda>s. Some (ascii s)),
     hex_encode = (\<lambda>bs. chars (concat (map (\<lambda>b. [b, 0]) bs))), hex_decode = (\<lambda>bs. Some (every_other bs)),
     bech32_encode = (\<lambda>hrp bs. Some (chars bs)), bech32_encode_error = (\<lambda>hrp bs. []),
     bech32_decode = (\<lambda>s. if s = [] then None else Some (''secret'', ascii s)), bech32_decode_error = (\<lambda>s. ''bad''),
     to_base32 = (\<lambda>bs. bs), from_base32 = Some,
     json_string = (\<lambda>s. Some (CHR 0x22 # s @ [CHR 0x22])), json_coins = (\<lambda>funds. Some []),
     parse_output = (\<lambda>bs. Some (OkString (chars bs))), print_output = (\<lambda>out. Some []),
     parse_env = (\<lambda>bs. Some (demo_env (Some (chars bs)))), print_env = (\<lambda>env. Some []),
     parse_sig_info = (\<lambda>bs. Some demo_sig_info),
     parse_sign_doc = (\<lambda>bs. Some \<lparr>account_number = [], sd_chain_id = [], fee = [], memo = [],
        msgs = [SignExecute ''token'' (chars (replicate 80 1 @ [65, 66])) [] None], sequence = []\<rparr>)\<rparr>"

lemma demo_codecs_ok: "codecs_ok demo_codecs"
proof -
  have "length (concat (map (\<lambda>b. [b, 0]) bs)) = 2 * length bs" for bs :: bytes
    by (induction bs) simp_all
  then show ?thesis
    by (simp add: codecs_ok_def demo_codecs_def every_other_pairs)
qed

section \<open>Properties of contract keys\<close>

lemma length_contract_id: "prims_ok p \<Longrightarrow> length (generate_contract_id p ikm s h a) = 32"
  by (simp add: generate_contract_id_def sign_sha_256_def prims_ok_def)

lemma length_sender_id: "prims_ok p \<Longrightarrow> length (generate_sender_id p s h) = 32"
  by (simp add: generate_sender_id_def sha_256_def prims_ok_def)

lemma generate_encryption_key_Ok_iff:
  "generate_encryption_key p cd kc env code addr = Ok key \<longleftrightarrow>
     (\<exists>ikm hrp snder. consensus_state_ikm kc = Some ikm \<and> bech32_decode cd (sender (message env)) = Some (hrp, snder) \<and>
        (let sid = generate_sender_id p snder (height (block env))
         in key = sid @ generate_contract_id p ikm sid (calc_contract_hash p code) addr))"
  by (auto simp: generate_encryption_key_def get_consensus_state_ikm_def Let_def res_simps)

lemma validate_contract_key_Ok_iff:
  "validate_contract_key p kc key addr code = Ok b \<longleftrightarrow>
     (\<exists>ikm. consensus_state_ikm kc = Some ikm \<and>
        b = (generate_contract_id p ikm (take 32 key) (calc_contract_hash p code) addr = drop 32 key))"
  by (auto simp: validate_contract_key_def get_consensus_state_ikm_def Let_def res_simps HASH_SIZE_def)

text \<open>
  The contract key issued at initialisation passes the checks of every
  later execution of the same code at the same address: it is found in the
  environment and authenticates the contract.
\<close>

lemma contract_key_accepted:
  assumes "prims_ok p" and "codecs_ok cd"
    and "generate_encryption_key p cd kc init_env code addr = Ok key"
    and "contract_key env = Some (base64_encode cd key)"
  shows "extract_contract_key cd env = Ok key \<and> validate_contract_key p kc key addr code = Ok True"
proof -
  obtain ikm hrp snder where ikm: "consensus_state_ikm kc = Some ikm"
    and key: "key = generate_sender_id p snder (height (block init_env)) @
      generate_contract_id p ikm (generate_sender_id p snder (height (block init_env))) (calc_contract_hash p code) addr"
    using assms(3) by (auto simp: generate_encryption_key_Ok_iff Let_def)
  show ?thesis
    using assms(2,4) length_sender_id [OF assms(1)] length_contract_id [OF assms(1)]
    by (simp add: extract_contract_key_def codecs_ok_def size_defs validate_contract_key_Ok_iff ikm key)
qed

definition demo_key :: bytes where
  "demo_key = (let sid = generate_sender_id demo_prims (ascii ''ann'') 7
     in sid @ generate_contract_id demo_prims (replicate 32 8) sid (calc_contract_hash demo_prims [99]) [3])"

lemma demo_key_generated:
  "generate_encryption_key demo_prims demo_codecs demo_keychain (demo_env None) [99] [3] = Ok demo_key"
  by (simp add: generate_encryption_key_Ok_iff demo_keychain_def demo_codecs_def demo_env_def demo_key_def Let_def)

lemma contract_key_accepted_witness:
  "extract_contract_key demo_codecs (demo_env (Some (chars demo_key))) = Ok demo_key \<and>
   validate_contract_key demo_prims demo_keychain demo_key [3] [99] = Ok True"
  by (rule contract_key_accepted [OF demo_prims_ok demo_codecs_ok demo_key_generated])
    (simp add: demo_env_def demo_codecs_def)



section \<open>Properties of the message checks\<close>

text \<open>
  C13: the exact condition for accepting a message that is not a callback. The
  sign document parses, the key's signature on it verifies, the key's address
  is the sender, and the first signed message with the bytes received has the
  called contract (for an execution) and the funds of the environment.
\<close>

theorem signed_message_accepted_iff:
  assumes "callback_sig sig_info = None"
  shows "verify_params p sp cd kc sig_info env m = Ok () \<longleftrightarrow>
    (\<exists>doc signed. parse_sign_doc cd (sign_bytes sig_info) = Some doc \<and>
       verify_bytes p sp (pub_key (sig_signature sig_info)) (sign_bytes sig_info)
         (signature (sig_signature sig_info)) = Ok () \<and>
       from_human cd (sender (message env)) = Some (get_address p sp (pub_key (sig_signature sig_info))) \<and>
       find (\<lambda>s. base64_decode cd (signed_msg s) = Some (to_vec m)) (msgs doc) = Some signed \<and>
       (case signed of
          SignExecute to _ funds _ \<Rightarrow> address (contract env) = to \<and> sent_funds (message env) = funds
        | SignInstantiate _ _ funds _ _ \<Rightarrow> sent_funds (message env) = funds))"
proof -
  have find_eq: "get_verified_msg cd doc m =
      find (\<lambda>s. base64_decode cd (signed_msg s) = Some (to_vec m)) (msgs doc)" for doc
  proof -
    have "(case binary_from_base64 cd (signed_msg s) of Ok b \<Rightarrow> to_vec m = b | _ \<Rightarrow> False) \<longleftrightarrow>
        base64_decode cd (signed_msg s) = Some (to_vec m)" for s
      by (cases "base64_decode cd (signed_msg s)") (auto simp: binary_from_base64_def)
    then show ?thesis
      by (simp add: get_verified_msg_def)
  qed
  have checks: "verify_contract s env \<and> verify_funds s env \<longleftrightarrow>
      (case s of SignExecute to _ funds _ \<Rightarrow> address (contract env) = to \<and> sent_funds (message env) = funds
        | SignInstantiate _ _ funds _ _ \<Rightarrow> sent_funds (message env) = funds)" for s
    by (cases s) auto
  show ?thesis
  proof (cases "parse_sign_doc cd (sign_bytes sig_info)")
    case (Some doc)
    then show ?thesis
      unfolding checks [symmetric]
      by (cases "find (\<lambda>s. base64_decode cd (signed_msg s) = Some (to_vec m)) (msgs doc)";
          cases "from_human cd (sender (message env))")
        (auto simp: verify_params_def assms res_simps verify_signature_params_def find_eq verify_sender_def)
  qed (simp add: verify_params_def assms)
qed

theorem signed_message_accepted_iff_witness:
  "verify_params demo_prims unary_prims demo_codecs demo_keychain demo_sig_info
     ((demo_env None)\<lparr>message := \<lparr>sender = chars (take 20 (ascii ''ann'' @ replicate 29 0)), sent_funds = []\<rparr>\<rparr>)
     \<lparr>nonce = replicate 32 1, user_public_key = replicate 32 1, msg = replicate 16 1 @ [65, 66]\<rparr> = Ok ()"
proof -
  have ns: "callback_sig demo_sig_info = None"
    by (simp add: demo_sig_info_def)
  have vec: "to_vec \<lparr>nonce = replicate 32 1, user_public_key = replicate 32 1, msg = replicate 16 1 @ [65, 66]\<rparr>
      = replicate 80 1 @ [65, 66]"
    by (simp add: to_vec_def replicate_add [symmetric] flip: append_assoc)
  show ?thesis
    unfolding signed_message_accepted_iff [OF ns] vec
    by (simp add: demo_codecs_def demo_sig_info_def demo_env_def from_human_def secp_verify_bytes_def sha_256_def
        demo_prims_def unary_prims_def Let_def)
qed

text \<open>
  C14: a message one contract sends to another arrives. The message that
  \<open>encrypt_wasm_msg\<close> makes parses as a secret message, its callback signature
  is accepted when the caller is the sender and the funds are those sent, it
  decrypts, the code hash in front matches the callee's code, and what is left
  is the message the calling contract wrote.
\<close>

theorem callback_delivered:
  assumes "prims_ok p" and "codecs_ok cd"
    and "consensus_io_exchange_keypair kc \<noteq> None" and "consensus_callback_secret kc \<noteq> None"
    and "length n = 32" and "length pk = 32"
    and "from_human cd (sender (message env)) = Some caller" and "sent_funds (message env) = send"
    and "code_hash = hex_encode cd (calc_contract_hash p code)"
  shows "\<exists>m' sig sm.
    encrypt_wasm_msg p cd kc (WasmExecute to code_hash m send any) n pk caller
      = Ok (WasmExecute to code_hash m' send (Some sig)) \<and>
    from_slice m' = Ok sm \<and>
    verify_params p sp cd kc (sig_info\<lparr>callback_sig := Some sig\<rparr>) env sm = Ok () \<and>
    res_bind (decrypt p kc sm) (\<lambda>plain. validate_msg p cd plain code) = Ok m"
proof -
  obtain c sig where sealed: "seal_message p cd kc code_hash m send n pk caller = Ok (n @ pk @ c, sig)"
    and sig: "create_callback_signature p cd kc caller \<lparr>nonce = n, user_public_key = pk, msg = c\<rparr> send = Ok sig"
    and plain: "decrypt p kc \<lparr>nonce = n, user_public_key = pk, msg = c\<rparr> = Ok (ascii code_hash @ m)"
    and lens: "length c = length code_hash + length m + 16" "length sig = 32"
    by (rule seal_message_Ok [OF assms(1-4)])
  have hash: "length code_hash = 64" "hex_decode cd (ascii code_hash) = Some (calc_contract_hash p code)"
    using assms(1,2) by (simp_all add: assms(9) codecs_ok_def prims_ok_def calc_contract_hash_def sha_256_def)
  let ?sm = "\<lparr>nonce = n, user_public_key = pk, msg = c\<rparr>"
  have "from_slice (n @ pk @ c) = Ok ?sm"
    using assms(5,6) lens hash(1) by (simp add: from_slice_Ok_iff to_vec_def)
  moreover have "verify_params p sp cd kc (sig_info\<lparr>callback_sig := Some sig\<rparr>) env ?sm = Ok ()"
    using lens(2) by (auto simp: verify_params_def verify_callback_sig_def assms(7,8) sig)
  moreover have "validate_msg p cd (ascii code_hash @ m) code = Ok m"
    using hash by (simp add: validate_msg_def size_defs sub_slice_def Let_def)
  ultimately show ?thesis
    using sealed plain by auto
qed

theorem callback_delivered_witness:
  "\<exists>m' sig sm.
    encrypt_wasm_msg demo_prims demo_codecs demo_keychain
      (WasmExecute ''token'' (hex_encode demo_codecs (calc_contract_hash demo_prims [99])) [65] [] None)
      (replicate 32 1) (replicate 32 2) (ascii ''ann'')
      = Ok (WasmExecute ''token'' (hex_encode demo_codecs (calc_contract_hash demo_prims [99])) m' [] (Some sig)) \<and>
    from_slice m' = Ok sm \<and>
    verify_params demo_prims unary_prims demo_codecs demo_keychain (demo_sig_info\<lparr>callback_sig := Some sig\<rparr>)
      (demo_env None) sm = Ok () \<and>
    res_bind (decrypt demo_prims demo_keychain sm) (\<lambda>plain. validate_msg demo_prims demo_codecs plain [99]) = Ok [65]"
  by (rule callback_delivered [OF demo_prims_ok demo_codecs_ok])
    (simp_all add: demo_keychain_def demo_codecs_def demo_env_def from_human_def)

end
