(* ===== verification/Enclave_Db.thy ===== *)
theory Enclave_Db
  imports Enclave_State Contract_Validation
begin

text \<open>
  Calls out of the enclave and the encrypted storage of contracts
  (\<open>wasm/db.rs\<close>, the error type of \<open>wasm/errors.rs\<close>). The host is untrusted: an
  ocall is an arbitrary function on the host state \<open>'h\<close> whose reply names the
  buffers it allocated in the enclave and the pointer it returned.
\<close>

section \<open>errors.rs\<close>

datatype WasmEngineError =
    EngineFailedOcall u64
  | EngineHostMisbehavior
  | EngineOutOfGas
  | EnginePanic
  | EngineEncryptionError
  | EngineDecryptionError
  | EngineSerializationError
  | EngineDeserializationError
  | EngineBase32Error
  | EngineMemoryAllocationError
  | EngineMemoryReadError
  | EngineMemoryWriteError
  | EngineUnauthorizedWrite
  | EngineNonExistentImportFunction

fun enclave_error_of :: "WasmEngineError \<Rightarrow> EnclaveError" where
  "enclave_error_of (EngineFailedOcall vm_error) = FailedOcall vm_error"
| "enclave_error_of EngineOutOfGas = OutOfGas"
| "enclave_error_of EngineEncryptionError = EncryptionError"
| "enclave_error_of EngineDecryptionError = DecryptionError"
| "enclave_error_of EngineMemoryAllocationError = MemoryAllocationError"
| "enclave_error_of EngineMemoryReadError = MemoryReadError"
| "enclave_error_of EngineMemoryWriteError = MemoryWriteError"
| "enclave_error_of EngineUnauthorizedWrite = UnauthorizedWrite"
| "enclave_error_of EngineHostMisbehavior = HostMisbehavior"
| "enclave_error_of other = Unknown"

section \<open>Ocalls\<close>

text \<open>
  A reply of the host: the status of the transition, the outcome, the error
  object, the gas used, the calls of \<open>ecall_allocate\<close> the host made, and the
  pointer it returned, which it may choose from what those calls gave it.
\<close>

record ocall_reply =
  sgx_success :: bool
  o_return :: OcallReturn
  o_vm_err :: u64
  o_gas :: u64
  o_allocs :: "alloc_call list"
  o_ptr :: "ptr list \<Rightarrow> ptr"

record 'h ocalls =
  ocall_read_db :: "bytes \<Rightarrow> 'h \<Rightarrow> ocall_reply \<times> 'h"
  ocall_remove_db :: "bytes \<Rightarrow> 'h \<Rightarrow> ocall_reply \<times> 'h"
  ocall_write_db :: "bytes \<Rightarrow> bytes \<Rightarrow> 'h \<Rightarrow> ocall_reply \<times> 'h"
  ocall_query_chain :: "bytes \<Rightarrow> u64 \<Rightarrow> 'h \<Rightarrow> ocall_reply \<times> 'h"
  enclave_alloc :: allocator

record 'h world =
  host :: 'h
  bufs :: buffers
  depth :: u8

primrec perform_allocs :: "allocator \<Rightarrow> alloc_call list \<Rightarrow> buffers \<Rightarrow> ptr list \<times> buffers" where
  "perform_allocs al [] b = ([], b)"
| "perform_allocs al (c # cs) b =
     (case ecall_allocate al c b of (p, b1) \<Rightarrow>
      (case perform_allocs al cs b1 of (ps, b2) \<Rightarrow> (p # ps, b2)))"

definition do_ocall :: "'h ocalls \<Rightarrow> ('h \<Rightarrow> ocall_reply \<times> 'h) \<Rightarrow> 'h world \<Rightarrow> (ocall_reply \<times> ptr) \<times> 'h world" where
  "do_ocall oc f w =
     (case f (host w) of (r, h) \<Rightarrow>
      (case perform_allocs (enclave_alloc oc) (o_allocs r) (bufs w) of (ps, b) \<Rightarrow>
       ((r, o_ptr r ps), w\<lparr>host := h, bufs := b\<rparr>)))"

type_synonym ('h, 'a) db = "('h world, WasmEngineError, 'a) stm"

section \<open>db.rs: safe wrappers around the ocalls\<close>

definition recovered :: "ptr \<Rightarrow> ('h, bytes option) db" where
  "recovered p w =
     (case recover_buffer p (bufs w) of
        (Ok v, b) \<Rightarrow> (Ok v, w\<lparr>bufs := b\<rparr>)
      | (Err _, b) \<Rightarrow> (Err EngineHostMisbehavior, w\<lparr>bufs := b\<rparr>)
      | (Panicked, b) \<Rightarrow> (Panicked, w\<lparr>bufs := b\<rparr>))"

definition read_db :: "'h ocalls \<Rightarrow> bytes \<Rightarrow> ('h, bytes option \<times> u64) db" where
  "read_db oc key w =
     (case do_ocall oc (ocall_read_db oc key) w of ((r, p), w1) \<Rightarrow>
      if \<not> sgx_success r then (Err (EngineFailedOcall (o_vm_err r)), w1)
      else (case o_return r of
          OcallSuccess \<Rightarrow> and_then (recovered p) (\<lambda>value. ret (value, o_gas r)) w1
        | OcallFailure \<Rightarrow> (Err (EngineFailedOcall (o_vm_err r)), w1)
        | OcallPanic \<Rightarrow> (Err EnginePanic, w1)))"

definition gas_reply :: "ocall_reply \<Rightarrow> (WasmEngineError, u64) res" where
  "gas_reply r =
     (if \<not> sgx_success r then Err (EngineFailedOcall (o_vm_err r))
      else (case o_return r of
          OcallSuccess \<Rightarrow> Ok (o_gas r)
        | OcallFailure \<Rightarrow> Err (EngineFailedOcall (o_vm_err r))
        | OcallPanic \<Rightarrow> Err EnginePanic))"

definition remove_db :: "'h ocalls \<Rightarrow> bytes \<Rightarrow> ('h, u64) db" where
  "remove_db oc key w =
     (case do_ocall oc (ocall_remove_db oc key) w of ((r, p), w1) \<Rightarrow> (gas_reply r, w1))"

definition write_db :: "'h ocalls \<Rightarrow> bytes \<Rightarrow> bytes \<Rightarrow> ('h, u64) db" where
  "write_db oc key val w =
     (case do_ocall oc (ocall_write_db oc key val) w of ((r, p), w1) \<Rightarrow> (gas_reply r, w1))"

section \<open>db.rs: encryption\<close>

definition field_name_digest :: "prims \<Rightarrow> bytes \<Rightarrow> ContractKey \<Rightarrow> bytes" where
  "field_name_digest p field_name key = sha_256 p (field_name @ key)"

definition split_at :: "nat \<Rightarrow> 'a list \<Rightarrow> ('a list \<times> 'a list) option" where
  "split_at n xs = (if n \<le> length xs then Some (take n xs, drop n xs) else None)"

definition get_symmetrical_key :: "prims \<Rightarrow> Keychain \<Rightarrow> bytes \<Rightarrow> ContractKey \<Rightarrow> (WasmEngineError, AESKey) res" where
  "get_symmetrical_key p kc field_name key =
     res_bind (unwrap (get_consensus_state_ikm kc)) (\<lambda>ikm.
     Ok (derive_key_from_key p ikm (field_name @ key)))"

definition encrypt_key ::
  "prims \<Rightarrow> Keychain \<Rightarrow> bytes \<Rightarrow> bytes \<Rightarrow> ContractKey \<Rightarrow> bytes \<Rightarrow> (WasmEngineError, bytes) res" where
  "encrypt_key p kc field_name val key ad =
     res_bind (get_symmetrical_key p kc field_name key) (\<lambda>k.
     map_err (\<lambda>_. EngineEncryptionError) (encrypt_siv p k val (Some [ad])))"

definition decrypt_key ::
  "prims \<Rightarrow> Keychain \<Rightarrow> bytes \<Rightarrow> bytes \<Rightarrow> ContractKey \<Rightarrow> (WasmEngineError, bytes) res" where
  "decrypt_key p kc field_name val key =
     res_bind (get_symmetrical_key p kc field_name key) (\<lambda>k.
     res_bind (or_panic (split_at 32 val)) (\<lambda>(ad, encrypted_value).
     map_err (\<lambda>_. EngineDecryptionError) (decrypt_siv p k encrypted_value (Some [ad]))))"

definition derive_ad_for_field :: "prims \<Rightarrow> 'h ocalls \<Rightarrow> bytes \<Rightarrow> ('h, bytes \<times> u64) db" where
  "derive_ad_for_field p oc field_name =
     and_then (read_db oc field_name) (\<lambda>(old_value, gas_used).
     and_then (lift (case old_value of
         None \<Rightarrow> Ok field_name
       | Some v \<Rightarrow> res_bind (or_panic (split_at 32 v)) (\<lambda>(ad, _). Ok ad))) (\<lambda>previous.
     ret (sha_256 p previous, gas_used)))"

definition write_encrypted_key ::
  "prims \<Rightarrow> Keychain \<Rightarrow> 'h ocalls \<Rightarrow> bytes \<Rightarrow> bytes \<Rightarrow> ContractKey \<Rightarrow> ('h, u64) db" where
  "write_encrypted_key p kc oc key val ck =
     (let scrambled_field_name = field_name_digest p key ck
      in and_then (derive_ad_for_field p oc scrambled_field_name) (\<lambda>(ad, ad_used_gas).
         and_then (lift (encrypt_key p kc scrambled_field_name val ck ad)) (\<lambda>encrypted_value.
         and_then (write_db oc scrambled_field_name (ad @ encrypted_value)) (\<lambda>write_used_gas.
         ret (ad_used_gas + write_used_gas)))))"

definition read_encrypted_key ::
  "prims \<Rightarrow> Keychain \<Rightarrow> 'h ocalls \<Rightarrow> bytes \<Rightarrow> ContractKey \<Rightarrow> ('h, bytes option \<times> u64) db" where
  "read_encrypted_key p kc oc key ck =
     (let scrambled_field_name = field_name_digest p key ck
      in and_then (read_db oc scrambled_field_name) (\<lambda>(val, gas_used).
         case val of
           Some v \<Rightarrow> and_then (lift (decrypt_key p kc scrambled_field_name v ck)) (\<lambda>decrypted.
                      ret (Some decrypted, gas_used))
         | None \<Rightarrow> ret (None, gas_used)))"

definition remove_encrypted_key :: "prims \<Rightarrow> 'h ocalls \<Rightarrow> bytes \<Rightarrow> ContractKey \<Rightarrow> ('h, u64) db" where
  "remove_encrypted_key p oc key ck = remove_db oc (field_name_digest p key ck)"

section \<open>Whatever the host does\<close>

lemma bufs_ok_perform_allocs:
  "allocator_ok al \<Longrightarrow> bufs_ok b \<Longrightarrow> perform_allocs al cs b = (ps, b') \<Longrightarrow> bufs_ok b'"
  by (induction cs arbitrary: b ps b') (auto split: prod.splits dest: bufs_ok_allocate)

lemma do_ocall_keeps:
  assumes "allocator_ok (enclave_alloc oc)" and "bufs_ok (bufs w)" and "do_ocall oc f w = (r, w')"
  shows "bufs_ok (bufs w') \<and> depth w' = depth w"
  using assms bufs_ok_perform_allocs by (auto simp: do_ocall_def split: prod.splits)

lemma recovered_keeps:
  assumes "bufs_ok (bufs w)" and "recovered p w = (r, w')"
  shows "bufs_ok (bufs w') \<and> depth w' = depth w \<and> r \<noteq> Panicked \<and> host w' = host w"
  using assms by (auto simp: recovered_def split: prod.splits res.splits dest: recover_buffer_keeps)

text \<open>The buffers stay consistent and the wrappers themselves never panic.\<close>

definition db_safe :: "u8 \<Rightarrow> 'h world \<Rightarrow> bool" where
  "db_safe d w = (bufs_ok (bufs w) \<and> depth w = d)"

lemma read_db_keeps:
  assumes "allocator_ok (enclave_alloc oc)" and "db_safe d w" and "read_db oc key w = (r, w')"
  shows "db_safe d w' \<and> r \<noteq> Panicked"
proof -
  obtain q q' w1 where o: "do_ocall oc (ocall_read_db oc key) w = ((q, q'), w1)"
    by (metis prod.exhaust)
  then have w1: "bufs_ok (bufs w1)" "depth w1 = d"
    using do_ocall_keeps [OF assms(1)] assms(2) by (auto simp: db_safe_def)
  obtain rv w2 where rv: "recovered q' w1 = (rv, w2)"
    by (metis prod.exhaust)
  show ?thesis
    using assms(3) o w1 rv recovered_keeps [OF w1(1) rv]
    by (cases rv) (auto simp: read_db_def db_safe_def split: if_splits OcallReturn.splits)
qed

lemma gas_only_keeps:
  assumes "allocator_ok (enclave_alloc oc)" and "db_safe d w"
    and "(case do_ocall oc f w of ((r, p), w1) \<Rightarrow> (gas_reply r, w1)) = (r, w')"
  shows "db_safe d w' \<and> r \<noteq> Panicked"
  using assms do_ocall_keeps [OF assms(1)]
  by (auto simp: db_safe_def gas_reply_def split: prod.splits OcallReturn.splits if_splits)

lemma write_db_keeps:
  assumes "allocator_ok (enclave_alloc oc)" and "db_safe d w" and "write_db oc key val w = (r, w')"
  shows "db_safe d w' \<and> r \<noteq> Panicked"
  using gas_only_keeps [OF assms(1,2)] assms(3) unfolding write_db_def by blast

lemma remove_db_keeps:
  assumes "allocator_ok (enclave_alloc oc)" and "db_safe d w" and "remove_db oc key w = (r, w')"
  shows "db_safe d w' \<and> r \<noteq> Panicked"
  using gas_only_keeps [OF assms(1,2)] assms(3) unfolding remove_db_def by blast

lemma keeps_db [keeps_intro]:
  assumes "allocator_ok (enclave_alloc oc)"
  shows "keeps (db_safe d) (read_db oc key)" and "keeps (db_safe d) (write_db oc key val)"
    and "keeps (db_safe d) (remove_db oc key)"
  by (rule keepsI; use read_db_keeps [OF assms] write_db_keeps [OF assms] remove_db_keeps [OF assms] in blast)+

lemma keeps_encrypted [keeps_intro]:
  assumes "allocator_ok (enclave_alloc oc)"
  shows "keeps (db_safe d) (read_encrypted_key p kc oc key ck)"
    and "keeps (db_safe d) (write_encrypted_key p kc oc key val ck)"
    and "keeps (db_safe d) (remove_encrypted_key p oc key ck)"
  unfolding read_encrypted_key_def write_encrypted_key_def remove_encrypted_key_def derive_ad_for_field_def
  by (intro keeps_intro assms)+

section \<open>With an honest host\<close>

text \<open>
  A host whose database is \<open>view\<close>, in the states \<open>I\<close> it keeps: reads allocate the
  stored value in the enclave and return its pointer, or the null pointer if there
  is none. Between two ocalls the enclave holds no buffer.
\<close>

definition served :: "ocall_reply \<Rightarrow> bool" where
  "served r = (sgx_success r \<and> o_return r = OcallSuccess)"

definition honest_db :: "'h ocalls \<Rightarrow> ('h \<Rightarrow> bool) \<Rightarrow> ('h \<Rightarrow> bytes \<rightharpoonup> bytes) \<Rightarrow> bool" where
  "honest_db oc I view =
     (allocator_ok (enclave_alloc oc) \<and> (\<forall>d. d \<noteq> [] \<longrightarrow> enclave_alloc oc Map.empty d \<noteq> None) \<and>
      (\<forall>k h. I h \<longrightarrow> (\<exists>r h'. ocall_read_db oc k h = (r, h') \<and> served r \<and> I h' \<and> view h' = view h \<and>
         (case view h k of
            None \<Rightarrow> o_allocs r = [] \<and> o_ptr r [] = 0
          | Some v \<Rightarrow> o_allocs r = [\<lparr>ac_buffer = Some v, ac_register = Ok (), ac_restore = Ok ()\<rparr>] \<and>
                       (\<forall>p. o_ptr r [p] = p)))) \<and>
      (\<forall>k v h. I h \<longrightarrow> (\<exists>r h'. ocall_write_db oc k v h = (r, h') \<and> served r \<and> I h' \<and>
         view h' = (view h)(k \<mapsto> v) \<and> o_allocs r = [])) \<and>
      (\<forall>k h. I h \<longrightarrow> (\<exists>r h'. ocall_remove_db oc k h = (r, h') \<and> served r \<and> I h' \<and>
         view h' = (view h)(k := None) \<and> o_allocs r = [])))"

definition quiet :: "'h world \<Rightarrow> bool" where
  "quiet w = (bufs w = \<lparr>alloc_stack = [], heap = Map.empty\<rparr>)"

lemma read_db_honest:
  assumes "honest_db oc I view" and "quiet w" and "I (host w)" and "view (host w) k \<noteq> Some []"
  obtains g w' where "read_db oc k w = (Ok (view (host w) k, g), w')" and "quiet w'" and "I (host w')"
    and "view (host w') = view (host w)"
proof -
  obtain r h where r: "ocall_read_db oc k (host w) = (r, h)" "served r" "I h" "view h = view (host w)"
    and c: "case view (host w) k of
            None \<Rightarrow> o_allocs r = [] \<and> o_ptr r [] = 0
          | Some v \<Rightarrow> o_allocs r = [\<lparr>ac_buffer = Some v, ac_register = Ok (), ac_restore = Ok ()\<rparr>] \<and>
                       (\<forall>p. o_ptr r [p] = p)"
    using assms(1,3) unfolding honest_db_def by blast
  show ?thesis
  proof (cases "view (host w) k")
    case None
    then show ?thesis
      using r c assms(2)
      by (intro that [of "o_gas r" "w\<lparr>host := h\<rparr>"])
        (simp_all add: read_db_def do_ocall_def recovered_def recover_buffer_def served_def quiet_def)
  next
    case (Some v)
    moreover obtain q where q: "enclave_alloc oc Map.empty v = Some q"
      using assms(1,4) Some unfolding honest_db_def by fastforce
    moreover have "q \<noteq> 0"
      using assms(1) q unfolding honest_db_def allocator_ok_def by blast
    ultimately show ?thesis
      using r c assms(2,4)
      by (intro that [of "o_gas r" "w\<lparr>host := h\<rparr>"])
        (simp_all add: read_db_def do_ocall_def recovered_def recover_buffer_def served_def quiet_def
          ecall_allocate_def Let_def swap_remove_def)
  qed
qed

lemma write_db_honest:
  assumes "honest_db oc I view" and "quiet w" and "I (host w)"
  obtains g w' where "write_db oc k v w = (Ok g, w')" and "quiet w'" and "I (host w')" and "view (host w') = (view (host w))(k \<mapsto> v)"
proof -
  obtain r h where r: "ocall_write_db oc k v (host w) = (r, h)" "served r" "I h" "view h = (view (host w))(k \<mapsto> v)" "o_allocs r = []"
    using assms(1,3) unfolding honest_db_def by blast
  then show ?thesis
    using assms(2) by (intro that [of "o_gas r" "w\<lparr>host := h\<rparr>"])
      (simp_all add: write_db_def do_ocall_def gas_reply_def served_def quiet_def)
qed

lemma remove_db_honest:
  assumes "honest_db oc I view" and "quiet w" and "I (host w)"
  obtains g w' where "remove_db oc k w = (Ok g, w')" and "quiet w'" and "I (host w')" and "view (host w') = (view (host w))(k := None)"
proof -
  obtain r h where r: "ocall_remove_db oc k (host w) = (r, h)" "served r" "I h" "view h = (view (host w))(k := None)" "o_allocs r = []"
    using assms(1,3) unfolding honest_db_def by blast
  then show ?thesis
    using assms(2) by (intro that [of "o_gas r" "w\<lparr>host := h\<rparr>"])
      (simp_all add: remove_db_def do_ocall_def gas_reply_def served_def quiet_def)
qed

text \<open>What a database means to the contract with key \<open>ck\<close>, and that a field is one it wrote.\<close>

definition plain :: "prims \<Rightarrow> Keychain \<Rightarrow> ContractKey \<Rightarrow> (bytes \<rightharpoonup> bytes) \<Rightarrow> bytes \<rightharpoonup> bytes" where
  "plain p kc ck db k =
     (case db (field_name_digest p k ck) of
        None \<Rightarrow> None
      | Some v \<Rightarrow> (case decrypt_key p kc (field_name_digest p k ck) v ck of Ok m \<Rightarrow> Some m | _ \<Rightarrow> None))"

definition field_ok :: "prims \<Rightarrow> Keychain \<Rightarrow> ContractKey \<Rightarrow> (bytes \<rightharpoonup> bytes) \<Rightarrow> bytes \<Rightarrow> bool" where
  "field_ok p kc ck db k =
     (case db (field_name_digest p k ck) of
        None \<Rightarrow> True
      | Some v \<Rightarrow> 32 \<le> length v \<and> is_ok (decrypt_key p kc (field_name_digest p k ck) v ck))"

lemma encrypt_decrypt_key:
  assumes "prims_ok p" and "consensus_state_ikm kc \<noteq> None" and "length ad = 32"
  obtains c where "encrypt_key p kc f v ck ad = Ok c" and "decrypt_key p kc f (ad @ c) ck = Ok v"
proof -
  obtain ikm where ikm: "consensus_state_ikm kc = Some ikm"
    using assms(2) by auto
  obtain c where "encrypt_siv p (derive_key_from_key p ikm (f @ ck)) v (Some [ad]) = Ok c"
    "decrypt_siv p (derive_key_from_key p ikm (f @ ck)) c (Some [ad]) = Ok v"
    by (rule siv_roundtrip [OF assms(1)])
  then show ?thesis
    using assms(3) by (intro that [of c])
      (simp_all add: encrypt_key_def decrypt_key_def get_symmetrical_key_def get_consensus_state_ikm_def ikm split_at_def)
qed

lemma field_ok_nonempty: "field_ok p kc ck db k \<Longrightarrow> db (field_name_digest p k ck) \<noteq> Some []"
  by (auto simp: field_ok_def)

lemma read_encrypted_honest:
  assumes "honest_db oc I view" and "quiet w" and "I (host w)" and "field_ok p kc ck (view (host w)) k"
  obtains g w' where "read_encrypted_key p kc oc k ck w = (Ok (plain p kc ck (view (host w)) k, g), w')"
    and "quiet w'" and "I (host w')" and "view (host w') = view (host w)"
proof -
  obtain g w' where r: "read_db oc (field_name_digest p k ck) w = (Ok (view (host w) (field_name_digest p k ck), g), w')"
    "quiet w'" "I (host w')" "view (host w') = view (host w)"
    by (rule read_db_honest [OF assms(1-3) field_ok_nonempty [OF assms(4)]])
  then show ?thesis
    using assms(4) by (intro that [of g w'])
      (auto simp: read_encrypted_key_def plain_def field_ok_def Let_def and_then_lift is_ok_iff split: option.splits)
qed

lemma write_encrypted_honest:
  assumes "prims_ok p" and "consensus_state_ikm kc \<noteq> None" and "honest_db oc I view" and "quiet w" and "I (host w)"
    and "field_ok p kc ck (view (host w)) k"
  obtains g w' c where "write_encrypted_key p kc oc k v ck w = (Ok g, w')" and "quiet w'" and "I (host w')"
    and "view (host w') = (view (host w))(field_name_digest p k ck \<mapsto> c)"
    and "32 \<le> length c" and "decrypt_key p kc (field_name_digest p k ck) c ck = Ok v"
proof -
  let ?f = "field_name_digest p k ck"
  obtain g w1 where r: "read_db oc ?f w = (Ok (view (host w) ?f, g), w1)" "quiet w1" "I (host w1)"
    "view (host w1) = view (host w)"
    by (rule read_db_honest [OF assms(3-5) field_ok_nonempty [OF assms(6)]])
  obtain ad where ad: "derive_ad_for_field p oc ?f w = (Ok (ad, g), w1)" "length ad = 32"
  proof -
    have "length (sha_256 p x) = 32" for x
      using assms(1) by (simp add: sha_256_def prims_ok_def)
    then show ?thesis
      using r assms(6) that
      by (auto simp: derive_ad_for_field_def field_ok_def split_at_def split: option.splits)
  qed
  obtain c where c: "encrypt_key p kc ?f v ck ad = Ok c" "decrypt_key p kc ?f (ad @ c) ck = Ok v"
    by (rule encrypt_decrypt_key [OF assms(1,2) ad(2)])
  obtain g2 w2 where w2: "write_db oc ?f (ad @ c) w1 = (Ok g2, w2)" "quiet w2" "I (host w2)"
    "view (host w2) = (view (host w1))(?f \<mapsto> ad @ c)"
    by (rule write_db_honest [OF assms(3) r(2,3)])
  show ?thesis
    using ad c w2 r(4) by (intro that [of "g + g2" w2 "ad @ c"]) (simp_all add: write_encrypted_key_def Let_def)
qed

lemma encrypted_map:
  assumes "prims_ok p" and "consensus_state_ikm kc \<noteq> None" and "honest_db oc I view" and "quiet w" and "I (host w)"
    and inj: "inj_on (\<lambda>k. field_name_digest p k ck) K" and ok: "\<forall>k \<in> K. field_ok p kc ck (view (host w)) k"
    and "k \<in> K"
  shows "(\<exists>g w'. read_encrypted_key p kc oc k ck w = (Ok (plain p kc ck (view (host w)) k, g), w') \<and> quiet w' \<and>
           I (host w') \<and> view (host w') = view (host w)) \<and>
    (\<exists>g w'. write_encrypted_key p kc oc k v ck w = (Ok g, w') \<and> quiet w' \<and> I (host w') \<and>
       (\<forall>k' \<in> K. field_ok p kc ck (view (host w')) k' \<and>
          plain p kc ck (view (host w')) k' = ((plain p kc ck (view (host w)))(k \<mapsto> v)) k')) \<and>
    (\<exists>g w'. remove_encrypted_key p oc k ck w = (Ok g, w') \<and> quiet w' \<and> I (host w') \<and>
       (\<forall>k' \<in> K. field_ok p kc ck (view (host w')) k' \<and>
          plain p kc ck (view (host w')) k' = ((plain p kc ck (view (host w)))(k := None)) k'))"
proof (intro conjI)
  have ok_k: "field_ok p kc ck (view (host w)) k"
    using ok assms(8) by blast
  have same: "field_name_digest p k' ck = field_name_digest p k ck \<longleftrightarrow> k' = k" if "k' \<in> K" for k'
    using inj_onD [OF inj _ that assms(8)] by auto
  show "\<exists>g w'. read_encrypted_key p kc oc k ck w = (Ok (plain p kc ck (view (host w)) k, g), w') \<and> quiet w' \<and>
      I (host w') \<and> view (host w') = view (host w)"
    by (rule read_encrypted_honest [OF assms(3-5) ok_k]) blast
  obtain g w' c where w': "write_encrypted_key p kc oc k v ck w = (Ok g, w')" "quiet w'" "I (host w')"
    "view (host w') = (view (host w))(field_name_digest p k ck \<mapsto> c)" "32 \<le> length c"
    "decrypt_key p kc (field_name_digest p k ck) c ck = Ok v"
    by (rule write_encrypted_honest [OF assms(1-5) ok_k])
  have "\<forall>k' \<in> K. field_ok p kc ck (view (host w')) k' \<and>
      plain p kc ck (view (host w')) k' = ((plain p kc ck (view (host w)))(k \<mapsto> v)) k'"
    using ok w'(4-6) same by (auto simp: field_ok_def plain_def)
  then show "\<exists>g w'. write_encrypted_key p kc oc k v ck w = (Ok g, w') \<and> quiet w' \<and> I (host w') \<and>
      (\<forall>k' \<in> K. field_ok p kc ck (view (host w')) k' \<and>
        plain p kc ck (view (host w')) k' = ((plain p kc ck (view (host w)))(k \<mapsto> v)) k')"
    using w'(1-3) by blast
  obtain g2 w2 where w2: "remove_db oc (field_name_digest p k ck) w = (Ok g2, w2)" "quiet w2" "I (host w2)"
    "view (host w2) = (view (host w))(field_name_digest p k ck := None)"
    by (rule remove_db_honest [OF assms(3-5)])
  have "\<forall>k' \<in> K. field_ok p kc ck (view (host w2)) k' \<and>
      plain p kc ck (view (host w2)) k' = ((plain p kc ck (view (host w)))(k := None)) k'"
    using ok w2(4) same by (auto simp: field_ok_def plain_def)
  then show "\<exists>g w'. remove_encrypted_key p oc k ck w = (Ok g, w') \<and> quiet w' \<and> I (host w') \<and>
      (\<forall>k' \<in> K. field_ok p kc ck (view (host w')) k' \<and>
        plain p kc ck (view (host w')) k' = ((plain p kc ck (view (host w)))(k := None)) k')"
    using w2(1-3) unfolding remove_encrypted_key_def by blast
qed

text \<open>
  C12: with an honest host the encrypted storage is a map from keys to values.
  Reading returns what the map holds, writing and removing update it, and every
  value written can be read back; this for any set of keys whose scrambled names
  are distinct, starting from fields the contract wrote (or none).
\<close>

theorem encrypted_db_refines_map:
  assumes "prims_ok p" and "consensus_state_ikm kc \<noteq> None" and "honest_db oc I view" and "quiet w" and "I (host w)"
    and "inj_on (\<lambda>k. field_name_digest p k ck) K" and "\<forall>k \<in> K. field_ok p kc ck (view (host w)) k"
    and "k \<in> K"
  shows "(\<exists>g w'. read_encrypted_key p kc oc k ck w = (Ok (plain p kc ck (view (host w)) k, g), w') \<and> quiet w' \<and>
           I (host w') \<and> view (host w') = view (host w)) \<and>
    (\<exists>g w'. write_encrypted_key p kc oc k v ck w = (Ok g, w') \<and> quiet w' \<and> I (host w') \<and>
       (\<forall>k' \<in> K. field_ok p kc ck (view (host w')) k' \<and>
          plain p kc ck (view (host w')) k' = ((plain p kc ck (view (host w)))(k \<mapsto> v)) k')) \<and>
    (\<exists>g w'. remove_encrypted_key p oc k ck w = (Ok g, w') \<and> quiet w' \<and> I (host w') \<and>
       (\<forall>k' \<in> K. field_ok p kc ck (view (host w')) k' \<and>
          plain p kc ck (view (host w')) k' = ((plain p kc ck (view (host w)))(k := None)) k'))"
  by (rule encrypted_map [OF assms])

text \<open>A host whose state is the database.\<close>

definition served_reply :: "bytes option \<Rightarrow> ocall_reply" where
  "served_reply v = \<lparr>sgx_success = True, o_return = OcallSuccess, o_vm_err = 0, o_gas = 10,
     o_allocs = (case v of None \<Rightarrow> [] | Some d \<Rightarrow> [\<lparr>ac_buffer = Some d, ac_register = Ok (), ac_restore = Ok ()\<rparr>]),
     o_ptr = (\<lambda>ps. case ps of [] \<Rightarrow> 0 | p # _ \<Rightarrow> p)\<rparr>"

definition demo_ocalls :: "(bytes \<rightharpoonup> bytes) ocalls" where
  "demo_ocalls = \<lparr>ocall_read_db = (\<lambda>k h. (served_reply (h k), h)),
     ocall_remove_db = (\<lambda>k h. (served_reply None, h(k := None))),
     ocall_write_db = (\<lambda>k v h. (served_reply None, h(k \<mapsto> v))),
     ocall_query_chain = (\<lambda>q gas h. (served_reply (Some q), h)), enclave_alloc = demo_alloc\<rparr>"

lemma demo_alloc_ok: "allocator_ok demo_alloc"
  by (simp add: allocator_ok_def demo_alloc_def)

lemma demo_honest: "honest_db demo_ocalls (\<lambda>h. True) (\<lambda>h. h)"
  using demo_alloc_ok
  by (auto simp: honest_db_def demo_ocalls_def served_reply_def served_def demo_alloc_def split: option.splits)

definition demo_world :: "(bytes \<rightharpoonup> bytes) world" where
  "demo_world = \<lparr>host = Map.empty, bufs = \<lparr>alloc_stack = [], heap = Map.empty\<rparr>, depth = 1\<rparr>"

theorem encrypted_db_refines_map_witness:
  "\<exists>g w'. write_encrypted_key demo_prims demo_keychain demo_ocalls [1] [65] [7] demo_world = (Ok g, w') \<and>
     plain demo_prims demo_keychain [7] (host w') [1] = Some [65] \<and>
     plain demo_prims demo_keychain [7] (host w') [2] = None"
proof -
  have kc: "consensus_state_ikm demo_keychain \<noteq> None"
    by (simp add: demo_keychain_def)
  have q: "quiet demo_world"
    by (simp add: quiet_def demo_world_def)
  have inj: "inj_on (\<lambda>k. field_name_digest demo_prims k [7]) {[1], [2]}"
    by (simp add: field_name_digest_def sha_256_def demo_prims_def)
  have ok: "\<forall>k \<in> {[1], [2]}. field_ok demo_prims demo_keychain [7] (host demo_world) k"
    by (simp add: field_ok_def demo_world_def)
  have "plain demo_prims demo_keychain [7] (host demo_world) [2] = None"
    by (simp add: plain_def demo_world_def)
  then show ?thesis
    using encrypted_db_refines_map [of demo_prims demo_keychain demo_ocalls "\<lambda>h. True" "\<lambda>h. h" demo_world "[7]" "{[1], [2]}" "[1]" "[65]",
        OF demo_prims_ok kc demo_honest q TrueI inj ok]
    by auto
qed

end
