(* ===== verification/Query_Chain.thy ===== *)
theory Query_Chain
  imports Enclave_Db
begin

text \<open>
  Queries from a contract to the chain and to other contracts
  (\<open>wasm/query_chain.rs\<close>, with \<open>cosmwasm/query.rs\<close>, \<open>cosmwasm/std_error.rs\<close> and
  \<open>cosmwasm/system_error.rs\<close>): a query to a contract is encrypted, its answer
  decrypted, every other query passes through as it is.
\<close>

section \<open>Requests and answers\<close>

datatype StdError =
    GenericErr string
  | InvalidBase64 string
  | InvalidUtf8 string
  | NotFound string
  | NullPointer
  | ParseErr string string
  | SerializeErr string string
  | Unauthorized
  | Underflow string string

datatype SystemError =
    InvalidRequest string Binary
  | InvalidResponse string Binary
  | NoSuchContract HumanAddr
  | SystemUnknown
  | UnsupportedRequest string
  | SystemExceededRecursionLimit

datatype BankQuery = Balance HumanAddr string | AllBalances HumanAddr
datatype MintQuery = Inflation | BondedRatio
datatype GovQuery = Proposals
datatype DistQuery = Rewards HumanAddr

datatype StakingQuery =
    BondedDenom
  | AllDelegations HumanAddr
  | QueryDelegation HumanAddr HumanAddr
  | Validators
  | UnbondingDelegations HumanAddr

datatype WasmQuery =
    Smart HumanAddr string Binary
  | Raw HumanAddr string Binary

datatype QueryRequest =
    BankRequest BankQuery
  | CustomRequest string
  | StakingRequest StakingQuery
  | WasmRequest WasmQuery
  | DistRequest DistQuery
  | MintRequest MintQuery
  | GovRequest GovQuery

text \<open>\<open>SystemResult<StdResult<Binary>>\<close>\<close>

type_synonym answer = "(SystemError, (StdError, Binary) res) res"

text \<open>serde_json on these types; a parser returns the text of its error.\<close>

record query_codecs =
  parse_query :: "bytes \<Rightarrow> (string, QueryRequest) res"
  print_query :: "QueryRequest \<Rightarrow> bytes option"
  parse_answer :: "bytes \<Rightarrow> (string, answer) res"
  print_answer :: "answer \<Rightarrow> bytes option"
  parse_std_error :: "bytes \<Rightarrow> (string, StdError) res"

section \<open>Strings\<close>

fun str_contains :: "string \<Rightarrow> string \<Rightarrow> bool" where
  "str_contains pat [] = (pat = [])"
| "str_contains pat (c # s) = (prefix pat (c # s) \<or> str_contains pat s)"

text \<open>\<open>s.replace(pat, "")\<close>\<close>

function str_remove_all :: "string \<Rightarrow> string \<Rightarrow> string" where
  "str_remove_all pat [] = []"
| "str_remove_all pat (c # s) =
     (if pat \<noteq> [] \<and> prefix pat (c # s) then str_remove_all pat (drop (length pat) (c # s))
      else c # str_remove_all pat s)"
  by pat_completeness auto

termination
proof (relation "measure (\<lambda>(pat, s). length s)")
  fix pat :: string and c s
  assume "pat \<noteq> [] \<and> prefix pat (c # s)"
  then have "0 < length pat"
    by simp
  then show "((pat, drop (length pat) (c # s)), pat, c # s) \<in> measure (\<lambda>(pat, s). length s)"
    by (simp del: length_greater_0_conv)
qed simp_all

section \<open>query_chain.rs\<close>

definition serialize_error_response :: "query_codecs \<Rightarrow> answer \<Rightarrow> (WasmEngineError, bytes) res" where
  "serialize_error_response qc ans = ok_or EngineSerializationError (print_answer qc ans)"

definition system_error_invalid_request :: "query_codecs \<Rightarrow> bytes \<Rightarrow> string \<Rightarrow> (WasmEngineError, bytes) res" where
  "system_error_invalid_request qc request err = serialize_error_response qc (Err (InvalidRequest err request))"

definition system_error_invalid_response :: "query_codecs \<Rightarrow> bytes \<Rightarrow> string \<Rightarrow> (WasmEngineError, bytes) res" where
  "system_error_invalid_response qc response err = serialize_error_response qc (Err (InvalidResponse err response))"

definition check_recursion_limit :: "u8 \<Rightarrow> answer option" where
  "check_recursion_limit d = (if limit_reached d then Some (Err SystemExceededRecursionLimit) else None)"

fun encrypt_query_request ::
  "prims \<Rightarrow> Keychain \<Rightarrow> QueryRequest \<Rightarrow> IoNonce \<Rightarrow> bytes \<Rightarrow> (WasmEngineError, bool \<times> QueryRequest) res" where
  "encrypt_query_request p kc (WasmRequest (Smart contract_addr callback_code_hash m)) n pk =
     (let hash_appended_msg = ascii callback_code_hash @ m
      in res_bind (map_err (\<lambda>_. EngineEncryptionError)
           (encrypt_in_place p kc \<lparr>nonce = n, user_public_key = pk, msg = hash_appended_msg\<rparr>)) (\<lambda>encrypted_msg.
         Ok (True, WasmRequest (Smart contract_addr callback_code_hash (to_vec encrypted_msg)))))"
| "encrypt_query_request p kc query_struct n pk = Ok (False, query_struct)"

definition decrypt_query_response ::
  "prims \<Rightarrow> codecs \<Rightarrow> Keychain \<Rightarrow> bytes \<Rightarrow> IoNonce \<Rightarrow> bytes \<Rightarrow> (WasmEngineError, bytes) res" where
  "decrypt_query_response p cd kc response n pk =
     res_bind (map_err (\<lambda>_. EngineDecryptionError)
       (decrypt p kc \<lparr>nonce = n, user_public_key = pk, msg = response\<rparr>)) (\<lambda>b64_decrypted.
     ok_or EngineDeserializationError (base64_decode cd (chars b64_decrypted)))"

definition decrypt_query_response_error ::
  "prims \<Rightarrow> Keychain \<Rightarrow> bytes \<Rightarrow> IoNonce \<Rightarrow> bytes \<Rightarrow> (WasmEngineError, bytes) res" where
  "decrypt_query_response_error p kc error n pk =
     map_err (\<lambda>_. EngineDecryptionError) (decrypt p kc \<lparr>nonce = n, user_public_key = pk, msg = error\<rparr>)"

text \<open>The result with the gas the host reported; a missing buffer is an empty answer.\<close>

definition query_chain :: "'h ocalls \<Rightarrow> bytes \<Rightarrow> u64 \<Rightarrow> 'h world \<Rightarrow> ((WasmEngineError, bytes) res \<times> u64) \<times> 'h world" where
  "query_chain oc query gas_limit w =
     (case do_ocall oc (ocall_query_chain oc query gas_limit) w of ((r, q), w1) \<Rightarrow>
      if \<not> sgx_success r then ((Err (EngineFailedOcall (o_vm_err r)), o_gas r), w1)
      else (case o_return r of
          OcallSuccess \<Rightarrow> (case recovered q w1 of
              (Ok buff, w2) \<Rightarrow> ((Ok (case buff of None \<Rightarrow> [] | Some b \<Rightarrow> b), o_gas r), w2)
            | (Err e, w2) \<Rightarrow> ((Err e, o_gas r), w2)
            | (Panicked, w2) \<Rightarrow> ((Panicked, o_gas r), w2))
        | OcallFailure \<Rightarrow> ((Err (EngineFailedOcall (o_vm_err r)), o_gas r), w1)
        | OcallPanic \<Rightarrow> ((Err EnginePanic, o_gas r), w1)))"

definition ENCRYPTED_MARK :: string where
  "ENCRYPTED_MARK = ''query contract failed: encrypted: ''"

text \<open>The decryption of the answer of an encrypted query.\<close>

definition decrypt_answer ::
  "prims \<Rightarrow> codecs \<Rightarrow> query_codecs \<Rightarrow> Keychain \<Rightarrow> answer \<Rightarrow> IoNonce \<Rightarrow> bytes \<Rightarrow> (WasmEngineError, bytes) res" where
  "decrypt_answer p cd qc kc encrypted_answer n pk =
     (let finish = (\<lambda>ans. ok_or EngineSerializationError (print_answer qc ans))
      in case encrypted_answer of
        Ok (Ok result) \<Rightarrow>
          res_bind (decrypt_query_response p cd kc result n pk) (\<lambda>decrypted. finish (Ok (Ok decrypted)))
      | Ok (Err (GenericErr m)) \<Rightarrow>
          if \<not> str_contains ENCRYPTED_MARK m then finish (Ok (Err (GenericErr m)))
          else (case base64_decode cd (str_remove_all ENCRYPTED_MARK m) of
              None \<Rightarrow> Err EngineDeserializationError
            | Some error \<Rightarrow>
                res_bind (decrypt_query_response_error p kc error n pk) (\<lambda>decrypted.
                case parse_std_error qc decrypted of
                  Ok ans \<Rightarrow> finish (Ok (Err ans))
                | Err err \<Rightarrow> system_error_invalid_response qc decrypted err
                | Panicked \<Rightarrow> Panicked))
      | Ok other \<Rightarrow> finish (Ok other)
      | Err e \<Rightarrow> finish (Err e)
      | Panicked \<Rightarrow> Panicked)"

text \<open>The call as a step that never fails itself: error and gas are its value.\<close>

definition query_chain_step :: "'h ocalls \<Rightarrow> bytes \<Rightarrow> u64 \<Rightarrow> ('h, (WasmEngineError, bytes) res \<times> u64) db" where
  "query_chain_step oc query gas_limit w = (case query_chain oc query gas_limit w of (rg, w1) \<Rightarrow> (Ok rg, w1))"

text \<open>The answer for the contract with the gas to charge.\<close>

definition encrypt_and_query_chain ::
  "prims \<Rightarrow> codecs \<Rightarrow> query_codecs \<Rightarrow> Keychain \<Rightarrow> 'h ocalls \<Rightarrow> bytes \<Rightarrow> IoNonce \<Rightarrow> bytes \<Rightarrow> u64 \<Rightarrow> ('h, bytes \<times> u64) db" where
  "encrypt_and_query_chain p cd qc kc oc query n pk gas_limit w =
     (case check_recursion_limit (depth w) of
        Some ans \<Rightarrow> (res_bind (serialize_error_response qc ans) (\<lambda>bs. Ok (bs, 0)), w)
      | None \<Rightarrow>
        (case parse_query qc query of
           Panicked \<Rightarrow> (Panicked, w)
         | Err err \<Rightarrow> (res_bind (system_error_invalid_request qc query err) (\<lambda>bs. Ok (bs, 500)), w)
         | Ok query_struct \<Rightarrow>
             and_then (lift (encrypt_query_request p kc query_struct n pk)) (\<lambda>(is_encrypted, query_struct).
             and_then (lift (ok_or EngineSerializationError (print_query qc query_struct))) (\<lambda>encrypted_query.
             and_then (query_chain_step oc encrypted_query gas_limit) (\<lambda>(result, gas_used).
             and_then (lift result) (\<lambda>encrypted_answer_as_vec.
             if \<not> is_encrypted then ret (encrypted_answer_as_vec, gas_used)
             else lift (res_bind
               (case parse_answer qc encrypted_answer_as_vec of
                  Panicked \<Rightarrow> Panicked
                | Err err \<Rightarrow> system_error_invalid_response qc encrypted_answer_as_vec err
                | Ok encrypted_answer \<Rightarrow> decrypt_answer p cd qc kc encrypted_answer n pk) (\<lambda>bs. Ok (bs, gas_used))))))) w))"

section \<open>Properties of queries\<close>

lemma keeps_query_chain:
  assumes "allocator_ok (enclave_alloc oc)"
  shows "keeps (db_safe d) (query_chain_step oc q g)"
proof (rule keepsI)
  fix w r w'
  assume safe: "db_safe d w" and run: "query_chain_step oc q g w = (r, w')"
  obtain x y w1 where o: "do_ocall oc (ocall_query_chain oc q g) w = ((x, y), w1)"
    by (metis prod.exhaust)
  then have w1: "bufs_ok (bufs w1)" "depth w1 = d"
    using do_ocall_keeps [OF assms] safe by (auto simp: db_safe_def)
  obtain rv w2 where rv: "recovered y w1 = (rv, w2)"
    by (metis prod.exhaust)
  show "db_safe d w'"
    using run o w1 rv recovered_keeps [OF w1(1) rv]
    by (cases rv) (auto simp: query_chain_step_def query_chain_def db_safe_def split: if_splits OcallReturn.splits)
qed

lemma keeps_res [keeps_intro]:
  "(\<And>x. keeps P (f x)) \<Longrightarrow> (\<And>e. keeps P (g e)) \<Longrightarrow> keeps P h \<Longrightarrow>
   keeps P (case v of Ok x \<Rightarrow> f x | Err e \<Rightarrow> g e | Panicked \<Rightarrow> h)"
  by (cases v) simp_all

lemma keeps_query_generic:
  assumes "\<And>q g. keeps P (query_chain_step oc q g)"
  shows "keeps P (encrypt_and_query_chain p cd qc kc oc query n pk gas_limit)"
proof (rule keepsI)
  fix w r w'
  assume "P w" and "encrypt_and_query_chain p cd qc kc oc query n pk gas_limit w = (r, w')"
  moreover have "keeps P
      (and_then (lift (encrypt_query_request p kc query_struct n pk)) (\<lambda>(is_encrypted, query_struct).
       and_then (lift (ok_or EngineSerializationError (print_query qc query_struct))) (\<lambda>encrypted_query.
       and_then (query_chain_step oc encrypted_query gas_limit) (\<lambda>(result, gas_used).
       and_then (lift result) (\<lambda>encrypted_answer_as_vec.
       if \<not> is_encrypted then ret (encrypted_answer_as_vec, gas_used)
       else lift (res_bind
         (case parse_answer qc encrypted_answer_as_vec of
            Panicked \<Rightarrow> Panicked
          | Err err \<Rightarrow> system_error_invalid_response qc encrypted_answer_as_vec err
          | Ok encrypted_answer \<Rightarrow> decrypt_answer p cd qc kc encrypted_answer n pk) (\<lambda>bs. Ok (bs, gas_used))))))))" for query_struct
    by (intro keeps_intro assms)
  ultimately show "P w'"
    by (auto simp: encrypt_and_query_chain_def split: option.splits res.splits dest: keepsD)
qed

lemma keeps_encrypt_and_query_chain:
  "allocator_ok (enclave_alloc oc) \<Longrightarrow> keeps (db_safe d) (encrypt_and_query_chain p cd qc kc oc query n pk gas_limit)"
  by (rule keeps_query_generic, rule keeps_query_chain)

text \<open>
  At the recursion limit a query is answered inside the enclave. The
  contract gets the error \<open>ExceededRecursionLimit\<close> at no charge, and the host is
  not called.
\<close>

lemma recursion_limit_stops_queries:
  assumes "depth w = RECURSION_LIMIT" and "print_answer qc (Err SystemExceededRecursionLimit) = Some bs"
  shows "encrypt_and_query_chain p cd qc kc oc query n pk gas_limit w = (Ok (bs, 0), w)"
  using assms by (simp add: encrypt_and_query_chain_def check_recursion_limit_def limit_reached_def serialize_error_response_def)

lemma trim_quotes:
  assumes "CHR 0x22 \<notin> set s"
  shows "trim_end_matches (CHR 0x22) (trim_start_matches (CHR 0x22) (CHR 0x22 # s @ [CHR 0x22])) = s"
proof (cases "s = []")
  case False
  then have "hd s \<in> set s" "hd (rev s) \<in> set s"
    using hd_in_set [of "rev s"] by auto
  then have "\<not> hd s = CHR 0x22" "\<not> hd (rev s) = CHR 0x22"
    using assms by auto
  then have "dropWhile (\<lambda>x. x = CHR 0x22) (s @ [CHR 0x22]) = s @ [CHR 0x22]"
    and "dropWhile (\<lambda>x. x = CHR 0x22) (rev s) = rev s"
    using False by (simp_all add: dropWhile_eq_self_iff)
  then show ?thesis
    by (simp add: trim_end_matches_def trim_start_matches_def)
qed (simp add: trim_end_matches_def trim_start_matches_def)

definition demo_query_codecs :: query_codecs where
  "demo_query_codecs = \<lparr>parse_query = (\<lambda>bs. Ok (CustomRequest (chars bs))), print_query = (\<lambda>q. Some [1]),
     parse_answer = (\<lambda>bs. Err ''bad''), print_answer = (\<lambda>ans. Some [2]), parse_std_error = (\<lambda>bs. Err ''bad'')\<rparr>"

lemma recursion_limit_stops_queries_witness:
  "encrypt_and_query_chain demo_prims demo_codecs demo_query_codecs demo_keychain demo_ocalls [1] [] [] 9
     (demo_world\<lparr>depth := 5\<rparr>) = (Ok ([2], 0), demo_world\<lparr>depth := 5\<rparr>)"
  by (rule recursion_limit_stops_queries) (simp_all add: RECURSION_LIMIT_def demo_query_codecs_def)



end
