(* ===== verification/Wasm_Runtime.thy ===== *)
theory Wasm_Runtime
  imports Query_Chain
begin

text \<open>
  The instance a contract runs in (\<open>wasm/runtime/contract.rs\<close>, \<open>externals.rs\<close>,
  \<open>import_resolver.rs\<close>, \<open>engine.rs\<close>, \<open>wasm/gas.rs\<close>): its memory and gas, the host
  functions, and the engine that calls the exports. The interpreter wasmi is
  third-party: its linear memory is a record of operations, and the code of a
  contract is an arbitrary tree of memory steps and host calls.
\<close>

section \<open>gas.rs\<close>

record WasmCosts =
  regular :: u32
  cost_div :: u32
  cost_mul :: u32
  cost_mem :: u32
  static_u256 :: u32
  static_address :: u32
  initial_mem :: u32
  grow_mem :: u32
  memcpy :: u32
  max_stack_height :: u32
  opcodes_mul :: u32
  opcodes_div :: u32
  external_humanize_address :: u32
  external_canonicalize_address :: u32

definition default_costs :: WasmCosts where
  "default_costs = \<lparr>regular = 1, cost_div = 16, cost_mul = 4, cost_mem = 2, static_u256 = 64, static_address = 40,
     initial_mem = 8192, grow_mem = 8192, memcpy = 1, max_stack_height = 64 * 1024, opcodes_mul = 3, opcodes_div = 8,
     external_humanize_address = 8192, external_canonicalize_address = 8192\<rparr>"

datatype InstructionType = Load | Store | Div | Mul | CurrentMemory

record rules_set =
  rs_regular :: u32
  rs_entries :: "(InstructionType \<times> u32) list"
  rs_grow :: u32

definition gas_rules :: "WasmCosts \<Rightarrow> rules_set" where
  "gas_rules c = \<lparr>rs_regular = regular c,
     rs_entries = [(Load, cost_mem c), (Store, cost_mem c), (Div, cost_div c), (Mul, cost_mul c),
                   (CurrentMemory, initial_mem c)],
     rs_grow = grow_mem c\<rparr>"

section \<open>Contract code\<close>

datatype RuntimeValue = I32 u32 | I64 u64

datatype TrapKind =
    Unreachable
  | MemoryAccessOutOfBounds
  | TableAccessOutOfBounds
  | ElemUninitialized
  | DivisionByZero
  | InvalidConversionToInt
  | StackOverflow
  | UnexpectedSignature

text \<open>
  What a call of an export does: it ends, it traps, it changes the memory (and
  goes on depending on what it sees there), or it calls a host function.
\<close>

datatype 'm wasm =
    Finish "RuntimeValue option"
  | TrapNow TrapKind
  | Memory "'m \<Rightarrow> 'm" "'m \<Rightarrow> 'm wasm"
  | HostCall nat "RuntimeValue list" "RuntimeValue option \<Rightarrow> 'm wasm"

datatype InterpreterError = HostError WasmEngineError | Trap TrapKind | OtherError

text \<open>Linear memory: reading a range, and writing bytes at an offset.\<close>

record 'm memops =
  mem_get :: "'m \<Rightarrow> u32 \<Rightarrow> nat \<Rightarrow> bytes option"
  mem_set :: "'m \<Rightarrow> u32 \<Rightarrow> bytes \<Rightarrow> 'm option"

definition mem_get_value :: "'m memops \<Rightarrow> 'm \<Rightarrow> u32 \<Rightarrow> u32 option" where
  "mem_get_value mo m offset = map_option (\<lambda>bs. word_of_nat (from_le bs)) (mem_get mo m offset 4)"

definition mem_set_value :: "'m memops \<Rightarrow> 'm \<Rightarrow> u32 \<Rightarrow> u32 \<Rightarrow> 'm option" where
  "mem_set_value mo m offset v = mem_set mo m offset (to_le 4 (unat v))"

section \<open>contract.rs: the instance\<close>

datatype ContractOperation = OpInit | OpHandle | OpQuery

definition is_query :: "ContractOperation \<Rightarrow> bool" where
  "is_query op = (op = OpQuery)"

record 'm ContractInstance =
  memory :: 'm
  gas_limit :: u64
  gas_used :: u64
  gas_used_externally :: u64
  gas_costs :: WasmCosts
  instance_key :: ContractKey
  wasm_exports :: "string \<Rightarrow> RuntimeValue list \<Rightarrow> 'm wasm option"
  operation :: ContractOperation
  user_nonce :: IoNonce
  instance_user_key :: bytes

record ('m, 'h) machine =
  inst :: "'m ContractInstance"
  world :: "'h world"

type_synonym ('m, 'h, 'a) rt = "(('m, 'h) machine, WasmEngineError, 'a) stm"

definition contract_instance_new ::
  "'m option \<Rightarrow> (string \<Rightarrow> RuntimeValue list \<Rightarrow> 'm wasm option) \<Rightarrow> u64 \<Rightarrow> WasmCosts \<Rightarrow> ContractKey \<Rightarrow> ContractOperation \<Rightarrow>
   IoNonce \<Rightarrow> bytes \<Rightarrow> ('e, 'm ContractInstance) res" where
  "contract_instance_new exported_memory exports limit costs key op n pk =
     res_bind (or_panic exported_memory) (\<lambda>m.
     Ok \<lparr>memory = m, gas_limit = limit, gas_used = 0, gas_used_externally = 0, gas_costs = costs,
         instance_key = key, wasm_exports = exports, operation = op, user_nonce = n, instance_user_key = pk\<rparr>)"

definition on_world :: "('h, 'a) db \<Rightarrow> ('m, 'h, 'a) rt" where
  "on_world m s = (case m (world s) of (r, w) \<Rightarrow> (r, s\<lparr>world := w\<rparr>))"

definition set_memory :: "'m \<Rightarrow> ('m, 'h) machine \<Rightarrow> ('m, 'h) machine" where
  "set_memory m s = s\<lparr>inst := (inst s)\<lparr>memory := m\<rparr>\<rparr>"

subsection \<open>Memory\<close>

definition extract_vector_inner :: "'m memops \<Rightarrow> 'm \<Rightarrow> u32 \<Rightarrow> bytes option" where
  "extract_vector_inner mo m vec_ptr_ptr =
     (case mem_get_value mo m vec_ptr_ptr of
        None \<Rightarrow> None
      | Some p \<Rightarrow>
          if p = 0 then None
          else (case mem_get_value mo m (vec_ptr_ptr + 8) of
              None \<Rightarrow> None
            | Some len \<Rightarrow> mem_get mo m p (unat len)))"

definition extract_vector :: "'m memops \<Rightarrow> u32 \<Rightarrow> ('m, 'h, bytes) rt" where
  "extract_vector mo vec_ptr_ptr s =
     (ok_or EngineMemoryReadError (extract_vector_inner mo (memory (inst s)) vec_ptr_ptr), s)"

definition write_to_allocated_memory_inner :: "'m memops \<Rightarrow> 'm \<Rightarrow> bytes \<Rightarrow> u32 \<Rightarrow> 'm \<times> u32 option" where
  "write_to_allocated_memory_inner mo m buffer region =
     (case mem_get_value mo m region of
        None \<Rightarrow> (m, None)
      | Some buffer_addr_in_wasm \<Rightarrow>
          if buffer_addr_in_wasm = 0 then (m, None)
          else (case mem_get_value mo m (region + 4) of
              None \<Rightarrow> (m, None)
            | Some buffer_cap_in_wasm \<Rightarrow>
                if buffer_cap_in_wasm < word_of_nat (length buffer) then (m, None)
                else (case mem_set mo m buffer_addr_in_wasm buffer of
                    None \<Rightarrow> (m, None)
                  | Some m1 \<Rightarrow>
                      (case mem_set_value mo m1 (region + 8) (word_of_nat (length buffer)) of
                         None \<Rightarrow> (m1, None)
                       | Some m2 \<Rightarrow> (m2, Some region)))))"

definition write_to_allocated_memory :: "'m memops \<Rightarrow> bytes \<Rightarrow> u32 \<Rightarrow> ('m, 'h, u32) rt" where
  "write_to_allocated_memory mo buffer region s =
     (case write_to_allocated_memory_inner mo (memory (inst s)) buffer region of
        (m, r) \<Rightarrow> (ok_or EngineMemoryWriteError r, set_memory m s))"

subsection \<open>Running code\<close>

type_synonym ('m, 'h) externals_fn =
  "nat \<Rightarrow> RuntimeValue list \<Rightarrow> (('m, 'h) machine, InterpreterError, RuntimeValue option) stm"

primrec run_wasm :: "('m, 'h) externals_fn \<Rightarrow> 'm wasm \<Rightarrow> (('m, 'h) machine, InterpreterError, RuntimeValue option) stm" where
  "run_wasm ext (Finish v) = ret v"
| "run_wasm ext (TrapNow k) = fail (Trap k)"
| "run_wasm ext (Memory upd k) = (\<lambda>s. run_wasm ext (k (memory (inst s))) (set_memory (upd (memory (inst s))) s))"
| "run_wasm ext (HostCall i args k) = and_then (ext i args) (\<lambda>v. run_wasm ext (k v))"

definition invoke_export ::
  "('m, 'h) externals_fn \<Rightarrow> string \<Rightarrow> RuntimeValue list \<Rightarrow> (('m, 'h) machine, InterpreterError, RuntimeValue option) stm" where
  "invoke_export ext name args s =
     (case wasm_exports (inst s) name args of
        None \<Rightarrow> (Err OtherError, s)
      | Some code \<Rightarrow> run_wasm ext code s)"

definition allocate :: "('m, 'h) externals_fn \<Rightarrow> u32 \<Rightarrow> ('m, 'h, u32) rt" where
  "allocate ext len =
     catch_err (\<lambda>_. EngineMemoryAllocationError)
       (and_then (invoke_export ext ''allocate'' [I32 len]) (\<lambda>v.
        case v of
          Some (I32 offset) \<Rightarrow> (if offset = 0 then fail OtherError else ret offset)
        | _ \<Rightarrow> fail OtherError))"

definition write_to_memory :: "'m memops \<Rightarrow> ('m, 'h) externals_fn \<Rightarrow> bytes \<Rightarrow> ('m, 'h, u32) rt" where
  "write_to_memory mo ext buffer =
     and_then (allocate ext (word_of_nat (length buffer))) (\<lambda>region.
     write_to_allocated_memory mo buffer region)"

subsection \<open>Gas\<close>

definition is_gas_depleted :: "'m ContractInstance \<Rightarrow> bool" where
  "is_gas_depleted ci = (gas_limit ci < saturating_add (gas_used ci) (gas_used_externally ci))"

definition check_gas_usage :: "('m, 'h, unit) rt" where
  "check_gas_usage s = (if is_gas_depleted (inst s) then (Err EngineOutOfGas, s) else (Ok (), s))"

definition use_gas :: "u64 \<Rightarrow> ('m, 'h, unit) rt" where
  "use_gas gas_amount =
     and_then (modify (\<lambda>s. s\<lparr>inst := (inst s)\<lparr>gas_used := saturating_add (gas_used (inst s)) gas_amount\<rparr>\<rparr>)) (\<lambda>_.
     check_gas_usage)"

definition use_gas_externally :: "u64 \<Rightarrow> ('m, 'h, unit) rt" where
  "use_gas_externally gas_amount =
     and_then (modify (\<lambda>s. s\<lparr>inst := (inst s)\<lparr>gas_used_externally := saturating_add (gas_used_externally (inst s)) gas_amount\<rparr>\<rparr>)) (\<lambda>_.
     check_gas_usage)"

definition gas_left :: "'m ContractInstance \<Rightarrow> u64" where
  "gas_left ci = saturating_sub (saturating_sub (gas_limit ci) (gas_used ci)) (gas_used_externally ci)"

section \<open>UTF-8 and text\<close>

definition is_cont :: "u8 \<Rightarrow> bool" where
  "is_cont b = (0x80 \<le> b \<and> b \<le> 0xBF)"

text \<open>\<open>std::str::from_utf8\<close> accepts exactly the well-formed sequences.\<close>

fun valid_utf8 :: "bytes \<Rightarrow> bool" where
  "valid_utf8 [] = True"
| "valid_utf8 (b # bs) =
     (if b < 0x80 then valid_utf8 bs
      else case bs of
        [] \<Rightarrow> False
      | c1 # r1 \<Rightarrow>
          if 0xC2 \<le> b \<and> b \<le> 0xDF then is_cont c1 \<and> valid_utf8 r1
          else (case r1 of
              [] \<Rightarrow> False
            | c2 # r2 \<Rightarrow>
                if b = 0xE0 then 0xA0 \<le> c1 \<and> c1 \<le> 0xBF \<and> is_cont c2 \<and> valid_utf8 r2
                else if b = 0xED then 0x80 \<le> c1 \<and> c1 \<le> 0x9F \<and> is_cont c2 \<and> valid_utf8 r2
                else if 0xE1 \<le> b \<and> b \<le> 0xEF then is_cont c1 \<and> is_cont c2 \<and> valid_utf8 r2
                else (case r2 of
                    [] \<Rightarrow> False
                  | c3 # r3 \<Rightarrow>
                      if b = 0xF0 then 0x90 \<le> c1 \<and> c1 \<le> 0xBF \<and> is_cont c2 \<and> is_cont c3 \<and> valid_utf8 r3
                      else if 0xF1 \<le> b \<and> b \<le> 0xF3 then is_cont c1 \<and> is_cont c2 \<and> is_cont c3 \<and> valid_utf8 r3
                      else if b = 0xF4 then 0x80 \<le> c1 \<and> c1 \<le> 0x8F \<and> is_cont c2 \<and> is_cont c3 \<and> valid_utf8 r3
                      else False)))"

text \<open>The encodings of the white space characters that \<open>str::trim\<close> removes.\<close>

definition white_space :: "bytes list" where
  "white_space = [[9], [10], [11], [12], [13], [32], [0xC2, 0x85], [0xC2, 0xA0], [0xE1, 0x9A, 0x80],
     [0xE2, 0x80, 0x80], [0xE2, 0x80, 0x81], [0xE2, 0x80, 0x82], [0xE2, 0x80, 0x83], [0xE2, 0x80, 0x84],
     [0xE2, 0x80, 0x85], [0xE2, 0x80, 0x86], [0xE2, 0x80, 0x87], [0xE2, 0x80, 0x88], [0xE2, 0x80, 0x89],
     [0xE2, 0x80, 0x8A], [0xE2, 0x80, 0xA8], [0xE2, 0x80, 0xA9], [0xE2, 0x80, 0xAF], [0xE2, 0x81, 0x9F],
     [0xE3, 0x80, 0x80]]"

function strip_leading :: "bytes list \<Rightarrow> bytes \<Rightarrow> bytes" where
  "strip_leading pats bs =
     (case find (\<lambda>q. q \<noteq> [] \<and> prefix q bs) pats of
        None \<Rightarrow> bs
      | Some q \<Rightarrow> strip_leading pats (drop (length q) bs))"
  by pat_completeness auto

termination
proof (relation "measure (\<lambda>(pats, bs). length bs)")
  fix pats bs q
  assume "find (\<lambda>q. q \<noteq> [] \<and> prefix q bs) pats = Some q"
  then have "q \<noteq> []" "prefix q bs"
    by (auto simp: find_Some_iff)
  then have "0 < length q" "length q \<le> length bs"
    by (auto dest: prefix_length_le)
  then show "((pats, drop (length q) bs), pats, bs) \<in> measure (\<lambda>(pats, bs). length bs)"
    by (simp del: length_greater_0_conv)
qed simp

declare strip_leading.simps [simp del]

definition str_trim :: "bytes \<Rightarrow> bytes" where
  "str_trim bs = rev (strip_leading (map rev white_space) (rev (strip_leading white_space bs)))"

text \<open>Debug output of a prefix, whose characters are printable ASCII.\<close>

definition debug_str :: "string \<Rightarrow> string" where
  "debug_str s = [CHR 0x22] @ concat (map (\<lambda>c. if c = CHR 0x22 \<or> c = CHR 0x5C then [CHR 0x5C, c] else [c]) s) @ [CHR 0x22]"

section \<open>contract.rs: the host functions\<close>

definition read_db_index ::
  "prims \<Rightarrow> Keychain \<Rightarrow> 'h ocalls \<Rightarrow> 'm memops \<Rightarrow> ('m, 'h) externals_fn \<Rightarrow> u32 \<Rightarrow> ('m, 'h, RuntimeValue option) rt" where
  "read_db_index p kc oc mo ext state_key_ptr_ptr =
     and_then (extract_vector mo state_key_ptr_ptr) (\<lambda>state_key_name.
     and_then (read (\<lambda>s. instance_key (inst s))) (\<lambda>key.
     and_then (on_world (read_encrypted_key p kc oc state_key_name key)) (\<lambda>(val, gas).
     and_then (use_gas_externally gas) (\<lambda>_.
     case val of
       None \<Rightarrow> ret (Some (I32 0))
     | Some v \<Rightarrow> and_then (write_to_memory mo ext v) (\<lambda>region. ret (Some (I32 region)))))))"

definition remove_db_index ::
  "prims \<Rightarrow> 'h ocalls \<Rightarrow> 'm memops \<Rightarrow> u32 \<Rightarrow> ('m, 'h, RuntimeValue option) rt" where
  "remove_db_index p oc mo state_key_ptr_ptr =
     and_then (read (\<lambda>s. operation (inst s))) (\<lambda>op.
     if is_query op then fail EngineUnauthorizedWrite
     else
       and_then (extract_vector mo state_key_ptr_ptr) (\<lambda>state_key_name.
       and_then (read (\<lambda>s. instance_key (inst s))) (\<lambda>key.
       and_then (on_world (remove_encrypted_key p oc state_key_name key)) (\<lambda>gas.
       and_then (use_gas_externally gas) (\<lambda>_. ret None)))))"

definition write_db_index ::
  "prims \<Rightarrow> Keychain \<Rightarrow> 'h ocalls \<Rightarrow> 'm memops \<Rightarrow> u32 \<Rightarrow> u32 \<Rightarrow> ('m, 'h, RuntimeValue option) rt" where
  "write_db_index p kc oc mo state_key_ptr_ptr value_ptr_ptr =
     and_then (read (\<lambda>s. operation (inst s))) (\<lambda>op.
     if is_query op then fail EngineUnauthorizedWrite
     else
       and_then (extract_vector mo state_key_ptr_ptr) (\<lambda>state_key_name.
       and_then (extract_vector mo value_ptr_ptr) (\<lambda>val.
       and_then (read (\<lambda>s. instance_key (inst s))) (\<lambda>key.
       and_then (on_world (write_encrypted_key p kc oc state_key_name val key)) (\<lambda>gas.
       and_then (use_gas_externally gas) (\<lambda>_. ret None))))))"

definition canonicalize_address_index ::
  "codecs \<Rightarrow> 'm memops \<Rightarrow> ('m, 'h) externals_fn \<Rightarrow> u32 \<Rightarrow> u32 \<Rightarrow> ('m, 'h, RuntimeValue option) rt" where
  "canonicalize_address_index cd mo ext human_ptr_ptr canonical_ptr_ptr =
     (let complain = (\<lambda>text. and_then (write_to_memory mo ext text) (\<lambda>region. ret (Some (I32 region))))
      in
       and_then (read (\<lambda>s. external_canonicalize_address (gas_costs (inst s)))) (\<lambda>cost.
       and_then (use_gas_externally (ucast cost)) (\<lambda>_.
       and_then (extract_vector mo human_ptr_ptr) (\<lambda>human.
       if \<not> valid_utf8 human then complain (ascii ''input is not valid UTF-8'')
       else
         (let human_addr_str = str_trim human
          in if human_addr_str = [] then complain (ascii ''input is empty'')
             else (case bech32_decode cd (chars human_addr_str) of
                 None \<Rightarrow> complain (ascii (bech32_decode_error cd (chars human_addr_str)))
               | Some (decoded_prefix, d) \<Rightarrow>
                   if decoded_prefix \<noteq> BECH32_PREFIX_ACC_ADDR then
                     complain (ascii (''wrong address prefix: '' @ debug_str decoded_prefix))
                   else
                     and_then (lift (ok_or EngineBase32Error (from_base32 cd d))) (\<lambda>canonical.
                     and_then (write_to_allocated_memory mo canonical canonical_ptr_ptr) (\<lambda>_.
                     ret (Some (I32 0))))))))))"

definition humanize_address_index ::
  "codecs \<Rightarrow> 'm memops \<Rightarrow> ('m, 'h) externals_fn \<Rightarrow> u32 \<Rightarrow> u32 \<Rightarrow> ('m, 'h, RuntimeValue option) rt" where
  "humanize_address_index cd mo ext canonical_ptr_ptr human_ptr_ptr =
     and_then (read (\<lambda>s. external_humanize_address (gas_costs (inst s)))) (\<lambda>cost.
     and_then (use_gas_externally (ucast cost)) (\<lambda>_.
     and_then (extract_vector mo canonical_ptr_ptr) (\<lambda>canonical.
     case bech32_encode cd BECH32_PREFIX_ACC_ADDR (to_base32 cd canonical) of
       None \<Rightarrow>
         and_then (write_to_memory mo ext (ascii (bech32_encode_error cd BECH32_PREFIX_ACC_ADDR (to_base32 cd canonical))))
           (\<lambda>region. ret (Some (I32 region)))
     | Some human_addr_str \<Rightarrow>
         and_then (write_to_allocated_memory mo (ascii human_addr_str) human_ptr_ptr) (\<lambda>_.
         ret (Some (I32 0))))))"

definition query_chain_index ::
  "prims \<Rightarrow> codecs \<Rightarrow> query_codecs \<Rightarrow> Keychain \<Rightarrow> 'h ocalls \<Rightarrow> 'm memops \<Rightarrow> ('m, 'h) externals_fn \<Rightarrow> u32 \<Rightarrow>
   ('m, 'h, RuntimeValue option) rt" where
  "query_chain_index p cd qc kc oc mo ext query_ptr_ptr =
     and_then (extract_vector mo query_ptr_ptr) (\<lambda>query_buffer.
     and_then (read inst) (\<lambda>ci.
     and_then (on_world (encrypt_and_query_chain p cd qc kc oc query_buffer (user_nonce ci) (instance_user_key ci) (gas_left ci)))
       (\<lambda>(ans, gas).
     and_then (use_gas_externally gas) (\<lambda>_.
     and_then (write_to_memory mo ext ans) (\<lambda>region. ret (Some (I32 region)))))))"

text \<open>The amount is an \<open>i32\<close> extended with its sign.\<close>

definition gas_index :: "u32 \<Rightarrow> ('m, 'h, RuntimeValue option) rt" where
  "gas_index gas_amount = and_then (use_gas (scast gas_amount)) (\<lambda>_. ret None)"

section \<open>externals.rs and import_resolver.rs\<close>

datatype HostFunctions =
    ReadDbIndex
  | WriteDbIndex
  | RemoveDbIndex
  | CanonicalizeAddressIndex
  | HumanizeAddressIndex
  | GasIndex
  | QueryChainIndex
  | UnknownIndex

definition host_function_of :: "nat \<Rightarrow> HostFunctions" where
  "host_function_of v =
     (if v = 0 then ReadDbIndex
      else if v = 1 then WriteDbIndex
      else if v = 2 then RemoveDbIndex
      else if v = 3 then CanonicalizeAddressIndex
      else if v = 4 then HumanizeAddressIndex
      else if v = 5 then GasIndex
      else if v = 6 then QueryChainIndex
      else UnknownIndex)"

fun index_of_host_function :: "HostFunctions \<Rightarrow> nat" where
  "index_of_host_function ReadDbIndex = 0"
| "index_of_host_function WriteDbIndex = 1"
| "index_of_host_function RemoveDbIndex = 2"
| "index_of_host_function CanonicalizeAddressIndex = 3"
| "index_of_host_function HumanizeAddressIndex = 4"
| "index_of_host_function GasIndex = 5"
| "index_of_host_function QueryChainIndex = 6"
| "index_of_host_function UnknownIndex = 7"

text \<open>A resolved import: the number of \<open>i32\<close> parameters, whether it returns an \<open>i32\<close>, and its index.\<close>

definition resolve_func :: "string \<Rightarrow> (nat \<times> bool \<times> nat) option" where
  "resolve_func func_name =
     (if func_name = ''db_read'' then Some (1, True, index_of_host_function ReadDbIndex)
      else if func_name = ''db_write'' then Some (2, False, index_of_host_function WriteDbIndex)
      else if func_name = ''db_remove'' then Some (1, False, index_of_host_function RemoveDbIndex)
      else if func_name = ''canonicalize_address'' then Some (2, True, index_of_host_function CanonicalizeAddressIndex)
      else if func_name = ''humanize_address'' then Some (2, True, index_of_host_function HumanizeAddressIndex)
      else if func_name = ''query_chain'' then Some (1, True, index_of_host_function QueryChainIndex)
      else if func_name = ''gas'' then Some (1, False, index_of_host_function GasIndex)
      else None)"

definition nth_checked :: "nat \<Rightarrow> RuntimeValue list \<Rightarrow> (InterpreterError, u32) res" where
  "nth_checked i args =
     (if i < length args then (case args ! i of I32 v \<Rightarrow> Ok v | _ \<Rightarrow> Err (Trap UnexpectedSignature))
      else Err (Trap UnexpectedSignature))"

definition invoke_index ::
  "prims \<Rightarrow> codecs \<Rightarrow> query_codecs \<Rightarrow> Keychain \<Rightarrow> 'h ocalls \<Rightarrow> 'm memops \<Rightarrow> ('m, 'h) externals_fn \<Rightarrow> ('m, 'h) externals_fn" where
  "invoke_index p cd qc kc oc mo ext index args =
     (case host_function_of index of
        ReadDbIndex \<Rightarrow>
          and_then (lift (nth_checked 0 args)) (\<lambda>key. catch_err HostError (read_db_index p kc oc mo ext key))
      | RemoveDbIndex \<Rightarrow>
          and_then (lift (nth_checked 0 args)) (\<lambda>key. catch_err HostError (remove_db_index p oc mo key))
      | WriteDbIndex \<Rightarrow>
          and_then (lift (nth_checked 0 args)) (\<lambda>key.
          and_then (lift (nth_checked 1 args)) (\<lambda>val. catch_err HostError (write_db_index p kc oc mo key val)))
      | CanonicalizeAddressIndex \<Rightarrow>
          and_then (lift (nth_checked 0 args)) (\<lambda>human.
          and_then (lift (nth_checked 1 args)) (\<lambda>canonical.
          catch_err HostError (canonicalize_address_index cd mo ext human canonical)))
      | HumanizeAddressIndex \<Rightarrow>
          and_then (lift (nth_checked 0 args)) (\<lambda>canonical.
          and_then (lift (nth_checked 1 args)) (\<lambda>human.
          catch_err HostError (humanize_address_index cd mo ext canonical human)))
      | QueryChainIndex \<Rightarrow>
          and_then (lift (nth_checked 0 args)) (\<lambda>query.
          catch_err HostError (query_chain_index p cd qc kc oc mo ext query))
      | GasIndex \<Rightarrow>
          and_then (lift (nth_checked 0 args)) (\<lambda>gas_amount. catch_err HostError (gas_index gas_amount))
      | UnknownIndex \<Rightarrow> fail (HostError EngineNonExistentImportFunction))"

text \<open>
  Host functions call back into the contract (to allocate), which may call host
  functions again. The nesting is bounded by \<open>fuel\<close>; the native stack that runs
  out is a panic. Results hold for every bound.
\<close>

primrec externals ::
  "prims \<Rightarrow> codecs \<Rightarrow> query_codecs \<Rightarrow> Keychain \<Rightarrow> 'h ocalls \<Rightarrow> 'm memops \<Rightarrow> nat \<Rightarrow> ('m, 'h) externals_fn" where
  "externals p cd qc kc oc mo 0 = (\<lambda>index args s. (Panicked, s))"
| "externals p cd qc kc oc mo (Suc fuel) = invoke_index p cd qc kc oc mo (externals p cd qc kc oc mo fuel)"

section \<open>engine.rs\<close>

fun trap_kind_to_enclave_error :: "TrapKind \<Rightarrow> EnclaveError" where
  "trap_kind_to_enclave_error Unreachable = ContractPanicUnreachable"
| "trap_kind_to_enclave_error MemoryAccessOutOfBounds = ContractPanicMemoryAccessOutOfBounds"
| "trap_kind_to_enclave_error TableAccessOutOfBounds = ContractPanicTableAccessOutOfBounds"
| "trap_kind_to_enclave_error ElemUninitialized = ContractPanicElemUninitialized"
| "trap_kind_to_enclave_error DivisionByZero = ContractPanicDivisionByZero"
| "trap_kind_to_enclave_error InvalidConversionToInt = ContractPanicInvalidConversionToInt"
| "trap_kind_to_enclave_error StackOverflow = ContractPanicStackOverflow"
| "trap_kind_to_enclave_error UnexpectedSignature = ContractPanicUnexpectedSignature"

fun wasmi_error_to_enclave_error :: "InterpreterError \<Rightarrow> EnclaveError" where
  "wasmi_error_to_enclave_error (HostError e) = enclave_error_of e"
| "wasmi_error_to_enclave_error (Trap k) = trap_kind_to_enclave_error k"
| "wasmi_error_to_enclave_error OtherError = FailedFunctionCall"

definition engine_call ::
  "('m, 'h) externals_fn \<Rightarrow> string \<Rightarrow> u32 list \<Rightarrow> (('m, 'h) machine, EnclaveError, u32) stm" where
  "engine_call ext name args =
     and_then (catch_err wasmi_error_to_enclave_error (invoke_export ext name (map I32 args))) (\<lambda>v.
     case v of Some (I32 offset) \<Rightarrow> ret offset | _ \<Rightarrow> fail FailedFunctionCall)"

definition engine_init :: "('m, 'h) externals_fn \<Rightarrow> u32 \<Rightarrow> u32 \<Rightarrow> (('m, 'h) machine, EnclaveError, u32) stm" where
  "engine_init ext env_ptr msg_ptr = engine_call ext ''init'' [env_ptr, msg_ptr]"

definition engine_handle :: "('m, 'h) externals_fn \<Rightarrow> u32 \<Rightarrow> u32 \<Rightarrow> (('m, 'h) machine, EnclaveError, u32) stm" where
  "engine_handle ext env_ptr msg_ptr = engine_call ext ''handle'' [env_ptr, msg_ptr]"

definition engine_query :: "('m, 'h) externals_fn \<Rightarrow> u32 \<Rightarrow> (('m, 'h) machine, EnclaveError, u32) stm" where
  "engine_query ext msg_ptr = engine_call ext ''query'' [msg_ptr]"

section \<open>What a run of contract code can change\<close>

lemma keeps_read: "(\<And>s. P s \<Longrightarrow> keeps P (f (g s))) \<Longrightarrow> keeps P (and_then (read g) f)"
  unfolding keeps_def by simp

lemma keeps_implies: "(A \<Longrightarrow> keeps P m) \<Longrightarrow> keeps (\<lambda>s. A \<longrightarrow> P s) m"
  unfolding keeps_def by blast

text \<open>
  A property \<open>W\<close> of the world (buffers, depth, host) while a contract with key
  \<open>ck\<close> runs operation \<open>op\<close>. The contract of the storage and query layer: reads
  and queries keep \<open>W\<close>, and so do writes unless the operation is a query. Then
  every run of every contract keeps \<open>W\<close>.
\<close>

definition frame :: "ContractOperation \<Rightarrow> ContractKey \<Rightarrow> ('h world \<Rightarrow> bool) \<Rightarrow> ('m, 'h) machine \<Rightarrow> bool" where
  "frame op ck W s = (operation (inst s) = op \<and> instance_key (inst s) = ck \<and> W (world s))"

lemma keeps_frame_parts [keeps_intro]:
  "keeps (frame op ck W) (extract_vector mo a)"
  "keeps (frame op ck W) (write_to_allocated_memory mo b a)"
  "keeps (frame op ck W) (use_gas g)"
  "keeps (frame op ck W) (use_gas_externally g)"
  by (auto simp: keeps_def frame_def extract_vector_def write_to_allocated_memory_def set_memory_def
      use_gas_def use_gas_externally_def check_gas_usage_def split: prod.splits)

lemma keeps_on_world [keeps_intro]: "keeps W m \<Longrightarrow> keeps (frame op ck W) (on_world m)"
  by (auto simp: keeps_def frame_def on_world_def split: prod.splits)

lemma keeps_value [keeps_intro]:
  "(\<And>v. keeps P (f v)) \<Longrightarrow> (\<And>v. keeps P (g v)) \<Longrightarrow> keeps P (case x of I32 v \<Rightarrow> f v | I64 v \<Rightarrow> g v)"
  by (cases x) simp_all

lemma keeps_run_wasm:
  assumes "\<And>i args. keeps (frame op ck W) (ext i args)"
  shows "keeps (frame op ck W) (run_wasm ext code)"
proof (induction code)
  case (Memory upd k)
  show ?case
  proof (rule keepsI)
    fix s r s'
    assume "frame op ck W s" and run: "run_wasm ext (Memory upd k) s = (r, s')"
    then have "frame op ck W (set_memory (upd (memory (inst s))) s)"
      by (simp add: frame_def set_memory_def)
    then show "frame op ck W s'"
      by (rule keepsD [OF Memory [OF rangeI], rotated]) (use run in simp)
  qed
next
  case (HostCall i args k)
  show ?case
    using assms HostCall [OF rangeI] by (auto intro: keeps_and_then)
qed (simp_all add: keeps_pure)

lemma keeps_invoke_export:
  assumes "\<And>i args. keeps (frame op ck W) (ext i args)"
  shows "keeps (frame op ck W) (invoke_export ext name args)"
  using keeps_run_wasm [OF assms] by (auto simp: keeps_def invoke_export_def split: option.splits)

lemma keeps_write_to_memory:
  assumes "\<And>i args. keeps (frame op ck W) (ext i args)"
  shows "keeps (frame op ck W) (write_to_memory mo ext buffer)"
  unfolding write_to_memory_def allocate_def by (intro keeps_intro keeps_invoke_export assms)

lemma keeps_engine_call:
  assumes "\<And>i args. keeps (frame op ck W) (ext i args)"
  shows "keeps (frame op ck W) (engine_call ext name args)"
  unfolding engine_call_def by (intro keeps_intro keeps_invoke_export assms)

locale host_frame =
  fixes p :: prims and cd :: codecs and qc :: query_codecs and kc :: Keychain and oc :: "'h ocalls"
    and op :: ContractOperation and ck :: ContractKey and W :: "'h world \<Rightarrow> bool"
  assumes read_kept: "keeps W (read_encrypted_key p kc oc k ck)"
    and query_kept: "keeps W (encrypt_and_query_chain p cd qc kc oc q n pk g)"
    and write_kept: "op \<noteq> OpQuery \<Longrightarrow> keeps W (write_encrypted_key p kc oc k v ck)"
    and remove_kept: "op \<noteq> OpQuery \<Longrightarrow> keeps W (remove_encrypted_key p oc k ck)"
begin

lemma host_functions_keep:
  fixes mo :: "'m memops"
  assumes ext: "\<And>i args. keeps (frame op ck W) (ext i args)"
  shows "keeps (frame op ck W) (read_db_index p kc oc mo ext a)"
    and "keeps (frame op ck W) (remove_db_index p oc mo a)"
    and "keeps (frame op ck W) (write_db_index p kc oc mo a b)"
    and "keeps (frame op ck W) (canonicalize_address_index cd mo ext a b)"
    and "keeps (frame op ck W) (humanize_address_index cd mo ext a b)"
    and "keeps (frame op ck W) (query_chain_index p cd qc kc oc mo ext a)"
    and "keeps (frame op ck W) (gas_index g)"
proof -
  have key: "keeps (frame op ck W) (and_then (read (\<lambda>s. instance_key (inst s))) f)"
    if "keeps (frame op ck W) (f ck)" for f :: "ContractKey \<Rightarrow> ('m, 'h, RuntimeValue option) rt"
    by (rule keeps_read) (use that in \<open>simp add: frame_def\<close>)
  have op: "keeps (frame op ck W) (and_then (read (\<lambda>s. operation (inst s))) f)"
    if "keeps (frame op ck W) (f op)" for f :: "ContractOperation \<Rightarrow> ('m, 'h, RuntimeValue option) rt"
    by (rule keeps_read) (use that in \<open>simp add: frame_def\<close>)
  note intros = keeps_intro keeps_write_to_memory [OF ext] read_kept query_kept
  show "keeps (frame op ck W) (read_db_index p kc oc mo ext a)"
    unfolding read_db_index_def by (rule keeps_and_then, rule keeps_frame_parts, rule key, intro intros)
  show "keeps (frame op ck W) (remove_db_index p oc mo a)"
    unfolding remove_db_index_def is_query_def
    by (rule op, rule keeps_if, rule keeps_pure, rule keeps_and_then, rule keeps_frame_parts, rule key,
        intro intros remove_kept)
  show "keeps (frame op ck W) (write_db_index p kc oc mo a b)"
    unfolding write_db_index_def is_query_def
    by (rule op, rule keeps_if, rule keeps_pure, rule keeps_and_then, rule keeps_frame_parts, rule keeps_and_then,
        rule keeps_frame_parts, rule key, intro intros write_kept)
  show "keeps (frame op ck W) (canonicalize_address_index cd mo ext a b)"
    unfolding canonicalize_address_index_def Let_def by (intro intros)
  show "keeps (frame op ck W) (humanize_address_index cd mo ext a b)"
    unfolding humanize_address_index_def by (intro intros)
  show "keeps (frame op ck W) (query_chain_index p cd qc kc oc mo ext a)"
    unfolding query_chain_index_def by (intro intros)
  show "keeps (frame op ck W) (gas_index g)"
    unfolding gas_index_def by (intro intros)
qed

lemma externals_keep: "keeps (frame op ck W) (externals p cd qc kc oc mo fuel i args)"
proof (induction fuel arbitrary: i args)
  case 0
  then show ?case
    by (simp add: keeps_def)
next
  case (Suc fuel)
  show ?case
    unfolding externals.simps invoke_index_def
    by (cases "host_function_of i") (simp_all add: keeps_pure, (intro keeps_intro host_functions_keep [OF Suc])+)
qed

lemma run_keeps:
  assumes "invoke_export (externals p cd qc kc oc mo fuel) name args s = (r, s')"
    and "operation (inst s) = op" and "instance_key (inst s) = ck" and "W (world s)"
  shows "W (world s')"
proof -
  have "frame op ck W s'"
    by (rule keepsD [OF keeps_invoke_export [OF externals_keep] assms(1)]) (simp add: frame_def assms(2-4))
  then show ?thesis
    by (simp add: frame_def)
qed

end

section \<open>Buffers, isolation, read-only queries\<close>

interpretation buffers_safe: host_frame p cd qc kc oc op ck "\<lambda>w. allocator_ok (enclave_alloc oc) \<longrightarrow> db_safe d w"
  for p cd qc kc and oc :: "'h ocalls" and op ck d
  by unfold_locales (rule keeps_implies, (rule keeps_encrypted keeps_encrypt_and_query_chain, assumption))+

lemma host_do_ocall: "host (snd (do_ocall oc f w)) = snd (f (host w))"
  by (simp add: do_ocall_def split: prod.splits)

lemma host_recovered: "host (snd (recovered q w)) = host w"
  by (auto simp: recovered_def split: prod.splits res.splits)

text \<open>What every ocall keeps of the host's state, a step that makes the ocall keeps.\<close>

lemma keeps_host_read:
  assumes "\<And>h. P h \<Longrightarrow> P (snd (ocall_read_db oc k h))"
  shows "keeps (\<lambda>w. P (host w)) (read_db oc k)"
proof (rule keepsI)
  fix w r w'
  assume "P (host w)" and run: "read_db oc k w = (r, w')"
  obtain x y w1 where o: "do_ocall oc (ocall_read_db oc k) w = ((x, y), w1)"
    by (metis prod.exhaust)
  then have "P (host w1)"
    using assms [OF \<open>P (host w)\<close>] host_do_ocall [of oc "ocall_read_db oc k" w] by simp
  moreover have "host w' = host w1"
    using run o host_recovered [of y w1]
    by (auto simp: read_db_def and_then_def split: if_splits OcallReturn.splits prod.splits res.splits)
  ultimately show "P (host w')"
    by simp
qed

lemma keeps_host_query_chain:
  assumes "\<And>h. P h \<Longrightarrow> P (snd (ocall_query_chain oc q g h))"
  shows "keeps (\<lambda>w. P (host w)) (query_chain_step oc q g)"
proof (rule keepsI)
  fix w r w'
  assume "P (host w)" and run: "query_chain_step oc q g w = (r, w')"
  obtain x y w1 where o: "do_ocall oc (ocall_query_chain oc q g) w = ((x, y), w1)"
    by (metis prod.exhaust)
  then have "P (host w1)"
    using assms [OF \<open>P (host w)\<close>] host_do_ocall [of oc "ocall_query_chain oc q g" w] by simp
  moreover have "host w' = host w1"
    using run o host_recovered [of y w1]
    by (auto simp: query_chain_step_def query_chain_def split: if_splits OcallReturn.splits prod.splits res.splits)
  ultimately show "P (host w')"
    by simp
qed

lemma keeps_host_write:
  assumes "\<And>h. P h \<Longrightarrow> P (snd (ocall_write_db oc k v h))"
  shows "keeps (\<lambda>w. P (host w)) (write_db oc k v)"
  using host_do_ocall [of oc "ocall_write_db oc k v"] assms
  by (auto simp: keeps_def write_db_def split: prod.splits) (metis snd_conv)

lemma keeps_host_remove:
  assumes "\<And>h. P h \<Longrightarrow> P (snd (ocall_remove_db oc k h))"
  shows "keeps (\<lambda>w. P (host w)) (remove_db oc k)"
  using host_do_ocall [of oc "ocall_remove_db oc k"] assms
  by (auto simp: keeps_def remove_db_def split: prod.splits) (metis snd_conv)

lemmas keeps_host = keeps_host_read keeps_host_query_chain keeps_host_write keeps_host_remove

definition ocalls_keep :: "'h ocalls \<Rightarrow> ('h \<Rightarrow> bool) \<Rightarrow> bool" where
  "ocalls_keep oc P =
     (\<forall>h. P h \<longrightarrow> (\<forall>k. P (snd (ocall_read_db oc k h))) \<and> (\<forall>q g. P (snd (ocall_query_chain oc q g h))) \<and>
        (\<forall>k v. P (snd (ocall_write_db oc k v h))) \<and> (\<forall>k. P (snd (ocall_remove_db oc k h))))"

interpretation hosted: host_frame p cd qc kc oc op ck "\<lambda>w. ocalls_keep oc P \<longrightarrow> P (host w)"
  for p cd qc kc and oc :: "'h ocalls" and op ck P
proof
  show "keeps (\<lambda>w. ocalls_keep oc P \<longrightarrow> P (host w)) (read_encrypted_key p kc oc k ck)" for k
    unfolding read_encrypted_key_def by (intro keeps_implies keeps_intro keeps_host) (simp add: ocalls_keep_def)
  show "keeps (\<lambda>w. ocalls_keep oc P \<longrightarrow> P (host w)) (encrypt_and_query_chain p cd qc kc oc q n pk g)" for q n pk g
    by (intro keeps_implies keeps_query_generic keeps_host) (simp add: ocalls_keep_def)
  show "keeps (\<lambda>w. ocalls_keep oc P \<longrightarrow> P (host w)) (write_encrypted_key p kc oc k v ck)" for k v
    unfolding write_encrypted_key_def derive_ad_for_field_def Let_def
    by (intro keeps_implies keeps_intro keeps_host) (simp_all add: ocalls_keep_def)
  show "keeps (\<lambda>w. ocalls_keep oc P \<longrightarrow> P (host w)) (remove_encrypted_key p oc k ck)" for k
    unfolding remove_encrypted_key_def by (intro keeps_implies keeps_host) (simp add: ocalls_keep_def)
qed

text \<open>A host whose database \<open>view\<close> changes by the writes it is asked for, if they succeed, and by nothing else.\<close>

definition host_keeps :: "'h ocalls \<Rightarrow> ('h \<Rightarrow> bytes \<rightharpoonup> bytes) \<Rightarrow> bool" where
  "host_keeps oc view =
     ((\<forall>k h. view (snd (ocall_read_db oc k h)) = view h) \<and>
      (\<forall>q g h. view (snd (ocall_query_chain oc q g h)) = view h) \<and>
      (\<forall>k v h. view (snd (ocall_write_db oc k v h)) \<in> {view h, (view h)(k \<mapsto> v)}) \<and>
      (\<forall>k h. view (snd (ocall_remove_db oc k h)) \<in> {view h, (view h)(k := None)}))"

definition db_inv :: "('h \<Rightarrow> bytes \<rightharpoonup> bytes) \<Rightarrow> ((bytes \<rightharpoonup> bytes) \<Rightarrow> bool) \<Rightarrow> 'h world \<Rightarrow> bool" where
  "db_inv view D w = D (view (host w))"

lemma keeps_db_inv:
  assumes "host_keeps oc view"
  shows "keeps (db_inv view D) (read_db oc k)" and "keeps (db_inv view D) (query_chain_step oc q g)"
  using assms unfolding db_inv_def by (intro keeps_host; simp add: host_keeps_def)+

lemma keeps_db_inv_update:
  assumes "host_keeps oc view" and "\<And>db v. D db \<Longrightarrow> D (db(k \<mapsto> v))" and "\<And>db. D db \<Longrightarrow> D (db(k := None))"
  shows "keeps (db_inv view D) (write_db oc k v)" and "keeps (db_inv view D) (remove_db oc k)"
proof -
  have upd: "D (view h) \<Longrightarrow> D (view (snd (ocall_write_db oc k v h)))"
    "D (view h) \<Longrightarrow> D (view (snd (ocall_remove_db oc k h)))" for h
    using assms by (auto simp: host_keeps_def) (metis insertE singletonD)+
  show "keeps (db_inv view D) (write_db oc k v)" "keeps (db_inv view D) (remove_db oc k)"
    unfolding db_inv_def by (intro keeps_host upd; assumption)+
qed

text \<open>Fields of other contracts keep the values they have in \<open>db\<close>.\<close>

definition foreign_fields :: "prims \<Rightarrow> ContractKey \<Rightarrow> (bytes \<rightharpoonup> bytes) \<Rightarrow> (bytes \<rightharpoonup> bytes) \<Rightarrow> bool" where
  "foreign_fields p ck db db' = (\<forall>f. (\<forall>k. f \<noteq> field_name_digest p k ck) \<longrightarrow> db' f = db f)"

interpretation isolated: host_frame p cd qc kc oc op ck
  "\<lambda>w. host_keeps oc view \<longrightarrow> db_inv view (foreign_fields p ck db) w"
  for p cd qc kc and oc :: "'h ocalls" and op ck view db
proof
  have upd: "foreign_fields p ck db (d(field_name_digest p k ck := x))" if "foreign_fields p ck db d" for k x d
    using that by (auto simp: foreign_fields_def)
  show "keeps (\<lambda>w. host_keeps oc view \<longrightarrow> db_inv view (foreign_fields p ck db) w) (read_encrypted_key p kc oc k ck)" for k
    unfolding read_encrypted_key_def by (intro keeps_implies keeps_intro keeps_db_inv)
  show "keeps (\<lambda>w. host_keeps oc view \<longrightarrow> db_inv view (foreign_fields p ck db) w)
      (encrypt_and_query_chain p cd qc kc oc q n pk g)" for q n pk g
    by (intro keeps_implies keeps_query_generic keeps_db_inv)
  show "keeps (\<lambda>w. host_keeps oc view \<longrightarrow> db_inv view (foreign_fields p ck db) w)
      (write_encrypted_key p kc oc k v ck)" for k v
    unfolding write_encrypted_key_def derive_ad_for_field_def Let_def
    by (intro keeps_implies keeps_intro keeps_db_inv keeps_db_inv_update upd)
  show "keeps (\<lambda>w. host_keeps oc view \<longrightarrow> db_inv view (foreign_fields p ck db) w)
      (remove_encrypted_key p oc k ck)" for k
    unfolding remove_encrypted_key_def by (intro keeps_implies keeps_db_inv_update upd)
qed

interpretation read_only: host_frame p cd qc kc oc OpQuery ck
  "\<lambda>w. host_keeps oc view \<longrightarrow> db_inv view (\<lambda>db'. db' = db) w"
  for p cd qc kc and oc :: "'h ocalls" and ck view db
proof
  show "keeps (\<lambda>w. host_keeps oc view \<longrightarrow> db_inv view (\<lambda>db'. db' = db) w) (read_encrypted_key p kc oc k ck)" for k
    unfolding read_encrypted_key_def by (intro keeps_implies keeps_intro keeps_db_inv)
  show "keeps (\<lambda>w. host_keeps oc view \<longrightarrow> db_inv view (\<lambda>db'. db' = db) w)
      (encrypt_and_query_chain p cd qc kc oc q n pk g)" for q n pk g
    by (intro keeps_implies keeps_query_generic keeps_db_inv)
qed simp_all

text \<open>
  Queries do not write. Whatever code a contract has, while it runs a query
  the database of the host stays as it is.
\<close>

lemma query_is_read_only:
  assumes "host_keeps oc view" and "operation (inst s) = OpQuery"
    and "invoke_export (externals p cd qc kc oc mo fuel) name args s = (r, s')"
  shows "view (host (world s')) = view (host (world s))"
  using read_only.run_keeps [OF assms(3,2) refl, of view "view (host (world s))"] assms(1)
  by (simp add: db_inv_def)

text \<open>
  Contracts are isolated. Whatever code a contract has, it changes no
  database field other than the scrambled names of its own keys.
\<close>

lemma contract_isolation:
  assumes "host_keeps oc view"
    and "invoke_export (externals p cd qc kc oc mo fuel) name args s = (r, s')"
    and "\<And>k. field \<noteq> field_name_digest p k (instance_key (inst s))"
  shows "view (host (world s')) field = view (host (world s)) field"
  using isolated.run_keeps [OF assms(2) refl refl, of view "view (host (world s))"] assms(1,3)
  by (simp add: db_inv_def foreign_fields_def)

text \<open>
  Whatever host and contract do, the buffers of the enclave stay
  consistent: each is owned once, and the depth of nested calls is unchanged.
\<close>

lemma run_keeps_buffers:
  assumes "allocator_ok (enclave_alloc oc)" and "bufs_ok (bufs (world s))"
    and "invoke_export (externals p cd qc kc oc mo fuel) name args s = (r, s')"
  shows "bufs_ok (bufs (world s')) \<and> depth (world s') = depth (world s)"
  using buffers_safe.run_keeps [OF assms(3) refl refl, of "depth (world s)"] assms(1,2)
  by (simp add: db_safe_def)

section \<open>Gas\<close>

text \<open>The gas of the instance is within its limit \<open>l\<close>.\<close>

definition within_gas :: "u64 \<Rightarrow> ('m, 'h) machine \<Rightarrow> bool" where
  "within_gas l s = (gas_limit (inst s) = l \<and> \<not> is_gas_depleted (inst s))"

lemma within_gas_nat:
  "within_gas l s \<longleftrightarrow> gas_limit (inst s) = l \<and>
     min (2 ^ 64 - 1) (unat (gas_used (inst s)) + unat (gas_used_externally (inst s))) \<le> unat l"
  by (auto simp: within_gas_def is_gas_depleted_def word_less_nat_alt unat_saturating_add not_less)

lemma ok_keeps_parts [ok_keeps_intro]:
  "ok_keeps (within_gas l) (extract_vector mo a)"
  "ok_keeps (within_gas l) (write_to_allocated_memory mo b a)"
  "ok_keeps (within_gas l) (use_gas g)"
  "ok_keeps (within_gas l) (use_gas_externally g)"
  "ok_keeps (within_gas l) (on_world m)"
  by (auto simp: ok_keeps_def within_gas_def is_gas_depleted_def extract_vector_def write_to_allocated_memory_def
      set_memory_def use_gas_def use_gas_externally_def check_gas_usage_def on_world_def split: prod.splits if_splits)

lemma ok_keeps_value [ok_keeps_intro]:
  "(\<And>v. ok_keeps P (f v)) \<Longrightarrow> (\<And>v. ok_keeps P (g v)) \<Longrightarrow> ok_keeps P (case x of I32 v \<Rightarrow> f v | I64 v \<Rightarrow> g v)"
  by (cases x) simp_all

lemma ok_keeps_run_wasm:
  assumes "\<And>i args. ok_keeps (within_gas l) (ext i args)"
  shows "ok_keeps (within_gas l) (run_wasm ext code)"
proof (induction code)
  case (Memory upd k)
  have mem: "within_gas l (set_memory m s) \<longleftrightarrow> within_gas l s" for s m
    by (simp add: within_gas_def is_gas_depleted_def set_memory_def)
  show ?case
    unfolding ok_keeps_def
  proof (intro allI impI)
    fix s x s'
    assume "within_gas l s" and run: "run_wasm ext (Memory upd k) s = (Ok x, s')"
    then have "within_gas l (set_memory (upd (memory (inst s))) s)"
      by (simp only: mem)
    then show "within_gas l s'"
      by (rule ok_keepsD [OF Memory [OF rangeI], rotated]) (use run in simp)
  qed
next
  case (HostCall i args k)
  show ?case
    using assms HostCall [OF rangeI] by (auto intro: ok_keeps_and_then)
qed (simp_all add: ok_keeps_pure)

lemma ok_keeps_invoke_export:
  assumes "\<And>i args. ok_keeps (within_gas l) (ext i args)"
  shows "ok_keeps (within_gas l) (invoke_export ext name args)"
  using ok_keeps_run_wasm [OF assms] by (auto simp: ok_keeps_def invoke_export_def split: option.splits)

lemma ok_keeps_write_to_memory:
  assumes "\<And>i args. ok_keeps (within_gas l) (ext i args)"
  shows "ok_keeps (within_gas l) (write_to_memory mo ext buffer)"
  unfolding write_to_memory_def allocate_def by (intro ok_keeps_intro ok_keeps_invoke_export assms)

lemma ok_keeps_externals: "ok_keeps (within_gas l) (externals p cd qc kc oc mo fuel i args)"
proof (induction fuel arbitrary: i args)
  case 0
  then show ?case
    by (simp add: ok_keeps_def)
next
  case (Suc fuel)
  note intros = ok_keeps_intro ok_keeps_write_to_memory [OF Suc]
  show ?case
    unfolding externals.simps invoke_index_def read_db_index_def write_db_index_def remove_db_index_def
      canonicalize_address_index_def humanize_address_index_def query_chain_index_def gas_index_def Let_def
    by (cases "host_function_of i") (simp_all, (intro intros)+)
qed

text \<open>
  Gas is never overspent. A call of an export that succeeds, from an
  instance within its limit, leaves the limit as it was and the gas used inside
  and outside the interpreter, as the enclave counts them, within the limit.
\<close>

lemma run_within_gas:
  assumes "\<not> is_gas_depleted (inst s)"
    and "invoke_export (externals p cd qc kc oc mo fuel) name args s = (Ok v, s')"
  shows "gas_limit (inst s') = gas_limit (inst s) \<and>
    min (2 ^ 64 - 1) (unat (gas_used (inst s')) + unat (gas_used_externally (inst s'))) \<le> unat (gas_limit (inst s))"
proof -
  have "within_gas (gas_limit (inst s)) s"
    using assms(1) by (simp add: within_gas_def)
  then have "within_gas (gas_limit (inst s)) s'"
    by (rule ok_keepsD [OF ok_keeps_invoke_export [OF ok_keeps_externals] assms(2)])
  then show ?thesis
    by (simp add: within_gas_nat)
qed

section \<open>Regions\<close>

text \<open>The laws of linear memory: what was written is read, and other ranges are not touched.\<close>

definition mem_ok :: "'m memops \<Rightarrow> bool" where
  "mem_ok mo =
     ((\<forall>m a bs m'. mem_set mo m a bs = Some m' \<longrightarrow> mem_get mo m' a (length bs) = Some bs) \<and>
      (\<forall>m a bs m' b n. mem_set mo m a bs = Some m' \<longrightarrow> unat a + length bs \<le> unat b \<or> unat b + n \<le> unat a \<longrightarrow>
         mem_get mo m' b n = mem_get mo m b n))"

lemma mem_set_get: "mem_ok mo \<Longrightarrow> mem_set mo m a bs = Some m' \<Longrightarrow> mem_get mo m' a (length bs) = Some bs"
  unfolding mem_ok_def by blast

lemma mem_set_elsewhere:
  "mem_ok mo \<Longrightarrow> mem_set mo m a bs = Some m' \<Longrightarrow> unat a + length bs \<le> unat b \<or> unat b + n \<le> unat a \<Longrightarrow>
   mem_get mo m' b n = mem_get mo m b n"
  unfolding mem_ok_def by blast

lemma mem_set_value_get:
  assumes "mem_ok mo" and "mem_set_value mo m a v = Some m'"
  shows "mem_get_value mo m' a = Some v"
  using mem_set_get [OF assms(1), of m a "to_le 4 (unat v)" m'] assms(2) unat_bound [of v]
  by (simp add: mem_set_value_def mem_get_value_def from_le_to_le)

text \<open>
  A region written by the host is read back. If writing a buffer into the
  region at \<open>r\<close> succeeds, and the buffer of the region does not overlap the
  twelve bytes of the region itself, the vector at \<open>r\<close> is the buffer.
\<close>

lemma region_write_read:
  assumes "mem_ok mo" and "length buffer < 2 ^ 32" and "unat r + 12 \<le> 2 ^ 32"
    and "mem_get_value mo m r = Some a"
    and "unat a + length buffer \<le> unat r \<or> unat r + 12 \<le> unat a"
    and "write_to_allocated_memory_inner mo m buffer r = (m', Some r')"
  shows "r' = r \<and> extract_vector_inner mo m' r = Some buffer"
proof -
  obtain m1 where a0: "a \<noteq> 0" and m1: "mem_set mo m a buffer = Some m1"
    and m': "mem_set_value mo m1 (r + 8) (word_of_nat (length buffer)) = Some m'" and r': "r' = r"
    using assms(4,6) by (auto simp: write_to_allocated_memory_inner_def split: option.splits if_splits)
  have r8: "unat (r + 8) = unat r + 8"
    using assms(3) by (subst unat_add_fits) simp_all
  have len: "unat (word_of_nat (length buffer) :: u32) = length buffer"
    using assms(2) by (simp add: unat_of_nat)
  have set8: "mem_set mo m1 (r + 8) (to_le 4 (length buffer)) = Some m'"
    using m' by (simp add: mem_set_value_def len)
  have "mem_get mo m' r 4 = mem_get mo m1 r 4"
    by (rule mem_set_elsewhere [OF assms(1) set8]) (simp add: r8)
  also have "\<dots> = mem_get mo m r 4"
    by (rule mem_set_elsewhere [OF assms(1) m1]) (use assms(5) in linarith)
  finally have "mem_get_value mo m' r = Some a"
    using assms(4) by (simp add: mem_get_value_def)
  moreover have "mem_get_value mo m' (r + 8) = Some (word_of_nat (length buffer))"
    by (rule mem_set_value_get [OF assms(1) m'])
  moreover have "mem_get mo m' a (length buffer) = mem_get mo m1 a (length buffer)"
    by (rule mem_set_elsewhere [OF assms(1) set8]) (use assms(5) in \<open>simp add: r8, linarith\<close>)
  ultimately show ?thesis
    using a0 r' len mem_set_get [OF assms(1) m1] by (simp add: extract_vector_inner_def)
qed

section \<open>Concrete instances\<close>

text \<open>A memory that is a list of bytes.\<close>

definition list_mem :: "bytes memops" where
  "list_mem = \<lparr>mem_get = (\<lambda>m a n. if unat a + n \<le> length m then Some (take n (drop (unat a) m)) else None),
     mem_set = (\<lambda>m a bs. if unat a + length bs \<le> length m
       then Some (take (unat a) m @ bs @ drop (unat a + length bs) m) else None)\<rparr>"

lemma list_mem_ok: "mem_ok list_mem"
  unfolding mem_ok_def
proof (intro conjI allI impI)
  fix m a bs m'
  assume "mem_set list_mem m a bs = Some m'"
  then show "mem_get list_mem m' a (length bs) = Some bs"
    by (auto simp: list_mem_def split: if_splits)
next
  fix m bs m' n and a b :: u32
  assume "mem_set list_mem m a bs = Some m'" and "unat a + length bs \<le> unat b \<or> unat b + n \<le> unat a"
  then show "mem_get list_mem m' b n = mem_get list_mem m b n"
    by (auto simp: list_mem_def min_def take_drop split: if_splits)
qed

text \<open>A contract that uses gas, or writes to the storage: key and value are the region at 4.\<close>

definition demo_machine :: "ContractOperation \<Rightarrow> (bytes, bytes \<rightharpoonup> bytes) machine" where
  "demo_machine op = \<lparr>inst = \<lparr>memory = [0, 0, 0, 0, 16, 0, 0, 0, 4, 0, 0, 0, 2, 0, 0, 0, 7, 8, 9, 9], gas_limit = 100,
     gas_used = 0, gas_used_externally = 0, gas_costs = default_costs, instance_key = [7],
     wasm_exports = (\<lambda>name args. Some (if name = ''spend'' then HostCall 5 args (\<lambda>_. Finish None)
       else HostCall 1 [I32 4, I32 4] (\<lambda>_. Finish (Some (I32 0))))),
     operation = op, user_nonce = [], instance_user_key = []\<rparr>, world = demo_world\<rparr>"

lemma demo_host_keeps: "host_keeps demo_ocalls (\<lambda>h. h)"
  by (simp add: host_keeps_def demo_ocalls_def)

lemma query_is_read_only_witness:
  "host (world (snd (invoke_export (externals demo_prims demo_codecs demo_query_codecs demo_keychain demo_ocalls list_mem 1)
     ''query'' [] (demo_machine OpQuery)))) = Map.empty"
  using query_is_read_only [OF demo_host_keeps, of "demo_machine OpQuery" demo_prims demo_codecs demo_query_codecs
      demo_keychain list_mem 1 "''query''" "[]"]
  by (simp add: demo_machine_def demo_world_def prod_eq_iff)

lemma contract_isolation_witness:
  "host (world (snd (invoke_export (externals demo_prims demo_codecs demo_query_codecs demo_keychain demo_ocalls list_mem 1)
     ''handle'' [] (demo_machine OpHandle)))) [1, 2, 3] = None"
proof -
  have "length (field_name_digest demo_prims k [7]) = 32" for k
    using demo_prims_ok by (simp add: field_name_digest_def sha_256_def prims_ok_def)
  then have "[1, 2, 3] \<noteq> field_name_digest demo_prims k (instance_key (inst (demo_machine OpHandle)))" for k
    by (auto simp: demo_machine_def dest: arg_cong [of _ _ length])
  then show ?thesis
    using contract_isolation [OF demo_host_keeps, of demo_prims demo_codecs demo_query_codecs
      demo_keychain list_mem 1 "''handle''" "[]" "demo_machine OpHandle"]
    by (simp add: demo_machine_def demo_world_def prod_eq_iff)
qed

lemma run_keeps_buffers_witness:
  "bufs_ok (bufs (world (snd (invoke_export
     (externals demo_prims demo_codecs demo_query_codecs demo_keychain demo_ocalls list_mem 1)
     ''handle'' [] (demo_machine OpHandle)))))"
  using run_keeps_buffers [of demo_ocalls "demo_machine OpHandle" demo_prims demo_codecs demo_query_codecs
      demo_keychain list_mem 1 "''handle''" "[]"] demo_alloc_ok
  by (simp add: demo_machine_def demo_world_def demo_ocalls_def bufs_ok_def prod_eq_iff)

lemma run_within_gas_witness:
  "case invoke_export (externals demo_prims demo_codecs demo_query_codecs demo_keychain demo_ocalls list_mem 1)
     ''spend'' [I32 10] (demo_machine OpHandle) of (r, s) \<Rightarrow> r = Ok None \<and> gas_used (inst s) = 10 \<and> gas_limit (inst s) = 100"
proof -
  let ?s = "(demo_machine OpHandle)\<lparr>inst := (inst (demo_machine OpHandle))\<lparr>gas_used := 10\<rparr>\<rparr>"
  have run: "invoke_export (externals demo_prims demo_codecs demo_query_codecs demo_keychain demo_ocalls list_mem 1)
      ''spend'' [I32 10] (demo_machine OpHandle) = (Ok None, ?s)"
    by (simp add: invoke_export_def invoke_index_def host_function_of_def nth_checked_def gas_index_def use_gas_def
        check_gas_usage_def is_gas_depleted_def saturating_add_def catch_err_def demo_machine_def word_less_nat_alt)
  have "\<not> is_gas_depleted (inst (demo_machine OpHandle))"
    by (simp add: is_gas_depleted_def demo_machine_def saturating_add_def)
  then show ?thesis
    using run_within_gas [OF _ run] unfolding run by (simp add: demo_machine_def)
qed

lemma region_write_read_witness:
  "extract_vector_inner list_mem
     (fst (write_to_allocated_memory_inner list_mem [0, 0, 0, 0, 16, 0, 0, 0, 4, 0, 0, 0, 2, 0, 0, 0, 7, 8, 9, 9] [1, 2, 3] 4)) 4
     = Some [1, 2, 3]"
proof -
  let ?m = "[0, 0, 0, 0, 16, 0, 0, 0, 4, 0, 0, 0, 2, 0, 0, 0, 7, 8, 9, 9] :: bytes"
  let ?m' = "[0, 0, 0, 0, 16, 0, 0, 0, 4, 0, 0, 0, 3, 0, 0, 0, 1, 2, 3, 9] :: bytes"
  have get: "mem_get_value list_mem ?m 4 = Some 16" "mem_get_value list_mem ?m 8 = Some 4"
    by (simp_all add: mem_get_value_def list_mem_def from_le_def from_be_def)
  then have run: "write_to_allocated_memory_inner list_mem ?m [1, 2, 3] 4 = (?m', Some 4)"
    by (simp add: write_to_allocated_memory_inner_def mem_set_value_def list_mem_def to_le_def to_be_numeral word_less_nat_alt)
  show ?thesis
    using region_write_read [OF list_mem_ok _ _ get(1) _ run] by (simp add: run)
qed

end
