(* ===== verification/Contract_Ops.thy ===== *)
theory Contract_Ops
  imports Wasm_Runtime
begin

text \<open>
  Running a contract (\<open>wasm/contract_operations.rs\<close>, \<open>wasm/memory.rs\<close>,
  \<open>results.rs\<close>, and the entry points of \<open>exports.rs\<close>): parsing and checking the
  inputs, starting the engine, calling the contract and encrypting its output.
  Everything the enclave links (interpreter, crypto, encodings, host) is one
  record \<open>linked\<close>.
\<close>

section \<open>The linked libraries\<close>

text \<open>parity-wasm, pwasm-utils and wasmi, as far as a module is prepared with them.\<close>

record ('pm, 'wm, 'mi, 'm) wasm_lib =
  deserialize_buffer :: "bytes \<Rightarrow> 'pm option"
  memory_section :: "'pm \<Rightarrow> (u32 \<times> u32 option) list option"
  set_memory_entries :: "(u32 \<times> u32 option) list \<Rightarrow> 'pm \<Rightarrow> 'pm"
  inject_gas_counter :: "'pm \<Rightarrow> rules_set \<Rightarrow> 'pm option"
  from_parity_wasm_module :: "'pm \<Rightarrow> 'wm option"
  deny_floating_point :: "'wm \<Rightarrow> bool"
  module_instance_new :: "'wm \<Rightarrow> (string \<Rightarrow> (nat \<times> bool \<times> nat) option) \<Rightarrow> 'mi option"
  has_start :: "'mi \<Rightarrow> bool"
  exported_memory :: "'mi \<Rightarrow> 'm option"
  instance_exports :: "'mi \<Rightarrow> string \<Rightarrow> RuntimeValue list \<Rightarrow> 'm wasm option"

record ('pm, 'wm, 'mi, 'm, 'h) linked =
  crypto :: prims
  sigs :: sig_prims
  codec :: codecs
  query_codec :: query_codecs
  keys :: Keychain
  ocall :: "'h ocalls"
  mem_ops :: "'m memops"
  lib :: "('pm, 'wm, 'mi, 'm) wasm_lib"
  nesting :: nat
  ocall_allocate :: "bytes \<Rightarrow> 'h \<Rightarrow> (bool \<times> u64) \<times> 'h"

section \<open>memory.rs\<close>

definition MAXIMUM_ALLOWED_PAGES :: u32 where
  "MAXIMUM_ALLOWED_PAGES = 192"

definition validate_memory :: "('pm, 'wm, 'mi, 'm) wasm_lib \<Rightarrow> 'pm \<Rightarrow> 'pm enclave_result" where
  "validate_memory l module =
     res_bind (ok_or CannotInitializeWasmMemory (memory_section l module)) (\<lambda>entries.
     if length entries \<noteq> 1 then Err CannotInitializeWasmMemory
     else (case entries of
         [] \<Rightarrow> Err CannotInitializeWasmMemory
       | (requested_initial_pages, _) # _ \<Rightarrow>
           if requested_initial_pages > MAXIMUM_ALLOWED_PAGES then Err CannotInitializeWasmMemory
           else Ok (set_memory_entries l [(requested_initial_pages, Some MAXIMUM_ALLOWED_PAGES)] module)))"

section \<open>contract_operations.rs\<close>

definition start_engine ::
  "('pm, 'wm, 'mi, 'm) wasm_lib \<Rightarrow> u64 \<Rightarrow> bytes \<Rightarrow> ContractKey \<Rightarrow> ContractOperation \<Rightarrow> IoNonce \<Rightarrow> bytes
     \<Rightarrow> 'm ContractInstance enclave_result" where
  "start_engine l limit code key op n pk =
     res_bind (ok_or InvalidWasm (deserialize_buffer l code)) (\<lambda>p_module.
     res_bind (validate_memory l p_module) (\<lambda>p_module.
     (let wasm_costs = default_costs
      in res_bind (ok_or FailedGasMeteringInjection (inject_gas_counter l p_module (gas_rules wasm_costs))) (\<lambda>contract_module.
         res_bind (ok_or InvalidWasm (from_parity_wasm_module l contract_module)) (\<lambda>module.
         if \<not> deny_floating_point l module then Err WasmModuleWithFP
         else res_bind (ok_or InvalidWasm (module_instance_new l module resolve_func)) (\<lambda>module_instance.
              if has_start l module_instance then Err WasmModuleWithStart
              else contract_instance_new (exported_memory l module_instance) (instance_exports l module_instance)
                     limit wasm_costs key op n pk))))))"

text \<open>
  What the three operations do with a started engine: write the inputs to its
  memory, call the contract, read and encrypt the output. The gas used inside
  the interpreter is reported once the contract was called.
\<close>

primrec write_all :: "'m memops \<Rightarrow> ('m, 'h) externals_fn \<Rightarrow> bytes list \<Rightarrow> ('m, 'h, u32 list) rt" where
  "write_all mo ext [] = ret []"
| "write_all mo ext (b # bs) =
     and_then (write_to_memory mo ext b) (\<lambda>ptr. and_then (write_all mo ext bs) (\<lambda>ptrs. ret (ptr # ptrs)))"

definition engine_session ::
  "('pm, 'wm, 'mi, 'm, 'h) linked \<Rightarrow> 'm ContractInstance \<Rightarrow> bytes list \<Rightarrow> string \<Rightarrow> CanonicalAddr \<Rightarrow> u64 \<Rightarrow>
   'h world \<Rightarrow> (bytes enclave_result \<times> u64) \<times> 'h world" where
  "engine_session su ci inputs name addr used w =
     (let ext = externals (crypto su) (codec su) (query_codec su) (keys su) (ocall su) (mem_ops su) (nesting su)
      in case write_all (mem_ops su) ext inputs \<lparr>inst = ci, world = w\<rparr> of
           (Err e, s) \<Rightarrow> ((Err (enclave_error_of e), used), world s)
         | (Panicked, s) \<Rightarrow> ((Panicked, used), world s)
         | (Ok ptrs, s) \<Rightarrow>
             (case and_then (engine_call ext name ptrs) (\<lambda>vec_ptr.
                   and_then (catch_err enclave_error_of (extract_vector (mem_ops su) vec_ptr)) (\<lambda>output.
                   lift (encrypt_output (crypto su) (codec su) (keys su) output (user_nonce ci) (instance_user_key ci) addr))) s of
                (Ok output, s') \<Rightarrow> ((Ok output, gas_used (inst s')), world s')
              | (Err e, s') \<Rightarrow> ((Err e, gas_used (inst s')), world s')
              | (Panicked, s') \<Rightarrow> ((Panicked, used), world s')))"

definition refuse :: "u64 \<Rightarrow> 'a enclave_result \<Rightarrow> 'h world \<Rightarrow> ('b enclave_result \<times> u64) \<times> 'h world" where
  "refuse used r w = (((case r of Err e \<Rightarrow> Err e | _ \<Rightarrow> Panicked), used), w)"

subsection \<open>init\<close>

record InitSuccess =
  init_output :: bytes
  init_contract_key :: ContractKey

text \<open>The checks before the contract runs: the started engine and the inputs to pass.\<close>

definition init_checks ::
  "('pm, 'wm, 'mi, 'm, 'h) linked \<Rightarrow> u64 \<Rightarrow> bytes \<Rightarrow> bytes \<Rightarrow> bytes \<Rightarrow> bytes
     \<Rightarrow> ('m ContractInstance \<times> bytes list \<times> CanonicalAddr) enclave_result" where
  "init_checks su limit code env m sig_info =
     res_bind (ok_or FailedToDeserialize (parse_env (codec su) env)) (\<lambda>parsed_env.
     res_bind (ok_or FailedToDeserialize (from_human (codec su) (address (contract parsed_env)))) (\<lambda>addr.
     res_bind (generate_encryption_key (crypto su) (codec su) (keys su) parsed_env code addr) (\<lambda>key.
     res_bind (ok_or FailedToDeserialize (parse_sig_info (codec su) sig_info)) (\<lambda>parsed_sig_info.
     res_bind (from_slice m) (\<lambda>secret_msg.
     res_bind (verify_params (crypto su) (sigs su) (codec su) (keys su) parsed_sig_info parsed_env secret_msg) (\<lambda>_.
     res_bind (decrypt (crypto su) (keys su) secret_msg) (\<lambda>decrypted_msg.
     res_bind (validate_msg (crypto su) (codec su) decrypted_msg code) (\<lambda>validated_msg.
     res_bind (start_engine (lib su) limit code key OpInit (nonce secret_msg) (user_public_key secret_msg)) (\<lambda>ci.
     res_bind (ok_or FailedToSerialize (print_env (codec su)
       (parsed_env\<lparr>contract_code_hash := hex_encode (codec su) (calc_contract_hash (crypto su) code)\<rparr>))) (\<lambda>new_env.
     Ok (ci, [new_env, validated_msg], addr)))))))))))"

definition contract_init ::
  "('pm, 'wm, 'mi, 'm, 'h) linked \<Rightarrow> u64 \<Rightarrow> u64 \<Rightarrow> bytes \<Rightarrow> bytes \<Rightarrow> bytes \<Rightarrow> bytes \<Rightarrow>
   'h world \<Rightarrow> (InitSuccess enclave_result \<times> u64) \<times> 'h world" where
  "contract_init su limit used code env m sig_info w =
     (case init_checks su limit code env m sig_info of
        Ok (ci, inputs, addr) \<Rightarrow>
          (case engine_session su ci inputs ''init'' addr used w of
             ((Ok output, used'), w') \<Rightarrow> ((Ok \<lparr>init_output = output, init_contract_key = instance_key ci\<rparr>, used'), w')
           | ((Err e, used'), w') \<Rightarrow> ((Err e, used'), w')
           | ((Panicked, used'), w') \<Rightarrow> ((Panicked, used'), w'))
      | r \<Rightarrow> refuse used r w)"

subsection \<open>handle\<close>

definition handle_checks ::
  "('pm, 'wm, 'mi, 'm, 'h) linked \<Rightarrow> u64 \<Rightarrow> bytes \<Rightarrow> bytes \<Rightarrow> bytes \<Rightarrow> bytes
     \<Rightarrow> ('m ContractInstance \<times> bytes list \<times> CanonicalAddr) enclave_result" where
  "handle_checks su limit code env m sig_info =
     res_bind (ok_or FailedToDeserialize (parse_env (codec su) env)) (\<lambda>parsed_env.
     res_bind (ok_or FailedToDeserialize (parse_sig_info (codec su) sig_info)) (\<lambda>parsed_sig_info.
     res_bind (from_slice m) (\<lambda>secret_msg.
     res_bind (verify_params (crypto su) (sigs su) (codec su) (keys su) parsed_sig_info parsed_env secret_msg) (\<lambda>_.
     res_bind (extract_contract_key (codec su) parsed_env) (\<lambda>key.
     res_bind (from_slice m) (\<lambda>secret_msg.
     res_bind (decrypt (crypto su) (keys su) secret_msg) (\<lambda>decrypted_msg.
     res_bind (validate_msg (crypto su) (codec su) decrypted_msg code) (\<lambda>validated_msg.
     res_bind (ok_or FailedToDeserialize (from_human (codec su) (address (contract parsed_env)))) (\<lambda>addr.
     res_bind (validate_contract_key (crypto su) (keys su) key addr code) (\<lambda>valid.
     if \<not> valid then Err FailedContractAuthentication
     else
       res_bind (start_engine (lib su) limit code key OpHandle (nonce secret_msg) (user_public_key secret_msg)) (\<lambda>ci.
       res_bind (ok_or FailedToSerialize (print_env (codec su)
         (parsed_env\<lparr>contract_code_hash := hex_encode (codec su) (calc_contract_hash (crypto su) code)\<rparr>))) (\<lambda>new_env.
       Ok (ci, [new_env, validated_msg], addr)))))))))))))"

definition contract_handle ::
  "('pm, 'wm, 'mi, 'm, 'h) linked \<Rightarrow> u64 \<Rightarrow> u64 \<Rightarrow> bytes \<Rightarrow> bytes \<Rightarrow> bytes \<Rightarrow> bytes \<Rightarrow>
   'h world \<Rightarrow> (bytes enclave_result \<times> u64) \<times> 'h world" where
  "contract_handle su limit used code env m sig_info w =
     (case handle_checks su limit code env m sig_info of
        Ok (ci, inputs, addr) \<Rightarrow> engine_session su ci inputs ''handle'' addr used w
      | r \<Rightarrow> refuse used r w)"

subsection \<open>query\<close>

definition query_checks ::
  "('pm, 'wm, 'mi, 'm, 'h) linked \<Rightarrow> u64 \<Rightarrow> bytes \<Rightarrow> bytes \<Rightarrow> ('m ContractInstance \<times> bytes list) enclave_result" where
  "query_checks su limit code m =
     (if length m < CONTRACT_KEY_LENGTH then Err FailedFunctionCall
      else
        (let key = take CONTRACT_KEY_LENGTH m; m = drop CONTRACT_KEY_LENGTH m
         in res_bind (from_slice m) (\<lambda>secret_msg.
            res_bind (decrypt (crypto su) (keys su) secret_msg) (\<lambda>decrypted_msg.
            res_bind (validate_msg (crypto su) (codec su) decrypted_msg code) (\<lambda>validated_msg.
            res_bind (start_engine (lib su) limit code key OpQuery (nonce secret_msg) (user_public_key secret_msg)) (\<lambda>ci.
            Ok (ci, [validated_msg])))))))"

definition contract_query ::
  "('pm, 'wm, 'mi, 'm, 'h) linked \<Rightarrow> u64 \<Rightarrow> u64 \<Rightarrow> bytes \<Rightarrow> bytes \<Rightarrow> 'h world \<Rightarrow> (bytes enclave_result \<times> u64) \<times> 'h world" where
  "contract_query su limit used code m w =
     (case query_checks su limit code m of
        Ok (ci, inputs) \<Rightarrow> engine_session su ci inputs ''query'' [] used w
      | r \<Rightarrow> refuse used r w)"

section \<open>results.rs\<close>

datatype InitResult = InitOk u64 ContractKey | InitFailure EnclaveError
datatype HandleResult = HandleOk u64 | HandleFailure EnclaveError
datatype QueryResult = QueryOk u64 | QueryFailure EnclaveError

text \<open>The output is copied to the host; \<open>None\<close> if that call fails.\<close>

definition to_user_space :: "('pm, 'wm, 'mi, 'm, 'h) linked \<Rightarrow> bytes \<Rightarrow> 'h world \<Rightarrow> u64 option \<times> 'h world" where
  "to_user_space su output w =
     (case ocall_allocate su output (host w) of ((ok, buf), h) \<Rightarrow>
      ((if ok then Some buf else None), w\<lparr>host := h\<rparr>))"

definition result_init_success_to_initresult ::
  "('pm, 'wm, 'mi, 'm, 'h) linked \<Rightarrow> InitSuccess enclave_result \<Rightarrow> 'h world \<Rightarrow> InitResult option \<times> 'h world" where
  "result_init_success_to_initresult su result w =
     (case result of
        Ok r \<Rightarrow> (case to_user_space su (init_output r) w of
            (Some buf, w') \<Rightarrow> (Some (InitOk buf (init_contract_key r)), w')
          | (None, w') \<Rightarrow> (Some (InitFailure (FailedOcall 0)), w'))
      | Err err \<Rightarrow> (Some (InitFailure err), w)
      | Panicked \<Rightarrow> (None, w))"

definition result_handle_success_to_handleresult ::
  "('pm, 'wm, 'mi, 'm, 'h) linked \<Rightarrow> bytes enclave_result \<Rightarrow> 'h world \<Rightarrow> HandleResult option \<times> 'h world" where
  "result_handle_success_to_handleresult su result w =
     (case result of
        Ok output \<Rightarrow> (case to_user_space su output w of
            (Some buf, w') \<Rightarrow> (Some (HandleOk buf), w')
          | (None, w') \<Rightarrow> (Some (HandleFailure (FailedOcall 0)), w'))
      | Err err \<Rightarrow> (Some (HandleFailure err), w)
      | Panicked \<Rightarrow> (None, w))"

definition result_query_success_to_queryresult ::
  "('pm, 'wm, 'mi, 'm, 'h) linked \<Rightarrow> bytes enclave_result \<Rightarrow> 'h world \<Rightarrow> QueryResult option \<times> 'h world" where
  "result_query_success_to_queryresult su result w =
     (case result of
        Ok output \<Rightarrow> (case to_user_space su output w of
            (Some buf, w') \<Rightarrow> (Some (QueryOk buf), w')
          | (None, w') \<Rightarrow> (Some (QueryFailure (FailedOcall 0)), w'))
      | Err err \<Rightarrow> (Some (QueryFailure err), w)
      | Panicked \<Rightarrow> (None, w))"

section \<open>exports.rs: entry points\<close>

text \<open>
  The surroundings of one ecall: the errors, if any, of registering and restoring
  the memory reserve, whether an allocation failed, and whether the pointer for the
  used gas is acceptable.
\<close>

record ecall_env =
  ee_register :: "EnclaveError option"
  ee_restore :: "EnclaveError option"
  ee_oom :: bool
  ee_gas_ptr_ok :: bool

text \<open>A buffer argument: \<open>None\<close> is the null pointer.\<close>

definition validate_const_ptr :: "bytes option \<Rightarrow> bool" where
  "validate_const_ptr b = (case b of None \<Rightarrow> False | Some bs \<Rightarrow> bs \<noteq> [])"

text \<open>
  The frame the three entry points share, in the order of the code: the guard of
  the recursion depth (released on every return), the memory reserve, the
  pointer checks, and the computation with panics caught (result \<open>None\<close>).
\<close>

definition ecall_frame ::
  "ecall_env \<Rightarrow> (EnclaveError \<Rightarrow> 'r) \<Rightarrow> bytes option list \<Rightarrow> u64 \<Rightarrow> u64 \<Rightarrow>
   ('h world \<Rightarrow> ('r option \<times> u64) \<times> 'h world) \<Rightarrow> 'h world \<Rightarrow> ('r \<times> u64) \<times> 'h world" where
  "ecall_frame ee failure ptrs limit used body w =
     (case increment (depth w) of
        (Ok _, d) \<Rightarrow>
          (let release = (\<lambda>r. case r of (x, w') \<Rightarrow> (x, w'\<lparr>depth := decrement (depth w')\<rparr>));
               w1 = w\<lparr>depth := d\<rparr>
           in release
             (case ee_register ee of
                Some err \<Rightarrow> ((failure err, used), w1)
              | None \<Rightarrow>
                  if \<not> ee_gas_ptr_ok ee \<or> \<not> list_all validate_const_ptr ptrs then ((failure FailedFunctionCall, used), w1)
                  else
                    (case body w1 of ((result, used'), w2) \<Rightarrow>
                     (case ee_restore ee of
                        Some err \<Rightarrow> ((failure err, used'), w2)
                      | None \<Rightarrow>
                          (case result of
                             Some res \<Rightarrow> ((res, used'), w2)
                           | None \<Rightarrow> ((failure (if ee_oom ee then OutOfMemory else Panic), limit div 2), w2))))))
      | (Err err, d) \<Rightarrow> ((failure err, used), w)
      | (Panicked, d) \<Rightarrow> ((failure Panic, used), w))"

definition ecall_init ::
  "('pm, 'wm, 'mi, 'm, 'h) linked \<Rightarrow> ecall_env \<Rightarrow> u64 \<Rightarrow> u64 \<Rightarrow> bytes option \<Rightarrow> bytes option \<Rightarrow> bytes option \<Rightarrow> bytes option
     \<Rightarrow> 'h world \<Rightarrow> (InitResult \<times> u64) \<times> 'h world" where
  "ecall_init su ee limit used code env m sig_info =
     ecall_frame ee InitFailure [env, m, code, sig_info] limit used (\<lambda>w.
       case contract_init su limit used (the code) (the env) (the m) (the sig_info) w of
         ((r, used'), w1) \<Rightarrow>
           (case result_init_success_to_initresult su r w1 of (res, w2) \<Rightarrow> ((res, used'), w2)))"

definition ecall_handle ::
  "('pm, 'wm, 'mi, 'm, 'h) linked \<Rightarrow> ecall_env \<Rightarrow> u64 \<Rightarrow> u64 \<Rightarrow> bytes option \<Rightarrow> bytes option \<Rightarrow> bytes option \<Rightarrow> bytes option
     \<Rightarrow> 'h world \<Rightarrow> (HandleResult \<times> u64) \<times> 'h world" where
  "ecall_handle su ee limit used code env m sig_info =
     ecall_frame ee HandleFailure [env, m, code, sig_info] limit used (\<lambda>w.
       case contract_handle su limit used (the code) (the env) (the m) (the sig_info) w of
         ((r, used'), w1) \<Rightarrow>
           (case result_handle_success_to_handleresult su r w1 of (res, w2) \<Rightarrow> ((res, used'), w2)))"

definition ecall_query ::
  "('pm, 'wm, 'mi, 'm, 'h) linked \<Rightarrow> ecall_env \<Rightarrow> u64 \<Rightarrow> u64 \<Rightarrow> bytes option \<Rightarrow> bytes option
     \<Rightarrow> 'h world \<Rightarrow> (QueryResult \<times> u64) \<times> 'h world" where
  "ecall_query su ee limit used code m =
     ecall_frame ee QueryFailure [m, code] limit used (\<lambda>w.
       case contract_query su limit used (the code) (the m) w of
         ((r, used'), w1) \<Rightarrow>
           (case result_query_success_to_queryresult su r w1 of (res, w2) \<Rightarrow> ((res, used'), w2)))"

section \<open>Sessions\<close>

lemma start_engine_Ok:
  assumes "start_engine l limit code key op n pk = Ok ci"
  shows "operation ci = op \<and> instance_key ci = key \<and> gas_limit ci = limit \<and> gas_used ci = 0 \<and>
    gas_used_externally ci = 0 \<and> user_nonce ci = n \<and> instance_user_key ci = pk"
  using assms by (auto simp: start_engine_def contract_instance_new_def Let_def res_simps split: if_splits)

context host_frame
begin

lemma write_all_keeps:
  "(\<And>i args. keeps (frame op ck W) (ext i args)) \<Longrightarrow> keeps (frame op ck W) (write_all mo ext bs)"
  by (induction bs) (auto intro!: keeps_intro keeps_write_to_memory)

lemma session_keeps:
  fixes su :: "('pm, 'wm, 'mi, 'm, 'h) linked"
  assumes "crypto su = p" and "codec su = cd" and "query_codec su = qc" and "keys su = kc" and "ocall su = oc"
    and "operation ci = op" and "instance_key ci = ck" and "W w"
    and run: "engine_session su ci inputs name addr used w = (r, w')"
  shows "W w'"
proof -
  let ?ext = "externals p cd qc kc oc (mem_ops su) (nesting su)"
  let ?tail = "\<lambda>ptrs. and_then (engine_call ?ext name ptrs) (\<lambda>vec_ptr.
    and_then (catch_err enclave_error_of (extract_vector (mem_ops su) vec_ptr)) (\<lambda>output.
    lift (encrypt_output p cd kc output (user_nonce ci) (instance_user_key ci) addr)))"
  have init: "frame op ck W \<lparr>inst = ci, world = w\<rparr>"
    using assms(6-8) by (simp add: frame_def)
  have tail: "keeps (frame op ck W) (?tail ptrs)" for ptrs
    by (intro keeps_intro keeps_engine_call externals_keep)
  obtain q s where q: "write_all (mem_ops su) ?ext inputs \<lparr>inst = ci, world = w\<rparr> = (q, s)"
    by (metis prod.exhaust)
  have s: "frame op ck W s"
    by (rule keepsD [OF write_all_keeps [OF externals_keep] q init])
  have "\<exists>s' :: ('m, 'h) machine. frame op ck W s' \<and> world s' = w'"
  proof (cases q)
    case (Ok ptrs)
    obtain q' s' where q': "?tail ptrs s = (q', s')"
      by (metis prod.exhaust)
    have "frame op ck W s'"
      by (rule keepsD [OF tail q' s])
    moreover have "world s' = w'"
      using run Ok q q' by (cases q') (simp_all add: engine_session_def assms(1-5))
    ultimately show ?thesis
      by blast
  qed (use run q s in \<open>auto simp: engine_session_def assms(1-5)\<close>)
  then show ?thesis
    by (auto simp: frame_def)
qed

end

lemma session_gas:
  assumes "engine_session su ci inputs name addr used w = ((Ok output, u), w')" and "\<not> is_gas_depleted ci"
  shows "u \<le> gas_limit ci"
proof -
  let ?ext = "externals (crypto su) (codec su) (query_codec su) (keys su) (ocall su) (mem_ops su) (nesting su)"
  let ?tail = "\<lambda>ptrs. and_then (engine_call ?ext name ptrs) (\<lambda>vec_ptr.
    and_then (catch_err enclave_error_of (extract_vector (mem_ops su) vec_ptr)) (\<lambda>output.
    lift (encrypt_output (crypto su) (codec su) (keys su) output (user_nonce ci) (instance_user_key ci) addr)))"
  have writes: "ok_keeps (within_gas (gas_limit ci)) (write_all (mem_ops su) ?ext inputs)"
    by (induction inputs) (auto intro!: ok_keeps_intro ok_keeps_write_to_memory ok_keeps_externals)
  have tail: "ok_keeps (within_gas (gas_limit ci)) (?tail ptrs)" for ptrs
    unfolding engine_call_def by (intro ok_keeps_intro ok_keeps_invoke_export ok_keeps_externals)
  obtain ptrs s s' where run: "write_all (mem_ops su) ?ext inputs \<lparr>inst = ci, world = w\<rparr> = (Ok ptrs, s)"
    "?tail ptrs s = (Ok output, s')" "u = gas_used (inst s')"
    using assms(1) by (auto simp: engine_session_def Let_def split: prod.splits res.splits)
  have "within_gas (gas_limit ci) \<lparr>inst = ci, world = w\<rparr>"
    using assms(2) by (simp add: within_gas_def)
  then have "within_gas (gas_limit ci) s'"
    by (intro ok_keepsD [OF tail run(2)] ok_keepsD [OF writes run(1)])
  then have "min (2 ^ 64 - 1) (unat (gas_used (inst s'))) \<le> unat (gas_limit ci)"
    by (simp add: within_gas_nat min_def split: if_splits)
  moreover have "unat (gas_used (inst s')) \<le> 2 ^ 64 - 1"
    using unat_bound [of "gas_used (inst s')"] by simp
  ultimately show ?thesis
    using run(3) by (simp add: word_le_nat_alt min_def split: if_splits)
qed

lemma engine_gas_fresh: "gas_used ci = 0 \<Longrightarrow> gas_used_externally ci = 0 \<Longrightarrow> \<not> is_gas_depleted ci"
  by (simp add: is_gas_depleted_def saturating_add_def)

section \<open>Properties of the operations\<close>

lemma handle_checks_Ok:
  assumes "handle_checks su limit code env m sig_info = Ok (ci, inputs, addr)"
  obtains env' sig_info' sm key plain_msg
  where "parse_env (codec su) env = Some env'" and "parse_sig_info (codec su) sig_info = Some sig_info'"
    and "from_slice m = Ok sm"
    and "verify_params (crypto su) (sigs su) (codec su) (keys su) sig_info' env' sm = Ok ()"
    and "extract_contract_key (codec su) env' = Ok key" and "from_human (codec su) (address (contract env')) = Some addr"
    and "validate_contract_key (crypto su) (keys su) key addr code = Ok True"
    and "decrypt (crypto su) (keys su) sm = Ok plain_msg" and "is_ok (validate_msg (crypto su) (codec su) plain_msg code)"
    and "start_engine (lib su) limit code key OpHandle (nonce sm) (user_public_key sm) = Ok ci"
  using assms that by (auto simp: handle_checks_def res_simps split: if_splits)

text \<open>
  C1: the contract of \<open>handle\<close> runs only on an authenticated call. Unless the
  message is verified against the signed transaction or the calling contract,
  the contract key authenticates this code at this address, and the decrypted
  message carries the hash of this code, the call is refused: no ocall is made,
  the world and the reported gas stay as they are.
\<close>

theorem handle_authenticated:
  assumes "contract_handle su limit used code env m sig_info w = ((r, used'), w')"
    and effect: "is_ok r \<or> used' \<noteq> used \<or> w' \<noteq> w"
  shows "\<exists>env' sig_info' sm key addr plain_msg.
    parse_env (codec su) env = Some env' \<and> parse_sig_info (codec su) sig_info = Some sig_info' \<and> from_slice m = Ok sm \<and>
    verify_params (crypto su) (sigs su) (codec su) (keys su) sig_info' env' sm = Ok () \<and>
    extract_contract_key (codec su) env' = Ok key \<and> from_human (codec su) (address (contract env')) = Some addr \<and>
    validate_contract_key (crypto su) (keys su) key addr code = Ok True \<and>
    decrypt (crypto su) (keys su) sm = Ok plain_msg \<and> is_ok (validate_msg (crypto su) (codec su) plain_msg code)"
proof -
  obtain ci inputs addr where "handle_checks su limit code env m sig_info = Ok (ci, inputs, addr)"
    using assms by (auto simp: contract_handle_def refuse_def split: res.splits prod.splits)
  then show ?thesis
    by (rule handle_checks_Ok) blast
qed

lemma handle_fields:
  assumes "host_keeps (ocall su) view" and "contract_handle su limit used code env m sig_info w = (r, w')"
    and "parse_env (codec su) env = Some env'" and "extract_contract_key (codec su) env' = Ok key"
    and "\<And>k. field \<noteq> field_name_digest (crypto su) k key"
  shows "view (host w') field = view (host w) field"
proof (cases "handle_checks su limit code env m sig_info")
  case (Ok t)
  obtain ci inputs addr where t: "t = (ci, inputs, addr)"
    by (cases t)
  have "operation ci = OpHandle \<and> instance_key ci = key"
    by (rule handle_checks_Ok [OF Ok [unfolded t]], drule start_engine_Ok) (use assms(3,4) in simp)
  then have op: "operation ci = OpHandle" and key: "instance_key ci = key"
    by simp_all
  have run: "engine_session su ci inputs ''handle'' addr used w = (r, w')"
    using assms(2) Ok t by (simp add: contract_handle_def)
  have "host_keeps (ocall su) view \<longrightarrow> db_inv view (foreign_fields (crypto su) key (view (host w))) w'"
    by (rule isolated.session_keeps [OF refl refl refl refl refl op key _ run])
      (simp add: db_inv_def foreign_fields_def)
  then show ?thesis
    using assms(1,5) by (simp add: db_inv_def foreign_fields_def)
qed (use assms(2) in \<open>simp_all add: contract_handle_def refuse_def\<close>)

text \<open>
  C2: \<open>handle\<close> changes only fields of the contract whose key was authenticated,
  whatever the contract's code does.
\<close>

theorem handle_isolated:
  assumes "host_keeps (ocall su) view" and "contract_handle su limit used code env m sig_info w = (r, w')"
    and "parse_env (codec su) env = Some env'" and "extract_contract_key (codec su) env' = Ok key"
    and "\<And>k. field \<noteq> field_name_digest (crypto su) k key"
  shows "view (host w') field = view (host w) field"
  by (rule handle_fields [OF assms])

lemma query_view:
  assumes "host_keeps (ocall su) view" and "contract_query su limit used code m w = (r, w')"
  shows "view (host w') = view (host w)"
proof (cases "query_checks su limit code m")
  case (Ok t)
  obtain ci inputs where t: "t = (ci, inputs)"
    by (cases t)
  have op: "operation ci = OpQuery"
    using Ok t by (auto simp: query_checks_def Let_def res_simps split: if_splits dest!: start_engine_Ok)
  have run: "engine_session su ci inputs ''query'' [] used w = (r, w')"
    using assms(2) Ok t by (simp add: contract_query_def)
  have "host_keeps (ocall su) view \<longrightarrow> db_inv view (\<lambda>db'. db' = view (host w)) w'"
    by (rule read_only.session_keeps [OF refl refl refl refl refl op refl _ run]) (simp add: db_inv_def)
  then show ?thesis
    using assms(1) by (simp add: db_inv_def)
qed (use assms(2) in \<open>simp_all add: contract_query_def refuse_def\<close>)

text \<open>C3: \<open>query\<close> leaves the database of the host as it is, whatever the contract's code does.\<close>

theorem query_leaves_state:
  assumes "host_keeps (ocall su) view" and "contract_query su limit used code m w = (r, w')"
  shows "view (host w') = view (host w)"
  by (rule query_view [OF assms])

lemma handle_used_gas:
  assumes "contract_handle su limit used code env m sig_info w = ((Ok output, u), w')"
  shows "u \<le> limit"
proof -
  obtain ci inputs addr where checks: "handle_checks su limit code env m sig_info = Ok (ci, inputs, addr)"
    and run: "engine_session su ci inputs ''handle'' addr used w = ((Ok output, u), w')"
    using assms by (auto simp: contract_handle_def refuse_def split: res.splits prod.splits)
  have "gas_limit ci = limit \<and> \<not> is_gas_depleted ci"
    by (rule handle_checks_Ok [OF checks], drule start_engine_Ok) (simp add: engine_gas_fresh)
  then show ?thesis
    using session_gas [OF run] by simp
qed

text \<open>C4: a successful \<open>handle\<close> reports gas within the limit of the call.\<close>

theorem handle_gas_within_limit:
  assumes "contract_handle su limit used code env m sig_info w = ((Ok output, u), w')"
  shows "u \<le> limit"
  by (rule handle_used_gas [OF assms])

text \<open>What every ocall keeps of the host's state, the three operations keep.\<close>

lemma operations_hosted:
  assumes "ocalls_keep (ocall su) P" and "P (host w)"
  shows "contract_init su limit used code env m sig_info w = (r, w') \<Longrightarrow> P (host w')"
    and "contract_handle su limit used code env m sig_info w = (r2, w') \<Longrightarrow> P (host w')"
    and "contract_query su limit used code m w = (r2, w') \<Longrightarrow> P (host w')"
proof -
  have session: "P (host w')" if "engine_session su ci inputs name addr used w = (r, w')" for ci inputs name addr r w'
    using hosted.session_keeps [OF refl refl refl refl refl refl refl _ that, of P] assms by simp
  show "contract_init su limit used code env m sig_info w = (r, w') \<Longrightarrow> P (host w')"
    using session assms(2) by (fastforce simp: contract_init_def refuse_def split: res.splits prod.splits)
  show "contract_handle su limit used code env m sig_info w = (r2, w') \<Longrightarrow> P (host w')"
    using assms(2) by (cases "handle_checks su limit code env m sig_info") (auto simp: contract_handle_def refuse_def dest: session)
  show "contract_query su limit used code m w = (r2, w') \<Longrightarrow> P (host w')"
    using assms(2) by (cases "query_checks su limit code m") (auto simp: contract_query_def refuse_def dest: session)
qed

section \<open>Entry points\<close>

text \<open>The message names the contract key to query with; nothing ties it to the code that runs.\<close>

lemma query_any_contract_key:
  assumes "length key = 64" and "from_slice m = Ok sm" and "decrypt (crypto su) (keys su) sm = Ok plain_msg"
    and "validate_msg (crypto su) (codec su) plain_msg code = Ok q"
    and "start_engine (lib su) limit code key OpQuery (nonce sm) (user_public_key sm) = Ok ci"
  shows "contract_query su limit used code (key @ m) w = engine_session su ci [q] ''query'' [] used w"
  using assms by (simp add: contract_query_def query_checks_def size_defs)

lemma query_db_safe:
  assumes "allocator_ok (enclave_alloc (ocall su))" and "db_safe d w"
    and "contract_query su limit used code m w = (r, w')"
  shows "db_safe d w'"
proof (cases "query_checks su limit code m")
  case (Ok t)
  obtain ci inputs where t: "t = (ci, inputs)"
    by (cases t)
  have run: "engine_session su ci inputs ''query'' [] used w = (r, w')"
    using assms(3) Ok t by (simp add: contract_query_def)
  have "allocator_ok (enclave_alloc (ocall su)) \<longrightarrow> db_safe d w'"
    by (rule buffers_safe.session_keeps [OF refl refl refl refl refl refl refl _ run]) (simp add: assms(2))
  then show ?thesis
    using assms(1) by simp
qed (use assms(2,3) in \<open>simp_all add: contract_query_def refuse_def\<close>)

lemma to_user_space_db_safe: "db_safe d w \<Longrightarrow> to_user_space su output w = (r, w') \<Longrightarrow> db_safe d w'"
  by (auto simp: to_user_space_def db_safe_def split: prod.splits)

lemma ecall_frame_safe:
  fixes w :: "'a world"
  assumes body: "\<And>w r w'. db_safe (d + 1) w \<Longrightarrow> body w = (r, w') \<Longrightarrow> db_safe (d + 1) w'"
    and "unat d \<le> 5" and "db_safe d w"
    and run: "ecall_frame ee failure ptrs limit used body w = (r, w')"
  shows "db_safe d w'"
proof (cases "increment (depth w)")
  case (Pair q d')
  show ?thesis
  proof (cases q)
    case (Ok u)
    have d': "d' = d + 1" "unat d < 5"
      using Ok Pair assms(2,3) increment_Ok [of d d'] by (auto simp: db_safe_def increment_def split: if_splits)
    then have w1: "db_safe (d + 1) (w\<lparr>depth := d'\<rparr>)"
      using assms(3) by (simp add: db_safe_def)
    have "decrement (d + 1) = d"
      using d' by (simp add: word_unat_eq_iff unat_decrement unat_add_fits)
    then have released: "db_safe d (v\<lparr>depth := decrement (depth v)\<rparr>)" if "db_safe (d + 1) v" for v :: "'a world"
      using that by (simp add: db_safe_def)
    obtain r2 w2 where r2: "body (w\<lparr>depth := d'\<rparr>) = (r2, w2)"
      by (metis prod.exhaust)
    have "db_safe (d + 1) w2"
      by (rule body [OF w1 r2])
    then show ?thesis
      using run Pair Ok r2 released [OF w1] released [of w2]
      by (auto simp: ecall_frame_def Let_def split: res.splits if_splits prod.splits option.splits)
  qed (use run Pair assms(3) in \<open>auto simp: ecall_frame_def\<close>)
qed

text \<open>
  C5: the entry point of queries and the recursion limit. Whatever the host
  and the contract do, the depth of nested computations is the same after the
  call as before it and the buffers stay consistent; at the limit the call fails
  with \<open>ExceededRecursionLimit\<close> and does nothing.
\<close>

theorem ecall_query_depth:
  assumes "allocator_ok (enclave_alloc (ocall su))" and "bufs_ok (bufs w)" and "depth w \<le> RECURSION_LIMIT"
    and "ecall_query su ee limit used code m w = ((r, u), w')"
  shows "depth w' = depth w \<and> bufs_ok (bufs w') \<and>
    (depth w = RECURSION_LIMIT \<longrightarrow> r = QueryFailure ExceededRecursionLimit \<and> u = used \<and> w' = w)"
proof -
  have limit: "unat (depth w) \<le> 5"
    using assms(3) by (simp add: RECURSION_LIMIT_def word_le_nat_alt)
  have "db_safe (depth w) w'"
  proof (rule ecall_frame_safe [OF _ limit _ assms(4) [unfolded ecall_query_def]])
    fix v x v'
    assume safe: "db_safe (depth w + 1) v"
      and run: "(case contract_query su limit used (the code) (the m) v of
         ((r, used'), w1) \<Rightarrow>
           (case result_query_success_to_queryresult su r w1 of (res, w2) \<Rightarrow> ((res, used'), w2))) = (x, v')"
    obtain q used' w1 where q: "contract_query su limit used (the code) (the m) v = ((q, used'), w1)"
      by (metis prod.exhaust)
    have "db_safe (depth w + 1) w1"
      by (rule query_db_safe [OF assms(1) safe q])
    then show "db_safe (depth w + 1) v'"
      using run q by (auto simp: result_query_success_to_queryresult_def split: res.splits prod.splits option.splits
          dest: to_user_space_db_safe)
  next
    show "db_safe (depth w) w"
      using assms(2) by (simp add: db_safe_def)
  qed
  moreover have "r = QueryFailure ExceededRecursionLimit \<and> u = used \<and> w' = w" if "depth w = RECURSION_LIMIT"
    using assms(4) that by (simp add: ecall_query_def ecall_frame_def increment_def)
  ultimately show ?thesis
    by (simp add: db_safe_def)
qed

text \<open>
  A panic inside the enclave does not escape. If the computation of a query
  panics the caller gets \<open>OutOfMemory\<close> or \<open>Panic\<close> and is charged half the limit.
\<close>

lemma ecall_query_panic:
  assumes "increment (depth w) = (Ok (), d)" and "ee_register ee = None" and "ee_restore ee = None"
    and "ee_gas_ptr_ok ee" and "code = Some code'" and "m = Some m'" and "code' \<noteq> []" and "m' \<noteq> []"
    and "contract_query su limit used code' m' (w\<lparr>depth := d\<rparr>) = ((Panicked, used'), w1)"
  shows "fst (ecall_query su ee limit used code m w)
    = (QueryFailure (if ee_oom ee then OutOfMemory else Panic), limit div 2)"
  using assms by (simp add: ecall_query_def ecall_frame_def validate_const_ptr_def result_query_success_to_queryresult_def)

section \<open>A concrete enclave\<close>

text \<open>
  A contract whose \<open>allocate\<close> always returns the region at 4 and whose other
  exports return that region, so that the answer is the message it was sent.
\<close>

definition demo_lib :: "(unit, unit, unit, bytes) wasm_lib" where
  "demo_lib = \<lparr>deserialize_buffer = (\<lambda>code. Some ()), memory_section = (\<lambda>_. Some [(1, None)]),
     set_memory_entries = (\<lambda>es m. m), inject_gas_counter = (\<lambda>m rules. Some ()), from_parity_wasm_module = Some,
     deny_floating_point = (\<lambda>m. True), module_instance_new = (\<lambda>m res. Some ()), has_start = (\<lambda>m. False),
     exported_memory = (\<lambda>m. Some [0, 0, 0, 0, 16, 0, 0, 0, 4, 0, 0, 0, 0, 0, 0, 0, 0, 0, 0, 0]),
     instance_exports = (\<lambda>mi name args. Some (Finish (Some (I32 4))))\<rparr>"

definition demo_enclave :: "'h ocalls \<Rightarrow> (bytes \<Rightarrow> 'h \<Rightarrow> (bool \<times> u64) \<times> 'h) \<Rightarrow> (unit, unit, unit, bytes, 'h) linked" where
  "demo_enclave oc al = \<lparr>crypto = demo_prims, sigs = unary_prims,
     codec = demo_codecs\<lparr>parse_sig_info := (\<lambda>bs. Some (demo_sig_info\<lparr>callback_sig := Some bs\<rparr>))\<rparr>,
     query_codec = demo_query_codecs, keys = demo_keychain, ocall = oc, mem_ops = list_mem, lib = demo_lib,
     nesting = 1, ocall_allocate = al\<rparr>"

abbreviation demo_linked :: "(unit, unit, unit, bytes, bytes \<rightharpoonup> bytes) linked" where
  "demo_linked \<equiv> demo_enclave demo_ocalls (\<lambda>out h. ((True, 9), h))"

definition demo_call_msg :: bytes where
  "demo_call_msg = replicate 32 1 @ replicate 32 2 @ replicate 16 1 @ (99 # replicate 63 0) @ [65]"

definition demo_call_key :: bytes where
  "demo_call_key = replicate 32 5 @ replicate 32 8"

lemmas demo_linked_simps = demo_enclave_def demo_codecs_def demo_prims_def demo_keychain_def demo_env_def demo_sig_info_def
  demo_lib_def demo_call_msg_def demo_call_key_def

lemma demo_start:
  "start_engine (lib (demo_enclave oc al)) limit code key op n pk = Ok \<lparr>memory = [0, 0, 0, 0, 16, 0, 0, 0, 4, 0, 0, 0, 0, 0, 0, 0, 0, 0, 0, 0],
     gas_limit = limit, gas_used = 0, gas_used_externally = 0, gas_costs = default_costs, instance_key = key,
     wasm_exports = (\<lambda>name args. Some (Finish (Some (I32 4)))), operation = op, user_nonce = n, instance_user_key = pk\<rparr>"
  by (simp add: start_engine_def demo_enclave_def demo_lib_def validate_memory_def MAXIMUM_ALLOWED_PAGES_def
      contract_instance_new_def Let_def)

lemma demo_from_slice:
  "from_slice demo_call_msg = Ok \<lparr>nonce = replicate 32 1, user_public_key = replicate 32 2,
     msg = replicate 16 1 @ (99 # replicate 63 0) @ [65]\<rparr>"
  by (simp add: from_slice_Ok_iff to_vec_def demo_call_msg_def)

lemma demo_decrypt:
  "decrypt (crypto (demo_enclave oc al)) (keys (demo_enclave oc al)) \<lparr>nonce = replicate 32 1, user_public_key = replicate 32 2,
     msg = replicate 16 1 @ (99 # replicate 63 0) @ [65]\<rparr> = Ok ((99 # replicate 63 0) @ [65])"
  by (simp add: decrypt_def encryption_key_def calc_encryption_key_def get_consensus_io_exchange_keypair_def
      demo_enclave_def demo_keychain_def decrypt_siv_def aes_siv_decrypt_def demo_prims_def)

lemma every_other_zeros: "every_other (replicate (2 * n) x) = replicate n x"
  by (induction n) simp_all

lemma demo_validate:
  "validate_msg (crypto (demo_enclave oc al)) (codec (demo_enclave oc al)) ((99 # replicate 63 0) @ [65]) [99] = Ok [65]"
proof -
  have "every_other (99 # replicate 63 0) = 99 # replicate 31 (0 :: u8)"
  proof -
    have "replicate 63 (0 :: u8) = 0 # replicate (2 * 31) 0"
      by (simp add: numeral_Bit1 flip: replicate_Suc)
    then show ?thesis
      by (simp only: every_other.simps every_other_zeros)
  qed
  then show ?thesis
    by (simp add: validate_msg_def size_defs sub_slice_def calc_contract_hash_def sha_256_def demo_enclave_def demo_codecs_def demo_prims_def)
qed

lemma demo_get_value:
  "mem_get_value list_mem [0, 0, 0, 0, 16, 0, 0, 0, 4, 0, 0, 0, a, 0, 0, 0, b, 0, 0, 0] 4 = Some 16"
  "mem_get_value list_mem [0, 0, 0, 0, 16, 0, 0, 0, 4, 0, 0, 0, a, 0, 0, 0, b, 0, 0, 0] 8 = Some 4"
  "mem_get_value list_mem [0, 0, 0, 0, 16, 0, 0, 0, 4, 0, 0, 0, 1, 0, 0, 0, b, 0, 0, 0] 12 = Some 1"
  by (simp_all add: mem_get_value_def list_mem_def from_le_def from_be_def)

lemma demo_write:
  "write_to_allocated_memory_inner list_mem [0, 0, 0, 0, 16, 0, 0, 0, 4, 0, 0, 0, a, 0, 0, 0, b, 0, 0, 0] [] 4
     = ([0, 0, 0, 0, 16, 0, 0, 0, 4, 0, 0, 0, 0, 0, 0, 0, b, 0, 0, 0], Some 4)"
  "write_to_allocated_memory_inner list_mem [0, 0, 0, 0, 16, 0, 0, 0, 4, 0, 0, 0, a, 0, 0, 0, b, 0, 0, 0] [65] 4
     = ([0, 0, 0, 0, 16, 0, 0, 0, 4, 0, 0, 0, 1, 0, 0, 0, 65, 0, 0, 0], Some 4)"
  by (simp_all add: write_to_allocated_memory_inner_def demo_get_value mem_set_value_def to_le_def to_be_numeral
      word_less_nat_alt) (simp_all add: list_mem_def mem_set_value_def to_le_def to_be_numeral)

lemma demo_extract:
  "extract_vector_inner list_mem [0, 0, 0, 0, 16, 0, 0, 0, 4, 0, 0, 0, 1, 0, 0, 0, 65, 0, 0, 0] 4 = Some [65]"
  by (simp add: extract_vector_inner_def demo_get_value) (simp add: list_mem_def)

lemma demo_write_to_memory:
  assumes "wasm_exports (inst s) = (\<lambda>name args. Some (Finish (Some (I32 4))))"
    and "write_to_allocated_memory_inner list_mem (memory (inst s)) b 4 = (m, Some 4)"
  shows "write_to_memory list_mem ext b s = (Ok 4, set_memory m s)"
  using assms by (simp add: write_to_memory_def allocate_def catch_err_def invoke_export_def write_to_allocated_memory_def)

lemma demo_encrypt_output:
  "encrypt_output (crypto (demo_enclave oc al)) (codec (demo_enclave oc al)) (keys (demo_enclave oc al)) [65] n pk addr = Ok []"
  by (simp add: encrypt_output_def calc_encryption_key_def get_consensus_io_exchange_keypair_def demo_enclave_def
      demo_keychain_def demo_codecs_def encrypt_serializable_def encrypt_siv_def aes_siv_encrypt_def demo_prims_def Let_def)

lemma demo_session:
  assumes "start_engine (lib (demo_enclave oc al)) limit code key op n pk = Ok ci" and "inputs = [[65]] \<or> inputs = [[], [65]]"
  shows "engine_session (demo_enclave oc al) ci inputs name addr used w = ((Ok [], 0), w)"
proof -
  have ci: "ci = \<lparr>memory = [0, 0, 0, 0, 16, 0, 0, 0, 4, 0, 0, 0, 0, 0, 0, 0, 0, 0, 0, 0],
     gas_limit = limit, gas_used = 0, gas_used_externally = 0, gas_costs = default_costs, instance_key = key,
     wasm_exports = (\<lambda>name args. Some (Finish (Some (I32 4)))), operation = op, user_nonce = n, instance_user_key = pk\<rparr>"
    using assms(1) by (simp add: demo_start)
  have mo: "mem_ops (demo_enclave oc al) = list_mem"
    by (simp add: demo_enclave_def)
  let ?s = "\<lparr>inst = ci\<lparr>memory := [0, 0, 0, 0, 16, 0, 0, 0, 4, 0, 0, 0, 1, 0, 0, 0, 65, 0, 0, 0]\<rparr>, world = w\<rparr>"
  have writes: "write_all list_mem ext inputs \<lparr>inst = ci, world = w\<rparr> = (Ok (map (\<lambda>_. 4) inputs), ?s)" for ext
    using assms(2) by (auto simp: demo_write_to_memory demo_write ci set_memory_def)
  have "engine_call ext name ptrs ?s = (Ok 4, ?s)" for ext ptrs
    by (simp add: engine_call_def invoke_export_def catch_err_def ci)
  moreover have "extract_vector list_mem 4 ?s = (Ok [65], ?s)"
    by (simp add: extract_vector_def demo_extract)
  ultimately show ?thesis
    by (simp add: engine_session_def mo writes demo_encrypt_output catch_err_def Let_def) (simp add: ci)
qed

lemma demo_handle_checks:
  "\<exists>ci. start_engine (lib (demo_enclave oc al)) 1000 [99] demo_call_key OpHandle (replicate 32 1) (replicate 32 2) = Ok ci \<and>
     handle_checks (demo_enclave oc al) 1000 [99] demo_call_key demo_call_msg (replicate 32 8) = Ok (ci, [[], [65]], ascii ''token'')"
proof -
  let ?env = "demo_env (Some (chars demo_call_key))"
  have env: "parse_env (codec (demo_enclave oc al)) demo_call_key = Some ?env" "print_env (codec (demo_enclave oc al)) e = Some []"
    "parse_sig_info (codec (demo_enclave oc al)) (replicate 32 8) = Some (demo_sig_info\<lparr>callback_sig := Some (replicate 32 8)\<rparr>)"
    "from_human (codec (demo_enclave oc al)) (address (contract ?env)) = Some (ascii ''token'')" for e
    by (simp_all add: demo_enclave_def demo_codecs_def from_human_def demo_env_def)
  have verified: "verify_params (crypto (demo_enclave oc al)) (sigs (demo_enclave oc al)) (codec (demo_enclave oc al)) (keys (demo_enclave oc al))
      (demo_sig_info\<lparr>callback_sig := Some (replicate 32 8)\<rparr>) ?env sm = Ok ()" for sm
    by (simp add: verify_params_def verify_callback_sig_def create_callback_signature_def get_consensus_callback_secret_def
        from_human_def sha_256_def demo_enclave_def demo_codecs_def demo_keychain_def demo_prims_def demo_env_def)
  have key: "extract_contract_key (codec (demo_enclave oc al)) ?env = Ok demo_call_key"
    by (simp add: extract_contract_key_def demo_env_def demo_enclave_def demo_codecs_def demo_call_key_def size_defs)
  have valid: "validate_contract_key (crypto (demo_enclave oc al)) (keys (demo_enclave oc al)) demo_call_key addr code = Ok True" for addr code
    by (simp add: validate_contract_key_Ok_iff generate_contract_id_def sign_sha_256_def derive_key_from_key_def derive_key_def
        demo_enclave_def demo_keychain_def demo_prims_def demo_call_key_def Let_def)
  show ?thesis
    using demo_start [of oc al 1000 "[99]" demo_call_key OpHandle "replicate 32 1" "replicate 32 2"]
    by (simp add: handle_checks_def env verified key valid demo_from_slice demo_decrypt [simplified] demo_validate [simplified])
qed

lemma demo_handle:
  "contract_handle (demo_enclave oc al) 1000 used [99] demo_call_key demo_call_msg (replicate 32 8) w = ((Ok [], 0), w)"
proof -
  obtain ci where "start_engine (lib (demo_enclave oc al)) 1000 [99] demo_call_key OpHandle (replicate 32 1) (replicate 32 2) = Ok ci"
    "handle_checks (demo_enclave oc al) 1000 [99] demo_call_key demo_call_msg (replicate 32 8) = Ok (ci, [[], [65]], ascii ''token'')"
    using demo_handle_checks by blast
  then show ?thesis
    by (simp add: contract_handle_def demo_session)
qed

theorem handle_authenticated_witness:
  "\<exists>env' key addr. parse_env (codec demo_linked) demo_call_key = Some env' \<and>
     extract_contract_key (codec demo_linked) env' = Ok key \<and> from_human (codec demo_linked) (address (contract env')) = Some addr \<and>
     validate_contract_key (crypto demo_linked) (keys demo_linked) key addr [99] = Ok True"
  using handle_authenticated [OF demo_handle [of _ _ 0 demo_world]] by fastforce

theorem handle_isolated_witness:
  "host (snd (contract_handle demo_linked 1000 0 [99] demo_call_key demo_call_msg (replicate 32 8) demo_world)) [1, 2, 3] = None"
proof -
  have keeps: "host_keeps (ocall demo_linked) (\<lambda>h. h)"
    using demo_host_keeps by (simp add: demo_enclave_def)
  have env: "parse_env (codec demo_linked) demo_call_key = Some (demo_env (Some (chars demo_call_key)))"
    by (simp add: demo_enclave_def demo_codecs_def)
  have key: "extract_contract_key (codec demo_linked) (demo_env (Some (chars demo_call_key))) = Ok demo_call_key"
    by (simp add: extract_contract_key_def demo_env_def demo_enclave_def demo_codecs_def demo_call_key_def size_defs)
  have "length (field_name_digest (crypto demo_linked) k demo_call_key) = 32" for k
    using demo_prims_ok by (simp add: field_name_digest_def sha_256_def prims_ok_def demo_enclave_def)
  then have "[1, 2, 3] \<noteq> field_name_digest (crypto demo_linked) k demo_call_key" for k
    by (auto dest: arg_cong [of _ _ length])
  then show ?thesis
    using handle_isolated [where view = "\<lambda>h. h", OF keeps demo_handle env key]
    by (simp add: demo_handle demo_world_def)
qed

theorem handle_gas_within_limit_witness:
  "\<exists>u w'. contract_handle demo_linked 1000 7 [99] demo_call_key demo_call_msg (replicate 32 8) demo_world = ((Ok [], u), w') \<and> u \<le> 1000"
  using demo_handle [of _ _ 7 demo_world] handle_gas_within_limit [OF demo_handle [of _ _ 7 demo_world]] by blast

lemma demo_query:
  "contract_query (demo_enclave oc al) 1000 used [99] (replicate 64 5 @ demo_call_msg) w = ((Ok [], 0), w)"
proof -
  obtain ci where ci: "start_engine (lib (demo_enclave oc al)) 1000 [99] (replicate 64 5) OpQuery (replicate 32 1) (replicate 32 2) = Ok ci"
    by (simp add: demo_start)
  have "contract_query (demo_enclave oc al) 1000 used [99] (replicate 64 5 @ demo_call_msg) w
      = engine_session (demo_enclave oc al) ci [[65]] ''query'' [] used w"
    by (rule query_any_contract_key [OF _ demo_from_slice demo_decrypt demo_validate]) (simp_all add: ci)
  then show ?thesis
    using demo_session [OF ci] by simp
qed

theorem query_leaves_state_witness:
  "host (snd (contract_query demo_linked 1000 0 [99] (replicate 64 5 @ demo_call_msg) (demo_world\<lparr>host := [[1] \<mapsto> [2]]\<rparr>)))
     = [[1] \<mapsto> [2]]"
proof -
  have keeps: "host_keeps (ocall demo_linked) (\<lambda>h. h)"
    using demo_host_keeps by (simp add: demo_enclave_def)
  show ?thesis
    by (rule query_leaves_state [OF keeps surjective_pairing, THEN trans]) simp
qed

definition demo_ecall_env :: ecall_env where
  "demo_ecall_env = \<lparr>ee_register = None, ee_restore = None, ee_oom = False, ee_gas_ptr_ok = True\<rparr>"

theorem ecall_query_depth_witness:
  "ecall_query demo_linked demo_ecall_env 1000 0 (Some [99]) (Some [1]) (demo_world\<lparr>depth := 5\<rparr>)
     = ((QueryFailure ExceededRecursionLimit, 0), demo_world\<lparr>depth := 5\<rparr>)"
proof -
  obtain r u w' where run: "ecall_query demo_linked demo_ecall_env 1000 0 (Some [99]) (Some [1]) (demo_world\<lparr>depth := 5\<rparr>) = ((r, u), w')"
    by (metis prod.exhaust)
  have "allocator_ok (enclave_alloc (ocall demo_linked))"
    using demo_alloc_ok by (simp add: demo_enclave_def demo_ocalls_def)
  then show ?thesis
    using ecall_query_depth [OF _ _ _ run] run
    by (simp add: demo_world_def bufs_ok_def RECURSION_LIMIT_def)
qed

text \<open>Without the key of the transactions (no seed yet) the enclave panics, and the panic is caught.\<close>

lemma ecall_query_panic_witness:
  "fst (ecall_query (demo_linked\<lparr>keys := demo_keychain\<lparr>consensus_io_exchange_keypair := None\<rparr>\<rparr>) demo_ecall_env 1000 0
     (Some [99]) (Some (replicate 64 5 @ demo_call_msg)) demo_world) = (QueryFailure Panic, 500)"
proof -
  have inc: "increment (depth demo_world) = (Ok (), 2)"
    by (simp add: increment_def RECURSION_LIMIT_def demo_world_def)
  have run: "contract_query (demo_linked\<lparr>keys := demo_keychain\<lparr>consensus_io_exchange_keypair := None\<rparr>\<rparr>) 1000 0
      [99] (replicate 64 5 @ demo_call_msg) (demo_world\<lparr>depth := 2\<rparr>) = ((Panicked, 0), demo_world\<lparr>depth := 2\<rparr>)"
    by (simp add: contract_query_def query_checks_def size_defs demo_from_slice decrypt_def encryption_key_def
        calc_encryption_key_def get_consensus_io_exchange_keypair_def refuse_def)
  then show ?thesis
    using ecall_query_panic [where su = "demo_linked\<lparr>keys := demo_keychain\<lparr>consensus_io_exchange_keypair := None\<rparr>\<rparr>"
        and limit = 1000 and used = 0, OF inc, of demo_ecall_env "Some [99]" "[99]"
        "Some (replicate 64 5 @ demo_call_msg)" "replicate 64 5 @ demo_call_msg"] run
    by (simp add: demo_ecall_env_def)
qed

end
