(* ===== verification/Attestation_Report.thy ===== *)
theory Attestation_Report
  imports Enclave_Types Stateful
begin

text \<open>
  What a node shows to be admitted to the network (\<open>registration/report.rs\<close>,
  \<open>cert.rs\<close>, \<open>hex.rs\<close>): the quote of its enclave, parsed byte by byte, the report
  of the attestation service around it, and the certificate that carries the
  report. JSON, base64, hex of the libraries, X.509 verification and the
  measurement of the running enclave are arguments.
\<close>

section \<open>hex.rs\<close>

text \<open>Strings here are ASCII, so that byte and character positions agree.\<close>

definition decode_hex_digit :: "char \<Rightarrow> ('e, u8) res" where
  "decode_hex_digit digit =
     (let n = of_char digit :: nat
      in if 48 \<le> n \<and> n \<le> 57 then Ok (word_of_nat (n - 48))
         else if 97 \<le> n \<and> n \<le> 102 then Ok (word_of_nat (n - 97 + 10))
         else if 65 \<le> n \<and> n \<le> 70 then Ok (word_of_nat (n - 65 + 10))
         else Panicked)"

fun decode_hex :: "string \<Rightarrow> ('e, bytes) res" where
  "decode_hex [] = Ok []"
| "decode_hex (first # rest) =
     (if first = CHR '' '' then decode_hex rest
      else case rest of
        [] \<Rightarrow> Panicked
      | second # rest' \<Rightarrow>
          res_bind (decode_hex_digit first) (\<lambda>hi.
          res_bind (decode_hex_digit second) (\<lambda>lo.
          res_bind (decode_hex rest') (\<lambda>bs. Ok (or (push_bit 4 hi) lo # bs)))))"

definition is_whitespace :: "char \<Rightarrow> bool" where
  "is_whitespace c = (let n = of_char c :: nat in n = 32 \<or> (9 \<le> n \<and> n \<le> 13))"

definition trim_text :: "string \<Rightarrow> string" where
  "trim_text s = rev (dropWhile is_whitespace (rev (dropWhile is_whitespace s)))"

definition decode_spid :: "string \<Rightarrow> ('e, bytes) res" where
  "decode_spid hex =
     (let hex = trim_text hex
      in if length hex < 32 then Ok (replicate 16 0)
         else res_bind (decode_hex hex) (\<lambda>decoded_vec.
           if length decoded_vec < 16 then Panicked else Ok (take 16 decoded_vec)))"

text \<open>\<open>from_digit\<close> gives lower case digits.\<close>

definition encode_hex_digit :: "u8 \<Rightarrow> ('e, char) res" where
  "encode_hex_digit digit =
     (let n = unat digit
      in if n < 10 then Ok (char_of (n + 48)) else if n < 16 then Ok (char_of (n + 87)) else Panicked)"

definition encode_hex_byte :: "u8 \<Rightarrow> ('e, string) res" where
  "encode_hex_byte byte =
     res_bind (encode_hex_digit (drop_bit 4 byte)) (\<lambda>hi.
     res_bind (encode_hex_digit (and byte 0x0F)) (\<lambda>lo. Ok [hi, lo]))"

fun encode_hex :: "bytes \<Rightarrow> ('e, string) res" where
  "encode_hex [] = Ok []"
| "encode_hex [b] = encode_hex_byte b"
| "encode_hex (b # bs) =
     res_bind (encode_hex_byte b) (\<lambda>s. res_bind (encode_hex bs) (\<lambda>rest. Ok (s @ '' '' @ rest)))"

text \<open>\<open>from_str_radix\<close> of the standard library accepts a leading plus sign.\<close>

fun hex_escape :: "char \<Rightarrow> char \<Rightarrow> ('e, u8) res" where
  "hex_escape c d =
     (if c = CHR ''+'' then decode_hex_digit d
      else res_bind (decode_hex_digit c) (\<lambda>hi. res_bind (decode_hex_digit d) (\<lambda>lo. Ok (or (push_bit 4 hi) lo))))"

fun percent_decode :: "string \<Rightarrow> ('e, string) res" where
  "percent_decode [] = Ok []"
| "percent_decode (c # rest) =
     (if c \<noteq> CHR ''%'' then res_bind (percent_decode rest) (\<lambda>s. Ok (c # s))
      else case rest of
        d # e # rest' \<Rightarrow>
          if d = CHR ''%'' \<or> e = CHR ''%'' then Panicked
          else res_bind (hex_escape d e) (\<lambda>b. res_bind (percent_decode rest') (\<lambda>s. Ok (char_of (unat b) # s)))
      | _ \<Rightarrow> Panicked)"

lemma hex_digit_roundtrip:
  assumes "unat d < 16"
  obtains c where "encode_hex_digit d = (Ok c :: ('e, char) res)" and "decode_hex_digit c = (Ok d :: ('f, u8) res)" and "c \<noteq> CHR '' ''"
proof -
  define c :: char where "c = (if unat d < 10 then char_of (unat d + 48) else char_of (unat d + 87))"
  have n: "of_char c = (if unat d < 10 then unat d + 48 else unat d + 87)"
    using assms by (simp add: c_def of_char_of)
  have "encode_hex_digit d = (Ok c :: ('e, char) res)"
    using assms by (simp add: encode_hex_digit_def c_def)
  moreover have "decode_hex_digit c = (Ok d :: ('f, u8) res)"
    using assms by (simp add: decode_hex_digit_def n)
  moreover have "c \<noteq> CHR '' ''"
    using n by (auto split: if_splits)
  ultimately show thesis
    by (rule that)
qed

lemma nibbles: "or (push_bit 4 (drop_bit 4 b)) (and b 0x0F) = b" for b :: u8
proof -
  have "(0x0F :: u8) = mask 4"
    by (simp add: mask_eq_exp_minus_1)
  then have "or (push_bit 4 (drop_bit 4 b)) (and b 0x0F) = or (push_bit 4 (drop_bit 4 b)) (take_bit 4 b)"
    by (simp only: take_bit_eq_mask)
  also have "\<dots> = b"
    by (intro bit_word_eqI) (auto simp: bit_simps)
  finally show ?thesis .
qed

lemma encode_hex_byte_roundtrip:
  obtains c d where "encode_hex_byte b = (Ok [c, d] :: ('e, string) res)"
    and "decode_hex ([c, d] @ rest) = (res_bind (decode_hex rest) (\<lambda>bs. Ok (b # bs)) :: ('f, bytes) res)"
proof -
  have hi: "unat (drop_bit 4 b) < 16"
    using unat_bound [of b] by (simp add: drop_bit_eq_div unat_div_distrib)
  have "and b 0x0F = take_bit 4 b"
    by (simp add: take_bit_eq_mask mask_eq_exp_minus_1)
  then have lo: "unat (and b 0x0F) < 16"
    by (simp add: take_bit_eq_mod unat_mod_distrib)
  obtain c where c: "encode_hex_digit (drop_bit 4 b) = (Ok c :: ('e, char) res)"
      "decode_hex_digit c = (Ok (drop_bit 4 b) :: ('f, u8) res)" "c \<noteq> CHR '' ''"
    using hex_digit_roundtrip [OF hi] .
  obtain d where d: "encode_hex_digit (and b 0x0F) = (Ok d :: ('e, char) res)"
      "decode_hex_digit d = (Ok (and b 0x0F) :: ('f, u8) res)" "d \<noteq> CHR '' ''"
    using hex_digit_roundtrip [OF lo] .
  show thesis
    by (rule that [of c d]) (simp_all add: encode_hex_byte_def c d nibbles)
qed

lemma encode_hex_roundtrip: "\<exists>s. encode_hex bs = (Ok s :: ('e, string) res) \<and> decode_hex s = (Ok bs :: ('f, bytes) res)"
proof (induction bs rule: encode_hex.induct)
  case (2 b)
  obtain c d where "encode_hex_byte b = (Ok [c, d] :: ('e, string) res)"
    and "decode_hex ([c, d] @ []) = (res_bind (decode_hex []) (\<lambda>bs. Ok (b # bs)) :: ('f, bytes) res)"
    using encode_hex_byte_roundtrip .
  then show ?case
    by (simp del: decode_hex.simps(2))
next
  case (3 b b' bs)
  then obtain s where s: "encode_hex (b' # bs) = (Ok s :: ('e, string) res)" "decode_hex s = (Ok (b' # bs) :: ('f, bytes) res)"
    by blast
  obtain c d where "encode_hex_byte b = (Ok [c, d] :: ('e, string) res)"
    and "decode_hex ([c, d] @ '' '' @ s) = (res_bind (decode_hex ('' '' @ s)) (\<lambda>bs. Ok (b # bs)) :: ('f, bytes) res)"
    using encode_hex_byte_roundtrip .
  moreover have "decode_hex ('' '' @ s) = (decode_hex s :: ('f, bytes) res)"
    by simp
  ultimately show ?case
    using s by (simp del: decode_hex.simps(2))
qed simp

section \<open>report.rs: the quote\<close>

datatype ReportError = ReportParseError | ReportValidationError

record SgxEnclaveReport =
  cpu_svn :: bytes
  misc_select :: u32
  attributes :: bytes
  mr_enclave :: bytes
  mr_signer :: bytes
  isv_prod_id :: u16
  isv_svn :: u16
  report_data :: bytes

text \<open>
  The parsers keep the bytes not yet taken; \<open>pos != bytes.len()\<close> at the end is
  that some are left.
\<close>

definition take_bytes :: "nat \<Rightarrow> (bytes, ReportError, bytes) stm" where
  "take_bytes n rest =
     (if 0 < n \<and> n \<le> length rest then (Ok (take n rest), drop n rest) else (Err ReportParseError, rest))"

definition all_taken :: "(bytes, ReportError, unit) stm" where
  "all_taken rest = (if rest = [] then Ok () else Err ReportParseError, rest)"

definition u16_le :: "bytes \<Rightarrow> u16" where
  "u16_le bs = word_of_nat (from_le bs)"

definition u32_le :: "bytes \<Rightarrow> u32" where
  "u32_le bs = word_of_nat (from_le bs)"

definition enclave_report_parse :: "bytes \<Rightarrow> (ReportError, SgxEnclaveReport) res" where
  "enclave_report_parse bs = fst (
     and_then (take_bytes 16) (\<lambda>svn.
     and_then (take_bytes 4) (\<lambda>misc.
     and_then (take_bytes 28) (\<lambda>_.
     and_then (take_bytes 16) (\<lambda>attrs.
     and_then (take_bytes 32) (\<lambda>enclave.
     and_then (take_bytes 32) (\<lambda>_.
     and_then (take_bytes 32) (\<lambda>signer.
     and_then (take_bytes 96) (\<lambda>_.
     and_then (take_bytes 2) (\<lambda>prod.
     and_then (take_bytes 2) (\<lambda>isvsvn.
     and_then (take_bytes 60) (\<lambda>_.
     and_then (take_bytes 64) (\<lambda>rdat.
     and_then all_taken (\<lambda>_.
     ret \<lparr>cpu_svn = svn, misc_select = u32_le misc, attributes = attrs, mr_enclave = enclave, mr_signer = signer,
          isv_prod_id = u16_le prod, isv_svn = u16_le isvsvn, report_data = rdat\<rparr>))))))))))))) bs)"

datatype SgxEpidQuoteSigType = Unlinkable | Linkable

datatype SgxEcdsaQuoteAkType = P256_256 | P384_384

datatype SgxQuoteVersion = V1 SgxEpidQuoteSigType | V2 SgxEpidQuoteSigType | V3 SgxEcdsaQuoteAkType

record SgxQuote =
  version :: SgxQuoteVersion
  gid :: u32
  isv_svn_qe :: u16
  isv_svn_pce :: u16
  qe_vendor_id :: bytes
  user_data :: bytes
  isv_enclave_report :: SgxEnclaveReport

text \<open>The version and, after it, the type of the signature or of the key.\<close>

definition quote_version :: "u16 \<Rightarrow> u16 \<Rightarrow> SgxQuoteVersion option" where
  "quote_version v t =
     (if v = 1 then (if t = 0 then Some (V1 Unlinkable) else if t = 1 then Some (V1 Linkable) else None)
      else if v = 2 then (if t = 0 then Some (V2 Unlinkable) else if t = 1 then Some (V2 Linkable) else None)
      else if v = 3 then (if t = 2 then Some (V3 P256_256) else if t = 3 then Some (V3 P384_384) else None)
      else None)"

definition quote_parse :: "bytes \<Rightarrow> (ReportError, SgxQuote) res" where
  "quote_parse bs = fst (
     and_then (take_bytes 2) (\<lambda>v.
     and_then (if u16_le v = 1 \<or> u16_le v = 2 \<or> u16_le v = 3 then take_bytes 2 else fail ReportParseError) (\<lambda>t.
     and_then (lift (ok_or ReportParseError (quote_version (u16_le v) (u16_le t)))) (\<lambda>ver.
     and_then (take_bytes 4) (\<lambda>g.
     and_then (take_bytes 2) (\<lambda>qe.
     and_then (take_bytes 2) (\<lambda>pce.
     and_then (take_bytes 16) (\<lambda>vendor.
     and_then (take_bytes 20) (\<lambda>user.
     and_then (take_bytes 384) (\<lambda>rep.
     and_then (lift (enclave_report_parse rep)) (\<lambda>report.
     and_then all_taken (\<lambda>_.
     ret \<lparr>version = ver, gid = u32_le g, isv_svn_qe = u16_le qe, isv_svn_pce = u16_le pce, qe_vendor_id = vendor,
          user_data = user, isv_enclave_report = report\<rparr>))))))))))) bs)"

subsection \<open>Where the fields are\<close>

definition field_at :: "nat \<Rightarrow> nat \<Rightarrow> bytes \<Rightarrow> bytes" where
  "field_at off n bs = take n (drop off bs)"

lemma length_field_at [simp]: "length (field_at off n bs) = min n (length bs - off)"
  by (simp add: field_at_def)

lemma field_at_field_at: "off + n \<le> m \<Longrightarrow> field_at off n (field_at k m bs) = field_at (k + off) n bs"
  by (simp add: field_at_def drop_take min_def add.commute)

lemma field_at_drop: "field_at off n (drop k bs) = field_at (k + off) n bs"
  by (simp add: field_at_def add.commute)

lemma take_bytes_drop:
  "take_bytes n (drop k bs) =
     (if 0 < n \<and> k + n \<le> length bs then (Ok (field_at k n bs), drop (k + n) bs) else (Err ReportParseError, drop k bs))"
  if "k \<le> length bs"
  using that by (auto simp: take_bytes_def field_at_def add.commute)

lemma take_bytes_start:
  "take_bytes n bs = (if 0 < n \<and> n \<le> length bs then (Ok (field_at 0 n bs), drop n bs) else (Err ReportParseError, bs))"
  using take_bytes_drop [of 0 bs n] by simp

lemma enclave_report_parse_eq:
  "enclave_report_parse bs =
     (if length bs = 384 then
        Ok \<lparr>cpu_svn = field_at 0 16 bs, misc_select = u32_le (field_at 16 4 bs), attributes = field_at 48 16 bs,
            mr_enclave = field_at 64 32 bs, mr_signer = field_at 128 32 bs, isv_prod_id = u16_le (field_at 256 2 bs),
            isv_svn = u16_le (field_at 258 2 bs), report_data = field_at 320 64 bs\<rparr>
      else Err ReportParseError)"
  by (cases "length bs = 384")
    (auto simp: enclave_report_parse_def and_then_def take_bytes_start field_at_drop all_taken_def ret_def)

lemma quote_parse_eq:
  "quote_parse bs =
     (if length bs \<noteq> 432 then Err ReportParseError
      else case quote_version (u16_le (field_at 0 2 bs)) (u16_le (field_at 2 2 bs)) of
        None \<Rightarrow> Err ReportParseError
      | Some ver \<Rightarrow>
          Ok \<lparr>version = ver, gid = u32_le (field_at 4 4 bs), isv_svn_qe = u16_le (field_at 8 2 bs),
              isv_svn_pce = u16_le (field_at 10 2 bs), qe_vendor_id = field_at 12 16 bs, user_data = field_at 28 20 bs,
              isv_enclave_report =
                \<lparr>cpu_svn = field_at 48 16 bs, misc_select = u32_le (field_at 64 4 bs), attributes = field_at 96 16 bs,
                 mr_enclave = field_at 112 32 bs, mr_signer = field_at 176 32 bs, isv_prod_id = u16_le (field_at 304 2 bs),
                 isv_svn = u16_le (field_at 306 2 bs), report_data = field_at 368 64 bs\<rparr>\<rparr>)"
proof (cases "u16_le (field_at 0 2 bs) = 1 \<or> u16_le (field_at 0 2 bs) = 2 \<or> u16_le (field_at 0 2 bs) = 3")
  case False
  then show ?thesis
    by (simp add: quote_parse_def and_then_def take_bytes_start fail_def quote_version_def)
next
  case True
  then show ?thesis
  proof (cases "quote_version (u16_le (field_at 0 2 bs)) (u16_le (field_at 2 2 bs))")
    case None
    with True show ?thesis
      by (simp add: quote_parse_def and_then_def take_bytes_start field_at_drop lift_def)
  next
    case (Some ver)
    show ?thesis
      using True Some
      by (cases "length bs = 432")
        (simp_all add: quote_parse_def and_then_def take_bytes_start field_at_drop lift_def all_taken_def ret_def
          enclave_report_parse_eq field_at_field_at)
  qed
qed

text \<open>
  The parser of quotes is exact. A quote is accepted exactly when it has 432
  bytes and a known version and signature or key type; every field is then the
  bytes at its offset in Intel's layout, little endian numbers read as such, and
  every array has its declared length.
\<close>

lemma quote_parse_exact:
  "quote_parse bs =
     (if length bs \<noteq> 432 then Err ReportParseError
      else case quote_version (u16_le (field_at 0 2 bs)) (u16_le (field_at 2 2 bs)) of
        None \<Rightarrow> Err ReportParseError
      | Some ver \<Rightarrow>
          Ok \<lparr>version = ver, gid = u32_le (field_at 4 4 bs), isv_svn_qe = u16_le (field_at 8 2 bs),
              isv_svn_pce = u16_le (field_at 10 2 bs), qe_vendor_id = field_at 12 16 bs, user_data = field_at 28 20 bs,
              isv_enclave_report =
                \<lparr>cpu_svn = field_at 48 16 bs, misc_select = u32_le (field_at 64 4 bs), attributes = field_at 96 16 bs,
                 mr_enclave = field_at 112 32 bs, mr_signer = field_at 176 32 bs, isv_prod_id = u16_le (field_at 304 2 bs),
                 isv_svn = u16_le (field_at 306 2 bs), report_data = field_at 368 64 bs\<rparr>\<rparr>)"
  by (rule quote_parse_eq)

section \<open>report.rs: the attestation report\<close>

datatype SgxQuoteStatus =
    StatusOK
  | StatusSignatureInvalid
  | StatusGroupRevoked
  | StatusSignatureRevoked
  | StatusKeyRevoked
  | StatusSigrlVersionMismatch
  | StatusGroupOutOfDate
  | StatusConfigurationNeeded
  | StatusSwHardeningNeeded
  | StatusConfigurationAndSwHardeningNeeded
  | StatusOutOfDate
  | StatusOutOfDateConfigurationNeeded
  | StatusUnknownBadStatus

datatype NodeAuthResult =
    Success
  | GroupOutOfDate
  | SignatureInvalid
  | SignatureRevoked
  | GroupRevoked
  | KeyRevoked
  | SigrlVersionMismatch
  | ConfigurationNeeded
  | SwHardeningAndConfigurationNeeded
  | BadQuoteStatus
  | MrEnclaveMismatch
  | MrSignerMismatch
  | InvalidInput
  | InvalidCert
  | CantWriteToStorage
  | MalformedPublicKey
  | SeedEncryptionFailed
  | NodeMemorySafetyAllocationError
  | NodePanic

fun auth_result_of_status :: "SgxQuoteStatus \<Rightarrow> NodeAuthResult" where
  "auth_result_of_status StatusConfigurationAndSwHardeningNeeded = SwHardeningAndConfigurationNeeded"
| "auth_result_of_status StatusConfigurationNeeded = ConfigurationNeeded"
| "auth_result_of_status StatusGroupOutOfDate = GroupOutOfDate"
| "auth_result_of_status StatusKeyRevoked = KeyRevoked"
| "auth_result_of_status StatusSigrlVersionMismatch = SigrlVersionMismatch"
| "auth_result_of_status StatusSignatureRevoked = SignatureRevoked"
| "auth_result_of_status StatusGroupRevoked = GroupRevoked"
| "auth_result_of_status _ = BadQuoteStatus"

definition quote_status_from :: "string \<Rightarrow> SgxQuoteStatus" where
  "quote_status_from s =
     (if s = ''OK'' then StatusOK
      else if s = ''SIGNATURE_INVALID'' then StatusSignatureInvalid
      else if s = ''GROUP_REVOKED'' then StatusGroupRevoked
      else if s = ''SIGNATURE_REVOKED'' then StatusSignatureRevoked
      else if s = ''KEY_REVOKED'' then StatusKeyRevoked
      else if s = ''SIGRL_VERSION_MISMATCH'' then StatusSigrlVersionMismatch
      else if s = ''GROUP_OUT_OF_DATE'' then StatusGroupOutOfDate
      else if s = ''OUT_OF_DATE'' then StatusOutOfDate
      else if s = ''OUT_OF_DATE_CONFIGURATION_NEEDED'' then StatusOutOfDateConfigurationNeeded
      else if s = ''CONFIGURATION_NEEDED'' then StatusConfigurationNeeded
      else if s = ''SW_HARDENING_NEEDED'' then StatusSwHardeningNeeded
      else if s = ''CONFIGURATION_AND_SW_HARDENING_NEEDED'' then StatusConfigurationAndSwHardeningNeeded
      else StatusUnknownBadStatus)"

text \<open>Both build profiles have the same list.\<close>

definition WHITELISTED_ADVISORIES :: "string list" where
  "WHITELISTED_ADVISORIES = [''INTEL-SA-00334'', ''INTEL-SA-00219'']"

definition ADVISORY_DESC :: "string \<rightharpoonup> string" where
  "ADVISORY_DESC =
     [''INTEL-SA-00161'' \<mapsto> ''You must disable hyperthreading in the BIOS'',
      ''INTEL-SA-00289'' \<mapsto> ''You must disable overclocking/undervolting in the BIOS'']"

fun vulnerable :: "string list \<Rightarrow> string list" where
  "vulnerable [] = []"
| "vulnerable (i # is) =
     (if i \<notin> set WHITELISTED_ADVISORIES then
        i # (case ADVISORY_DESC i of Some v \<Rightarrow> [v] | None \<Rightarrow> []) @ vulnerable is
      else vulnerable is)"

record AttestationReport =
  sgx_quote_status :: SgxQuoteStatus
  sgx_quote_body :: SgxQuote
  platform_info_blob :: "bytes option"
  advisory_ids :: "string list"

record EndorsedAttestationReport =
  report :: bytes
  rsignature :: bytes
  signing_cert :: bytes

text \<open>
  The libraries: the JSON of the endorsed report with its base64 fields, X.509
  certificates (a signing certificate parses; it is valid for the chain, the
  roots and the time; it verifies a signature), the fields of a JSON value, hex
  and base64; Intel's root certificate, and the measurement of this enclave.
\<close>

record 'j attest_lib =
  json_endorsed :: "bytes \<Rightarrow> EndorsedAttestationReport option"
  end_entity :: "bytes \<Rightarrow> bool"
  pem_roots :: "bytes \<Rightarrow> bytes list option"
  valid_server_cert :: "bytes \<Rightarrow> bytes list \<Rightarrow> bytes list \<Rightarrow> u64 \<Rightarrow> bool"
  verify_report_signature :: "bytes \<Rightarrow> bytes \<Rightarrow> bytes \<Rightarrow> bool"
  json_value :: "bytes \<Rightarrow> 'j option"
  json_u64 :: "'j \<Rightarrow> string \<Rightarrow> u64 option"
  json_str :: "'j \<Rightarrow> string \<Rightarrow> string option"
  json_strings :: "'j \<Rightarrow> string \<Rightarrow> string list option"
  lib_hex_decode :: "string \<Rightarrow> bytes option"
  lib_base64_decode :: "bytes \<Rightarrow> bytes option"
  IAS_REPORT_CA :: bytes
  get_mr_enclave :: "bytes option"

section \<open>cert.rs: what the certificate carries\<close>

fun find_window :: "bytes \<Rightarrow> bytes \<Rightarrow> nat option" where
  "find_window oid [] = (if oid = [] then Some 0 else None)"
| "find_window oid (b # bs) =
     (if take (length oid) (b # bs) = oid then Some 0 else map_option Suc (find_window oid bs))"

definition byte_at :: "bytes \<Rightarrow> nat \<Rightarrow> ('e, nat) res" where
  "byte_at bs i = (if i < length bs then Ok (unat (bs ! i)) else Panicked)"

definition slice_of :: "bytes \<Rightarrow> nat \<Rightarrow> nat \<Rightarrow> ('e, bytes) res" where
  "slice_of bs a b = (if a \<le> b \<and> b \<le> length bs then Ok (take (b - a) (drop a bs)) else Panicked)"

definition extract_asn1_value :: "bytes \<Rightarrow> bytes \<Rightarrow> (unit, bytes) res" where
  "extract_asn1_value cert oid =
     (case find_window oid cert of
        None \<Rightarrow> Err ()
      | Some pos \<Rightarrow>
          (let offset = pos + 12
           in if offset + 2 \<ge> length cert then Err ()
              else
                res_bind (byte_at cert offset) (\<lambda>len.
                res_bind
                  (if len > 0x80 then
                     res_bind (byte_at cert (offset + 1)) (\<lambda>hi.
                     res_bind (byte_at cert (offset + 2)) (\<lambda>lo. Ok (hi * 0x100 + lo, offset + 2)))
                   else Ok (len, offset)) (\<lambda>(len, offset).
                let offset = offset + 1
                in if offset + len \<ge> length cert then Err () else slice_of cert offset (offset + len)))))"

definition NS_CMT_OID :: bytes where
  "NS_CMT_OID = [0x06, 0x09, 0x60, 0x86, 0x48, 0x01, 0x86, 0xF8, 0x42, 0x01, 0x0D]"

definition get_netscape_comment :: "bytes \<Rightarrow> (unit, bytes) res" where
  "get_netscape_comment cert_der = extract_asn1_value cert_der NS_CMT_OID"

definition PRIME256V1_OID :: bytes where
  "PRIME256V1_OID = [0x06, 0x08, 0x2A, 0x86, 0x48, 0xCE, 0x3D, 0x03, 0x01, 0x07]"

definition get_cert_pubkey :: "bytes \<Rightarrow> (unit, bytes) res" where
  "get_cert_pubkey cert_der = extract_asn1_value cert_der PRIME256V1_OID"

lemma extract_never_panics: "extract_asn1_value cert oid \<noteq> Panicked"
  by (auto simp: extract_asn1_value_def byte_at_def slice_of_def Let_def res_simps split: option.splits if_splits)

lemma byte_at_middle: "byte_at (xs @ b # ys) (length xs) = Ok (unat b)"
  by (simp add: byte_at_def)

lemma slice_of_middle: "slice_of (xs @ ys @ zs) (length xs) (length xs + length ys) = Ok ys"
  by (simp add: slice_of_def)

lemma length_NS_CMT_OID [simp]: "length NS_CMT_OID = 11"
  by (simp add: NS_CMT_OID_def)

text \<open>The length of a DER value in the two forms the code reads: one byte, or a marker and two bytes.\<close>

definition der_length :: "nat \<Rightarrow> bytes" where
  "der_length n = (if n < 0x80 then [word_of_nat n] else [0x82, word_of_nat (n div 256), word_of_nat (n mod 256)])"

text \<open>
  The report comes out of the certificate as it went in. If the identifier of
  the comment first occurs where the comment is, and the comment is shorter than
  65536 bytes with its length in the short or the two byte form, the code extracts
  exactly the comment.
\<close>

lemma netscape_comment_roundtrip:
  assumes "find_window NS_CMT_OID cert = Some (length pre)"
    and cert: "cert = pre @ NS_CMT_OID @ [tag] @ der_length (length payload) @ payload @ post"
    and "length payload < 65536" and "2 \<le> length post"
  shows "get_netscape_comment cert = Ok payload"
proof (cases "length payload < 0x80")
  case True
  then have "unat (word_of_nat (length payload) :: u8) = length payload"
    by (simp add: unat_of_nat take_bit_nat_eq_self)
  moreover have "(byte_at cert (length pre + 12) :: (unit, nat) res) = Ok (unat (word_of_nat (length payload) :: u8))"
    using byte_at_middle [of "pre @ NS_CMT_OID @ [tag]"] True by (simp add: cert der_length_def)
  moreover have "(slice_of cert (length pre + 13) (length pre + 13 + length payload) :: (unit, bytes) res) = Ok payload"
    using slice_of_middle [of "pre @ NS_CMT_OID @ [tag, word_of_nat (length payload)]" payload post] True
    by (simp add: cert der_length_def)
  moreover have "length cert = length pre + 13 + length payload + length post"
    using True by (simp add: cert der_length_def)
  ultimately show ?thesis
    using assms(1,4) True by (auto simp: get_netscape_comment_def extract_asn1_value_def Let_def add.commute)
next
  case False
  let ?hi = "word_of_nat (length payload div 256) :: u8" and ?lo = "word_of_nat (length payload mod 256) :: u8"
  have "unat ?hi = length payload div 256" and "unat ?lo = length payload mod 256"
    using assms(3) by (simp_all add: unat_of_nat take_bit_nat_eq_self less_mult_imp_div_less)
  then have len: "unat ?hi * 256 + unat ?lo = length payload"
    by simp
  have "(byte_at cert (length pre + 12) :: (unit, nat) res) = Ok 0x82"
    using byte_at_middle [of "pre @ NS_CMT_OID @ [tag]" "0x82"] False by (simp add: cert der_length_def)
  moreover have "(byte_at cert (length pre + 13) :: (unit, nat) res) = Ok (unat ?hi)"
    using byte_at_middle [of "pre @ NS_CMT_OID @ [tag, 0x82]" ?hi] False by (simp add: cert der_length_def)
  moreover have "(byte_at cert (length pre + 14) :: (unit, nat) res) = Ok (unat ?lo)"
    using byte_at_middle [of "pre @ NS_CMT_OID @ [tag, 0x82, ?hi]" ?lo] False by (simp add: cert der_length_def)
  moreover have "(slice_of cert (length pre + 15) (length pre + 15 + length payload) :: (unit, bytes) res) = Ok payload"
    using slice_of_middle [of "pre @ NS_CMT_OID @ [tag, 0x82, ?hi, ?lo]" payload post] False
    by (simp add: cert der_length_def)
  moreover have "length cert = length pre + 15 + length payload + length post"
    using False by (simp add: cert der_length_def)
  ultimately show ?thesis
    using assms(1,4) len by (auto simp: get_netscape_comment_def extract_asn1_value_def Let_def add.commute)
qed

lemma netscape_comment_roundtrip_witness:
  "get_netscape_comment ([] @ NS_CMT_OID @ [4] @ der_length (length [7]) @ [7] @ [0, 0]) = Ok [7]"
  by (rule netscape_comment_roundtrip [of _ "[]" 4 "[7]" "[0, 0]"]) (simp_all add: NS_CMT_OID_def der_length_def)

section \<open>Verifying the certificate\<close>

definition BEGIN_CERTIFICATE :: nat where
  "BEGIN_CERTIFICATE = length ''-----BEGIN CERTIFICATE-----''"

definition END_CERTIFICATE :: nat where
  "END_CERTIFICATE = length ''-----END CERTIFICATE-----''"

definition get_ias_auth_config :: "'j attest_lib \<Rightarrow> ('e, bytes \<times> bytes list) res" where
  "get_ias_auth_config lib =
     (let stripped = filter (\<lambda>x. x \<noteq> 0x0d \<and> x \<noteq> 0x0a) (IAS_REPORT_CA lib);
          full_len = length stripped
      in res_bind (if full_len < END_CERTIFICATE then Panicked
                   else slice_of stripped BEGIN_CERTIFICATE (full_len - END_CERTIFICATE)) (\<lambda>core.
         res_bind (or_panic (lib_base64_decode lib core)) (\<lambda>ias_cert_dec.
         res_bind (or_panic (pem_roots lib (IAS_REPORT_CA lib))) (\<lambda>roots.
         Ok (ias_cert_dec, roots)))))"

text \<open>The fields of the signed report, after its signature has been verified.\<close>

definition read_report :: "'j attest_lib \<Rightarrow> bytes \<Rightarrow> (ReportError, AttestationReport) res" where
  "read_report lib rep =
     res_bind (ok_or ReportParseError (json_value lib rep)) (\<lambda>attn_report.
     res_bind (ok_or ReportParseError (json_u64 lib attn_report ''version'')) (\<lambda>ver.
     if ver \<noteq> 4 then Err ReportParseError
     else
       res_bind (case json_str lib attn_report ''platformInfoBlob'' of
           None \<Rightarrow> Ok None
         | Some blob \<Rightarrow> res_bind (ok_or ReportParseError (lib_hex_decode lib blob)) (\<lambda>b. Ok (Some b))) (\<lambda>blob.
       res_bind (ok_or ReportParseError (json_str lib attn_report ''isvEnclaveQuoteStatus'')) (\<lambda>status.
       res_bind (ok_or ReportParseError (json_str lib attn_report ''isvEnclaveQuoteBody'')) (\<lambda>quote_encoded.
       res_bind (ok_or ReportParseError (lib_base64_decode lib (ascii quote_encoded))) (\<lambda>quote_raw.
       res_bind (quote_parse quote_raw) (\<lambda>body.
       res_bind (ok_or ReportParseError (json_strings lib attn_report ''advisoryIDs'')) (\<lambda>advisories.
       Ok \<lparr>sgx_quote_status = quote_status_from status, sgx_quote_body = body, platform_info_blob = blob,
           advisory_ids = advisories\<rparr>))))))))"

definition from_cert :: "'j attest_lib \<Rightarrow> bytes \<Rightarrow> (ReportError, AttestationReport) res" where
  "from_cert lib cert =
     res_bind (map_err (\<lambda>_. ReportParseError) (get_netscape_comment cert)) (\<lambda>payload.
     res_bind (ok_or ReportParseError (json_endorsed lib payload)) (\<lambda>endorsed.
     if \<not> end_entity lib (signing_cert endorsed) then Err ReportParseError
     else
       res_bind (get_ias_auth_config lib) (\<lambda>(ias_cert, roots).
       if \<not> valid_server_cert lib (signing_cert endorsed) roots [ias_cert] 1699088856 then Err ReportValidationError
       else if \<not> verify_report_signature lib (signing_cert endorsed) (report endorsed) (rsignature endorsed) then
         Err ReportParseError
       else read_report lib (report endorsed))))"

text \<open>The production build and the other hardware build differ in the status \<open>GroupOutOfDate\<close>.\<close>

definition verify_quote_status :: "bool \<Rightarrow> SgxQuoteStatus \<Rightarrow> string list \<Rightarrow> (NodeAuthResult, unit) res" where
  "verify_quote_status production quote_status advisories =
     (case quote_status of
        StatusOK \<Rightarrow> Ok ()
      | StatusSwHardeningNeeded \<Rightarrow> Ok ()
      | StatusConfigurationAndSwHardeningNeeded \<Rightarrow>
          if vulnerable advisories = [] then Ok () else Err (auth_result_of_status quote_status)
      | StatusGroupOutOfDate \<Rightarrow> if production then Err (auth_result_of_status quote_status) else Ok ()
      | _ \<Rightarrow> Err (auth_result_of_status quote_status))"

datatype SigningMethod = MRSIGNER_method | MRENCLAVE_method | NONE_method

definition MRSIGNER :: bytes where
  "MRSIGNER =
     [131, 215, 25, 231, 125, 234, 202, 20, 112, 246, 186, 246, 42, 77, 119, 67, 3, 200, 153, 219,
      105, 2, 15, 156, 112, 238, 29, 252, 8, 199, 206, 158]"

definition SIGNING_METHOD :: "bool \<Rightarrow> bool \<Rightarrow> SigningMethod" where
  "SIGNING_METHOD production test = (if production then MRENCLAVE_method else if test then MRSIGNER_method else MRENCLAVE_method)"

definition check_identity :: "'j attest_lib \<Rightarrow> SigningMethod \<Rightarrow> SgxEnclaveReport \<Rightarrow> (NodeAuthResult, unit) res" where
  "check_identity lib meth rep =
     (case meth of
        MRENCLAVE_method \<Rightarrow>
          (case get_mr_enclave lib of
             None \<Rightarrow> Err NodePanic
           | Some this_mr_enclave \<Rightarrow> if mr_enclave rep \<noteq> this_mr_enclave then Err MrEnclaveMismatch else Ok ())
      | MRSIGNER_method \<Rightarrow> if mr_signer rep \<noteq> MRSIGNER then Err MrSignerMismatch else Ok ()
      | NONE_method \<Rightarrow> Ok ())"

definition verify_ra_cert_hw :: "'j attest_lib \<Rightarrow> bool \<Rightarrow> bool \<Rightarrow> bytes \<Rightarrow> (NodeAuthResult, bytes) res" where
  "verify_ra_cert_hw lib production test cert_der =
     res_bind (map_err (\<lambda>_. InvalidCert) (from_cert lib cert_der)) (\<lambda>rep.
     res_bind (verify_quote_status production (sgx_quote_status rep) (advisory_ids rep)) (\<lambda>_.
     res_bind (check_identity lib (SIGNING_METHOD production test) (isv_enclave_report (sgx_quote_body rep))) (\<lambda>_.
     slice_of (report_data (isv_enclave_report (sgx_quote_body rep))) 0 32)))"

text \<open>Without the hardware feature the comment is the public key itself, and nothing is verified.\<close>

definition verify_ra_cert_sw :: "'j attest_lib \<Rightarrow> bytes \<Rightarrow> (NodeAuthResult, bytes) res" where
  "verify_ra_cert_sw lib cert_der =
     res_bind (map_err (\<lambda>_. InvalidCert) (get_netscape_comment cert_der)) (\<lambda>payload.
     ok_or InvalidCert (lib_base64_decode lib payload))"

lemma vulnerable_Nil: "vulnerable is = [] \<longleftrightarrow> set is \<subseteq> set WHITELISTED_ADVISORIES"
  by (induction "is") auto

text \<open>The platforms each build lets in.\<close>

definition platform_accepted :: "bool \<Rightarrow> SgxQuoteStatus \<Rightarrow> string list \<Rightarrow> bool" where
  "platform_accepted production st advisories \<longleftrightarrow>
     st = StatusOK \<or> st = StatusSwHardeningNeeded \<or>
     st = StatusConfigurationAndSwHardeningNeeded \<and> set advisories \<subseteq> {''INTEL-SA-00334'', ''INTEL-SA-00219''} \<or>
     st = StatusGroupOutOfDate \<and> \<not> production"

lemma verify_quote_status_Ok: "verify_quote_status production st adv = Ok u \<longleftrightarrow> platform_accepted production st adv"
  by (cases st) (auto simp: verify_quote_status_def platform_accepted_def vulnerable_Nil WHITELISTED_ADVISORIES_def)

lemma verify_quote_status_refuses:
  "\<not> platform_accepted production st adv \<Longrightarrow> verify_quote_status production st adv = Err (auth_result_of_status st)"
  by (cases st) (auto simp: verify_quote_status_def platform_accepted_def vulnerable_Nil WHITELISTED_ADVISORIES_def)

text \<open>
  What stands behind a certificate: a report signed by a certificate that Intel's
  root vouches for, of API version 4, carrying this quote, status and advisories.
\<close>

definition vouched_by_intel :: "'j attest_lib \<Rightarrow> bytes \<Rightarrow> AttestationReport \<Rightarrow> bool" where
  "vouched_by_intel lib cert rep \<longleftrightarrow>
     (\<exists>payload endorsed ias roots.
        get_netscape_comment cert = Ok payload \<and> json_endorsed lib payload = Some endorsed \<and>
        get_ias_auth_config lib = (Ok (ias, roots) :: (ReportError, bytes \<times> bytes list) res) \<and>
        valid_server_cert lib (signing_cert endorsed) roots [ias] 1699088856 \<and>
        verify_report_signature lib (signing_cert endorsed) (report endorsed) (rsignature endorsed) \<and>
        read_report lib (report endorsed) = Ok rep)"

lemma from_cert_vouched: "from_cert lib cert = Ok rep \<Longrightarrow> vouched_by_intel lib cert rep"
  unfolding from_cert_def vouched_by_intel_def by (auto simp: res_simps split: if_splits prod.splits)

lemma verify_ra_cert_hw_Ok:
  assumes "verify_ra_cert_hw lib production False cert = Ok pk"
  shows "\<exists>rep. vouched_by_intel lib cert rep \<and> platform_accepted production (sgx_quote_status rep) (advisory_ids rep) \<and>
    Some (mr_enclave (isv_enclave_report (sgx_quote_body rep))) = get_mr_enclave lib \<and>
    pk = take 32 (report_data (isv_enclave_report (sgx_quote_body rep)))"
  using assms
  by (auto simp: verify_ra_cert_hw_def res_simps verify_quote_status_Ok check_identity_def SIGNING_METHOD_def slice_of_def
      dest!: from_cert_vouched split: option.splits if_splits)

end
