(* ===== verification/Registration.thy ===== *)
theory Registration
  imports Contract_Ops Attestation_Report
begin

text \<open>
  How a node joins the network (\<open>registration/seed_exchange.rs\<close>, \<open>onchain.rs\<close>,
  \<open>offchain.rs\<close>, with \<open>utils.rs\<close> and \<open>storage.rs\<close>): the first node creates the
  seed, a new node creates its registration key and asks with a certificate, the
  network hands out the seed encrypted for that key, and the new node decrypts
  and seals it. Making a certificate takes the attestation service: it is an
  argument, as are the outcomes of pointer checks and of the memory reserve.
\<close>

section \<open>Types\<close>

datatype sgx_status_t = SGX_SUCCESS | SGX_ERROR_UNEXPECTED | SGX_OTHER nat

definition ENCRYPTED_SEED_SIZE :: nat where "ENCRYPTED_SEED_SIZE = 48"
definition SEED_KEY_SIZE :: nat where "SEED_KEY_SIZE = 32"

section \<open>seed_exchange.rs\<close>

definition encrypt_seed :: "prims \<Rightarrow> Keychain \<Rightarrow> bytes \<Rightarrow> (sgx_status_t, bytes) res" where
  "encrypt_seed p kc new_node_pk =
     res_bind (unwrap (seed_exchange_key kc)) (\<lambda>kp.
     res_bind (unwrap (get_consensus_seed kc)) (\<lambda>seed.
     case encrypt_siv p (diffie_hellman p kp new_node_pk) seed (Some [new_node_pk]) of
       Ok r \<Rightarrow> if length r \<noteq> ENCRYPTED_SEED_SIZE then Err SGX_ERROR_UNEXPECTED else Ok r
     | Err _ \<Rightarrow> Err SGX_ERROR_UNEXPECTED
     | Panicked \<Rightarrow> Panicked))"

definition decrypt_seed :: "prims \<Rightarrow> Keychain \<Rightarrow> bytes \<Rightarrow> bytes \<Rightarrow> (sgx_status_t, Seed) res" where
  "decrypt_seed p key_manager master_pk encrypted_seed =
     res_bind (unwrap (get_registration_key key_manager)) (\<lambda>kp.
     case decrypt_siv p (diffie_hellman p kp master_pk) encrypted_seed (Some [get_pubkey kp]) of
       Ok r \<Rightarrow> if length r \<noteq> SEED_KEY_SIZE then Err SGX_ERROR_UNEXPECTED else Ok r
     | Err _ \<Rightarrow> Err SGX_ERROR_UNEXPECTED
     | Panicked \<Rightarrow> Panicked)"

section \<open>onchain.rs\<close>

text \<open>
  What surrounds the call: whether the memory reserve could be set up and
  restored, and whether the buffer for the seed passes its check.
\<close>

record auth_env =
  ae_register_ok :: bool
  ae_restore_ok :: bool
  ae_seed_ptr_ok :: bool

text \<open>The body that runs under \<open>catch_unwind\<close>; \<open>verify\<close> is the build's \<open>verify_ra_cert\<close>.\<close>

definition authenticate_body ::
  "prims \<Rightarrow> Keychain \<Rightarrow> (bytes \<Rightarrow> (NodeAuthResult, bytes) res) \<Rightarrow> bytes \<Rightarrow> (NodeAuthResult, bytes) res" where
  "authenticate_body p kc verify cert =
     res_bind (verify cert) (\<lambda>pk.
     if length pk \<noteq> PUBLIC_KEY_SIZE then Err MalformedPublicKey
     else map_err (\<lambda>_. SeedEncryptionFailed) (encrypt_seed p kc pk))"

text \<open>
  The seed buffer is a parameter and a result. Copying into it lies outside
  \<open>catch_unwind\<close>, and panics if the lengths differ.
\<close>

definition ecall_authenticate_new_node ::
  "prims \<Rightarrow> Keychain \<Rightarrow> auth_env \<Rightarrow> (bytes \<Rightarrow> (NodeAuthResult, bytes) res) \<Rightarrow> bytes option \<Rightarrow> bytes
     \<Rightarrow> (unit, NodeAuthResult) res \<times> bytes" where
  "ecall_authenticate_new_node p kc ae verify cert seed =
     (if \<not> ae_register_ok ae then (Ok NodeMemorySafetyAllocationError, seed)
      else if \<not> ae_seed_ptr_ok ae \<or> \<not> validate_const_ptr cert then (Ok InvalidInput, seed)
      else
        (let r = authenticate_body p kc verify (the cert)
         in if \<not> ae_restore_ok ae then (Ok NodeMemorySafetyAllocationError, seed)
            else (case r of
                Ok res \<Rightarrow> if length res = length seed then (Ok Success, res) else (Panicked, seed)
              | Err e \<Rightarrow> (Ok e, seed)
              | Panicked \<Rightarrow> (Ok NodePanic, seed))))"

section \<open>storage.rs and offchain.rs\<close>

text \<open>
  The host around the setup calls: the protected files, the plain files, and the
  attestation service that turns a key pair into a certificate.
\<close>

record 'f setup_env =
  se_fs :: "'f sgxfs"
  se_var :: "string option"
  se_create_file :: "string \<Rightarrow> 'f \<Rightarrow> bool \<times> 'f"
  se_write_all :: "string \<Rightarrow> bytes \<Rightarrow> 'f \<Rightarrow> bool \<times> 'f"
  se_certificate :: "KeyPair \<Rightarrow> bytes \<Rightarrow> bytes \<Rightarrow> 'f \<Rightarrow> (sgx_status_t, bytes) res \<times> 'f"
  se_key_ptr_ok :: bool

definition ATTESTATION_CERTIFICATE_SAVE_PATH :: string where
  "ATTESTATION_CERTIFICATE_SAVE_PATH = ''attestation_cert.der''"

definition SEED_EXCH_CERTIFICATE_SAVE_PATH :: string where
  "SEED_EXCH_CERTIFICATE_SAVE_PATH = ''node-master-cert.der''"

definition IO_CERTIFICATE_SAVE_PATH :: string where
  "IO_CERTIFICATE_SAVE_PATH = ''io-master-cert.der''"

definition write_to_untrusted :: "'f setup_env \<Rightarrow> bytes \<Rightarrow> string \<Rightarrow> ('f, sgx_status_t, unit) stm" where
  "write_to_untrusted se bs filepath w =
     (case se_create_file se filepath w of
        (False, w1) \<Rightarrow> (Err SGX_ERROR_UNEXPECTED, w1)
      | (True, w1) \<Rightarrow>
          (case se_write_all se filepath bs w1 of
             (False, w2) \<Rightarrow> (Err SGX_ERROR_UNEXPECTED, w2)
           | (True, w2) \<Rightarrow> (Ok (), w2)))"

definition attest_from_key :: "'f setup_env \<Rightarrow> KeyPair \<Rightarrow> string \<Rightarrow> bytes \<Rightarrow> bytes \<Rightarrow> ('f, sgx_status_t, unit) stm" where
  "attest_from_key se kp save_path spid api_key =
     and_then (se_certificate se kp spid api_key) (\<lambda>cert.
     write_to_untrusted se cert save_path)"

text \<open>A step on the local key chain whose failure is reported as \<open>SGX_ERROR_UNEXPECTED\<close>.\<close>

definition key_step ::
  "(Keychain \<times> 'f \<Rightarrow> ('e, unit) res \<times> Keychain \<times> 'f) \<Rightarrow> (Keychain \<times> 'f, sgx_status_t, unit) stm" where
  "key_step f st = (case f st of (r, st') \<Rightarrow> (map_err (\<lambda>_. SGX_ERROR_UNEXPECTED) r, st'))"

definition master_keys_step :: "prims \<Rightarrow> (Keychain \<times> 'f, sgx_status_t, unit) stm" where
  "master_keys_step p = key_step (\<lambda>(kc, w). case generate_consensus_master_keys p kc of (r, kc') \<Rightarrow> (r, kc', w))"

definition on_files :: "('f, 'e, 'a) stm \<Rightarrow> ('k \<times> 'f, 'e, 'a) stm" where
  "on_files m st = (case st of (kc, w) \<Rightarrow> (case m w of (r, w') \<Rightarrow> (r, kc, w')))"

definition from_chain :: "(Keychain \<Rightarrow> ('e, 'a) res) \<Rightarrow> (Keychain \<times> 'f, 'e, 'a) stm" where
  "from_chain f st = (f (fst st), st)"

text \<open>
  A setup call starts from the key chain on disk and keeps only the files. \<open>Ok\<close> is
  \<open>SGX_SUCCESS\<close>, with what the call writes to its output buffer.
\<close>

definition with_keychain :: "prims \<Rightarrow> 'f setup_env \<Rightarrow> (Keychain \<times> 'f, sgx_status_t, 'a) stm \<Rightarrow> ('f, sgx_status_t, 'a) stm" where
  "with_keychain p se m w =
     (case m (keychain_new p (se_fs se) (se_var se) w, w) of (r, _, w') \<Rightarrow> (r, w'))"

definition ecall_init_bootstrap ::
  "prims \<Rightarrow> 'f setup_env \<Rightarrow> bytes option \<Rightarrow> bytes option \<Rightarrow> bytes option \<Rightarrow> bytes option \<Rightarrow> ('f, sgx_status_t, bytes) stm" where
  "ecall_init_bootstrap p se spid api_key rand_seed rand_key =
     (if \<not> se_key_ptr_ok se \<or> \<not> validate_const_ptr spid \<or> \<not> validate_const_ptr api_key then fail SGX_ERROR_UNEXPECTED
      else with_keychain p se (
        and_then (key_step (create_consensus_seed (se_fs se) (se_var se) rand_seed)) (\<lambda>_.
        and_then (master_keys_step p) (\<lambda>_.
        and_then (key_step (create_registration_key p (se_fs se) (se_var se) rand_key)) (\<lambda>_.
        and_then (from_chain (\<lambda>kc. unwrap (seed_exchange_key kc))) (\<lambda>kp.
        and_then (on_files (attest_from_key se kp SEED_EXCH_CERTIFICATE_SAVE_PATH (the spid) (the api_key))) (\<lambda>_.
        and_then (from_chain (\<lambda>kc. unwrap (get_consensus_io_exchange_keypair kc))) (\<lambda>io.
        and_then (on_files (attest_from_key se io IO_CERTIFICATE_SAVE_PATH (the spid) (the api_key))) (\<lambda>_.
        ret (get_pubkey kp))))))))))"

definition ecall_init_node ::
  "prims \<Rightarrow> 'f setup_env \<Rightarrow> (bytes \<Rightarrow> (NodeAuthResult, bytes) res) \<Rightarrow> bytes option \<Rightarrow> bytes option \<Rightarrow> ('f, sgx_status_t, unit) stm" where
  "ecall_init_node p se verify master_cert encrypted_seed =
     (if \<not> validate_const_ptr master_cert \<or> \<not> validate_const_ptr encrypted_seed \<or>
         length (the encrypted_seed) \<noteq> ENCRYPTED_SEED_SIZE then fail SGX_ERROR_UNEXPECTED
      else
        and_then (lift (map_err (\<lambda>_. SGX_ERROR_UNEXPECTED) (verify (the master_cert)))) (\<lambda>pk.
        if length pk \<noteq> PUBLIC_KEY_SIZE then fail SGX_ERROR_UNEXPECTED
        else with_keychain p se (
          and_then (from_chain (\<lambda>kc. decrypt_seed p kc pk (the encrypted_seed))) (\<lambda>seed.
          and_then (key_step (set_consensus_seed (se_fs se) (se_var se) seed)) (\<lambda>_.
          master_keys_step p)))))"

definition ecall_get_attestation_report ::
  "prims \<Rightarrow> 'f setup_env \<Rightarrow> Keychain \<Rightarrow> bytes option \<Rightarrow> bytes option \<Rightarrow> ('f, sgx_status_t, unit) stm" where
  "ecall_get_attestation_report p se kc spid api_key =
     (if \<not> validate_const_ptr spid \<or> \<not> validate_const_ptr api_key then fail SGX_ERROR_UNEXPECTED
      else
        and_then (lift (unwrap (get_registration_key kc))) (\<lambda>kp.
        attest_from_key se kp ATTESTATION_CERTIFICATE_SAVE_PATH (the spid) (the api_key)))"

definition ecall_key_gen :: "prims \<Rightarrow> 'f setup_env \<Rightarrow> bytes option \<Rightarrow> ('f, sgx_status_t, bytes) stm" where
  "ecall_key_gen p se rand =
     (if \<not> se_key_ptr_ok se then fail SGX_ERROR_UNEXPECTED
      else with_keychain p se (
        and_then (key_step (create_registration_key p (se_fs se) (se_var se) rand)) (\<lambda>_.
        and_then (from_chain (\<lambda>kc. unwrap (get_registration_key kc))) (\<lambda>kp.
        ret (get_pubkey kp)))))"

section \<open>Who gets the seed\<close>

lemma encrypt_seed_length: "encrypt_seed p kc pk = Ok r \<Longrightarrow> length r = ENCRYPTED_SEED_SIZE"
  by (cases "seed_exchange_key kc"; cases "get_consensus_seed kc")
    (auto simp: encrypt_seed_def split: res.splits if_splits)

lemma encrypt_seed_no_success: "map_err (\<lambda>_. SeedEncryptionFailed) (encrypt_seed p kc pk) \<noteq> Err Success"
  by (cases "encrypt_seed p kc pk") auto

lemma status_never_success: "auth_result_of_status st \<noteq> Success"
  by (cases st) auto

lemma verify_ra_cert_hw_no_success: "verify_ra_cert_hw al production test cert \<noteq> Err Success"
proof -
  have "verify_quote_status production st adv \<noteq> Err Success" for st adv
    using verify_quote_status_Ok verify_quote_status_refuses status_never_success
    by (metis res.distinct(1) res.inject(2))
  then show ?thesis
    by (auto simp: verify_ra_cert_hw_def res_simps check_identity_def slice_of_def
        split: option.splits if_splits SigningMethod.splits)
qed


section \<open>A new node ends with the keys of the network\<close>

text \<open>The keys that follow from a seed, with the registration key of a node.\<close>

definition keychain_of :: "prims \<Rightarrow> Seed \<Rightarrow> KeyPair option \<Rightarrow> Keychain" where
  "keychain_of p seed reg = snd (generate_consensus_master_keys p
     \<lparr>consensus_seed = Some seed, consensus_state_ikm = None, consensus_seed_exchange_keypair = None,
      consensus_io_exchange_keypair = None, consensus_callback_secret = None, registration_key = reg\<rparr>)"

lemma keychain_of_simps [simp]:
  "consensus_seed (keychain_of p seed reg) = Some seed"
  "registration_key (keychain_of p seed reg) = reg"
  "consensus_seed_exchange_keypair (keychain_of p seed reg) =
     Some (keypair_from p (derive_key_from_seed p seed (be32 CONSENSUS_SEED_EXCHANGE_KEYPAIR_DERIVE_ORDER)))"
  by (simp_all add: keychain_of_def generate_consensus_master_keys_def is_consensus_seed_set_def Let_def)

lemma keychain_new_sealed:
  assumes "open_sealed fs (CONSENSUS_SEED_SEALING_PATH ev) w = Ok seed"
    and "open_sealed fs (REGISTRATION_KEY_SEALING_PATH ev) w = Ok k"
  shows "keychain_new p fs ev w = keychain_of p seed (Some (keypair_from p k))"
  using assms by (simp add: keychain_new_def keychain_of_def Let_def)

lemma keychain_new_registration:
  assumes "open_sealed fs (REGISTRATION_KEY_SEALING_PATH ev) w = Ok k"
  shows "registration_key (keychain_new p fs ev w) = Some (keypair_from p k)"
  using assms by (simp add: keychain_new_def generate_consensus_master_keys_def Let_def)

lemma seed_exchange:
  assumes "prims_ok p" and "length seed = SEED_KEY_SIZE" and reg: "registration_key node = Some (keypair_from p k)"
  obtains enc where "encrypt_seed p (keychain_of p seed r) (public_key (keypair_from p k)) = Ok enc"
    and "decrypt_seed p node (public_key (keypair_from p (derive_key_from_seed p seed
           (be32 CONSENSUS_SEED_EXCHANGE_KEYPAIR_DERIVE_ORDER)))) enc = Ok seed"
    and "length enc = ENCRYPTED_SEED_SIZE"
proof -
  let ?m = "derive_key_from_seed p seed (be32 CONSENSUS_SEED_EXCHANGE_KEYPAIR_DERIVE_ORDER)"
  let ?pk = "p_x25519_public p k" and ?key = "p_x25519_shared p ?m (p_x25519_public p k)"
  from assms(1) obtain enc where enc: "p_siv_encrypt p ?key [?pk] seed = Some enc" "p_siv_decrypt p ?key [?pk] enc = Some seed"
      "length enc = length seed + 16"
    unfolding prims_ok_def by blast
  have shared: "p_x25519_shared p k (p_x25519_public p ?m) = ?key"
    using assms(1) unfolding prims_ok_def by blast
  show thesis
    by (rule that [of enc])
      (simp_all add: encrypt_seed_def decrypt_seed_def seed_exchange_key_def get_consensus_seed_def get_registration_key_def
        reg keypair_from_def diffie_hellman_def get_pubkey_def encrypt_siv_def decrypt_siv_def aes_siv_encrypt_def
        aes_siv_decrypt_def shared enc assms(2) ENCRYPTED_SEED_SIZE_def SEED_KEY_SIZE_def)
qed

text \<open>
  C7: registration works. A node with a sealed registration key, whose certificate
  the network accepts for that key, is sent an encrypted seed; given the
  certificate of the network's seed exchange key and a disk that takes the seed,
  its initialisation succeeds, and from then on its key chain is the one that the
  seed of the network determines: all nodes share every consensus key.
\<close>

theorem registered_node_shares_keys:
  assumes p: "prims_ok p" and fs: "fs_ok (se_fs se)" and seed: "length seed = SEED_KEY_SIZE"
    and node_key: "open_sealed (se_fs se) (REGISTRATION_KEY_SEALING_PATH (se_var se)) w = Ok k"
    and accepted: "verify cert = Ok (public_key (keypair_from p k))" and "cert \<noteq> []"
    and host: "ae_register_ok ae" "ae_restore_ok ae" "ae_seed_ptr_ok ae" and buf: "length buf = ENCRYPTED_SEED_SIZE"
    and master: "verify' master_cert = Ok (public_key (keypair_from p (derive_key_from_seed p seed
           (be32 CONSENSUS_SEED_EXCHANGE_KEYPAIR_DERIVE_ORDER))))" and "master_cert \<noteq> []"
    and disk: "seal (se_fs se) seed (CONSENSUS_SEED_SEALING_PATH (se_var se)) w = (Ok (), w')"
  shows "\<exists>enc. ecall_authenticate_new_node p (keychain_of p seed reg) ae verify (Some cert) buf = (Ok Success, enc) \<and>
    ecall_init_node p se verify' (Some master_cert) (Some enc) w = (Ok (), w') \<and>
    keychain_new p (se_fs se) (se_var se) w' = keychain_of p seed (Some (keypair_from p k))"
proof -
  let ?node = "keychain_new p (se_fs se) (se_var se) w"
  obtain enc where enc: "encrypt_seed p (keychain_of p seed reg) (public_key (keypair_from p k)) = Ok enc"
    and dec: "decrypt_seed p ?node (public_key (keypair_from p (derive_key_from_seed p seed
           (be32 CONSENSUS_SEED_EXCHANGE_KEYPAIR_DERIVE_ORDER)))) enc = Ok seed"
    and len: "length enc = ENCRYPTED_SEED_SIZE"
    using seed_exchange [OF p seed keychain_new_registration [OF node_key]] .
  have pub: "length (public_key (keypair_from p x)) = PUBLIC_KEY_SIZE" for x
    using p by (simp add: keypair_from_def prims_ok_def PUBLIC_KEY_SIZE_def)
  have "enc \<noteq> []"
    using len by (auto simp: ENCRYPTED_SEED_SIZE_def)
  have "ecall_authenticate_new_node p (keychain_of p seed reg) ae verify (Some cert) buf = (Ok Success, enc)"
    using accepted \<open>cert \<noteq> []\<close> host buf len
    by (simp add: ecall_authenticate_new_node_def authenticate_body_def validate_const_ptr_def pub enc)
  moreover have "ecall_init_node p se verify' (Some master_cert) (Some enc) w = (Ok (), w')"
    using master \<open>master_cert \<noteq> []\<close> \<open>enc \<noteq> []\<close> len
    by (simp add: ecall_init_node_def validate_const_ptr_def and_then_def lift_def pub with_keychain_def from_chain_def dec
        key_step_def set_consensus_seed_def disk master_keys_step_def generate_consensus_master_keys_def Let_def
        split: if_splits)
  moreover have "keychain_new p (se_fs se) (se_var se) w' = keychain_of p seed (Some (keypair_from p k))"
    using seal_then_open [OF fs disk] seal_elsewhere [OF fs disk sealing_paths_differ] seed node_key
    by (intro keychain_new_sealed) (simp_all add: SEED_KEY_SIZE_def SECRET_KEY_SIZE_def)
  ultimately show ?thesis
    by blast
qed

section \<open>Concrete runs\<close>

definition demo_setup :: "(string \<rightharpoonup> bytes) setup_env" where
  "demo_setup = \<lparr>se_fs = disk_fs, se_var = None, se_create_file = (\<lambda>path w. (True, w)), se_write_all = (\<lambda>path d w. (True, w)),
     se_certificate = (\<lambda>kp spid api w. (Ok (get_pubkey kp), w)), se_key_ptr_ok = True\<rparr>"

definition demo_auth :: auth_env where
  "demo_auth = \<lparr>ae_register_ok = True, ae_restore_ok = True, ae_seed_ptr_ok = True\<rparr>"

definition demo_disk :: "string \<rightharpoonup> bytes" where
  "demo_disk = [REGISTRATION_KEY_SEALING_PATH None \<mapsto> replicate 32 5]"

theorem registered_node_shares_keys_witness:
  "\<exists>w'. keychain_new demo_prims disk_fs None w' =
     keychain_of demo_prims (replicate 32 8) (Some (keypair_from demo_prims (replicate 32 5)))"
proof -
  have disk: "seal (se_fs demo_setup) (replicate 32 8) (CONSENSUS_SEED_SEALING_PATH (se_var demo_setup)) demo_disk =
      (Ok (), demo_disk(CONSENSUS_SEED_SEALING_PATH None \<mapsto> replicate 32 8))"
    by (simp add: seal_def demo_setup_def disk_fs_def)
  have key: "open_sealed (se_fs demo_setup) (REGISTRATION_KEY_SEALING_PATH (se_var demo_setup)) demo_disk = Ok (replicate 32 5)"
    by (simp add: open_sealed_def demo_setup_def disk_fs_def demo_disk_def SECRET_KEY_SIZE_def)
  show ?thesis
    using registered_node_shares_keys [of demo_prims demo_setup "replicate 32 8" demo_disk "replicate 32 5"
        "\<lambda>_. Ok (public_key (keypair_from demo_prims (replicate 32 5)))" "[1]" demo_auth "replicate 48 0"
        "\<lambda>_. Ok (public_key (keypair_from demo_prims (derive_key_from_seed demo_prims (replicate 32 8)
           (be32 CONSENSUS_SEED_EXCHANGE_KEYPAIR_DERIVE_ORDER))))" "[2]", OF demo_prims_ok _ _ key _ _ _ _ _ _ _ _ disk]
    by (auto simp: demo_setup_def demo_auth_def disk_fs_ok SEED_KEY_SIZE_def ENCRYPTED_SEED_SIZE_def)
qed

definition demo_quote :: bytes where
  "demo_quote = [1, 0, 0, 0] @ replicate 428 0"

definition demo_attest :: "unit attest_lib" where
  "demo_attest = \<lparr>json_endorsed = (\<lambda>_. Some \<lparr>report = [1], rsignature = [2], signing_cert = [3]\<rparr>), end_entity = (\<lambda>_. True),
     pem_roots = (\<lambda>_. Some []), valid_server_cert = (\<lambda>_ _ _ _. True), verify_report_signature = (\<lambda>_ _ _. True),
     json_value = (\<lambda>_. Some ()), json_u64 = (\<lambda>_ _. Some 4),
     json_str = (\<lambda>_ f. if f = ''platformInfoBlob'' then None else Some ''OK''), json_strings = (\<lambda>_ _. Some []),
     lib_hex_decode = (\<lambda>_. None), lib_base64_decode = (\<lambda>_. Some demo_quote), IAS_REPORT_CA = replicate 60 1,
     get_mr_enclave = Some (replicate 32 0)\<rparr>"

definition demo_cert :: bytes where
  "demo_cert = NS_CMT_OID @ [4, 1, 7, 0, 0]"

lemma demo_comment: "get_netscape_comment demo_cert = Ok [7]"
  by (simp add: get_netscape_comment_def extract_asn1_value_def demo_cert_def NS_CMT_OID_def byte_at_def slice_of_def)

lemma demo_quote_parses:
  "\<exists>q. quote_parse demo_quote = Ok q \<and> mr_enclave (isv_enclave_report q) = replicate 32 0 \<and>
     report_data (isv_enclave_report q) = replicate 64 0"
proof -
  have "u16_le (field_at 0 2 demo_quote) = 1" and "u16_le (field_at 2 2 demo_quote) = 0"
    by (simp_all add: field_at_def demo_quote_def u16_le_def from_le_def from_be_def numeral_2_eq_2)
  moreover have "field_at 112 32 demo_quote = replicate 32 0" and "field_at 368 64 demo_quote = replicate 64 0"
    by (simp_all add: field_at_def demo_quote_def drop_Cons' take_Cons')
  moreover have "length demo_quote = 432"
    by (simp add: demo_quote_def)
  ultimately show ?thesis
    by (simp add: quote_parse_eq quote_version_def)
qed

lemma demo_verified: "verify_ra_cert_hw demo_attest True False demo_cert = Ok (replicate 32 0)"
proof -
  obtain q where q: "quote_parse demo_quote = Ok q" "mr_enclave (isv_enclave_report q) = replicate 32 0"
      "report_data (isv_enclave_report q) = replicate 64 0"
    using demo_quote_parses by blast
  have "get_ias_auth_config demo_attest = (Ok (demo_quote, []) :: (ReportError, bytes \<times> bytes list) res)"
    by (simp add: get_ias_auth_config_def demo_attest_def slice_of_def BEGIN_CERTIFICATE_def END_CERTIFICATE_def Let_def)
  moreover have "read_report demo_attest [1] =
      Ok \<lparr>sgx_quote_status = StatusOK, sgx_quote_body = q, platform_info_blob = None, advisory_ids = []\<rparr>"
    by (simp add: read_report_def demo_attest_def q quote_status_from_def)
  ultimately have "from_cert demo_attest demo_cert =
      Ok \<lparr>sgx_quote_status = StatusOK, sgx_quote_body = q, platform_info_blob = None, advisory_ids = []\<rparr>"
    by (simp add: from_cert_def demo_comment) (simp add: demo_attest_def)
  then show ?thesis
    by (simp add: verify_ra_cert_hw_def verify_quote_status_def check_identity_def SIGNING_METHOD_def slice_of_def q)
      (simp add: demo_attest_def q)
qed


end
