(* ===== verification/Vm_Errors.thy ===== *)
theory Vm_Errors
  imports Enclave_Types
begin

text \<open>
  The errors of the virtual machine that hosts the enclave
  (\<open>sgx-vm/src/errors\<close>) and the results of its calls to the chain
  (\<open>sgx-vm/src/ffi.rs\<close>). Backtraces are left out; a string is the text the code
  puts into the error.
\<close>

section \<open>ffi.rs\<close>

record GasInfo =
  gas_cost :: u64
  externally_used :: u64

definition with_cost :: "u64 \<Rightarrow> GasInfo" where
  "with_cost g = \<lparr>gas_cost = g, externally_used = 0\<rparr>"

definition with_externally_used :: "u64 \<Rightarrow> GasInfo" where
  "with_externally_used g = \<lparr>gas_cost = 0, externally_used = g\<rparr>"

definition free_gas :: GasInfo where
  "free_gas = \<lparr>gas_cost = 0, externally_used = 0\<rparr>"

datatype FfiError =
    ForeignPanic
  | BadArgument
  | FfiInvalidUtf8
  | FfiOutOfGas
  | FfiUnknown "string option"
  | UserErr string

type_synonym 'a FfiResult = "(FfiError, 'a) res \<times> GasInfo"

section \<open>errors\<close>

datatype RegionValidationError =
    LengthExceedsCapacity u32 u32
  | OutOfRange u32 u32
  | ZeroOffset

datatype CommunicationError =
    DerefErr u32
  | InvalidOrder i32
  | InvalidRegion RegionValidationError
  | CommInvalidUtf8
  | RegionLengthTooBig nat nat
  | RegionTooSmall nat nat
  | ZeroAddress

text \<open>An error the enclave returned, or the status of a transition that failed.\<close>

datatype EnclaveCallError =
    EnclaveErr EnclaveError
  | SdkErr nat

datatype VmError =
    CacheErr string
  | CommunicationErr CommunicationError
  | CompileErr string
  | ConversionErr nat
  | VmGenericErr string
  | InstantiationErr string
  | IntegrityErr
  | IteratorDoesNotExist u32
  | VmParseErr string
  | VmSerializeErr string
  | ResolveErr string
  | RuntimeErr string
  | StaticValidationErr string
  | UninitializedContextData string
  | FfiErr FfiError
  | GasDepletion
  | WriteAccessDenied
  | VmEnclaveErr EnclaveCallError

type_synonym 'a vm_result = "(VmError, 'a) res"

fun vm_error_of_ffi :: "FfiError \<Rightarrow> VmError" where
  "vm_error_of_ffi FfiOutOfGas = GasDepletion"
| "vm_error_of_ffi ffi_error = FfiErr ffi_error"

lemma vm_error_of_ffi_depleted [simp]: "vm_error_of_ffi e = GasDepletion \<longleftrightarrow> e = FfiOutOfGas"
  by (cases e) simp_all

end
