(* ===== verification/Guest_Memory.thy ===== *)
theory Guest_Memory
  imports Wasm_Runtime Vm_Errors
begin

text \<open>
  The two sides of a region of wasm memory: the virtual machine that checks, reads
  and writes it (\<open>sgx-vm/src/memory.rs\<close>, \<open>conversion.rs\<close>, the entries of an
  iteration in \<open>imports.rs\<close>), and the contract that allocates and consumes it
  (\<open>std/src/memory.rs\<close>, the iterator of \<open>std/src/imports.rs\<close>). Linear memory is
  that of the wasm runtime theory; the allocator of the contract is an argument.
\<close>

section \<open>sgx-vm/src/conversion.rs\<close>

definition to_u32 :: "nat \<Rightarrow> (VmError, u32) res" where
  "to_u32 input = (if input < 2 ^ 32 then Ok (word_of_nat input) else Err (ConversionErr input))"

section \<open>sgx-vm/src/memory.rs\<close>

text \<open>Three little endian words, in the order of the fields.\<close>

record Region =
  roffset :: u32
  rcapacity :: u32
  rlength :: u32

definition region_bytes :: "Region \<Rightarrow> bytes" where
  "region_bytes r = to_le 4 (unat (roffset r)) @ to_le 4 (unat (rcapacity r)) @ to_le 4 (unat (rlength r))"

definition bytes_region :: "bytes \<Rightarrow> Region" where
  "bytes_region bs =
     \<lparr>roffset = word_of_nat (from_le (take 4 bs)), rcapacity = word_of_nat (from_le (take 4 (drop 4 bs))),
      rlength = word_of_nat (from_le (drop 8 bs))\<rparr>"

definition validate_region :: "Region \<Rightarrow> (RegionValidationError, unit) res" where
  "validate_region region =
     (if roffset region = 0 then Err ZeroOffset
      else if rlength region > rcapacity region then Err (LengthExceedsCapacity (rlength region) (rcapacity region))
      else if rcapacity region > - 1 - roffset region then Err (OutOfRange (roffset region) (rcapacity region))
      else Ok ())"

definition get_region :: "'m memops \<Rightarrow> 'm \<Rightarrow> u32 \<Rightarrow> (VmError, Region) res" where
  "get_region mo m ptr =
     (case mem_get mo m ptr 12 of
        None \<Rightarrow> Err (CommunicationErr (DerefErr ptr))
      | Some bs \<Rightarrow>
          (let region = bytes_region bs
           in res_bind (map_err (\<lambda>e. CommunicationErr (InvalidRegion e)) (validate_region region)) (\<lambda>_. Ok region)))"

definition set_region :: "'m memops \<Rightarrow> u32 \<Rightarrow> Region \<Rightarrow> 'm \<Rightarrow> (VmError, unit) res \<times> 'm" where
  "set_region mo ptr region m =
     (case mem_set mo m ptr (region_bytes region) of None \<Rightarrow> (Err (CommunicationErr (DerefErr ptr)), m) | Some m' \<Rightarrow> (Ok (), m'))"

definition read_region :: "'m memops \<Rightarrow> 'm \<Rightarrow> u32 \<Rightarrow> nat \<Rightarrow> (VmError, bytes) res" where
  "read_region mo m ptr max_length =
     res_bind (get_region mo m ptr) (\<lambda>region.
     res_bind (to_u32 max_length) (\<lambda>limit.
     if rlength region > limit then Err (CommunicationErr (RegionLengthTooBig (unat (rlength region)) max_length))
     else ok_or (CommunicationErr (DerefErr (roffset region))) (mem_get mo m (roffset region) (unat (rlength region)))))"

definition maybe_read_region :: "'m memops \<Rightarrow> 'm \<Rightarrow> u32 \<Rightarrow> nat \<Rightarrow> (VmError, bytes option) res" where
  "maybe_read_region mo m ptr max_length =
     (if ptr = 0 then Ok None else res_bind (read_region mo m ptr max_length) (\<lambda>bs. Ok (Some bs)))"

text \<open>The whole capacity must lie in memory, not only the bytes written.\<close>

definition write_region :: "'m memops \<Rightarrow> u32 \<Rightarrow> bytes \<Rightarrow> 'm \<Rightarrow> (VmError, unit) res \<times> 'm" where
  "write_region mo ptr d m =
     (case get_region mo m ptr of
        Ok region \<Rightarrow>
          if length d > unat (rcapacity region) then (Err (CommunicationErr (RegionTooSmall (unat (rcapacity region)) (length d))), m)
          else
            (case mem_get mo m (roffset region) (unat (rcapacity region)) of
               None \<Rightarrow> (Err (CommunicationErr (DerefErr (roffset region))), m)
             | Some _ \<Rightarrow>
                 (case mem_set mo m (roffset region) d of
                    None \<Rightarrow> (Err (CommunicationErr (DerefErr (roffset region))), m)
                  | Some m' \<Rightarrow> set_region mo ptr (region\<lparr>rlength := word_of_nat (length d)\<rparr>) m'))
      | Err e \<Rightarrow> (Err e, m)
      | Panicked \<Rightarrow> (Panicked, m))"

section \<open>std/src/memory.rs\<close>

text \<open>The region of data that lies at an address, and that of a vector handed over.\<close>

definition build_region :: "nat \<Rightarrow> nat \<Rightarrow> ('e, Region) res" where
  "build_region data_ptr len =
     (if data_ptr < 2 ^ 32 \<and> len < 2 ^ 32
      then Ok \<lparr>roffset = word_of_nat data_ptr, rcapacity = word_of_nat len, rlength = word_of_nat len\<rparr> else Panicked)"

definition alloc_region :: "nat \<Rightarrow> nat \<Rightarrow> ('e, Region) res" where
  "alloc_region data_ptr cap =
     (if data_ptr < 2 ^ 32 \<and> cap < 2 ^ 32
      then Ok \<lparr>roffset = word_of_nat data_ptr, rcapacity = word_of_nat cap, rlength = 0\<rparr> else Panicked)"

text \<open>Memory out of range traps.\<close>

definition consume_region :: "'m memops \<Rightarrow> 'm \<Rightarrow> u32 \<Rightarrow> ('e, bytes) res" where
  "consume_region mo m ptr =
     (if ptr = 0 then Panicked
      else
        res_bind (or_panic (mem_get mo m ptr 12)) (\<lambda>bs.
        let region = bytes_region bs
        in if roffset region = 0 then Panicked
           else or_panic (mem_get mo m (roffset region) (unat (rlength region)))))"

section \<open>Entries of an iteration\<close>

text \<open>What \<open>do_next\<close> writes for an entry, and for the end.\<close>

definition do_next_data :: "(bytes \<times> bytes) option \<Rightarrow> (VmError, bytes) res" where
  "do_next_data result =
     (case (case result of Some kv \<Rightarrow> kv | None \<Rightarrow> ([], [])) of (key, val) \<Rightarrow>
        res_bind (to_u32 (length key)) (\<lambda>keylen. Ok (val @ key @ to_be 4 (unat keylen))))"

text \<open>What the contract's iterator makes of it.\<close>

definition iterator_next :: "bytes \<Rightarrow> ('e, (bytes \<times> bytes) option) res" where
  "iterator_next kv =
     (if length kv < 4 then Panicked
      else
        (let keylen = from_be (drop (length kv - 4) kv)
         in if keylen = 0 then Ok None
            else
              (let kv = take (length kv - 4) kv
               in if length kv < keylen then Panicked
                  else Ok (Some (drop (length kv - keylen) kv, take (length kv - keylen) kv)))))"

text \<open>One call of the contract's iterator, through the host.\<close>

definition deliver :: "(bytes \<times> bytes) option \<Rightarrow> (VmError, (bytes \<times> bytes) option) res" where
  "deliver result = res_bind (do_next_data result) iterator_next"

text \<open>
  A scan from the contract's side: what the host's iterator has left is delivered
  until one call answers that there is no more; at the end of the entries that is
  the answer (\<open>deliver_end\<close>).
\<close>

fun external_scan :: "(bytes \<times> bytes) list \<Rightarrow> (VmError, (bytes \<times> bytes) list) res" where
  "external_scan [] = res_bind (deliver None) (\<lambda>_. Ok [])"
| "external_scan (e # es) =
     res_bind (deliver (Some e)) (\<lambda>answer.
     case answer of None \<Rightarrow> Ok [] | Some kv \<Rightarrow> res_bind (external_scan es) (\<lambda>kvs. Ok (kv # kvs)))"

lemma deliver_end: "deliver None = Ok None"
  by (simp add: deliver_def do_next_data_def to_u32_def iterator_next_def from_be_to_be)

lemma deliver_entry:
  assumes "length key < 2 ^ 32"
  shows "deliver (Some (key, val)) = Ok (if key = [] then None else Some (key, val))"
proof -
  have keylen: "unat (word_of_nat (length key) :: u32) = length key"
    using assms by (simp add: unat_of_nat take_bit_nat_eq_self)
  have "from_be (to_be 4 (length key)) = length key"
    using assms by (simp add: from_be_to_be)
  then show ?thesis
    using assms keylen by (simp add: deliver_def do_next_data_def to_u32_def iterator_next_def bytes_simps)
qed



section \<open>Across the boundary\<close>

lemma region_bytes_roundtrip [simp]: "bytes_region (region_bytes r) = r"
  using unat_bound [of "roffset r"] unat_bound [of "rcapacity r"] unat_bound [of "rlength r"]
  by (cases r) (simp add: bytes_region_def region_bytes_def from_le_to_le bytes_simps)

lemma length_region_bytes [simp]: "length (region_bytes r) = 12"
  by (simp add: region_bytes_def bytes_simps)

lemma get_region_Ok:
  assumes "get_region mo m ptr = Ok region"
  shows "\<exists>bs. mem_get mo m ptr 12 = Some bs \<and> region = bytes_region bs \<and> roffset region \<noteq> 0 \<and>
    unat (rlength region) \<le> unat (rcapacity region) \<and> unat (roffset region) + unat (rcapacity region) < 2 ^ 32"
proof -
  have max: "unat (- 1 - roffset region) = 2 ^ 32 - 1 - unat (roffset region)"
    by (simp add: unat_sub unsigned_minus_1_eq_mask mask_eq_exp_minus_1)
  show ?thesis
    using assms max unat_bound [of "roffset region"]
    by (auto simp: get_region_def validate_region_def res_simps Let_def word_less_nat_alt word_le_nat_alt
        split: option.splits if_splits)
qed

text \<open>
  What the host writes the contract reads. If the host's write to a region succeeds
  and the region's header does not overlap its memory, the contract that consumes
  the region gets exactly the data, and so does the host that reads it back.
\<close>

lemma host_write_guest_read:
  assumes "mem_ok mo" and "ptr \<noteq> 0" and region: "get_region mo m ptr = Ok region"
    and apart: "unat ptr + 12 \<le> unat (roffset region) \<or> unat (roffset region) + unat (rcapacity region) \<le> unat ptr"
    and wr: "write_region mo ptr d m = (Ok (), m')"
  shows "consume_region mo m' ptr = Ok d"
proof -
  have len: "length d \<le> unat (rcapacity region)"
    using wr region by (auto simp: write_region_def split: if_splits)
  let ?r = "region\<lparr>rlength := word_of_nat (length d)\<rparr>"
  obtain m1 where m1: "mem_set mo m (roffset region) d = Some m1" and m': "mem_set mo m1 ptr (region_bytes ?r) = Some m'"
    using wr region by (auto simp: write_region_def set_region_def split: if_splits option.splits)
  have ulen: "unat (rlength ?r) = length d"
    using len unat_bound [of "rcapacity region"] by (simp add: unat_of_nat take_bit_nat_eq_self)
  have "mem_get mo m' ptr 12 = Some (region_bytes ?r)"
    using mem_set_get [OF assms(1) m'] by simp
  moreover have "mem_get mo m' (roffset region) (length d) = Some d"
    using mem_set_elsewhere [OF assms(1) m', of "roffset region" "length d"] mem_set_get [OF assms(1) m1] apart len by auto
  ultimately show ?thesis
    using assms(2) get_region_Ok [OF region] ulen by (auto simp: consume_region_def Let_def)
qed

end
