(* ===== verification/Go_Buffers.thy ===== *)
theory Go_Buffers
  imports Vm_Errors Stateful
begin

text \<open>
  Memory shared between Rust and Go (\<open>go-cosmwasm/src/memory.rs\<close>, \<open>api/memory.go\<close>) and the
  result codes of callbacks (\<open>src/error/go.rs\<close>). A vector handed over is a block of a heap; a
  buffer is its address and length. Blocks are numbered in the order of their allocation, so
  that a block that is never freed stays visible.
\<close>

section \<open>memory.rs\<close>

record rmem =
  blocks :: "nat \<rightharpoonup> bytes"
  last_block :: nat

record Buffer =
  buf_ptr :: nat
  buf_len :: nat

definition null_buffer :: Buffer where
  "null_buffer = \<lparr>buf_ptr = 0, buf_len = 0\<rparr>"

definition is_null :: "Buffer \<Rightarrow> bool" where
  "is_null b = (buf_ptr b = 0)"

definition from_vec :: "bytes \<Rightarrow> rmem \<Rightarrow> Buffer \<times> rmem" where
  "from_vec v m =
     (let p = Suc (last_block m)
      in (\<lparr>buf_ptr = p, buf_len = length v\<rparr>, m\<lparr>blocks := (blocks m)(p \<mapsto> v), last_block := p\<rparr>))"

text \<open>Reading or freeing memory that is not allocated is undefined behaviour, written as a panic.\<close>

definition buf_read :: "Buffer \<Rightarrow> rmem \<Rightarrow> ('e, bytes option) res" where
  "buf_read b m =
     (if is_null b then Ok None
      else (case blocks m (buf_ptr b) of None \<Rightarrow> Panicked | Some v \<Rightarrow> Ok (Some (take (buf_len b) v))))"

definition consume :: "Buffer \<Rightarrow> (rmem, 'e, bytes) stm" where
  "consume b m =
     (if is_null b then (Ok [], m)
      else (case blocks m (buf_ptr b) of
          None \<Rightarrow> (Panicked, m)
        | Some v \<Rightarrow> (Ok (take (buf_len b) v), m\<lparr>blocks := (blocks m)(buf_ptr b := None)\<rparr>)))"

definition allocate_rust :: "bytes \<Rightarrow> rmem \<Rightarrow> Buffer \<times> rmem" where
  "allocate_rust d m = (if length d = 0 then from_vec [] m else from_vec d m)"

definition free_rust :: "Buffer \<Rightarrow> (rmem, 'e, unit) stm" where
  "free_rust b = and_then (consume b) (\<lambda>_. ret ())"

section \<open>api/memory.go\<close>

text \<open>A slice of Go: \<open>None\<close> is nil. Memory from \<open>malloc\<close> that Go lends to Rust is a block like any other.\<close>

type_synonym go_bytes = "bytes option"

definition allocateRust :: "go_bytes \<Rightarrow> rmem \<Rightarrow> Buffer \<times> rmem" where
  "allocateRust d m = (case d of None \<Rightarrow> (null_buffer, m) | Some bs \<Rightarrow> allocate_rust bs m)"

definition sendSlice :: "go_bytes \<Rightarrow> rmem \<Rightarrow> Buffer \<times> rmem" where
  "sendSlice s m = (case s of None \<Rightarrow> (null_buffer, m) | Some bs \<Rightarrow> from_vec bs m)"

definition receiveVector :: "Buffer \<Rightarrow> (rmem, 'e, go_bytes) stm" where
  "receiveVector b =
     (if is_null b then ret None
      else and_then (\<lambda>m. (buf_read b m, m)) (\<lambda>v. and_then (free_rust b) (\<lambda>_. ret v)))"

definition receiveSlice :: "Buffer \<Rightarrow> rmem \<Rightarrow> ('e, go_bytes) res" where
  "receiveSlice b m = buf_read b m"

definition freeAfterSend :: "Buffer \<Rightarrow> (rmem, 'e, unit) stm" where
  "freeAfterSend b = free_rust b"

section \<open>error/go.rs\<close>

datatype GoResult = GoOk | GoPanic | GoBadArgument | GoOutOfGas | GoOther | GoUser

definition go_result_of_i32 :: "i32 \<Rightarrow> GoResult" where
  "go_result_of_i32 n =
     (if n = 0 then GoOk else if n = 1 then GoPanic else if n = 2 then GoBadArgument
      else if n = 3 then GoOutOfGas else if n = 5 then GoUser else GoOther)"

text \<open>The codes as Go sees them.\<close>

fun go_code :: "GoResult \<Rightarrow> i32" where
  "go_code GoOk = 0"
| "go_code GoPanic = 1"
| "go_code GoBadArgument = 2"
| "go_code GoOutOfGas = 3"
| "go_code GoOther = 4"
| "go_code GoUser = 5"

text \<open>
  The message is read, and its buffer freed, only for the two results that carry one.
  Decoding it (\<open>from_utf8_lossy\<close>) is an argument.
\<close>

definition into_ffi_result ::
  "(bytes \<Rightarrow> string) \<Rightarrow> GoResult \<Rightarrow> Buffer \<Rightarrow> string \<Rightarrow> (rmem, FfiError, unit) stm" where
  "into_ffi_result utf8_lossy r error_msg fallback =
     (let read_error_msg = (\<lambda>mk.
            if is_null error_msg then fail (mk fallback)
            else and_then (consume error_msg) (\<lambda>bs. fail (mk (utf8_lossy bs))))
      in case r of
           GoOk \<Rightarrow> ret ()
         | GoPanic \<Rightarrow> fail ForeignPanic
         | GoBadArgument \<Rightarrow> fail BadArgument
         | GoOutOfGas \<Rightarrow> fail FfiOutOfGas
         | GoOther \<Rightarrow> read_error_msg (\<lambda>s. FfiUnknown (Some s))
         | GoUser \<Rightarrow> read_error_msg UserErr)"

lemma go_result_roundtrip [simp]: "go_result_of_i32 (go_code r) = r"
  by (cases r) (simp_all add: go_result_of_i32_def)

section \<open>The heap\<close>

definition rmem_ok :: "rmem \<Rightarrow> bool" where
  "rmem_ok m = (\<forall>p. blocks m p \<noteq> None \<longrightarrow> 0 < p \<and> p \<le> last_block m)"

lemma from_vec_facts:
  assumes "rmem_ok m" and "from_vec v m = (b, m')"
  shows "rmem_ok m'" and "\<not> is_null b" and "buf_read b m' = Ok (Some v)" and "blocks m (buf_ptr b) = None"
    and "blocks m' = (blocks m)(buf_ptr b \<mapsto> v)"
proof -
  have b: "b = \<lparr>buf_ptr = Suc (last_block m), buf_len = length v\<rparr>"
      "m' = m\<lparr>blocks := (blocks m)(Suc (last_block m) \<mapsto> v), last_block := Suc (last_block m)\<rparr>"
    using assms(2) by (auto simp: from_vec_def Let_def)
  show "rmem_ok m'"
    using assms(1) by (auto simp: b rmem_ok_def le_Suc_eq)
  show "blocks m (buf_ptr b) = None"
    using assms(1) by (auto simp: b rmem_ok_def dest: spec [of _ "Suc (last_block m)"])
  show "\<not> is_null b" and "buf_read b m' = Ok (Some v)" and "blocks m' = (blocks m)(buf_ptr b \<mapsto> v)"
    by (simp_all add: b is_null_def buf_read_def)
qed

lemma rmem_fresh: "rmem_ok m \<Longrightarrow> last_block m < p \<Longrightarrow> blocks m p = None"
  unfolding rmem_ok_def by (metis leD)

lemma rmem_ok_zero: "rmem_ok m \<Longrightarrow> blocks m 0 = None"
  unfolding rmem_ok_def by (metis less_irrefl)

text \<open>A buffer that lives across other work on the heap and is then freed leaves nothing behind.\<close>

lemma consume_block:
  assumes "blocks m (buf_ptr b) = Some v" and "\<not> is_null b" and "buf_len b = length v"
  shows "consume b m = (Ok v, m\<lparr>blocks := (blocks m)(buf_ptr b := None)\<rparr>)"
  using assms by (simp add: consume_def)

lemma rmem_ok_consume: "rmem_ok m \<Longrightarrow> consume b m = (r, m') \<Longrightarrow> rmem_ok m'"
  by (auto simp: consume_def rmem_ok_def split: if_splits option.splits)

lemma receiveVector_from_vec:
  assumes "rmem_ok m" and "from_vec v m = (b, m1)"
  shows "receiveVector b m1 = (Ok (Some v), m1\<lparr>blocks := blocks m\<rparr>)"
proof -
  have "(blocks m1)(buf_ptr b := None) = blocks m" and "buf_len b = length v"
    using from_vec_facts(4, 5) [OF assms] assms(2) by (auto simp: from_vec_def Let_def)
  moreover have "buf_read b m1 = Ok (Some v)" and "\<not> is_null b" and "blocks m1 (buf_ptr b) = Some v"
    using from_vec_facts [OF assms] by simp_all
  ultimately show ?thesis
    by (simp add: receiveVector_def free_rust_def buf_read_def consume_def)
qed

end
