(* ===== verification/Go_Types.thy ===== *)
theory Go_Types
  imports Go_Buffers Query_Chain
begin

text \<open>
  Errors and results on the Go side (\<open>go-cosmwasm/types/systemerror.go\<close>, \<open>stderror.go\<close>,
  \<open>queries.go\<close>, \<open>types.go\<close>): what a querier of the chain returns, and how it is wrapped
  for the contract that asked.
\<close>

datatype go_panic = ErrorOutOfGas | OtherPanic

datatype 'a go = Returns 'a | GoPanics go_panic

text \<open>
  A struct with one pointer field per variant, of which at most one is set: \<open>None\<close> if none
  is. The Go struct has no field for \<open>NullPointer\<close>.
\<close>

type_synonym go_std_error = "StdError option"
type_synonym go_system_error = "SystemError option"

text \<open>
  The dynamic type of an error value. A bare variant stands for its wrapper; \<open>TypedNil\<close> is
  a nil pointer of some error type.
\<close>

datatype go_error =
    GoSystemError go_system_error
  | GoStdError go_std_error
  | OutOfGasError
  | TypedNil
  | Errorf string
  | Errno i32

definition system_error_text :: "(bytes \<Rightarrow> string) \<Rightarrow> go_system_error \<Rightarrow> string go" where
  "system_error_text str a =
     (case a of
        Some (InvalidRequest e r) \<Rightarrow> Returns (''invalid request: '' @ e @ '' - original request: '' @ str r)
      | Some (InvalidResponse e r) \<Rightarrow> Returns (''invalid response: '' @ e @ '' - original response: '' @ str r)
      | Some (NoSuchContract addr) \<Rightarrow> Returns (''no such contract: '' @ addr)
      | Some SystemUnknown \<Rightarrow> Returns ''unknown system error''
      | Some (UnsupportedRequest kind) \<Rightarrow> Returns (''unsupported request: '' @ kind)
      | Some SystemExceededRecursionLimit \<Rightarrow> Returns ''unknown system error''
      | None \<Rightarrow> GoPanics OtherPanic)"

definition std_error_text :: "go_std_error \<Rightarrow> string go" where
  "std_error_text a =
     (case a of
        Some (GenericErr m) \<Rightarrow> Returns (''encrypted: '' @ m)
      | Some (InvalidBase64 m) \<Rightarrow> Returns (''invalid base64: '' @ m)
      | Some (InvalidUtf8 m) \<Rightarrow> Returns (''invalid_utf8: '' @ m)
      | Some (NotFound kind) \<Rightarrow> Returns (''not found: '' @ kind)
      | Some (ParseErr tgt m) \<Rightarrow> Returns (''parsing '' @ tgt @ '': '' @ m)
      | Some (SerializeErr src m) \<Rightarrow> Returns (''serializing '' @ src @ '': '' @ m)
      | Some Unauthorized \<Rightarrow> Returns ''unauthorized''
      | Some (Underflow m s) \<Rightarrow> Returns (''underflow: '' @ m @ '' - '' @ s)
      | Some NullPointer \<Rightarrow> GoPanics OtherPanic
      | None \<Rightarrow> GoPanics OtherPanic)"

definition ToSystemError :: "go_error \<Rightarrow> go_system_error option" where
  "ToSystemError err = (case err of GoSystemError e \<Rightarrow> Some e | _ \<Rightarrow> None)"

text \<open>\<open>err.Error()\<close> of the errors that are neither; \<open>errno_text\<close> is the text of a system error number.\<close>

definition ToStdError :: "(bytes \<Rightarrow> string) \<Rightarrow> (i32 \<Rightarrow> string) \<Rightarrow> go_error \<Rightarrow> go_std_error option go" where
  "ToStdError str errno_text err =
     (let generic = (\<lambda>m. Returns (Some (Some (GenericErr m))))
      in case err of
           TypedNil \<Rightarrow> Returns None
         | GoStdError e \<Rightarrow> Returns (Some e)
         | OutOfGasError \<Rightarrow> generic ''Out of gas''
         | Errorf m \<Rightarrow> generic m
         | Errno n \<Rightarrow> generic (errno_text n)
         | GoSystemError e \<Rightarrow> (case system_error_text str e of Returns m \<Rightarrow> generic m | GoPanics p \<Rightarrow> GoPanics p))"

record QueryResponse =
  resp_ok :: go_bytes
  resp_err :: "go_std_error option"

record GoQuerierResult =
  querier_ok :: "QueryResponse option"
  querier_err :: "go_system_error option"

definition ToQuerierResult ::
  "(bytes \<Rightarrow> string) \<Rightarrow> (i32 \<Rightarrow> string) \<Rightarrow> go_bytes \<Rightarrow> go_error option \<Rightarrow> GoQuerierResult go" where
  "ToQuerierResult str errno_text response err =
     (case err of
        None \<Rightarrow> Returns \<lparr>querier_ok = Some \<lparr>resp_ok = response, resp_err = None\<rparr>, querier_err = None\<rparr>
      | Some e \<Rightarrow>
          (case ToSystemError e of
             Some syserr \<Rightarrow> Returns \<lparr>querier_ok = None, querier_err = Some syserr\<rparr>
           | None \<Rightarrow>
               (case ToStdError str errno_text e of
                  Returns stderr \<Rightarrow>
                    Returns \<lparr>querier_ok = Some \<lparr>resp_ok = None, resp_err = stderr\<rparr>, querier_err = None\<rparr>
                | GoPanics p \<Rightarrow> GoPanics p)))"

text \<open>What the chain links: JSON, its querier and the meter of that.\<close>

record ('k, 'req) go_querier =
  unmarshal_request :: "go_bytes \<Rightarrow> (string, 'req) res"
  chain_query :: "'req \<Rightarrow> u64 \<Rightarrow> 'k \<Rightarrow> (go_bytes \<times> go_error option) go \<times> 'k"
  querier_gas :: "'k \<Rightarrow> u64"
  marshal_result :: "GoQuerierResult \<Rightarrow> (string, bytes) res"
  go_string :: "bytes \<Rightarrow> string"
  errno_string :: "i32 \<Rightarrow> string"

definition RustQuery :: "('k, 'req) go_querier \<Rightarrow> go_bytes \<Rightarrow> u64 \<Rightarrow> 'k \<Rightarrow> GoQuerierResult go \<times> 'k" where
  "RustQuery q binRequest limit s =
     (case unmarshal_request q binRequest of
        Ok request \<Rightarrow>
          (case chain_query q request limit s of
             (Returns (bz, err), s') \<Rightarrow> (ToQuerierResult (go_string q) (errno_string q) bz err, s')
           | (GoPanics p, s') \<Rightarrow> (GoPanics p, s'))
      | Err e \<Rightarrow> (ToQuerierResult (go_string q) (errno_string q) None (Some (GoSystemError (Some (UnsupportedRequest e)))), s)
      | Panicked \<Rightarrow> (GoPanics OtherPanic, s))"

text \<open>
  Exactly one level of the result is set for every error the chain can name, so the contract
  sees a system error as such and any other error as a standard one.
\<close>

lemma ToQuerierResult_Returns:
  assumes "\<And>e. err = Some e \<Longrightarrow> e \<noteq> TypedNil"
  shows "\<exists>r. ToQuerierResult str t bz err = Returns r \<and>
     (case err of
        None \<Rightarrow> r = \<lparr>querier_ok = Some \<lparr>resp_ok = bz, resp_err = None\<rparr>, querier_err = None\<rparr>
      | Some (GoSystemError e) \<Rightarrow> r = \<lparr>querier_ok = None, querier_err = Some e\<rparr>
      | Some _ \<Rightarrow> (\<exists>e. r = \<lparr>querier_ok = Some \<lparr>resp_ok = None, resp_err = Some e\<rparr>, querier_err = None\<rparr>))"
  using assms by (auto simp: ToQuerierResult_def ToSystemError_def ToStdError_def split: option.splits go_error.splits)

end
