(* ===== verification/Go_Errors.thy ===== *)
theory Go_Errors
  imports Go_Types
begin

text \<open>
  How the entry points of the library report to Go (\<open>go-cosmwasm/src/error/rust.rs\<close>, the error
  part of \<open>api/lib.go\<close>): the error number of the thread and a message buffer on the Rust
  side, and their reading on the Go side.
\<close>

section \<open>error/rust.rs\<close>

datatype Error =
    EmptyArg string
  | ErrInvalidUtf8 string
  | ErrOutOfGas
  | ErrPanic
  | VmErr string
  | GoCwEnclaveError string

fun error_text :: "Error \<Rightarrow> string" where
  "error_text (EmptyArg name) = ''Null/Empty argument: '' @ name"
| "error_text (ErrInvalidUtf8 m) = ''Cannot decode UTF8 bytes into string: '' @ m"
| "error_text ErrOutOfGas = ''Ran out of gas''"
| "error_text ErrPanic = ''Caught Panic''"
| "error_text (VmErr m) = ''Execution error: '' @ m"
| "error_text (GoCwEnclaveError m) = m"

text \<open>The display of a \<open>VmError\<close>, with its backtrace, is an argument.\<close>

definition error_of_vm :: "(VmError \<Rightarrow> string) \<Rightarrow> VmError \<Rightarrow> Error" where
  "error_of_vm vm_text e = (case e of GasDepletion \<Rightarrow> ErrOutOfGas | _ \<Rightarrow> VmErr (vm_text e))"

datatype ErrnoValue = ErrnoSuccess | ErrnoOther | ErrnoOutOfGas

fun errno_value :: "ErrnoValue \<Rightarrow> i32" where
  "errno_value ErrnoSuccess = 0"
| "errno_value ErrnoOther = 1"
| "errno_value ErrnoOutOfGas = 2"

text \<open>The heap and the error number.\<close>

record c_state =
  rheap :: rmem
  errno :: i32

definition clear_error :: "c_state \<Rightarrow> c_state" where
  "clear_error c = c\<lparr>errno := errno_value ErrnoSuccess\<rparr>"

text \<open>The buffer is what \<open>errout\<close> points to afterwards: it starts as the null buffer.\<close>

definition set_error :: "Error \<Rightarrow> bool \<Rightarrow> c_state \<Rightarrow> Buffer \<times> c_state" where
  "set_error err errout_given c =
     (case (if errout_given then from_vec (ascii (error_text err)) (rheap c) else (null_buffer, rheap c)) of (b, m) \<Rightarrow>
        (b, c\<lparr>rheap := m, errno := errno_value (case err of ErrOutOfGas \<Rightarrow> ErrnoOutOfGas | _ \<Rightarrow> ErrnoOther)\<rparr>))"

definition handle_c_error :: "(Error, bytes) res \<Rightarrow> bool \<Rightarrow> c_state \<Rightarrow> (bytes \<times> Buffer) \<times> c_state" where
  "handle_c_error result errout_given c =
     (case result of
        Ok v \<Rightarrow> ((v, null_buffer), clear_error c)
      | Err e \<Rightarrow> (case set_error e errout_given c of (b, c') \<Rightarrow> (([], b), c'))
      | Panicked \<Rightarrow> (([], null_buffer), c))"

text \<open>\<open>catch_unwind\<close> with the error that takes the place of a panic.\<close>

definition catch_unwind :: "(Error, 'a) res \<Rightarrow> (Error, 'a) res" where
  "catch_unwind r = (case r of Panicked \<Rightarrow> Err ErrPanic | _ \<Rightarrow> r)"

text \<open>The end of an entry point that returns a vector.\<close>

definition c_return :: "(Error, bytes) res \<Rightarrow> bool \<Rightarrow> c_state \<Rightarrow> (Buffer \<times> Buffer) \<times> c_state" where
  "c_return r errout_given c =
     (case handle_c_error r errout_given c of ((v, err), c1) \<Rightarrow>
      (case from_vec v (rheap c1) of (b, m) \<Rightarrow> ((b, err), c1\<lparr>rheap := m\<rparr>)))"

section \<open>api/lib.go\<close>

definition receive :: "Buffer \<Rightarrow> (c_state, 'e, go_bytes) stm" where
  "receive b c = (case receiveVector b (rheap c) of (r, m) \<Rightarrow> (r, c\<lparr>rheap := m\<rparr>))"

definition errorWithMessage :: "i32 \<Rightarrow> Buffer \<Rightarrow> (c_state, 'e, go_error) stm" where
  "errorWithMessage err b =
     (if err = 2 then ret OutOfGasError
      else and_then (receive b) (\<lambda>m. ret (case m of None \<Rightarrow> Errno err | Some bs \<Rightarrow> Errorf (chars bs))))"

text \<open>What every binding does with the two buffers of a call.\<close>

definition go_result :: "Buffer \<times> Buffer \<Rightarrow> (c_state, 'e, go_bytes \<times> go_error option) stm" where
  "go_result bs =
     and_then (read errno) (\<lambda>n.
     if n \<noteq> 0 then and_then (errorWithMessage n (snd bs)) (\<lambda>e. ret (None, Some e))
     else and_then (receive (fst bs)) (\<lambda>d. ret (d, None)))"

section \<open>What arrives\<close>

definition go_error_of :: "Error \<Rightarrow> go_error" where
  "go_error_of e = (case e of ErrOutOfGas \<Rightarrow> OutOfGasError | _ \<Rightarrow> Errorf (error_text e))"

text \<open>The vectors no one frees: the empty result of a failed call, and the message of an out-of-gas error.\<close>

definition left_behind :: "(Error, bytes) res \<Rightarrow> bytes set" where
  "left_behind r = (case r of Err ErrOutOfGas \<Rightarrow> {[], ascii ''Ran out of gas''} | Err _ \<Rightarrow> {[]} | _ \<Rightarrow> {})"

definition result_of :: "(Error, bytes) res \<Rightarrow> go_bytes \<times> go_error option" where
  "result_of r = (case r of Ok v \<Rightarrow> (Some v, None) | Err e \<Rightarrow> (None, Some (go_error_of e)) | Panicked \<Rightarrow> (None, None))"

lemma catch_unwind_no_panic [simp]: "catch_unwind r \<noteq> Panicked"
  by (cases r) (simp_all add: catch_unwind_def)

lemma fun_upd_None: "m k = None \<Longrightarrow> m(k := None) = m"
  by (rule ext) simp

lemma rmem_next [simp]:
  assumes "rmem_ok m"
  shows "blocks m (Suc (last_block m)) = None" "blocks m (Suc (Suc (last_block m))) = None"
  by (rule rmem_fresh [OF assms], simp)+

lemma rmem_ok_from_vec: "rmem_ok m \<Longrightarrow> rmem_ok (snd (from_vec v m))"
  using from_vec_facts(1) by (metis prod.collapse)

lemma return_then_result:
  assumes "rmem_ok (rheap c)" and "r \<noteq> Panicked"
  shows "\<exists>c2 L. (\<exists>bs c1. c_return r True c = (bs, c1) \<and> go_result bs c1 = (Ok (result_of r), c2)) \<and> rmem_ok (rheap c2) \<and>
    blocks (rheap c2) = blocks (rheap c) ++ L \<and> dom L \<inter> dom (blocks (rheap c)) = {} \<and> ran L = left_behind r \<and>
    (errno c2 = 0 \<longleftrightarrow> (\<exists>v. r = Ok v)) \<and> (errno c2 = 2 \<longleftrightarrow> r = Err ErrOutOfGas)"
proof -
  let ?n = "last_block (rheap c)"
  note defs = c_return_def handle_c_error_def clear_error_def set_error_def from_vec_def Let_def go_result_def receive_def
    receiveVector_def is_null_def buf_read_def free_rust_def consume_def errorWithMessage_def result_of_def go_error_of_def
    left_behind_def null_buffer_def fun_upd_None fun_upd_twist
  show ?thesis
  proof (cases r)
    case (Ok v)
    let ?c = "c\<lparr>rheap := (rheap c)\<lparr>last_block := Suc ?n\<rparr>, errno := 0\<rparr>"
    have "\<exists>bs c1. c_return r True c = (bs, c1) \<and> go_result bs c1 = (Ok (result_of r), ?c)"
      using assms(1) by (simp add: Ok defs)
    moreover have "rmem_ok (rheap ?c)"
      using assms(1) by (auto simp: rmem_ok_def le_Suc_eq)
    ultimately show ?thesis
      by (intro exI [of _ ?c] exI [of _ Map.empty]) (auto simp: Ok left_behind_def)
  next
    case (Err e)
    show ?thesis
    proof (cases "e = ErrOutOfGas")
      case True
      let ?L = "[Suc (Suc ?n) \<mapsto> [], Suc ?n \<mapsto> ascii ''Ran out of gas'']"
      let ?c = "c\<lparr>rheap := (rheap c)\<lparr>blocks := blocks (rheap c) ++ ?L, last_block := Suc (Suc ?n)\<rparr>, errno := 2\<rparr>"
      have "\<exists>bs c1. c_return r True c = (bs, c1) \<and> go_result bs c1 = (Ok (result_of r), ?c)"
        using assms(1) by (simp add: Err True defs)
      moreover have "rmem_ok (rheap ?c)"
        using assms(1) by (auto simp: rmem_ok_def le_Suc_eq)
      moreover have "dom ?L \<inter> dom (blocks (rheap c)) = {}"
        using assms(1) by (auto simp: dom_def)
      moreover have "ran ?L = left_behind r"
        by (auto simp: Err True left_behind_def)
      ultimately show ?thesis
        by (intro exI [of _ ?c] exI [of _ ?L]) (auto simp: Err True)
    next
      case False
      let ?L = "[Suc (Suc ?n) \<mapsto> []]"
      let ?c = "c\<lparr>rheap := (rheap c)\<lparr>blocks := blocks (rheap c) ++ ?L, last_block := Suc (Suc ?n)\<rparr>, errno := 1\<rparr>"
      have "errno_value (case e of ErrOutOfGas \<Rightarrow> ErrnoOutOfGas | _ \<Rightarrow> ErrnoOther) = 1"
        using False by (cases e) simp_all
      moreover have "go_error_of e = Errorf (error_text e)" and left: "left_behind (Err e) = {[]}"
        using False by (cases e; simp add: go_error_of_def left_behind_def)+
      ultimately have "\<exists>bs c1. c_return r True c = (bs, c1) \<and> go_result bs c1 = (Ok (result_of r), ?c)"
        using assms(1) by (simp add: Err c_return_def handle_c_error_def set_error_def from_vec_def Let_def go_result_def receive_def
            receiveVector_def is_null_def buf_read_def free_rust_def consume_def errorWithMessage_def result_of_def
            fun_upd_None fun_upd_twist)
      moreover have "rmem_ok (rheap ?c)"
        using assms(1) by (auto simp: rmem_ok_def le_Suc_eq)
      moreover have "dom ?L \<inter> dom (blocks (rheap c)) = {}"
        using assms(1) by (auto simp: dom_def)
      ultimately show ?thesis
        using False by (intro exI [of _ ?c] exI [of _ ?L]) (auto simp: Err left)
    qed
  qed (use assms in simp)
qed

end
