(* ===== verification/Vm_Context.thy ===== *)
theory Vm_Context
  imports Vm_Errors Mem_Storage Query_Chain "HOL-Library.AList"
begin

text \<open>
  What a running contract reaches on the host's side of the virtual machine
  (\<open>sgx-vm/src/traits.rs\<close>, \<open>context.rs\<close>): the storage and the querier of the chain
  as records of operations, the context data that holds them while an instance
  lives, and the storage for tests (\<open>testing/storage.rs\<close>).
\<close>

section \<open>traits.rs\<close>

text \<open>
  An implementation of \<open>Storage\<close> with states \<open>'s\<close> and iterators \<open>'i\<close>; a panic is the
  outcome \<open>Panicked\<close>. \<open>&self\<close> methods may still change what lies behind the pointers
  of the implementation, so every method returns a state.
\<close>

record ('s, 'i) storage =
  st_get :: "bytes \<Rightarrow> 's \<Rightarrow> bytes option FfiResult \<times> 's"
  st_range :: "bytes option \<Rightarrow> bytes option \<Rightarrow> Order \<Rightarrow> 's \<Rightarrow> 'i FfiResult \<times> 's"
  st_set :: "bytes \<Rightarrow> bytes \<Rightarrow> 's \<Rightarrow> unit FfiResult \<times> 's"
  st_remove :: "bytes \<Rightarrow> 's \<Rightarrow> unit FfiResult \<times> 's"
  st_next :: "'i \<Rightarrow> 's \<Rightarrow> (bytes \<times> bytes) option FfiResult \<times> 'i \<times> 's"

record 'q querier =
  query_raw :: "bytes \<Rightarrow> u64 \<Rightarrow> 'q \<Rightarrow> answer FfiResult \<times> 'q"

record ('s, 'a, 'q) Extern =
  ext_storage :: 's
  ext_api :: 'a
  ext_querier :: 'q

text \<open>\<open>StorageIterator::elements\<close>: a loop that ends if the iterator does.\<close>

partial_function (option) elements ::
  "('s, 'i) storage \<Rightarrow> (bytes \<times> bytes) list \<Rightarrow> 'i \<Rightarrow> 's \<Rightarrow> ((FfiError, (bytes \<times> bytes) list) res \<times> 's) option" where
  "elements ops out i s =
     (case st_next ops i s of
        ((Ok (Some kv), _), i', s') \<Rightarrow> elements ops (out @ [kv]) i' s'
      | ((Ok None, _), i', s') \<Rightarrow> Some (Ok out, s')
      | ((Err err, _), i', s') \<Rightarrow> Some (Err err, s')
      | ((Panicked, _), i', s') \<Rightarrow> Some (Panicked, s'))"

section \<open>context.rs: gas of the wasmer build\<close>

record GasState =
  gs_limit :: u64
  externally_used_gas :: u64

definition gs_with_limit :: "u64 \<Rightarrow> GasState" where
  "gs_with_limit limit = \<lparr>gs_limit = limit, externally_used_gas = 0\<rparr>"

definition increase_externally_used_gas :: "u64 \<Rightarrow> GasState \<Rightarrow> (VmError, GasState) res" where
  "increase_externally_used_gas g gs =
     res_bind (or_panic (checked_add (externally_used_gas gs) g)) (\<lambda>g1. Ok (gs\<lparr>externally_used_gas := g1\<rparr>))"

definition gs_get_gas_left :: "GasState \<Rightarrow> u64 \<Rightarrow> u64" where
  "gs_get_gas_left gs wasmer_used_gas = saturating_sub (saturating_sub (gs_limit gs) (externally_used_gas gs)) wasmer_used_gas"

definition get_gas_used_in_wasmer :: "GasState \<Rightarrow> u64 \<Rightarrow> u64" where
  "get_gas_used_in_wasmer gs wasmer_gas_left =
     saturating_sub (saturating_sub (gs_limit gs) (externally_used_gas gs)) wasmer_gas_left"

text \<open>
  \<open>account_for_externally_used_gas_impl\<close> on the gas state and the gas left in the
  interpreter; the sums panic on overflow, as they do with overflow checks.
\<close>

definition account_for_externally_used_gas :: "u64 \<Rightarrow> (GasState \<times> u64, VmError, unit) stm" where
  "account_for_externally_used_gas used_gas s =
     (case s of (gs, wasmer_left) \<Rightarrow>
        (let wasmer_used_gas = get_gas_used_in_wasmer gs wasmer_left
         in case increase_externally_used_gas used_gas gs of
              Ok gs' \<Rightarrow>
                (let new_limit = gs_get_gas_left gs' wasmer_used_gas
                 in case checked_add (externally_used_gas gs') wasmer_used_gas of
                      None \<Rightarrow> (Panicked, (gs', new_limit))
                    | Some consumed \<Rightarrow>
                        (if consumed > gs_limit gs' then Err GasDepletion else Ok (), (gs', new_limit)))
            | Err e \<Rightarrow> (Err e, s)
            | Panicked \<Rightarrow> (Panicked, s)))"

section \<open>context.rs: context data\<close>

text \<open>The iterators are a hash map; the order of the list means nothing.\<close>

record ('s, 'q, 'i) ContextData =
  ctx_storage :: "'s option"
  storage_readonly :: bool
  ctx_querier :: "'q option"
  iterators :: "(u32 \<times> 'i) list"

definition create_unmanaged_context_data :: "('s, 'q, 'i) ContextData" where
  "create_unmanaged_context_data = \<lparr>ctx_storage = None, storage_readonly = True, ctx_querier = None, iterators = []\<rparr>"

definition destroy_iterators :: "('s, 'q, 'i) ContextData \<Rightarrow> ('s, 'q, 'i) ContextData" where
  "destroy_iterators b = b\<lparr>iterators := []\<rparr>"

definition move_out_of_context :: "('s, 'q, 'i) ContextData \<Rightarrow> ('s option \<times> 'q option) \<times> ('s, 'q, 'i) ContextData" where
  "move_out_of_context b =
     (let b = destroy_iterators b
      in ((ctx_storage b, ctx_querier b), b\<lparr>ctx_storage := None, ctx_querier := None\<rparr>))"

definition move_into_context :: "'s \<Rightarrow> 'q \<Rightarrow> ('s, 'q, 'i) ContextData \<Rightarrow> ('s, 'q, 'i) ContextData" where
  "move_into_context st q b = b\<lparr>ctx_storage := Some st, ctx_querier := Some q\<rparr>"

definition is_storage_readonly :: "('s, 'q, 'i) ContextData \<Rightarrow> bool" where
  "is_storage_readonly b = storage_readonly b"

definition set_storage_readonly :: "bool \<Rightarrow> ('s, 'q, 'i) ContextData \<Rightarrow> ('s, 'q, 'i) ContextData" where
  "set_storage_readonly new_value b = b\<lparr>storage_readonly := new_value\<rparr>"

definition I32_MAX :: u32 where
  "I32_MAX = 2147483647"

definition add_iterator :: "'i \<Rightarrow> (('s, 'q, 'i) ContextData, VmError, u32) stm" where
  "add_iterator iter b =
     (if length (iterators b) \<ge> 2 ^ 32 then (Panicked, b)
      else
        (case checked_add (word_of_nat (length (iterators b))) 1 of
           None \<Rightarrow> (Panicked, b)
         | Some new_id \<Rightarrow>
             if new_id > I32_MAX then (Panicked, b)
             else (Ok new_id, b\<lparr>iterators := AList.update new_id iter (iterators b)\<rparr>)))"

definition with_storage_from_context ::
  "('s \<Rightarrow> 'a vm_result \<times> 's) \<Rightarrow> (('s, 'q, 'i) ContextData, VmError, 'a) stm" where
  "with_storage_from_context func b =
     (case ctx_storage b of
        Some st \<Rightarrow> (case func st of (r, st1) \<Rightarrow> (r, b\<lparr>ctx_storage := Some st1\<rparr>))
      | None \<Rightarrow> (Err (UninitializedContextData ''storage''), b))"

definition with_querier_from_context ::
  "('q \<Rightarrow> 'a vm_result \<times> 'q) \<Rightarrow> (('s, 'q, 'i) ContextData, VmError, 'a) stm" where
  "with_querier_from_context func b =
     (case ctx_querier b of
        Some q \<Rightarrow> (case func q of (r, q') \<Rightarrow> (r, b\<lparr>ctx_querier := Some q'\<rparr>))
      | None \<Rightarrow> (Err (UninitializedContextData ''querier''), b))"

text \<open>
  The iterator borrows from the storage, so the closure may change what lies behind
  the storage as well; without a storage in the context there is nothing it borrows from.
\<close>

definition with_iterator_from_context ::
  "u32 \<Rightarrow> ('i \<Rightarrow> 's \<Rightarrow> 'a vm_result \<times> 'i \<times> 's) \<Rightarrow> (('s, 'q, 'i) ContextData, VmError, 'a) stm" where
  "with_iterator_from_context iterator_id func b =
     (case map_of (iterators b) iterator_id of
        Some iterator \<Rightarrow>
          (case ctx_storage b of
             None \<Rightarrow> (Panicked, b)
           | Some st \<Rightarrow> (case func iterator st of (r, i', st') \<Rightarrow>
               (r, b\<lparr>iterators := AList.update iterator_id i' (iterators b), ctx_storage := Some st'\<rparr>)))
      | None \<Rightarrow> (Err (IteratorDoesNotExist iterator_id), b))"

section \<open>Iterator identifiers\<close>

text \<open>While an instance lives the identifiers in use are 1 up to the number of iterators.\<close>

definition iterators_ok :: "('s, 'q, 'i) ContextData \<Rightarrow> bool" where
  "iterators_ok b = (distinct (map fst (iterators b)) \<and>
     unat ` fst ` set (iterators b) = {1..length (iterators b)} \<and> length (iterators b) < 2 ^ 31)"

lemma iterators_ok_create [simp]: "iterators_ok create_unmanaged_context_data"
  by (simp add: iterators_ok_def create_unmanaged_context_data_def)

lemma update_fresh: "k \<notin> fst ` set xs \<Longrightarrow> AList.update k v xs = xs @ [(k, v)]"
  by (induction xs) auto

lemma map_fst_update_old: "map_of xs k = Some x \<Longrightarrow> map fst (AList.update k v xs) = map fst xs"
  by (induction xs) (auto split: if_splits)

lemma iterators_ok_next:
  assumes "iterators_ok b" and "with_iterator_from_context i f b = (r, b')"
  shows "iterators_ok b'"
proof -
  have "map fst (iterators b') = map fst (iterators b)"
    using assms(2) by (auto simp: with_iterator_from_context_def map_fst_update_old split: option.splits prod.splits)
  then show ?thesis
    using assms(1) unfolding iterators_ok_def by (metis length_map list.set_map)
qed

lemma new_iterator:
  assumes "iterators_ok b" and "add_iterator iter b = (Ok i, b')"
  shows "i \<notin> fst ` set (iterators b) \<and> unat i = length (iterators b) + 1 \<and> unat i < 2 ^ 31 \<and>
    iterators b' = iterators b @ [(i, iter)] \<and> ctx_storage b' = ctx_storage b \<and> ctx_querier b' = ctx_querier b"
proof -
  let ?n = "length (iterators b)"
  have n: "unat (word_of_nat ?n :: u32) = ?n"
    using assms(1) by (simp add: iterators_ok_def unat_of_nat take_bit_nat_eq_self)
  have i: "unat i = ?n + 1" "i \<le> I32_MAX" "b' = b\<lparr>iterators := AList.update i iter (iterators b)\<rparr>"
    using assms(2) n by (auto simp: add_iterator_def arith_simps split: if_splits option.splits)
  have "unat i \<notin> unat ` fst ` set (iterators b)"
    using assms(1) i(1) by (simp add: iterators_ok_def)
  then have "i \<notin> fst ` set (iterators b)"
    by blast
  then show ?thesis
    using i by (simp add: update_fresh I32_MAX_def word_le_nat_alt)
qed

lemma iterators_ok_add:
  assumes "iterators_ok b" and "add_iterator iter b = (Ok i, b')"
  shows "iterators_ok b'"
  using new_iterator [OF assms] assms(1) by (auto simp: iterators_ok_def)

section \<open>What a contract may expect of the chain's storage\<close>

locale chain_storage =
  fixes ops :: "('s, 'i) storage" and J :: "'s \<Rightarrow> bool" and view :: "'s \<Rightarrow> bytes \<rightharpoonup> bytes"
  assumes get: "J s \<Longrightarrow> \<exists>g s'. st_get ops k s = ((Ok (view s k), g), s') \<and> J s' \<and> view s' = view s"
    and set: "J s \<Longrightarrow> \<exists>g s'. st_set ops k v s = ((Ok (), g), s') \<and> J s' \<and> view s' = (view s)(k \<mapsto> v)"
    and remove: "J s \<Longrightarrow> \<exists>g s'. st_remove ops k s = ((Ok (), g), s') \<and> J s' \<and> view s' = (view s)(k := None)"

section \<open>testing/storage.rs\<close>

type_synonym MockStorage = "(bytes, bytes) btree"
type_synonym MockIterator = "((bytes \<times> bytes) \<times> u64) list"

definition GAS_COST_LAST_ITERATION :: u64 where
  "GAS_COST_LAST_ITERATION = 37"

definition GAS_COST_RANGE :: u64 where
  "GAS_COST_RANGE = 11"

fun mock_next :: "MockIterator \<Rightarrow> MockStorage \<Rightarrow> (bytes \<times> bytes) option FfiResult \<times> MockIterator \<times> MockStorage" where
  "mock_next ((kv, g) # source) s = ((Ok (Some kv), with_externally_used g), source, s)"
| "mock_next [] s = ((Ok None, with_externally_used GAS_COST_LAST_ITERATION), [], s)"

definition mock_get :: "bytes \<Rightarrow> MockStorage \<Rightarrow> bytes option FfiResult \<times> MockStorage" where
  "mock_get key s = ((Ok (bt_get s key), with_externally_used (word_of_nat (length key))), s)"

definition mock_range :: "bytes option \<Rightarrow> bytes option \<Rightarrow> Order \<Rightarrow> MockStorage \<Rightarrow> MockIterator FfiResult \<times> MockStorage" where
  "mock_range start end order s =
     (let gas_info = with_externally_used GAS_COST_RANGE; bounds = range_bounds start end;
          priced = map (\<lambda>(k, v). ((k, v), word_of_nat (length k + length v)))
      in if inverted bounds then ((Ok [], gas_info), s)
         else ((Ok (case order of Ascending \<Rightarrow> priced (bt_range s bounds) | Descending \<Rightarrow> priced (rev (bt_range s bounds))), gas_info), s))"

definition mock_set :: "bytes \<Rightarrow> bytes \<Rightarrow> MockStorage \<Rightarrow> unit FfiResult \<times> MockStorage" where
  "mock_set key val s =
     ((Ok (), with_externally_used (word_of_nat (length key + length val))), bt_insert key val s)"

definition mock_remove :: "bytes \<Rightarrow> MockStorage \<Rightarrow> unit FfiResult \<times> MockStorage" where
  "mock_remove key s = ((Ok (), with_externally_used (word_of_nat (length key))), bt_remove key s)"

definition mock_storage :: "(MockStorage, MockIterator) storage" where
  "mock_storage = \<lparr>st_get = mock_get, st_range = mock_range, st_set = mock_set, st_remove = mock_remove, st_next = mock_next\<rparr>"

interpretation mock: chain_storage mock_storage bt_ok bt_get
  by unfold_locales (auto simp: mock_storage_def mock_get_def mock_set_def mock_remove_def)

lemma mock_elements: "elements mock_storage out i s = Some (Ok (out @ map fst i), s)"
proof (induction i arbitrary: out)
  case Nil
  then show ?case
    by (subst elements.simps) (simp add: mock_storage_def)
next
  case (Cons e i)
  then show ?case
    by (subst elements.simps) (cases e, simp add: mock_storage_def)
qed

text \<open>
  Collecting a range of the test storage ends, and gives exactly the entries
  in the range, in the order asked for.
\<close>

lemma mock_range_elements:
  assumes "bt_ok s"
  shows "\<exists>i g xs. mock_range start stop ord s = ((Ok i, g), s) \<and> elements mock_storage [] i s = Some (Ok xs, s) \<and>
    sorted_by ord xs \<and> set xs = {(k, v). bt_get s k = Some v \<and> in_range start stop k}"
proof -
  obtain i g where i: "mock_range start stop ord s = ((Ok i, g), s)"
    by (cases "inverted (range_bounds start stop)") (auto simp: mock_range_def Let_def)
  have fst_priced: "map fst (map (\<lambda>(k, v). ((k, v), f k v)) xs) = xs" for f :: "bytes \<Rightarrow> bytes \<Rightarrow> u64" and xs
    by (induction xs) auto
  have "map fst i = ms_range \<lparr>data = s\<rparr> start stop ord"
    using i by (auto simp: mock_range_def ms_range_def Let_def fst_priced simp del: map_map split: if_splits Order.splits)
  then have "elements mock_storage [] i s = Some (Ok (ms_range \<lparr>data = s\<rparr> start stop ord), s)"
    by (simp add: mock_elements)
  then show ?thesis
    using i assms ms.range_sorted [of "\<lparr>data = s\<rparr>" ord start stop] ms.range_set [of "\<lparr>data = s\<rparr>" start stop ord]
    by (simp add: ms_ok_def ms_get_def)
qed

end
