(* ===== verification/Vm_Host.thy ===== *)
theory Vm_Host
  imports Contract_Ops Vm_Context
begin

text \<open>
  The host of the enclave (\<open>sgx-vm/src/wasmi/exports.rs\<close>, \<open>results.rs\<close>, \<open>wrapper.rs\<close>,
  \<open>instance.rs\<close>, \<open>calls.rs\<close>, \<open>errors/enclave.rs\<close>): the implementation of the ocalls on
  the context data of the running instance, and the instance that calls into the
  enclave and makes results of what comes back.
\<close>

section \<open>wasmi/exports.rs\<close>

text \<open>
  The host's memory, as far as pointers to it travel through the enclave: boxed
  output vectors and boxed errors.
\<close>

record ('s, 'q, 'i) vm_host =
  context_data :: "('s, 'q, 'i) ContextData"
  vec_boxes :: "u64 \<rightharpoonup> bytes"
  err_boxes :: "u64 \<rightharpoonup> VmError"

text \<open>
  What the host links: the storage and querier of the chain, serde_json on the answer
  of a query, the allocator of boxes (given the addresses in use; \<open>None\<close> if it aborts the
  process, which the enclave sees as a failed transition), and the enclave as it is
  entered by \<open>ecall_allocate\<close>: whether the transition succeeds, the results of
  registering and restoring the memory reserve, and the enclave's allocator.
\<close>

record ('s, 'q, 'i) host_lib =
  storage_impl :: "('s, 'i) storage"
  querier_impl :: "'q querier"
  print_system_result :: "answer \<Rightarrow> bytes option"
  new_box :: "u64 set \<Rightarrow> u64 option"
  enters :: "bytes \<Rightarrow> bool"
  reserve_register :: "unit enclave_result"
  reserve_restore :: "unit enclave_result"
  alloc_in_enclave :: allocator

definition used_addresses :: "('s, 'q, 'i) vm_host \<Rightarrow> u64 set" where
  "used_addresses h = dom (vec_boxes h) \<union> dom (err_boxes h)"

text \<open>The pointer the enclave gets for an output it copies out.\<close>

definition host_allocate :: "('s, 'q, 'i) host_lib \<Rightarrow> bytes \<Rightarrow> ('s, 'q, 'i) vm_host \<Rightarrow> (bool \<times> u64) \<times> ('s, 'q, 'i) vm_host" where
  "host_allocate l buffer h =
     (case new_box l (used_addresses h) of
        None \<Rightarrow> ((False, 0), h)
      | Some p \<Rightarrow> ((True, p), h\<lparr>vec_boxes := (vec_boxes h)(p \<mapsto> buffer)\<rparr>))"

text \<open>Recovering a box that is not there is undefined behaviour, written as a panic.\<close>

definition host_recover_buffer :: "u64 \<Rightarrow> (('s, 'q, 'i) vm_host, VmError, bytes option) stm" where
  "host_recover_buffer p h =
     (if p = 0 then (Ok None, h)
      else (case vec_boxes h p of
          None \<Rightarrow> (Panicked, h)
        | Some v \<Rightarrow> (Ok (Some v), h\<lparr>vec_boxes := (vec_boxes h)(p := None)\<rparr>)))"

definition store_vm_error ::
  "('s, 'q, 'i) host_lib \<Rightarrow> VmError \<Rightarrow> ('s, 'q, 'i) vm_host \<Rightarrow> u64 option \<times> ('s, 'q, 'i) vm_host" where
  "store_vm_error l vm_err h =
     (case new_box l (used_addresses h) of
        None \<Rightarrow> (None, h)
      | Some p \<Rightarrow> (Some p, h\<lparr>err_boxes := (err_boxes h)(p \<mapsto> vm_err)\<rparr>))"

subsection \<open>The implementations on the context\<close>

definition ocall_read_db_impl :: "('s, 'q, 'i) host_lib \<Rightarrow> bytes \<Rightarrow> (('s, 'q, 'i) ContextData, VmError, bytes option \<times> u64) stm" where
  "ocall_read_db_impl l key =
     with_storage_from_context (\<lambda>st. case st_get (storage_impl l) key st of ((ffi_result, gas_info), st') \<Rightarrow>
       (map_err vm_error_of_ffi (res_bind ffi_result (\<lambda>v. Ok (v, externally_used gas_info))), st'))"

definition ocall_query_chain_impl ::
  "('s, 'q, 'i) host_lib \<Rightarrow> bytes \<Rightarrow> u64 \<Rightarrow> (('s, 'q, 'i) ContextData, VmError, answer \<times> u64) stm" where
  "ocall_query_chain_impl l q limit =
     with_querier_from_context (\<lambda>qu. case query_raw (querier_impl l) q limit qu of ((ffi_result, gas_info), qu') \<Rightarrow>
       (map_err vm_error_of_ffi (res_bind ffi_result (\<lambda>r. Ok (r, externally_used gas_info))), qu'))"

definition ocall_remove_db_impl :: "('s, 'q, 'i) host_lib \<Rightarrow> bytes \<Rightarrow> (('s, 'q, 'i) ContextData, VmError, u64) stm" where
  "ocall_remove_db_impl l key =
     with_storage_from_context (\<lambda>st. case st_remove (storage_impl l) key st of ((ffi_result, gas_info), st') \<Rightarrow>
       (map_err vm_error_of_ffi (res_bind ffi_result (\<lambda>_. Ok (externally_used gas_info))), st'))"

definition ocall_write_db_impl :: "('s, 'q, 'i) host_lib \<Rightarrow> bytes \<Rightarrow> bytes \<Rightarrow> (('s, 'q, 'i) ContextData, VmError, u64) stm" where
  "ocall_write_db_impl l key val =
     with_storage_from_context (\<lambda>st. case st_set (storage_impl l) key val st of ((ffi_result, gas_info), st') \<Rightarrow>
       (map_err vm_error_of_ffi (res_bind ffi_result (\<lambda>_. Ok (externally_used gas_info))), st'))"

subsection \<open>The ocalls\<close>

definition host_reply :: "OcallReturn \<Rightarrow> u64 \<Rightarrow> u64 \<Rightarrow> ocall_reply" where
  "host_reply r vm_err g = \<lparr>sgx_success = True, o_return = r, o_vm_err = vm_err, o_gas = g, o_allocs = [], o_ptr = (\<lambda>_. 0)\<rparr>"

text \<open>
  A buffer for the enclave (\<open>allocate_enclave_buffer\<close>), or the null buffer. If the
  enclave cannot be entered the ocall fails and no error is stored.
\<close>

definition buffer_reply :: "('s, 'q, 'i) host_lib \<Rightarrow> u64 \<Rightarrow> bytes option \<Rightarrow> ocall_reply" where
  "buffer_reply l g v =
     (case v of
        None \<Rightarrow> host_reply OcallSuccess 0 g
      | Some val \<Rightarrow>
          if enters l val
          then (host_reply OcallSuccess 0 g)\<lparr>o_allocs := [\<lparr>ac_buffer = Some val, ac_register = reserve_register l,
                  ac_restore = reserve_restore l\<rparr>], o_ptr := (\<lambda>ps. case ps of [] \<Rightarrow> 0 | p # _ \<Rightarrow> p)\<rparr>
          else host_reply OcallFailure 0 g)"

text \<open>Run an implementation with panics caught; an error is boxed and its address returned.\<close>

definition run_ocall ::
  "('s, 'q, 'i) host_lib \<Rightarrow> (('s, 'q, 'i) ContextData, VmError, 'a) stm \<Rightarrow> ('a \<Rightarrow> ocall_reply) \<Rightarrow>
   ('s, 'q, 'i) vm_host \<Rightarrow> ocall_reply \<times> ('s, 'q, 'i) vm_host" where
  "run_ocall l implementation answer_with h =
     (case implementation (context_data h) of (r, c) \<Rightarrow>
        (let h = h\<lparr>context_data := c\<rparr>
         in case r of
              Ok x \<Rightarrow> (answer_with x, h)
            | Err err \<Rightarrow>
                (case store_vm_error l err h of
                   (Some p, h') \<Rightarrow> (host_reply OcallFailure p 0, h')
                 | (None, h') \<Rightarrow> ((host_reply OcallFailure 0 0)\<lparr>sgx_success := False\<rparr>, h'))
            | Panicked \<Rightarrow> (host_reply OcallPanic 0 0, h)))"

definition host_read_db :: "('s, 'q, 'i) host_lib \<Rightarrow> bytes \<Rightarrow> ('s, 'q, 'i) vm_host \<Rightarrow> ocall_reply \<times> ('s, 'q, 'i) vm_host" where
  "host_read_db l key = run_ocall l (ocall_read_db_impl l key) (\<lambda>(value, g). buffer_reply l g value)"

text \<open>An answer that cannot be serialised is the null buffer.\<close>

definition host_query_chain :: "('s, 'q, 'i) host_lib \<Rightarrow> bytes \<Rightarrow> u64 \<Rightarrow> ('s, 'q, 'i) vm_host \<Rightarrow> ocall_reply \<times> ('s, 'q, 'i) vm_host" where
  "host_query_chain l q limit =
     run_ocall l (ocall_query_chain_impl l q limit) (\<lambda>(system_result, g). buffer_reply l g (print_system_result l system_result))"

definition host_remove_db :: "('s, 'q, 'i) host_lib \<Rightarrow> bytes \<Rightarrow> ('s, 'q, 'i) vm_host \<Rightarrow> ocall_reply \<times> ('s, 'q, 'i) vm_host" where
  "host_remove_db l key = run_ocall l (ocall_remove_db_impl l key) (host_reply OcallSuccess 0)"

definition host_write_db :: "('s, 'q, 'i) host_lib \<Rightarrow> bytes \<Rightarrow> bytes \<Rightarrow> ('s, 'q, 'i) vm_host \<Rightarrow> ocall_reply \<times> ('s, 'q, 'i) vm_host" where
  "host_write_db l key val = run_ocall l (ocall_write_db_impl l key val) (host_reply OcallSuccess 0)"

definition vm_ocalls :: "('s, 'q, 'i) host_lib \<Rightarrow> ('s, 'q, 'i) vm_host ocalls" where
  "vm_ocalls l = \<lparr>ocall_read_db = host_read_db l, ocall_remove_db = host_remove_db l, ocall_write_db = host_write_db l,
     ocall_query_chain = host_query_chain l, enclave_alloc = alloc_in_enclave l\<rparr>"

text \<open>The enclave of \<open>su\<close> on this host.\<close>

definition on_host ::
  "('s, 'q, 'i) host_lib \<Rightarrow> ('pm, 'wm, 'mi, 'm, ('s, 'q, 'i) vm_host) linked \<Rightarrow> ('pm, 'wm, 'mi, 'm, ('s, 'q, 'i) vm_host) linked" where
  "on_host l su = su\<lparr>ocall := vm_ocalls l, ocall_allocate := host_allocate l\<rparr>"

section \<open>errors/enclave.rs\<close>

text \<open>An error the host boxed during an ocall comes back as it was.\<close>

definition vm_error_of_enclave :: "EnclaveError \<Rightarrow> (('s, 'q, 'i) vm_host, VmError, 'a) stm" where
  "vm_error_of_enclave error h =
     (case error of
        OutOfGas \<Rightarrow> (Err GasDepletion, h)
      | FailedOcall p \<Rightarrow>
          if p \<noteq> 0
          then (case err_boxes h p of
                  None \<Rightarrow> (Panicked, h)
                | Some e \<Rightarrow> (Err e, h\<lparr>err_boxes := (err_boxes h)(p := None)\<rparr>))
          else (Err (VmEnclaveErr (EnclaveErr error)), h)
      | other \<Rightarrow> (Err (VmEnclaveErr (EnclaveErr other)), h))"

section \<open>wasmi/results.rs\<close>

definition recover_output :: "u64 \<Rightarrow> (('s, 'q, 'i) vm_host, VmError, bytes) stm" where
  "recover_output p = and_then (host_recover_buffer p) (\<lambda>v. ret (case v of None \<Rightarrow> [] | Some out \<Rightarrow> out))"

text \<open>The result of \<open>init\<close> starts with the contract key (\<open>InitSuccess::into_output\<close>).\<close>

fun init_result_to_vm_result :: "InitResult \<Rightarrow> (('s, 'q, 'i) vm_host, VmError, InitSuccess) stm" where
  "init_result_to_vm_result (InitOk p key) =
     and_then (recover_output p) (\<lambda>out. ret \<lparr>init_output = out, init_contract_key = key\<rparr>)"
| "init_result_to_vm_result (InitFailure err) = vm_error_of_enclave err"

definition init_into_output :: "InitSuccess \<Rightarrow> bytes" where
  "init_into_output r = init_contract_key r @ init_output r"

fun handle_result_to_vm_result :: "HandleResult \<Rightarrow> (('s, 'q, 'i) vm_host, VmError, bytes) stm" where
  "handle_result_to_vm_result (HandleOk p) = recover_output p"
| "handle_result_to_vm_result (HandleFailure err) = vm_error_of_enclave err"

fun query_result_to_vm_result :: "QueryResult \<Rightarrow> (('s, 'q, 'i) vm_host, VmError, bytes) stm" where
  "query_result_to_vm_result (QueryOk p) = recover_output p"
| "query_result_to_vm_result (QueryFailure err) = vm_error_of_enclave err"

section \<open>wasmi/wrapper.rs\<close>

record Module =
  bytecode :: bytes
  mod_gas_limit :: u64
  mod_used_gas :: u64

definition module_new :: "bytes \<Rightarrow> u64 \<Rightarrow> Module" where
  "module_new code limit = \<lparr>bytecode = code, mod_gas_limit = limit, mod_used_gas = 0\<rparr>"

definition mod_gas_left :: "Module \<Rightarrow> u64" where
  "mod_gas_left md = saturating_sub (mod_gas_limit md) (mod_used_gas md)"

definition consume_gas :: "u64 \<Rightarrow> Module \<Rightarrow> Module" where
  "consume_gas used md = md\<lparr>mod_used_gas := saturating_add (mod_used_gas md) used\<rparr>"

text \<open>
  A transition into the enclave: it is entered, or the transition fails with a
  status and leaves some gas reading and some world.
\<close>

datatype 'h transition =
    Entered
  | SgxFailed nat u64 "'h world"

definition enter_enclave ::
  "'h transition \<Rightarrow> ('h world \<Rightarrow> ('r \<times> u64) \<times> 'h world) \<Rightarrow> ('r \<Rightarrow> ('h, VmError, 'a) stm) \<Rightarrow> (Module \<times> 'h world, VmError, 'a) stm" where
  "enter_enclave tr ecall to_vm_result s =
     (case s of (md, w) \<Rightarrow>
        (case tr of
           Entered \<Rightarrow>
             (case ecall w of ((result, used), w1) \<Rightarrow>
              (case to_vm_result result (host w1) of (r, h) \<Rightarrow> (r, (consume_gas used md, w1\<lparr>host := h\<rparr>))))
         | SgxFailed status used w1 \<Rightarrow> (Err (VmEnclaveErr (SdkErr status)), (consume_gas used md, w1))))"

type_synonym ('s, 'q, 'i) vm_world = "('s, 'q, 'i) vm_host world"

definition vm_init ::
  "('pm, 'wm, 'mi, 'm, ('s, 'q, 'i) vm_host) linked \<Rightarrow> ecall_env \<Rightarrow> ('s, 'q, 'i) vm_host transition \<Rightarrow> bytes \<Rightarrow> bytes \<Rightarrow> bytes \<Rightarrow>
   (Module \<times> ('s, 'q, 'i) vm_world, VmError, InitSuccess) stm" where
  "vm_init su ee tr env m sig_info s =
     enter_enclave tr (ecall_init su ee (mod_gas_left (fst s)) 0 (Some (bytecode (fst s))) (Some env) (Some m) (Some sig_info))
       init_result_to_vm_result s"

definition vm_handle ::
  "('pm, 'wm, 'mi, 'm, ('s, 'q, 'i) vm_host) linked \<Rightarrow> ecall_env \<Rightarrow> ('s, 'q, 'i) vm_host transition \<Rightarrow> bytes \<Rightarrow> bytes \<Rightarrow> bytes \<Rightarrow>
   (Module \<times> ('s, 'q, 'i) vm_world, VmError, bytes) stm" where
  "vm_handle su ee tr env m sig_info s =
     enter_enclave tr (ecall_handle su ee (mod_gas_left (fst s)) 0 (Some (bytecode (fst s))) (Some env) (Some m) (Some sig_info))
       handle_result_to_vm_result s"

definition vm_query ::
  "('pm, 'wm, 'mi, 'm, ('s, 'q, 'i) vm_host) linked \<Rightarrow> ecall_env \<Rightarrow> ('s, 'q, 'i) vm_host transition \<Rightarrow> bytes \<Rightarrow>
   (Module \<times> ('s, 'q, 'i) vm_world, VmError, bytes) stm" where
  "vm_query su ee tr m s =
     enter_enclave tr (ecall_query su ee (mod_gas_left (fst s)) 0 (Some (bytecode (fst s))) (Some m)) query_result_to_vm_result s"

section \<open>instance.rs\<close>

record GasReport =
  report_limit :: u64
  remaining :: u64
  used_externally :: u64
  used_internally :: u64

record 'a Instance =
  inner :: Module
  api :: 'a

text \<open>A fresh context, with the storage and the querier moved into it.\<close>

definition from_code ::
  "(nat, unit) res \<Rightarrow> bytes \<Rightarrow> ('s, 'a, 'q) Extern \<Rightarrow> u64 \<Rightarrow> (('s, 'q, 'i) vm_world, VmError, 'a Instance) stm" where
  "from_code enclave code deps limit w =
     (case enclave of
        Ok _ \<Rightarrow>
          (Ok \<lparr>inner = module_new code limit, api = ext_api deps\<rparr>,
           w\<lparr>host := (host w)\<lparr>context_data :=
               move_into_context (ext_storage deps) (ext_querier deps) create_unmanaged_context_data\<rparr>\<rparr>)
      | Err status \<Rightarrow> (Err (VmEnclaveErr (SdkErr status)), w)
      | Panicked \<Rightarrow> (Panicked, w))"

definition on_context :: "(('s, 'q, 'i) ContextData \<Rightarrow> ('s, 'q, 'i) ContextData) \<Rightarrow> ('s, 'q, 'i) vm_world \<Rightarrow> ('s, 'q, 'i) vm_world" where
  "on_context f w = w\<lparr>host := (host w)\<lparr>context_data := f (context_data (host w))\<rparr>\<rparr>"

definition recycle :: "'a Instance \<Rightarrow> ('s, 'q, 'i) vm_world \<Rightarrow> ('s, 'a, 'q) Extern option \<times> ('s, 'q, 'i) vm_world" where
  "recycle ins w =
     (case move_out_of_context (context_data (host w)) of (out, c) \<Rightarrow>
        ((case out of
            (Some st, Some qu) \<Rightarrow> Some \<lparr>ext_storage = st, ext_api = api ins, ext_querier = qu\<rparr>
          | _ \<Rightarrow> None),
         on_context (\<lambda>_. c) w))"

definition create_gas_report :: "'a Instance \<Rightarrow> GasReport" where
  "create_gas_report ins =
     (let limit = mod_gas_limit (inner ins); left = mod_gas_left (inner ins); used = mod_used_gas (inner ins)
      in \<lparr>report_limit = limit, remaining = left,
          used_externally = saturating_sub (saturating_sub limit left) used, used_internally = used\<rparr>)"

definition in_module :: "(Module \<times> 'h world, VmError, 'r) stm \<Rightarrow> ('a Instance \<times> 'h world, VmError, 'r) stm" where
  "in_module f s =
     (case s of (ins, w) \<Rightarrow> (case f (inner ins, w) of (r, (md, w')) \<Rightarrow> (r, (ins\<lparr>inner := md\<rparr>, w'))))"

definition call_init ::
  "('pm, 'wm, 'mi, 'm, ('s, 'q, 'i) vm_host) linked \<Rightarrow> ecall_env \<Rightarrow> ('s, 'q, 'i) vm_host transition \<Rightarrow> bytes \<Rightarrow> bytes \<Rightarrow> bytes \<Rightarrow>
   ('a Instance \<times> ('s, 'q, 'i) vm_world, VmError, bytes) stm" where
  "call_init su ee tr env m sig_info =
     and_then (in_module (vm_init su ee tr env m sig_info)) (\<lambda>r. ret (init_into_output r))"

definition call_handle ::
  "('pm, 'wm, 'mi, 'm, ('s, 'q, 'i) vm_host) linked \<Rightarrow> ecall_env \<Rightarrow> ('s, 'q, 'i) vm_host transition \<Rightarrow> bytes \<Rightarrow> bytes \<Rightarrow> bytes \<Rightarrow>
   ('a Instance \<times> ('s, 'q, 'i) vm_world, VmError, bytes) stm" where
  "call_handle su ee tr env m sig_info = in_module (vm_handle su ee tr env m sig_info)"

definition call_migrate :: "bytes \<Rightarrow> bytes \<Rightarrow> ('a Instance \<times> ('s, 'q, 'i) vm_world, VmError, bytes) stm" where
  "call_migrate env m = ret []"

definition call_query ::
  "('pm, 'wm, 'mi, 'm, ('s, 'q, 'i) vm_host) linked \<Rightarrow> ecall_env \<Rightarrow> ('s, 'q, 'i) vm_host transition \<Rightarrow> bytes \<Rightarrow>
   ('a Instance \<times> ('s, 'q, 'i) vm_world, VmError, bytes) stm" where
  "call_query su ee tr m = in_module (vm_query su ee tr m)"

section \<open>calls.rs\<close>

definition with_readonly ::
  "bool \<Rightarrow> ('a Instance \<times> ('s, 'q, 'i) vm_world, VmError, bytes) stm \<Rightarrow> ('a Instance \<times> ('s, 'q, 'i) vm_world, VmError, bytes) stm" where
  "with_readonly b f = and_then (modify (\<lambda>(ins, w). (ins, on_context (set_storage_readonly b) w))) (\<lambda>_. f)"

definition call_init_raw ::
  "('pm, 'wm, 'mi, 'm, ('s, 'q, 'i) vm_host) linked \<Rightarrow> ecall_env \<Rightarrow> ('s, 'q, 'i) vm_host transition \<Rightarrow> bytes \<Rightarrow> bytes \<Rightarrow> bytes \<Rightarrow>
   ('a Instance \<times> ('s, 'q, 'i) vm_world, VmError, bytes) stm" where
  "call_init_raw su ee tr env m sig_info = with_readonly False (call_init su ee tr env m sig_info)"

definition call_handle_raw ::
  "('pm, 'wm, 'mi, 'm, ('s, 'q, 'i) vm_host) linked \<Rightarrow> ecall_env \<Rightarrow> ('s, 'q, 'i) vm_host transition \<Rightarrow> bytes \<Rightarrow> bytes \<Rightarrow> bytes \<Rightarrow>
   ('a Instance \<times> ('s, 'q, 'i) vm_world, VmError, bytes) stm" where
  "call_handle_raw su ee tr env m sig_info = with_readonly False (call_handle su ee tr env m sig_info)"

definition call_migrate_raw :: "bytes \<Rightarrow> bytes \<Rightarrow> ('a Instance \<times> ('s, 'q, 'i) vm_world, VmError, bytes) stm" where
  "call_migrate_raw env m = with_readonly False (call_migrate env m)"

definition call_query_raw ::
  "('pm, 'wm, 'mi, 'm, ('s, 'q, 'i) vm_host) linked \<Rightarrow> ecall_env \<Rightarrow> ('s, 'q, 'i) vm_host transition \<Rightarrow> bytes \<Rightarrow>
   ('a Instance \<times> ('s, 'q, 'i) vm_world, VmError, bytes) stm" where
  "call_query_raw su ee tr m = with_readonly True (call_query su ee tr m)"

section \<open>What the ocalls keep\<close>

definition boxes_ok :: "('s, 'q, 'i) host_lib \<Rightarrow> bool" where
  "boxes_ok l = (\<forall>A p. new_box l A = Some p \<longrightarrow> p \<noteq> 0 \<and> p \<notin> A)"

lemma run_ocall_context:
  "context_data (snd (run_ocall l f g h)) = snd (f (context_data h))"
  "vec_boxes (snd (run_ocall l f g h)) = vec_boxes h"
  by (auto simp: run_ocall_def store_vm_error_def Let_def split: prod.splits res.splits option.splits)

lemma with_storage_fields [simp]:
  "ctx_querier (snd (with_storage_from_context f c)) = ctx_querier c"
  "storage_readonly (snd (with_storage_from_context f c)) = storage_readonly c"
  "iterators (snd (with_storage_from_context f c)) = iterators c"
  "ctx_storage (snd (with_storage_from_context f c)) = map_option (\<lambda>st. snd (f st)) (ctx_storage c)"
  by (auto simp: with_storage_from_context_def split: option.splits prod.splits)

lemma with_querier_fields [simp]:
  "ctx_querier (snd (with_querier_from_context f c)) = map_option (\<lambda>q. snd (f q)) (ctx_querier c)"
  "storage_readonly (snd (with_querier_from_context f c)) = storage_readonly c"
  "iterators (snd (with_querier_from_context f c)) = iterators c"
  "ctx_storage (snd (with_querier_from_context f c)) = ctx_storage c"
  by (auto simp: with_querier_from_context_def split: option.splits prod.splits)

lemmas ocall_impl_defs = host_read_db_def host_query_chain_def host_write_db_def host_remove_db_def
  ocall_read_db_impl_def ocall_query_chain_impl_def ocall_write_db_impl_def ocall_remove_db_impl_def

text \<open>A live instance: storage and querier are in the context.\<close>

definition live :: "('s, 'q, 'i) vm_host \<Rightarrow> bool" where
  "live h = (ctx_storage (context_data h) \<noteq> None \<and> ctx_querier (context_data h) \<noteq> None)"

lemma vm_ocalls_keep:
  "ocalls_keep (vm_ocalls l) (\<lambda>h. live h \<and> vec_boxes h = V \<and> iterators (context_data h) = its)"
  by (simp add: ocalls_keep_def vm_ocalls_def live_def ocall_impl_defs run_ocall_context)

section \<open>The host serves the enclave's storage\<close>

text \<open>The state of a host whose storage satisfies \<open>J\<close>, and the database it serves.\<close>

definition host_state :: "('s \<Rightarrow> bool) \<Rightarrow> ('s, 'q, 'i) vm_host \<Rightarrow> bool" where
  "host_state J h = (\<exists>st. ctx_storage (context_data h) = Some st \<and> J st)"

definition host_view :: "('s \<Rightarrow> bytes \<rightharpoonup> bytes) \<Rightarrow> ('s, 'q, 'i) vm_host \<Rightarrow> bytes \<rightharpoonup> bytes" where
  "host_view view h = (case ctx_storage (context_data h) of None \<Rightarrow> Map.empty | Some st \<Rightarrow> view st)"

text \<open>The enclave can be entered to allocate, and has memory.\<close>

definition enclave_ready :: "('s, 'q, 'i) host_lib \<Rightarrow> bool" where
  "enclave_ready l = (reserve_register l = Ok () \<and> reserve_restore l = Ok () \<and> (\<forall>v. enters l v) \<and>
     allocator_ok (alloc_in_enclave l) \<and> (\<forall>d. d \<noteq> [] \<longrightarrow> alloc_in_enclave l Map.empty d \<noteq> None))"

context chain_storage
begin

lemma honest_host:
  fixes l :: "('s, 'q, 'i) host_lib"
  assumes "storage_impl l = ops" and "enclave_ready l"
  shows "honest_db (vm_ocalls l) (host_state J) (host_view view)"
  unfolding honest_db_def
proof (intro conjI allI impI)
  fix k v and h :: "('s, 'q, 'i) vm_host"
  assume "host_state J h"
  then obtain st where st: "ctx_storage (context_data h) = Some st" "J st"
    by (auto simp: host_state_def)
  note defs = vm_ocalls_def ocall_impl_defs run_ocall_def with_storage_from_context_def assms(1) served_def host_state_def
    host_view_def host_reply_def
  obtain g st' where "st_get ops k st = ((Ok (view st k), g), st')" "J st'" "view st' = view st"
    using get [OF st(2)] by blast
  then show "\<exists>r h'. ocall_read_db (vm_ocalls l) k h = (r, h') \<and> served r \<and> host_state J h' \<and>
      host_view view h' = host_view view h \<and>
      (case host_view view h k of
         None \<Rightarrow> o_allocs r = [] \<and> o_ptr r [] = 0
       | Some v \<Rightarrow> o_allocs r = [\<lparr>ac_buffer = Some v, ac_register = Ok (), ac_restore = Ok ()\<rparr>] \<and>
                    (\<forall>p. o_ptr r [p] = p))"
    using st assms(2) by (cases "view st k") (simp_all add: defs buffer_reply_def enclave_ready_def)
  obtain g st' where "st_set ops k v st = ((Ok (), g), st')" "J st'" "view st' = (view st)(k \<mapsto> v)"
    using set [OF st(2)] by blast
  then show "\<exists>r h'. ocall_write_db (vm_ocalls l) k v h = (r, h') \<and> served r \<and> host_state J h' \<and>
      host_view view h' = (host_view view h)(k \<mapsto> v) \<and> o_allocs r = []"
    using st by (simp add: defs)
  obtain g st' where "st_remove ops k st = ((Ok (), g), st')" "J st'" "view st' = (view st)(k := None)"
    using remove [OF st(2)] by blast
  then show "\<exists>r h'. ocall_remove_db (vm_ocalls l) k h = (r, h') \<and> served r \<and> host_state J h' \<and>
      host_view view h' = (host_view view h)(k := None) \<and> o_allocs r = []"
    using st by (simp add: defs)
qed (use assms(2) in \<open>simp_all add: enclave_ready_def vm_ocalls_def\<close>)

end

lemma snd_ffi: "snd (case x of ((r, g), s) \<Rightarrow> (f r g, s)) = snd x"
  by (simp split: prod.splits)

text \<open>A storage whose contents change by successful writes and by nothing else, failing calls included.\<close>

locale contained_storage =
  fixes ops :: "('s, 'i) storage" and view :: "'s \<Rightarrow> bytes \<rightharpoonup> bytes"
  assumes get_keeps: "view (snd (st_get ops k s)) = view s"
    and set_keeps: "view (snd (st_set ops k v s)) \<in> {view s, (view s)(k \<mapsto> v)}"
    and remove_keeps: "view (snd (st_remove ops k s)) \<in> {view s, (view s)(k := None)}"
begin

lemma contained_host:
  assumes "storage_impl l = ops"
  shows "host_keeps (vm_ocalls l) (host_view view)"
  unfolding host_keeps_def using get_keeps set_keeps remove_keeps
  by (auto simp: host_view_def vm_ocalls_def ocall_impl_defs run_ocall_context snd_ffi assms split: option.splits)

end

interpretation mock_contained: contained_storage mock_storage bt_get
  by unfold_locales (auto simp: mock_storage_def mock_get_def mock_set_def mock_remove_def)

section \<open>Errors of the chain come back unchanged\<close>

lemma store_then_recover:
  assumes "boxes_ok l" and "store_vm_error l e h = (Some p, h')"
  shows "p \<noteq> 0 \<and> vm_error_of_enclave (FailedOcall p) h' = (Err e, h)"
proof -
  have "p \<noteq> 0" and "p \<notin> used_addresses h" and h': "h' = h\<lparr>err_boxes := (err_boxes h)(p \<mapsto> e)\<rparr>"
    using assms by (auto simp: store_vm_error_def boxes_ok_def split: option.splits)
  then show ?thesis
    by (auto simp: vm_error_of_enclave_def used_addresses_def fun_upd_idem)
qed

text \<open>
  An implementation that fails with \<open>e\<close>: the enclave learns an address only, and the error it
  returns with that address is \<open>e\<close> again on the host, with the box freed.
\<close>

lemma failed_ocall_returns:
  assumes "boxes_ok l" and "impl (context_data h) = (Err e, c)"
    and "new_box l (used_addresses h) = Some p"
  obtains h' where "run_ocall l impl answer_with h = (host_reply OcallFailure p 0, h')"
    and "vm_error_of_enclave (enclave_error_of (EngineFailedOcall p)) h' = (Err e, h\<lparr>context_data := c\<rparr>)"
proof -
  have "used_addresses (h\<lparr>context_data := c\<rparr>) = used_addresses h"
    by (simp add: used_addresses_def)
  then obtain h' where h': "store_vm_error l e (h\<lparr>context_data := c\<rparr>) = (Some p, h')"
    using assms(3) by (simp add: store_vm_error_def)
  show ?thesis
    using assms(2) h' by (intro that [of h']) (simp_all add: run_ocall_def store_then_recover [OF assms(1) h'])
qed

section \<open>Calls of an instance\<close>

lemma ecall_frame_host:
  assumes body: "\<And>v r v'. P (host v) \<Longrightarrow> body v = (r, v') \<Longrightarrow> P (host v')"
    and "P (host w)" and run: "ecall_frame ee failure ptrs limit used body w = (r, w')"
  shows "P (host w')"
proof -
  have "P (host (w\<lparr>depth := d\<rparr>))" for d
    using assms(2) by simp
  then have "P (host v')" if "body (w\<lparr>depth := d\<rparr>) = (x, v')" for d x v'
    using body that by blast
  then show ?thesis
    using run assms(2) by (auto simp: ecall_frame_def Let_def split: res.splits if_splits prod.splits option.splits)
qed

lemma ecall_frame_result:
  assumes "ecall_frame ee failure ptrs limit used body w = ((x, u), w')" and "\<And>e. x \<noteq> failure e"
  obtains d w1 where "body (w\<lparr>depth := d\<rparr>) = ((Some x, u), w1)" and "host w' = host w1"
  using assms
  by (auto simp: ecall_frame_def Let_def split: res.splits if_splits prod.splits option.splits)

lemma host_allocate_keeps: "context_data (snd (host_allocate l out h)) = context_data h"
  by (simp add: host_allocate_def split: option.splits)

text \<open>What the ocalls and the copying of the output keep of the host's state, the entry points keep.\<close>

lemma ecalls_hosted:
  assumes "ocalls_keep (vm_ocalls l) P" and "\<And>out h. P h \<Longrightarrow> P (snd (host_allocate l out h))" and "P (host w)"
  shows "ecall_init (on_host l su) ee limit used code env m sig_info w = (r1, w') \<Longrightarrow> P (host w')"
    and "ecall_handle (on_host l su) ee limit used code env m sig_info w = (r2, w') \<Longrightarrow> P (host w')"
    and "ecall_query (on_host l su) ee limit used code m w = (r3, w') \<Longrightarrow> P (host w')"
proof -
  have ocalls: "ocalls_keep (ocall (on_host l su)) P"
    using assms(1) by (simp add: on_host_def)
  have user: "P (host v')" if "P (host v)" and "to_user_space (on_host l su) out v = (q, v')" for out q v v'
    using assms(2) [OF that(1), of out] that(2) by (auto simp: to_user_space_def on_host_def split: prod.splits)
  show "ecall_init (on_host l su) ee limit used code env m sig_info w = (r1, w') \<Longrightarrow> P (host w')"
    unfolding ecall_init_def
    by (rule ecall_frame_host [where P = P, OF _ assms(3)])
      (auto simp: result_init_success_to_initresult_def split: prod.splits res.splits option.splits
        dest: user operations_hosted(1) [OF ocalls])
  show "ecall_handle (on_host l su) ee limit used code env m sig_info w = (r2, w') \<Longrightarrow> P (host w')"
    unfolding ecall_handle_def
    by (rule ecall_frame_host [where P = P, OF _ assms(3)])
      (auto simp: result_handle_success_to_handleresult_def split: prod.splits res.splits option.splits
        dest: user operations_hosted(2) [OF ocalls])
  show "ecall_query (on_host l su) ee limit used code m w = (r3, w') \<Longrightarrow> P (host w')"
    unfolding ecall_query_def
    by (rule ecall_frame_host [where P = P, OF _ assms(3)])
      (auto simp: result_query_success_to_queryresult_def split: prod.splits res.splits option.splits
        dest: user operations_hosted(3) [OF ocalls])
qed

lemma output_returns:
  assumes "boxes_ok l" and "to_user_space (on_host l su) out w = (Some p, w')"
  shows "recover_output p (host w') = (Ok out, host w)"
proof -
  have "p \<noteq> 0" and "p \<notin> used_addresses (host w)"
    and w': "w' = w\<lparr>host := (host w)\<lparr>vec_boxes := (vec_boxes (host w))(p \<mapsto> out)\<rparr>\<rparr>"
    using assms by (auto simp: to_user_space_def on_host_def host_allocate_def boxes_ok_def split: option.splits)
  then have "(vec_boxes (host w))(p := None) = vec_boxes (host w)"
    by (auto simp: used_addresses_def)
  then show ?thesis
    using \<open>p \<noteq> 0\<close> w' by (simp add: recover_output_def host_recover_buffer_def)
qed

text \<open>A call that succeeds returns what the contract produced in the enclave.\<close>

lemma module_handle_Ok:
  assumes "boxes_ok l" and "vm_handle (on_host l su) ee tr env m sig_info (md, w) = (Ok out, (md', w'))"
  obtains d used w1 where
    "contract_handle (on_host l su) (mod_gas_left md) 0 (bytecode md) env m sig_info (w\<lparr>depth := d\<rparr>) = ((Ok out, used), w1)"
    and "md' = consume_gas used md" and "host w' = host w1" and "tr = Entered"
proof -
  obtain res used w2 where e: "tr = Entered"
    "ecall_handle (on_host l su) ee (mod_gas_left md) 0 (Some (bytecode md)) (Some env) (Some m) (Some sig_info) w = ((res, used), w2)"
    "md' = consume_gas used md" "handle_result_to_vm_result res (host w2) = (Ok out, host w')"
    using assms(2) by (auto simp: vm_handle_def enter_enclave_def split: transition.splits prod.splits)
  obtain p where p: "res = HandleOk p"
    using e(4) by (cases res) (auto simp: vm_error_of_enclave_def split: EnclaveError.splits if_splits option.splits)
  obtain d w1 where body: "(case contract_handle (on_host l su) (mod_gas_left md) 0 (bytecode md) env m sig_info (w\<lparr>depth := d\<rparr>) of
      ((r, used'), w1) \<Rightarrow> (case result_handle_success_to_handleresult (on_host l su) r w1 of (res, w2) \<Rightarrow> ((res, used'), w2)))
      = ((Some (HandleOk p), used), w1)" "host w2 = host w1"
    by (rule ecall_frame_result [OF e(2) [unfolded ecall_handle_def p]]) auto
  obtain out' w3 where run: "contract_handle (on_host l su) (mod_gas_left md) 0 (bytecode md) env m sig_info (w\<lparr>depth := d\<rparr>) = ((Ok out', used), w3)"
    "to_user_space (on_host l su) out' w3 = (Some p, w1)"
    using body(1) by (auto simp: result_handle_success_to_handleresult_def split: prod.splits res.splits option.splits)
  have "recover_output p (host w2) = (Ok out', host w3)"
    using output_returns [OF assms(1) run(2)] body(2) by simp
  then have "out = out'" and "host w' = host w3"
    using e(4) p by simp_all
  then show ?thesis
    using that run(1) e(1,3) by blast
qed

lemma gas_within:
  assumes "mod_used_gas md \<le> mod_gas_limit md" and "used \<le> mod_gas_left md"
  shows "mod_used_gas (consume_gas used md) = mod_used_gas md + used" and "mod_used_gas (consume_gas used md) \<le> mod_gas_limit md"
proof -
  have "unat (mod_used_gas md) + unat used \<le> unat (mod_gas_limit md)"
    using assms by (simp add: mod_gas_left_def word_le_nat_alt arith_simps)
  moreover have "unat (mod_gas_limit md) < 2 ^ 64"
    using unat_bound [of "mod_gas_limit md"] by simp
  ultimately show "mod_used_gas (consume_gas used md) = mod_used_gas md + used"
    and "mod_used_gas (consume_gas used md) \<le> mod_gas_limit md"
    by (simp_all add: consume_gas_def saturating_add_def word_le_nat_alt unat_add_fits)
qed

lemma call_handle_raw_run:
  "call_handle_raw su ee tr env m sig_info (ins, w) =
     (case vm_handle su ee tr env m sig_info (inner ins, on_context (set_storage_readonly False) w) of
        (r, (md, w')) \<Rightarrow> (r, (ins\<lparr>inner := md\<rparr>, w')))"
  by (simp add: call_handle_raw_def with_readonly_def call_handle_def in_module_def)

lemma on_context_simps [simp]:
  "context_data (host (on_context f w)) = f (context_data (host w))"
  "vec_boxes (host (on_context f w)) = vec_boxes (host w)" "err_boxes (host (on_context f w)) = err_boxes (host w)"
  by (simp_all add: on_context_def)

lemma vm_boxes_keep: "ocalls_keep (vm_ocalls l) (\<lambda>h. vec_boxes h = V)"
  by (simp add: ocalls_keep_def vm_ocalls_def ocall_impl_defs run_ocall_context)

text \<open>
  C18: what a successful \<open>handle\<close> means to the caller of the virtual machine. The output is the
  one the contract produced in the enclave, on the state the instance had; the context is the
  one the contract left; no output box stays behind; and the gas of the instance grows by
  the gas the enclave reported, within the limit.
\<close>

theorem handle_delivers:
  assumes "boxes_ok l" and "mod_used_gas (inner ins) \<le> mod_gas_limit (inner ins)"
    and run: "call_handle_raw (on_host l su) ee tr env m sig_info (ins, w) = (Ok out, (ins', w'))"
  shows "\<exists>d used w1.
    contract_handle (on_host l su) (mod_gas_left (inner ins)) 0 (bytecode (inner ins)) env m sig_info
      ((on_context (set_storage_readonly False) w)\<lparr>depth := d\<rparr>) = ((Ok out, used), w1) \<and>
    context_data (host w') = context_data (host w1) \<and> vec_boxes (host w') = vec_boxes (host w) \<and>
    mod_used_gas (inner ins') = mod_used_gas (inner ins) + used \<and> mod_used_gas (inner ins') \<le> mod_gas_limit (inner ins')"
proof -
  let ?w = "on_context (set_storage_readonly False) w"
  obtain md where md: "vm_handle (on_host l su) ee tr env m sig_info (inner ins, ?w) = (Ok out, (md, w'))"
    "ins' = ins\<lparr>inner := md\<rparr>"
    using run by (auto simp: call_handle_raw_run split: prod.splits)
  obtain d used w1 where ran: "contract_handle (on_host l su) (mod_gas_left (inner ins)) 0 (bytecode (inner ins)) env m sig_info
      (?w\<lparr>depth := d\<rparr>) = ((Ok out, used), w1)" "md = consume_gas used (inner ins)" "host w' = host w1"
    by (rule module_handle_Ok [OF assms(1) md(1)])
  have "vec_boxes (host w1) = vec_boxes (host w)"
    by (rule operations_hosted(2) [OF _ _ ran(1), where P = "\<lambda>h. vec_boxes h = vec_boxes (host w)"])
      (simp_all add: on_host_def vm_boxes_keep)
  moreover have "used \<le> mod_gas_left (inner ins)"
    by (rule handle_used_gas [OF ran(1)])
  ultimately show ?thesis
    using ran md(2) gas_within [OF assms(2)] by (auto simp: consume_gas_def)
qed

lemma results_keep_context:
  "context_data (snd (handle_result_to_vm_result res h)) = context_data h"
  by (cases res) (auto simp: recover_output_def host_recover_buffer_def vm_error_of_enclave_def and_then_def
      split: EnclaveError.splits option.splits)


section \<open>The chain's data during a call\<close>

lemma on_host_simps [simp]:
  "codec (on_host l su) = codec su" "crypto (on_host l su) = crypto su" "ocall (on_host l su) = vm_ocalls l"
  "ocall_allocate (on_host l su) = host_allocate l"
  by (simp_all add: on_host_def)

lemma call_query_raw_run:
  "call_query_raw su ee tr m (ins, w) =
     (case vm_query su ee tr m (inner ins, on_context (set_storage_readonly True) w) of
        (r, (md, w')) \<Rightarrow> (r, (ins\<lparr>inner := md\<rparr>, w')))"
  by (simp add: call_query_raw_def with_readonly_def call_query_def in_module_def)

lemma query_results_keep_context:
  "context_data (snd (query_result_to_vm_result res h)) = context_data h"
  by (cases res) (auto simp: recover_output_def host_recover_buffer_def vm_error_of_enclave_def and_then_def
      split: EnclaveError.splits option.splits)

lemma host_view_context: "context_data h = context_data h' \<Longrightarrow> host_view view h = host_view view h'"
  by (simp add: host_view_def)

lemma host_view_readonly [simp]: "host_view view (host (on_context (set_storage_readonly b) w)) = host_view view (host w)"
  by (simp add: host_view_def set_storage_readonly_def)

context contained_storage
begin

lemma query_keeps_contents:
  assumes "storage_impl l = ops" and run: "call_query_raw (on_host l su) ee Entered m (ins, w) = (r, (ins', w'))"
  shows "host_view view (host w') = host_view view (host w)"
proof -
  let ?w = "on_context (set_storage_readonly True) w" and ?V = "\<lambda>h. host_view view h = host_view view (host w)"
  obtain res used w2 where e: "ecall_query (on_host l su) ee (mod_gas_left (inner ins)) 0 (Some (bytecode (inner ins))) (Some m) ?w
      = ((res, used), w2)"
    by (metis prod.exhaust)
  have "?V (host w2)"
  proof (rule ecall_frame_host [where P = ?V, OF _ _ e [unfolded ecall_query_def]])
    fix v x v'
    assume "?V (host v)" and b: "(case contract_query (on_host l su) (mod_gas_left (inner ins)) 0 (the (Some (bytecode (inner ins))))
          (the (Some m)) v of
        ((r, used'), w1) \<Rightarrow> (case result_query_success_to_queryresult (on_host l su) r w1 of (res, w2) \<Rightarrow> ((res, used'), w2))) = (x, v')"
    obtain q v1 where q: "contract_query (on_host l su) (mod_gas_left (inner ins)) 0 (bytecode (inner ins)) m v = (q, v1)"
      by (metis prod.exhaust)
    have "host_view view (host v1) = host_view view (host v)"
      by (rule query_view [OF _ q]) (simp add: contained_host [OF assms(1)])
    moreover have "context_data (host v') = context_data (host v1)"
      using b q host_allocate_keeps [of l _ "host v1"]
      by (auto simp: result_query_success_to_queryresult_def to_user_space_def split: prod.splits res.splits option.splits if_splits)
        (metis snd_conv)+
    ultimately show "?V (host v')"
      using \<open>?V (host v)\<close> host_view_context by metis
  qed simp
  moreover have "context_data (host w') = context_data (host w2)"
    using run e query_results_keep_context [of res "host w2"]
    by (auto simp: call_query_raw_run vm_query_def enter_enclave_def split: prod.splits)
  ultimately show ?thesis
    using host_view_context by metis
qed

lemma handle_keeps_others:
  assumes "storage_impl l = ops" and run: "call_handle_raw (on_host l su) ee Entered env m sig_info (ins, w) = (r, (ins', w'))"
    and "parse_env (codec su) env = Some env'" and "extract_contract_key (codec su) env' = Ok key"
    and field: "\<And>k. field \<noteq> field_name_digest (crypto su) k key"
  shows "host_view view (host w') field = host_view view (host w) field"
proof -
  let ?w = "on_context (set_storage_readonly False) w" and ?V = "\<lambda>h. host_view view h field = host_view view (host w) field"
  obtain res used w2 where e: "ecall_handle (on_host l su) ee (mod_gas_left (inner ins)) 0 (Some (bytecode (inner ins)))
      (Some env) (Some m) (Some sig_info) ?w = ((res, used), w2)"
    by (metis prod.exhaust)
  have "?V (host w2)"
  proof (rule ecall_frame_host [where P = ?V, OF _ _ e [unfolded ecall_handle_def]])
    fix v x v'
    assume "?V (host v)" and b: "(case contract_handle (on_host l su) (mod_gas_left (inner ins)) 0 (the (Some (bytecode (inner ins))))
          (the (Some env)) (the (Some m)) (the (Some sig_info)) v of
        ((r, used'), w1) \<Rightarrow> (case result_handle_success_to_handleresult (on_host l su) r w1 of (res, w2) \<Rightarrow> ((res, used'), w2))) = (x, v')"
    obtain q v1 where q: "contract_handle (on_host l su) (mod_gas_left (inner ins)) 0 (bytecode (inner ins)) env m sig_info v = (q, v1)"
      by (metis prod.exhaust)
    have "host_view view (host v1) field = host_view view (host v) field"
      by (rule handle_fields [where key = key and env' = env', OF _ q]) (simp_all add: contained_host [OF assms(1)] assms(3,4) field)
    moreover have "context_data (host v') = context_data (host v1)"
      using b q host_allocate_keeps [of l _ "host v1"]
      by (auto simp: result_handle_success_to_handleresult_def to_user_space_def split: prod.splits res.splits option.splits if_splits)
        (metis snd_conv)+
    ultimately show "?V (host v')"
      using \<open>?V (host v)\<close> host_view_context by metis
  qed simp
  moreover have "context_data (host w') = context_data (host w2)"
    using run e results_keep_context [of res "host w2"]
    by (auto simp: call_handle_raw_run vm_handle_def enter_enclave_def split: prod.splits)
  ultimately show ?thesis
    using host_view_context by metis
qed

end

text \<open>
  The gas report of an instance in the enclave build never shows gas that was used
  externally; what is left and what was used add up to the limit as long as it is not exceeded.
\<close>

lemma gas_report_never_external:
  "used_externally (create_gas_report ins) = 0 \<and>
   unat (remaining (create_gas_report ins)) = unat (mod_gas_limit (inner ins)) - unat (used_internally (create_gas_report ins))"
  by (simp add: create_gas_report_def mod_gas_left_def Let_def arith_simps word_unat_eq_iff)

section \<open>A concrete host\<close>

text \<open>The test storage, a querier that fails, and memory for one box at a time.\<close>

definition demo_host_lib :: "(MockStorage, unit, MockIterator) host_lib" where
  "demo_host_lib = \<lparr>storage_impl = mock_storage, querier_impl = \<lparr>query_raw = (\<lambda>q g u. ((Err (FfiUnknown None), free_gas), u))\<rparr>,
     print_system_result = (\<lambda>_. None), new_box = (\<lambda>A. if 1 \<in> A then None else Some 1), enters = (\<lambda>_. True),
     reserve_register = Ok (), reserve_restore = Ok (), alloc_in_enclave = demo_alloc\<rparr>"

definition demo_vm_world :: "(MockStorage, unit, MockIterator) vm_world" where
  "demo_vm_world = \<lparr>host = \<lparr>context_data = create_unmanaged_context_data, vec_boxes = Map.empty, err_boxes = Map.empty\<rparr>,
     bufs = \<lparr>alloc_stack = [], heap = Map.empty\<rparr>, depth = 1\<rparr>"

definition demo_extern :: "(MockStorage, unit, unit) Extern" where
  "demo_extern = \<lparr>ext_storage = [([1], [2])], ext_api = (), ext_querier = ()\<rparr>"

definition demo_instance :: "unit Instance" where
  "demo_instance = \<lparr>inner = module_new [99] 1000, api = ()\<rparr>"

definition demo_loaded :: "(MockStorage, unit, MockIterator) vm_world" where
  "demo_loaded = on_context (move_into_context [([1], [2])] ()) demo_vm_world"

lemma demo_boxes_ok: "boxes_ok demo_host_lib"
  by (simp add: boxes_ok_def demo_host_lib_def)

lemma demo_enclave_ready: "enclave_ready demo_host_lib"
  using demo_alloc_ok by (simp add: enclave_ready_def demo_host_lib_def demo_alloc_def)

lemma demo_from_code: "from_code (Ok ()) [99] demo_extern 1000 demo_vm_world = (Ok demo_instance, demo_loaded)"
  by (simp add: from_code_def demo_extern_def demo_instance_def demo_loaded_def demo_vm_world_def on_context_def)

lemma demo_vm_call:
  "\<exists>w'. call_handle_raw (on_host demo_host_lib (demo_enclave oc al)) demo_ecall_env Entered demo_call_key demo_call_msg
     (replicate 32 8) (demo_instance, demo_loaded) = (Ok [], (demo_instance, w'))"
proof -
  have inc: "increment 1 = (Ok (), 2)"
    by (simp add: increment_def RECURSION_LIMIT_def)
  have limit: "mod_gas_left (inner demo_instance) = 1000" "bytecode (inner demo_instance) = [99]"
    by (simp_all add: demo_instance_def module_new_def mod_gas_left_def saturating_sub_def)
  have su: "on_host demo_host_lib (demo_enclave oc al) = demo_enclave (vm_ocalls demo_host_lib) (host_allocate demo_host_lib)"
    by (simp add: on_host_def demo_enclave_def)
  have ne: "demo_call_key \<noteq> []" "demo_call_msg \<noteq> []" "replicate 32 (8 :: u8) \<noteq> []"
    by (simp_all add: demo_call_key_def demo_call_msg_def)
  have alloc: "ocall_allocate (demo_enclave oc2 al2) = al2" for oc2 and al2 :: "bytes \<Rightarrow> 'x \<Rightarrow> (bool \<times> u64) \<times> 'x"
    by (simp add: demo_enclave_def)
  have box: "new_box demo_host_lib A = (if 1 \<in> A then None else Some 1)" for A
    by (simp add: demo_host_lib_def)
  have "consume_gas 0 (inner demo_instance) = inner demo_instance"
    by (simp add: consume_gas_def saturating_add_def demo_instance_def module_new_def)
  then show ?thesis
    by (simp add: call_handle_raw_run vm_handle_def enter_enclave_def limit su ecall_handle_def ecall_frame_def
        demo_loaded_def demo_vm_world_def on_context_def inc demo_ecall_env_def validate_const_ptr_def ne demo_handle
        result_handle_success_to_handleresult_def to_user_space_def alloc host_allocate_def box used_addresses_def
        recover_output_def host_recover_buffer_def)
qed

theorem handle_delivers_witness:
  "\<exists>ins' w'. call_handle_raw (on_host demo_host_lib (demo_enclave (vm_ocalls demo_host_lib) (host_allocate demo_host_lib))) demo_ecall_env Entered
       demo_call_key demo_call_msg (replicate 32 8) (demo_instance, demo_loaded) = (Ok [], (ins', w')) \<and>
     vec_boxes (host w') = Map.empty \<and> mod_used_gas (inner ins') \<le> mod_gas_limit (inner ins')"
proof -
  obtain w' where run: "call_handle_raw (on_host demo_host_lib (demo_enclave (vm_ocalls demo_host_lib) (host_allocate demo_host_lib))) demo_ecall_env
      Entered demo_call_key demo_call_msg (replicate 32 8) (demo_instance, demo_loaded) = (Ok [], (demo_instance, w'))"
    using demo_vm_call by blast
  have "mod_used_gas (inner demo_instance) \<le> mod_gas_limit (inner demo_instance)"
    by (simp add: demo_instance_def module_new_def)
  moreover have "vec_boxes (host demo_loaded) = Map.empty"
    by (simp add: demo_loaded_def demo_vm_world_def)
  ultimately show ?thesis
    using handle_delivers [OF demo_boxes_ok _ run] run by auto
qed


end
