(* ===== verification/Go_Bridge.thy ===== *)
theory Go_Bridge
  imports Go_Errors Vm_Host
begin

text \<open>
  The chain behind the virtual machine: the Rust side of \<open>go-cosmwasm\<close> (\<open>src/db.rs\<close>,
  \<open>iterator.rs\<close>, \<open>querier.rs\<close>, \<open>api.rs\<close>) that implements storage, querier and api by callbacks, and
  the Go side that serves them (\<open>api/callbacks.go\<close>, \<open>api/iterator.go\<close>, \<open>types/queries.go\<close>). The
  store, its iterators and the gas meter belong to the Cosmos SDK and are arguments.
\<close>

section \<open>What Go links\<close>

text \<open>A store and its iterators. An iterator is a reference: where it stands is part of the chain's state.\<close>

record ('k, 'it) kvstore =
  kv_get :: "go_bytes \<Rightarrow> 'k \<Rightarrow> go_bytes go \<times> 'k"
  kv_set :: "go_bytes \<Rightarrow> go_bytes \<Rightarrow> 'k \<Rightarrow> unit go \<times> 'k"
  kv_delete :: "go_bytes \<Rightarrow> 'k \<Rightarrow> unit go \<times> 'k"
  kv_iterator :: "go_bytes \<Rightarrow> go_bytes \<Rightarrow> 'k \<Rightarrow> 'it go \<times> 'k"
  kv_reverse_iterator :: "go_bytes \<Rightarrow> go_bytes \<Rightarrow> 'k \<Rightarrow> 'it go \<times> 'k"
  gas_consumed :: "'k \<Rightarrow> u64"
  it_valid :: "'it \<Rightarrow> 'k \<Rightarrow> bool"
  it_key :: "'it \<Rightarrow> 'k \<Rightarrow> go_bytes"
  it_value :: "'it \<Rightarrow> 'k \<Rightarrow> go_bytes"
  it_next :: "'it \<Rightarrow> 'k \<Rightarrow> unit go \<times> 'k"
  it_close :: "'it \<Rightarrow> 'k \<Rightarrow> 'k"

text \<open>
  The process: memory shared with Rust, the state of the chain, and the tables of
  \<open>iterator.go\<close>: one frame of iterators for each running contract, numbered by a counter.
\<close>

record ('k, 'it) process =
  mem :: rmem
  chain :: 'k
  iterator_stack :: "u64 \<Rightarrow> 'it list"
  db_counter :: u64

type_synonym ('k, 'it, 'a) go_stm = "(('k, 'it) process, FfiError, 'a) stm"

definition in_mem :: "(rmem, 'e, 'a) stm \<Rightarrow> (('k, 'it) process, 'e, 'a) stm" where
  "in_mem f s = (case f (mem s) of (r, m) \<Rightarrow> (r, s\<lparr>mem := m\<rparr>))"

definition new_vec :: "bytes \<Rightarrow> (('k, 'it) process, 'e, Buffer) stm" where
  "new_vec v s = (case from_vec v (mem s) of (b, m) \<Rightarrow> (Ok b, s\<lparr>mem := m\<rparr>))"

definition give_rust :: "go_bytes \<Rightarrow> (('k, 'it) process, 'e, Buffer) stm" where
  "give_rust d s = (case allocateRust d (mem s) of (b, m) \<Rightarrow> (Ok b, s\<lparr>mem := m\<rparr>))"

definition take_slice :: "Buffer \<Rightarrow> (('k, 'it) process, 'e, go_bytes) stm" where
  "take_slice b s = (receiveSlice b (mem s), s)"

section \<open>api/iterator.go\<close>

definition startContract :: "('k, 'it) process \<Rightarrow> u64 \<times> ('k, 'it) process" where
  "startContract s = (let counter = db_counter s + 1 in (counter, s\<lparr>db_counter := counter\<rparr>))"

definition popFrame :: "u64 \<Rightarrow> ('k, 'it) process \<Rightarrow> 'it list \<times> ('k, 'it) process" where
  "popFrame counter s = (iterator_stack s counter, s\<lparr>iterator_stack := (iterator_stack s)(counter := [])\<rparr>)"

definition endContract :: "('k, 'it) kvstore \<Rightarrow> u64 \<Rightarrow> ('k, 'it) process \<Rightarrow> ('k, 'it) process" where
  "endContract kvs counter s =
     (case popFrame counter s of (iters, s') \<Rightarrow> s'\<lparr>chain := fold (it_close kvs) iters (chain s')\<rparr>)"

definition storeIterator :: "u64 \<Rightarrow> 'it \<Rightarrow> ('k, 'it) process \<Rightarrow> u64 \<times> ('k, 'it) process" where
  "storeIterator counter it s =
     (let frame = iterator_stack s counter @ [it]
      in (word_of_nat (length frame), s\<lparr>iterator_stack := (iterator_stack s)(counter := frame)\<rparr>))"

text \<open>An index outside the frame makes Go panic.\<close>

definition retrieveIterator :: "u64 \<Rightarrow> u64 \<Rightarrow> ('k, 'it) process \<Rightarrow> 'it go" where
  "retrieveIterator counter index s =
     (let frame = iterator_stack s counter; i = unat (index - 1)
      in if i < length frame then Returns (frame ! i) else GoPanics OtherPanic)"

section \<open>api/callbacks.go\<close>

record go_reply =
  ret_code :: i32
  used_gas :: u64
  out_buf :: Buffer
  val_buf :: Buffer
  err_buf :: Buffer

definition reply :: "GoResult \<Rightarrow> u64 \<Rightarrow> go_reply" where
  "reply r g = \<lparr>ret_code = go_code r, used_gas = g, out_buf = null_buffer, val_buf = null_buffer, err_buf = null_buffer\<rparr>"

definition recoverPanic :: "go_panic \<Rightarrow> go_reply" where
  "recoverPanic p = reply (case p of ErrorOutOfGas \<Rightarrow> GoOutOfGas | OtherPanic \<Rightarrow> GoPanic) 0"

text \<open>
  A call of the chain between two readings of the gas meter. A panic is recovered, and
  leaves the out parameters as they were.
\<close>

definition metered ::
  "('k \<Rightarrow> u64) \<Rightarrow> ('k \<Rightarrow> 'a go \<times> 'k) \<Rightarrow> ('a \<Rightarrow> u64 \<Rightarrow> ('k, 'it, go_reply) go_stm) \<Rightarrow> ('k, 'it, go_reply) go_stm" where
  "metered meter f k s =
     (case f (chain s) of
        (Returns x, c) \<Rightarrow> k x (meter c - meter (chain s)) (s\<lparr>chain := c\<rparr>)
      | (GoPanics p, c) \<Rightarrow> (Ok (recoverPanic p), s\<lparr>chain := c\<rparr>))"

text \<open>The pointers of a \<open>DB\<close> (nil or not), and the identifier of its frame of iterators.\<close>

record DB =
  gas_meter_nil :: bool
  state_nil :: bool
  IteratorStackID :: u64

definition cGet :: "('k, 'it) kvstore \<Rightarrow> DB \<Rightarrow> Buffer \<Rightarrow> ('k, 'it, go_reply) go_stm" where
  "cGet kvs db key =
     (if state_nil db \<or> gas_meter_nil db then ret (reply GoBadArgument 0)
      else
        and_then (take_slice key) (\<lambda>k.
        metered (gas_consumed kvs) (kv_get kvs k) (\<lambda>v used.
        and_then (give_rust v) (\<lambda>b. ret ((reply GoOk used)\<lparr>out_buf := b\<rparr>)))))"

definition cSet :: "('k, 'it) kvstore \<Rightarrow> DB \<Rightarrow> Buffer \<Rightarrow> Buffer \<Rightarrow> ('k, 'it, go_reply) go_stm" where
  "cSet kvs db key val =
     (if state_nil db \<or> gas_meter_nil db then ret (reply GoBadArgument 0)
      else
        and_then (take_slice key) (\<lambda>k.
        and_then (take_slice val) (\<lambda>v.
        metered (gas_consumed kvs) (kv_set kvs k v) (\<lambda>_ used. ret (reply GoOk used)))))"

definition cDelete :: "('k, 'it) kvstore \<Rightarrow> DB \<Rightarrow> Buffer \<Rightarrow> ('k, 'it, go_reply) go_stm" where
  "cDelete kvs db key =
     (if state_nil db \<or> gas_meter_nil db then ret (reply GoBadArgument 0)
      else
        and_then (take_slice key) (\<lambda>k.
        metered (gas_consumed kvs) (kv_delete kvs k) (\<lambda>_ used. ret (reply GoOk used))))"

text \<open>An iterator as Rust holds it: the entry of the table, and whether the vtable is set.\<close>

record GoIter =
  iter_counter :: u64
  iter_index :: u64
  next_db_set :: bool

definition goiter_new :: GoIter where
  "goiter_new = \<lparr>iter_counter = 0, iter_index = 0, next_db_set = False\<rparr>"

definition buildIterator :: "u64 \<Rightarrow> 'it \<Rightarrow> ('k, 'it) process \<Rightarrow> GoIter \<times> ('k, 'it) process" where
  "buildIterator counter it s =
     (case storeIterator counter it s of (idx, s') \<Rightarrow>
        (\<lparr>iter_counter = counter, iter_index = idx, next_db_set = True\<rparr>, s'))"

definition order_i32 :: "Order \<Rightarrow> i32" where
  "order_i32 order = (case order of Ascending \<Rightarrow> 1 | Descending \<Rightarrow> 2)"

text \<open>\<open>cScan\<close> returns the iterator it wrote next to the reply; \<open>goiter_new\<close> if it wrote none.\<close>

definition cScan :: "('k, 'it) kvstore \<Rightarrow> DB \<Rightarrow> Buffer \<Rightarrow> Buffer \<Rightarrow> i32 \<Rightarrow> ('k, 'it, go_reply \<times> GoIter) go_stm" where
  "cScan kvs db start end order =
     (if state_nil db \<or> gas_meter_nil db then ret (reply GoBadArgument 0, goiter_new)
      else
        and_then (take_slice start) (\<lambda>st.
        and_then (take_slice end) (\<lambda>e.
        if order \<noteq> 1 \<and> order \<noteq> 2 then ret (reply GoBadArgument 0, goiter_new)
        else
          (\<lambda>s. case (if order = 1 then kv_iterator kvs st e (chain s) else kv_reverse_iterator kvs st e (chain s)) of
             (Returns it, c) \<Rightarrow>
               (case buildIterator (IteratorStackID db) it (s\<lparr>chain := c\<rparr>) of (gi, s') \<Rightarrow>
                  (Ok (reply GoOk (gas_consumed kvs c - gas_consumed kvs (chain s)), gi), s'))
           | (GoPanics p, c) \<Rightarrow> (Ok (recoverPanic p, goiter_new), s\<lparr>chain := c\<rparr>)))))"

definition cNext :: "('k, 'it) kvstore \<Rightarrow> bool \<Rightarrow> GoIter \<Rightarrow> ('k, 'it, go_reply) go_stm" where
  "cNext kvs meter_nil ref s =
     (if iter_counter ref = 0 \<or> meter_nil then (Ok (reply GoBadArgument 0), s)
      else (case retrieveIterator (iter_counter ref) (iter_index ref) s of
          GoPanics p \<Rightarrow> (Ok (recoverPanic p), s)
        | Returns iter \<Rightarrow>
            if \<not> it_valid kvs iter (chain s) then (Ok (reply GoOk 0), s)
            else
              (let k = it_key kvs iter (chain s); v = it_value kvs iter (chain s)
               in metered (gas_consumed kvs) (it_next kvs iter) (\<lambda>_ used.
                    if k = None then ret (reply GoOk used)
                    else
                      and_then (give_rust k) (\<lambda>kb.
                      and_then (give_rust v) (\<lambda>vb. ret ((reply GoOk used)\<lparr>out_buf := kb, val_buf := vb\<rparr>)))) s)))"

section \<open>db.rs\<close>

text \<open>
  A call of a callback: the vectors lent to it are freed when it returns, the result code is
  turned into an error or the result is taken from the buffers. Outside Go a panic in the
  model is undefined behaviour.
\<close>

definition lend :: "bytes \<Rightarrow> (Buffer \<Rightarrow> ('k, 'it, 'a) go_stm) \<Rightarrow> ('k, 'it, 'a) go_stm" where
  "lend v f = and_then (new_vec v) (\<lambda>b. and_then (f b) (\<lambda>r. and_then (in_mem (consume b)) (\<lambda>_. ret r)))"

definition ffi_call ::
  "(bytes \<Rightarrow> string) \<Rightarrow> string \<Rightarrow> (u64 \<Rightarrow> GasInfo) \<Rightarrow> ('k, 'it, go_reply \<times> 'x) go_stm \<Rightarrow> (go_reply \<times> 'x \<Rightarrow> ('k, 'it, 'a) go_stm) \<Rightarrow>
   ('k, 'it) process \<Rightarrow> 'a FfiResult \<times> ('k, 'it) process" where
  "ffi_call utf8 unknown priced callback finish s =
     (case callback s of
        (Ok (r, x), s1) \<Rightarrow>
          (case and_then (in_mem (into_ffi_result utf8 (go_result_of_i32 (ret_code r)) (err_buf r) unknown)) (\<lambda>_. finish (r, x)) s1 of
             (q, s2) \<Rightarrow> ((q, priced (used_gas r)), s2))
      | (Err e, s1) \<Rightarrow> ((Err e, free_gas), s1)
      | (Panicked, s1) \<Rightarrow> ((Panicked, free_gas), s1))"

definition alone :: "('k, 'it, 'a) go_stm \<Rightarrow> ('k, 'it, 'a \<times> unit) go_stm" where
  "alone f = and_then f (\<lambda>r. ret (r, ()))"

definition db_get ::
  "(bytes \<Rightarrow> string) \<Rightarrow> ('k, 'it) kvstore \<Rightarrow> DB \<Rightarrow> bytes \<Rightarrow> ('k, 'it) process \<Rightarrow> bytes option FfiResult \<times> ('k, 'it) process" where
  "db_get utf8 kvs db key =
     ffi_call utf8 (''Failed to read a key in the db: '' @ utf8 key) with_externally_used (alone (lend key (cGet kvs db)))
       (\<lambda>(r, _). if is_null (out_buf r) then ret None else and_then (in_mem (consume (out_buf r))) (\<lambda>v. ret (Some v)))"

text \<open>A missing bound is lent as the null buffer. \<open>dbg\<close> is Rust's \<open>{:?}\<close> of a string.\<close>

definition lend_opt :: "bytes option \<Rightarrow> (Buffer \<Rightarrow> ('k, 'it, 'a) go_stm) \<Rightarrow> ('k, 'it, 'a) go_stm" where
  "lend_opt v f = (case v of None \<Rightarrow> f null_buffer | Some bs \<Rightarrow> lend bs f)"

definition range_message :: "(bytes \<Rightarrow> string) \<Rightarrow> (string \<Rightarrow> string) \<Rightarrow> bytes option \<Rightarrow> bytes option \<Rightarrow> string" where
  "range_message utf8 dbg start end =
     (let show_opt = (\<lambda>v. case v of None \<Rightarrow> ''None'' | Some bs \<Rightarrow> ''Some('' @ dbg (utf8 bs) @ '')'')
      in ''Failed to read the next key between '' @ show_opt start @ '' and '' @ show_opt end)"

definition db_range ::
  "(bytes \<Rightarrow> string) \<Rightarrow> (string \<Rightarrow> string) \<Rightarrow> ('k, 'it) kvstore \<Rightarrow> DB \<Rightarrow> bytes option \<Rightarrow> bytes option \<Rightarrow> Order \<Rightarrow> ('k, 'it) process \<Rightarrow>
   GoIter FfiResult \<times> ('k, 'it) process" where
  "db_range utf8 dbg kvs db start end order =
     ffi_call utf8 (range_message utf8 dbg start end) with_externally_used
       (lend_opt start (\<lambda>s. lend_opt end (\<lambda>e. cScan kvs db s e (order_i32 order)))) (\<lambda>(_, iter). ret iter)"

definition db_set ::
  "(bytes \<Rightarrow> string) \<Rightarrow> ('k, 'it) kvstore \<Rightarrow> DB \<Rightarrow> bytes \<Rightarrow> bytes \<Rightarrow> ('k, 'it) process \<Rightarrow> unit FfiResult \<times> ('k, 'it) process" where
  "db_set utf8 kvs db key val =
     ffi_call utf8 (''Failed to set a key in the db: '' @ utf8 key) with_externally_used
       (alone (lend key (\<lambda>k. lend val (cSet kvs db k)))) (\<lambda>_. ret ())"

definition db_remove ::
  "(bytes \<Rightarrow> string) \<Rightarrow> ('k, 'it) kvstore \<Rightarrow> DB \<Rightarrow> bytes \<Rightarrow> ('k, 'it) process \<Rightarrow> unit FfiResult \<times> ('k, 'it) process" where
  "db_remove utf8 kvs db key =
     ffi_call utf8 (''Failed to delete a key in the db: '' @ utf8 key) with_externally_used (alone (lend key (cDelete kvs db)))
       (\<lambda>_. ret ())"

section \<open>iterator.rs\<close>

text \<open>The two buffers of an entry are read, not consumed.\<close>

definition goiter_next ::
  "(bytes \<Rightarrow> string) \<Rightarrow> ('k, 'it) kvstore \<Rightarrow> bool \<Rightarrow> GoIter \<Rightarrow> ('k, 'it) process \<Rightarrow>
   (bytes \<times> bytes) option FfiResult \<times> GoIter \<times> ('k, 'it) process" where
  "goiter_next utf8 kvs meter_nil iter s =
     (if \<not> next_db_set iter then ((Err (FfiUnknown (Some ''iterator vtable not set'')), free_gas), iter, s)
      else
        (case ffi_call utf8 ''Failed to fetch next item from iterator'' with_externally_used (alone (cNext kvs meter_nil iter))
           (\<lambda>(r, _) s. case (buf_read (out_buf r) (mem s) :: (FfiError, bytes option) res) of
              Ok (Some key) \<Rightarrow>
                (case (buf_read (val_buf r) (mem s) :: (FfiError, bytes option) res) of
                   Ok (Some val) \<Rightarrow> (Ok (Some (key, val)), s)
                 | Ok None \<Rightarrow> (Err (FfiUnknown (Some ''Failed to read value while reading the next key in the db'')), s)
                 | _ \<Rightarrow> (Panicked, s))
            | Ok None \<Rightarrow> (Ok None, s)
            | _ \<Rightarrow> (Panicked, s)) s of
           (q, s') \<Rightarrow> (q, iter, s')))"

definition go_storage ::
  "(bytes \<Rightarrow> string) \<Rightarrow> (string \<Rightarrow> string) \<Rightarrow> ('k, 'it) kvstore \<Rightarrow> DB \<Rightarrow> (('k, 'it) process, GoIter) storage" where
  "go_storage utf8 dbg kvs db = \<lparr>st_get = db_get utf8 kvs db, st_range = db_range utf8 dbg kvs db, st_set = db_set utf8 kvs db,
     st_remove = db_remove utf8 kvs db, st_next = goiter_next utf8 kvs (gas_meter_nil db)\<rparr>"

section \<open>querier.rs\<close>

text \<open>
  The querier has a process of its own here: the buffers of a query are freed before it
  returns, and what it leaves in the chain is not the contract's store.
\<close>

definition cQueryExternal :: "('k, 'req) go_querier \<Rightarrow> bool \<Rightarrow> u64 \<Rightarrow> Buffer \<Rightarrow> ('k, 'it, go_reply) go_stm" where
  "cQueryExternal q ptr_nil limit request =
     (if ptr_nil then ret (reply GoBadArgument 0)
      else
        and_then (take_slice request) (\<lambda>req.
        metered (querier_gas q) (RustQuery q req limit) (\<lambda>r used.
        case marshal_result q r of
          Ok bz \<Rightarrow> and_then (give_rust (Some bz)) (\<lambda>b. ret ((reply GoOk used)\<lparr>out_buf := b\<rparr>))
        | Err e \<Rightarrow> and_then (give_rust (Some (ascii e))) (\<lambda>b. ret ((reply GoOther used)\<lparr>err_buf := b\<rparr>))
        | Panicked \<Rightarrow> ret ((recoverPanic OtherPanic)\<lparr>used_gas := used\<rparr>))))"

definition go_query_raw ::
  "(bytes \<Rightarrow> string) \<Rightarrow> (bytes \<Rightarrow> (string, answer) res) \<Rightarrow> ('k, 'req) go_querier \<Rightarrow> bool \<Rightarrow> bytes \<Rightarrow> u64 \<Rightarrow> ('k, 'it) process \<Rightarrow>
   answer FfiResult \<times> ('k, 'it) process" where
  "go_query_raw utf8 parse_response q ptr_nil request limit =
     ffi_call utf8 (''Failed to query another contract with this request: '' @ utf8 request) with_externally_used
       (alone (lend request (cQueryExternal q ptr_nil limit)))
       (\<lambda>(r, _). and_then (in_mem (consume (out_buf r))) (\<lambda>bin_result. ret
          (case parse_response bin_result of
             Ok a \<Rightarrow> a
           | Err e \<Rightarrow> Err (InvalidResponse (''Parsing Go response: '' @ e) bin_result)
           | Panicked \<Rightarrow> Panicked)))"

definition go_querier_impl ::
  "(bytes \<Rightarrow> string) \<Rightarrow> (bytes \<Rightarrow> (string, answer) res) \<Rightarrow> ('k, 'req) go_querier \<Rightarrow> bool \<Rightarrow> ('k, 'it) process querier" where
  "go_querier_impl utf8 parse_response q ptr_nil = \<lparr>query_raw = go_query_raw utf8 parse_response q ptr_nil\<rparr>"

section \<open>api.rs\<close>

text \<open>The two functions of the chain: a result, its cost and an error. Strings are their bytes.\<close>

type_synonym 'k address_fn = "go_bytes \<Rightarrow> 'k \<Rightarrow> (bytes \<times> u64 \<times> string option) go \<times> 'k"

text \<open>\<open>cHumanAddress\<close> and \<open>cCanonicalAddress\<close> differ in the function they call.\<close>

definition cAddress :: "'k address_fn \<Rightarrow> Buffer \<Rightarrow> ('k, 'it, go_reply) go_stm" where
  "cAddress f input =
     and_then (take_slice input) (\<lambda>c s.
     case f c (chain s) of
       (GoPanics p, k) \<Rightarrow> (Ok (recoverPanic p), s\<lparr>chain := k\<rparr>)
     | (Returns (h, cost, err), k) \<Rightarrow>
         (case err of
            Some e \<Rightarrow> and_then (give_rust (Some (ascii e))) (\<lambda>b. ret ((reply GoUser cost)\<lparr>err_buf := b\<rparr>)) (s\<lparr>chain := k\<rparr>)
          | None \<Rightarrow>
              if h = [] then (Ok ((recoverPanic OtherPanic)\<lparr>used_gas := cost\<rparr>), s\<lparr>chain := k\<rparr>)
              else and_then (give_rust (Some h)) (\<lambda>b. ret ((reply GoOk cost)\<lparr>out_buf := b\<rparr>)) (s\<lparr>chain := k\<rparr>)))"

definition take_output :: "go_reply \<Rightarrow> ('k, 'it, bytes) go_stm" where
  "take_output r = (if is_null (out_buf r) then ret [] else in_mem (consume (out_buf r)))"

definition canonical_address ::
  "(bytes \<Rightarrow> string) \<Rightarrow> 'k address_fn \<Rightarrow> string \<Rightarrow> ('k, 'it) process \<Rightarrow> bytes FfiResult \<times> ('k, 'it) process" where
  "canonical_address utf8 f human =
     ffi_call utf8 (''Failed to canonicalize the address: '' @ human) with_cost (alone (lend (ascii human) (cAddress f)))
       (\<lambda>(r, _). take_output r)"

definition human_address ::
  "(bytes \<Rightarrow> string) \<Rightarrow> (bytes \<Rightarrow> string option) \<Rightarrow> (bytes \<Rightarrow> string) \<Rightarrow> 'k address_fn \<Rightarrow> bytes \<Rightarrow> ('k, 'it) process \<Rightarrow>
   HumanAddr FfiResult \<times> ('k, 'it) process" where
  "human_address utf8 from_utf8 display f canonical =
     ffi_call utf8 (''Failed to humanize the address: '' @ display canonical) with_cost (alone (lend canonical (cAddress f)))
       (\<lambda>(r, _). and_then (take_output r) (\<lambda>result.
          case from_utf8 result of None \<Rightarrow> fail FfiInvalidUtf8 | Some h \<Rightarrow> ret h))"

section \<open>What the storage of the chain does\<close>

text \<open>
  With both pointers set, an operation is the store's, with the gas it consumed, a panic
  turned into an error, and every vector freed: only the allocator's counter moves.
\<close>

definition ffi_of_panic :: "go_panic \<Rightarrow> FfiError" where
  "ffi_of_panic p = (case p of ErrorOutOfGas \<Rightarrow> FfiOutOfGas | OtherPanic \<Rightarrow> ForeignPanic)"

definition pass_blocks :: "nat \<Rightarrow> ('k, 'it) process \<Rightarrow> ('k, 'it) process" where
  "pass_blocks n s = s\<lparr>mem := (mem s)\<lparr>last_block := last_block (mem s) + n\<rparr>\<rparr>"

definition usable :: "DB \<Rightarrow> bool" where
  "usable db = (\<not> state_nil db \<and> \<not> gas_meter_nil db)"

lemma pass_blocks_fields [simp]:
  "blocks (mem (pass_blocks n s)) = blocks (mem s)" "chain (pass_blocks n s) = chain s"
  "iterator_stack (pass_blocks n s) = iterator_stack s" "db_counter (pass_blocks n s) = db_counter s"
  "rmem_ok (mem s) \<Longrightarrow> rmem_ok (mem (pass_blocks n s))"
  by (auto simp: pass_blocks_def rmem_ok_def)

lemma allocate_rust_vec: "allocate_rust d m = from_vec d m"
  by (simp add: allocate_rust_def)

lemmas go_defs = new_vec_def give_rust_def take_slice_def in_mem_def from_vec_def Let_def allocateRust_def allocate_rust_vec
  receiveSlice_def buf_read_def consume_def is_null_def null_buffer_def

lemma go_result_values [simp]:
  "go_result_of_i32 0 = GoOk" "go_result_of_i32 1 = GoPanic" "go_result_of_i32 2 = GoBadArgument"
  "go_result_of_i32 3 = GoOutOfGas" "go_result_of_i32 4 = GoOther" "go_result_of_i32 5 = GoUser"
  by (simp_all add: go_result_of_i32_def)

lemma into_ffi_result_values [simp]:
  "into_ffi_result u GoOk b f = ret ()" "into_ffi_result u GoPanic b f = fail ForeignPanic"
  "into_ffi_result u GoBadArgument b f = fail BadArgument" "into_ffi_result u GoOutOfGas b f = fail FfiOutOfGas"
  by (simp_all add: into_ffi_result_def)

lemmas callback_defs = go_defs ffi_call_def alone_def lend_def metered_def recoverPanic_def reply_def
  pass_blocks_def ffi_of_panic_def usable_def

lemma db_get_eq:
  assumes "rmem_ok (mem s)" and "usable db"
  shows "db_get utf8 kvs db key s =
     (case kv_get kvs (Some key) (chain s) of
        (Returns v, c) \<Rightarrow>
          ((Ok v, with_externally_used (gas_consumed kvs c - gas_consumed kvs (chain s))),
           pass_blocks (case v of None \<Rightarrow> 1 | Some _ \<Rightarrow> 2) (s\<lparr>chain := c\<rparr>))
      | (GoPanics p, c) \<Rightarrow> ((Err (ffi_of_panic p), with_externally_used 0), pass_blocks 1 (s\<lparr>chain := c\<rparr>)))"
proof (cases "kv_get kvs (Some key) (chain s)")
  case (Pair r c)
  then show ?thesis
  proof (cases r)
    case (Returns v)
    then show ?thesis
      using assms Pair by (cases v) (simp_all add: db_get_def cGet_def callback_defs fun_upd_None fun_upd_twist)
  next
    case (GoPanics p)
    then show ?thesis
      using assms Pair by (cases p) (simp_all add: db_get_def cGet_def callback_defs fun_upd_None)
  qed
qed

lemma db_set_eq:
  assumes "rmem_ok (mem s)" and "usable db"
  shows "db_set utf8 kvs db key val s =
     (case kv_set kvs (Some key) (Some val) (chain s) of
        (Returns _, c) \<Rightarrow>
          ((Ok (), with_externally_used (gas_consumed kvs c - gas_consumed kvs (chain s))), pass_blocks 2 (s\<lparr>chain := c\<rparr>))
      | (GoPanics p, c) \<Rightarrow> ((Err (ffi_of_panic p), with_externally_used 0), pass_blocks 2 (s\<lparr>chain := c\<rparr>)))"
proof (cases "kv_set kvs (Some key) (Some val) (chain s)")
  case (Pair r c)
  then show ?thesis
    using assms by (cases r) (simp_all add: db_set_def cSet_def callback_defs fun_upd_None fun_upd_twist split: option.split go_panic.split)
qed

lemma db_remove_eq:
  assumes "rmem_ok (mem s)" and "usable db"
  shows "db_remove utf8 kvs db key s =
     (case kv_delete kvs (Some key) (chain s) of
        (Returns _, c) \<Rightarrow>
          ((Ok (), with_externally_used (gas_consumed kvs c - gas_consumed kvs (chain s))), pass_blocks 1 (s\<lparr>chain := c\<rparr>))
      | (GoPanics p, c) \<Rightarrow> ((Err (ffi_of_panic p), with_externally_used 0), pass_blocks 1 (s\<lparr>chain := c\<rparr>)))"
proof (cases "kv_delete kvs (Some key) (chain s)")
  case (Pair r c)
  then show ?thesis
    using assms by (cases r) (simp_all add: db_remove_def cDelete_def callback_defs fun_upd_None fun_upd_twist split: option.split go_panic.split)
qed

lemma db_ops_unusable:
  assumes "rmem_ok (mem s)" and "\<not> usable db"
  shows "db_get utf8 kvs db key s = ((Err BadArgument, with_externally_used 0), pass_blocks 1 s)"
    and "db_set utf8 kvs db key val s = ((Err BadArgument, with_externally_used 0), pass_blocks 2 s)"
    and "db_remove utf8 kvs db key s = ((Err BadArgument, with_externally_used 0), pass_blocks 1 s)"
  using assms
  by (simp_all add: db_get_def cGet_def db_set_def cSet_def db_remove_def cDelete_def callback_defs fun_upd_None fun_upd_twist)

text \<open>
  No memory is lost in the storage calls. However the store of the chain behaves, a panic
  included, and whatever pointers are passed, reading, writing and removing free every vector that
  either side allocated.
\<close>

lemma storage_gives_back:
  assumes "rmem_ok (mem s)"
  shows "blocks (mem (snd (db_get utf8 kvs db key s))) = blocks (mem s) \<and>
    blocks (mem (snd (db_set utf8 kvs db key val s))) = blocks (mem s) \<and>
    blocks (mem (snd (db_remove utf8 kvs db key s))) = blocks (mem s)"
  by (cases "usable db")
    (simp_all add: assms db_get_eq db_set_eq db_remove_eq db_ops_unusable split: prod.split go.split)

section \<open>The bridge as the storage of the virtual machine\<close>

text \<open>The store keeps what it is documented to keep, in states \<open>K\<close> where it does not panic.\<close>

definition kv_ok :: "('k, 'it) kvstore \<Rightarrow> ('k \<Rightarrow> bool) \<Rightarrow> ('k \<Rightarrow> bytes \<rightharpoonup> bytes) \<Rightarrow> bool" where
  "kv_ok kvs K kview = (\<forall>c k v. K c \<longrightarrow>
     (\<exists>c'. kv_get kvs (Some k) c = (Returns (kview c k), c') \<and> K c' \<and> kview c' = kview c) \<and>
     (\<exists>c'. kv_set kvs (Some k) (Some v) c = (Returns (), c') \<and> K c' \<and> kview c' = (kview c)(k \<mapsto> v)) \<and>
     (\<exists>c'. kv_delete kvs (Some k) c = (Returns (), c') \<and> K c' \<and> kview c' = (kview c)(k := None)))"

lemma kv_okD:
  assumes "kv_ok kvs K kview" and "K c"
  shows "\<exists>c'. kv_get kvs (Some k) c = (Returns (kview c k), c') \<and> K c' \<and> kview c' = kview c"
    and "\<exists>c'. kv_set kvs (Some k) (Some v) c = (Returns (), c') \<and> K c' \<and> kview c' = (kview c)(k \<mapsto> v)"
    and "\<exists>c'. kv_delete kvs (Some k) c = (Returns (), c') \<and> K c' \<and> kview c' = (kview c)(k := None)"
  using assms unfolding kv_ok_def by blast+

text \<open>The store changes by \<open>Set\<close> and \<open>Delete\<close> only, at their key, also when they panic.\<close>

definition kv_contained :: "('k, 'it) kvstore \<Rightarrow> ('k \<Rightarrow> bytes \<rightharpoonup> bytes) \<Rightarrow> bool" where
  "kv_contained kvs kview = (\<forall>c k v.
     kview (snd (kv_get kvs (Some k) c)) = kview c \<and>
     kview (snd (kv_set kvs (Some k) (Some v) c)) \<in> {kview c, (kview c)(k \<mapsto> v)} \<and>
     kview (snd (kv_delete kvs (Some k) c)) \<in> {kview c, (kview c)(k := None)})"

definition go_ready ::
  "('k, 'it) kvstore \<Rightarrow> ('k \<Rightarrow> bool) \<Rightarrow> ('k \<Rightarrow> bytes \<rightharpoonup> bytes) \<Rightarrow> DB \<Rightarrow> (nat \<rightharpoonup> bytes) \<Rightarrow> ('k, 'it) process \<Rightarrow> bool" where
  "go_ready kvs K kview db B s = (kv_ok kvs K kview \<and> usable db \<and> K (chain s) \<and> rmem_ok (mem s) \<and> blocks (mem s) = B)"

definition go_contents :: "('k, 'it) kvstore \<Rightarrow> ('k \<Rightarrow> bytes \<rightharpoonup> bytes) \<Rightarrow> ('k, 'it) process \<Rightarrow> bytes \<rightharpoonup> bytes" where
  "go_contents kvs kview s = (if kv_contained kvs kview then kview (chain s) else Map.empty)"

interpretation go_store: chain_storage "go_storage utf8 dbg kvs db" "go_ready kvs K kview db B" "\<lambda>s. kview (chain s)"
  for utf8 dbg kvs db K kview B
proof
  fix s k v
  assume s: "go_ready kvs K kview db B s"
  then have k: "kv_ok kvs K kview" "K (chain s)" and eqs: "rmem_ok (mem s)" "usable db"
    by (simp_all add: go_ready_def)
  show "\<exists>g s'. st_get (go_storage utf8 dbg kvs db) k s = ((Ok (kview (chain s) k), g), s') \<and>
      go_ready kvs K kview db B s' \<and> kview (chain s') = kview (chain s)"
    using s kv_okD(1) [OF k, of k] by (auto simp: go_storage_def db_get_eq [OF eqs] go_ready_def)
  show "\<exists>g s'. st_set (go_storage utf8 dbg kvs db) k v s = ((Ok (), g), s') \<and>
      go_ready kvs K kview db B s' \<and> kview (chain s') = (kview (chain s))(k \<mapsto> v)"
    using s kv_okD(2) [OF k, of k v] by (auto simp: go_storage_def db_set_eq [OF eqs] go_ready_def)
  show "\<exists>g s'. st_remove (go_storage utf8 dbg kvs db) k s = ((Ok (), g), s') \<and>
      go_ready kvs K kview db B s' \<and> kview (chain s') = (kview (chain s))(k := None)"
    using s kv_okD(3) [OF k, of k] by (auto simp: go_storage_def db_remove_eq [OF eqs] go_ready_def)
qed

text \<open>The store is called at most once in each operation, whatever the state of the heap.\<close>

lemma db_chain:
  "chain (snd (db_get utf8 kvs db key s)) = (if usable db then snd (kv_get kvs (Some key) (chain s)) else chain s)"
  "chain (snd (db_set utf8 kvs db key val s)) = (if usable db then snd (kv_set kvs (Some key) (Some val) (chain s)) else chain s)"
  "chain (snd (db_remove utf8 kvs db key s)) = (if usable db then snd (kv_delete kvs (Some key) (chain s)) else chain s)"
proof -
  show "chain (snd (db_get utf8 kvs db key s)) = (if usable db then snd (kv_get kvs (Some key) (chain s)) else chain s)"
  proof (cases "kv_get kvs (Some key) (chain s)")
    case (Pair r c)
    then show ?thesis
    proof (cases r)
      case (Returns v)
      then show ?thesis
        using Pair by (cases v) (simp_all add: db_get_def cGet_def callback_defs)
    next
      case (GoPanics p)
      then show ?thesis
        using Pair by (cases p) (simp_all add: db_get_def cGet_def callback_defs)
    qed
  qed
  show "chain (snd (db_set utf8 kvs db key val s)) = (if usable db then snd (kv_set kvs (Some key) (Some val) (chain s)) else chain s)"
  proof (cases "kv_set kvs (Some key) (Some val) (chain s)")
    case (Pair r c)
    then show ?thesis
      by (cases r) (simp_all add: db_set_def cSet_def callback_defs split: go_panic.split)
  qed
  show "chain (snd (db_remove utf8 kvs db key s)) = (if usable db then snd (kv_delete kvs (Some key) (chain s)) else chain s)"
  proof (cases "kv_delete kvs (Some key) (chain s)")
    case (Pair r c)
    then show ?thesis
      by (cases r) (simp_all add: db_remove_def cDelete_def callback_defs split: go_panic.split)
  qed
qed

interpretation go_contained: contained_storage "go_storage utf8 dbg kvs db" "go_contents kvs kview" for utf8 dbg kvs db kview
  by unfold_locales (auto simp: go_contents_def go_storage_def db_chain kv_contained_def)

section \<open>The enclave on the store of the chain\<close>

text \<open>
  C10: from the contract's plaintext to the store of the chain and back. Reading, writing and
  removing a key pass through the encryption in the enclave, the ocall, the context of the
  instance, the buffers of the bridge and the Go callback; over any store that keeps its contents
  they are the operations of a map, and they leave the shared heap as it was.
\<close>

theorem chain_store_is_map:
  fixes l :: "(('k, 'it) process, 'q, GoIter) host_lib"
  assumes "storage_impl l = go_storage utf8 dbg kvs db" and "enclave_ready l"
    and "prims_ok p" and "consensus_state_ikm kc \<noteq> None" and "quiet w" and "host_state (go_ready kvs KS kview db B) (host w)"
    and "inj_on (\<lambda>k. field_name_digest p k ck) K"
    and "\<forall>k \<in> K. field_ok p kc ck (host_view (\<lambda>s. kview (chain s)) (host w)) k" and "k \<in> K"
  shows "(\<exists>g w'. read_encrypted_key p kc (vm_ocalls l) k ck w =
             (Ok (plain p kc ck (host_view (\<lambda>s. kview (chain s)) (host w)) k, g), w') \<and>
           quiet w' \<and> host_state (go_ready kvs KS kview db B) (host w') \<and>
           host_view (\<lambda>s. kview (chain s)) (host w') = host_view (\<lambda>s. kview (chain s)) (host w)) \<and>
    (\<exists>g w'. write_encrypted_key p kc (vm_ocalls l) k v ck w = (Ok g, w') \<and>
       quiet w' \<and> host_state (go_ready kvs KS kview db B) (host w') \<and>
       (\<forall>k' \<in> K. field_ok p kc ck (host_view (\<lambda>s. kview (chain s)) (host w')) k' \<and>
          plain p kc ck (host_view (\<lambda>s. kview (chain s)) (host w')) k' =
            ((plain p kc ck (host_view (\<lambda>s. kview (chain s)) (host w)))(k \<mapsto> v)) k')) \<and>
    (\<exists>g w'. remove_encrypted_key p (vm_ocalls l) k ck w = (Ok g, w') \<and>
       quiet w' \<and> host_state (go_ready kvs KS kview db B) (host w') \<and>
       (\<forall>k' \<in> K. field_ok p kc ck (host_view (\<lambda>s. kview (chain s)) (host w')) k' \<and>
          plain p kc ck (host_view (\<lambda>s. kview (chain s)) (host w')) k' =
            ((plain p kc ck (host_view (\<lambda>s. kview (chain s)) (host w)))(k := None)) k'))"
  by (rule encrypted_map [OF assms(3,4) go_store.honest_host [OF assms(1,2)] assms(5-9)])

lemma go_contents_view:
  "kv_contained kvs kview \<Longrightarrow> host_view (go_contents kvs kview) h = host_view (\<lambda>s. kview (chain s)) h"
  by (simp add: host_view_def go_contents_def split: option.split)

text \<open>
  A query cannot change the store of the chain. The read-only flag of the context is not
  consulted on this path; what keeps the store is that the enclave refuses to write in a query,
  however the contract, the store and the meter behave.
\<close>

lemma query_leaves_store:
  assumes "storage_impl l = go_storage utf8 dbg kvs db" and "kv_contained kvs kview"
    and "call_query_raw (on_host l su) ee Entered m (ins, w) = (r, (ins', w'))"
  shows "host_view (\<lambda>s. kview (chain s)) (host w') = host_view (\<lambda>s. kview (chain s)) (host w)"
  using go_contained.query_keeps_contents [OF assms(1,3), of kview] by (simp add: go_contents_view [OF assms(2)])



section \<open>Iteration\<close>

text \<open>An iterator of the chain, by the entries it has yet to yield.\<close>

definition iter_ok :: "('k, 'it) kvstore \<Rightarrow> ('k \<Rightarrow> bool) \<Rightarrow> ('it \<Rightarrow> 'k \<Rightarrow> (bytes \<times> bytes) list) \<Rightarrow> bool" where
  "iter_ok kvs K entries = (\<forall>it c. K c \<longrightarrow>
     it_valid kvs it c = (entries it c \<noteq> []) \<and>
     (\<forall>k v rest. entries it c = (k, v) # rest \<longrightarrow> it_key kvs it c = Some k \<and> it_value kvs it c = Some v \<and>
        (\<exists>c'. it_next kvs it c = (Returns (), c') \<and> K c' \<and> entries it c' = rest)))"

definition keep_blocks :: "bytes \<Rightarrow> bytes \<Rightarrow> ('k, 'it) process \<Rightarrow> ('k, 'it) process" where
  "keep_blocks k v s = (let n = last_block (mem s) in
     s\<lparr>mem := (mem s)\<lparr>blocks := (blocks (mem s))(Suc n \<mapsto> k, Suc (Suc n) \<mapsto> v), last_block := Suc (Suc n)\<rparr>\<rparr>)"

lemma goiter_next_entry:
  assumes "iter_counter gi \<noteq> 0" and "next_db_set gi" and "retrieveIterator (iter_counter gi) (iter_index gi) s = Returns it"
    and "it_valid kvs it (chain s)" and "it_key kvs it (chain s) = Some k" and "it_value kvs it (chain s) = Some v"
    and "it_next kvs it (chain s) = (Returns (), c)"
  shows "\<exists>g. goiter_next utf8 kvs False gi s = ((Ok (Some (k, v)), g), gi, keep_blocks k v (s\<lparr>chain := c\<rparr>))"
  using assms by (simp add: goiter_next_def cNext_def callback_defs keep_blocks_def)

lemma goiter_next_end:
  assumes "iter_counter gi \<noteq> 0" and "next_db_set gi" and "retrieveIterator (iter_counter gi) (iter_index gi) s = Returns it"
    and "\<not> it_valid kvs it (chain s)"
  shows "\<exists>g. goiter_next utf8 kvs False gi s = ((Ok None, g), gi, s)"
  using assms by (simp add: goiter_next_def cNext_def callback_defs)

lemma keep_blocks_facts [simp]:
  "chain (keep_blocks k v s) = chain s" "iterator_stack (keep_blocks k v s) = iterator_stack s"
  "last_block (mem (keep_blocks k v s)) = Suc (Suc (last_block (mem s)))"
  "dom (blocks (mem (keep_blocks k v s))) = dom (blocks (mem s)) \<union> {last_block (mem s)<..Suc (Suc (last_block (mem s)))}"
  by (auto simp: keep_blocks_def Let_def le_Suc_eq)

lemma elements_next:
  "st_next ops i s = ((Ok (Some kv), g), i', s') \<Longrightarrow> elements ops out i s = elements ops (out @ [kv]) i' s'"
  "st_next ops i s = ((Ok None, g), i', s') \<Longrightarrow> elements ops out i s = Some (Ok out, s')"
  by (simp_all add: elements.simps [of ops out i s])

lemma scan_from:
  assumes "iter_ok kvs K entries" and "\<not> gas_meter_nil db" and "iter_counter gi \<noteq> 0" and "next_db_set gi"
    and "K (chain s)" and "retrieveIterator (iter_counter gi) (iter_index gi) s = Returns it" and "entries it (chain s) = es"
  shows "\<exists>s'. elements (go_storage utf8 dbg kvs db) out gi s = Some (Ok (out @ es), s') \<and>
    last_block (mem s') = last_block (mem s) + 2 * length es \<and>
    dom (blocks (mem s')) = dom (blocks (mem s)) \<union> {last_block (mem s)<..last_block (mem s) + 2 * length es}"
  using assms(5-7)
proof (induction es arbitrary: s out)
  case Nil
  have "\<not> it_valid kvs it (chain s)"
    using assms(1) Nil unfolding iter_ok_def by blast
  then obtain g where "goiter_next utf8 kvs False gi s = ((Ok None, g), gi, s)"
    using goiter_next_end [OF assms(3,4) Nil(2)] by blast
  then show ?case
    using elements_next(2) [of "go_storage utf8 dbg kvs db" gi s] assms(2) by (auto simp: go_storage_def)
next
  case (Cons e es)
  obtain k v where e: "e = (k, v)"
    by (cases e)
  obtain c where c: "it_valid kvs it (chain s)" "it_key kvs it (chain s) = Some k" "it_value kvs it (chain s) = Some v"
    "it_next kvs it (chain s) = (Returns (), c)" "K c" "entries it c = es"
    using assms(1) Cons.prems e unfolding iter_ok_def by (metis list.distinct(1))
  let ?s = "keep_blocks k v (s\<lparr>chain := c\<rparr>)"
  obtain g where "goiter_next utf8 kvs False gi s = ((Ok (Some e), g), gi, ?s)"
    using goiter_next_entry [OF assms(3,4) Cons.prems(2) c(1-4)] e by blast
  then have "elements (go_storage utf8 dbg kvs db) out gi s = elements (go_storage utf8 dbg kvs db) (out @ [e]) gi ?s"
    using elements_next(1) [of "go_storage utf8 dbg kvs db" gi s] assms(2) by (simp add: go_storage_def)
  moreover have "retrieveIterator (iter_counter gi) (iter_index gi) ?s = Returns it"
    using Cons.prems(2) by (simp add: retrieveIterator_def)
  moreover obtain s' where "elements (go_storage utf8 dbg kvs db) (out @ [e]) gi ?s = Some (Ok ((out @ [e]) @ es), s')"
    "last_block (mem s') = last_block (mem ?s) + 2 * length es"
    "dom (blocks (mem s')) = dom (blocks (mem ?s)) \<union> {last_block (mem ?s)<..last_block (mem ?s) + 2 * length es}"
    using Cons.IH [of ?s "out @ [e]"] c(5,6) calculation(2) by auto
  ultimately show ?case
    by auto
qed


section \<open>Queries to the chain\<close>

text \<open>What the two sides' JSON agree on: an answer with contents, and a system error.\<close>

definition answers_agree :: "('k, 'req) go_querier \<Rightarrow> (bytes \<Rightarrow> (string, answer) res) \<Rightarrow> bool" where
  "answers_agree q parse = (\<forall>bz e. bz \<noteq> [] \<longrightarrow>
     (\<exists>j. marshal_result q \<lparr>querier_ok = Some \<lparr>resp_ok = Some bz, resp_err = None\<rparr>, querier_err = None\<rparr> = Ok j \<and>
        parse j = Ok (Ok (Ok bz))) \<and>
     (\<exists>j. marshal_result q \<lparr>querier_ok = None, querier_err = Some (Some e)\<rparr> = Ok j \<and> parse j = Ok (Err e)))"

lemma go_query_raw_eq:
  assumes "rmem_ok (mem s)"
  shows "go_query_raw utf8 parse q False request limit s =
     (case RustQuery q (Some request) limit (chain s) of
        (Returns r, c) \<Rightarrow>
          (case marshal_result q r of
             Ok bz \<Rightarrow>
               ((Ok (case parse bz of Ok a \<Rightarrow> a | Err e \<Rightarrow> Err (InvalidResponse (''Parsing Go response: '' @ e) bz) | Panicked \<Rightarrow> Panicked),
                 with_externally_used (querier_gas q c - querier_gas q (chain s))), pass_blocks 2 (s\<lparr>chain := c\<rparr>))
           | Err e \<Rightarrow>
               ((Err (FfiUnknown (Some (utf8 (ascii e)))), with_externally_used (querier_gas q c - querier_gas q (chain s))),
                pass_blocks 2 (s\<lparr>chain := c\<rparr>))
           | Panicked \<Rightarrow>
               ((Err ForeignPanic, with_externally_used (querier_gas q c - querier_gas q (chain s))), pass_blocks 1 (s\<lparr>chain := c\<rparr>)))
      | (GoPanics p, c) \<Rightarrow> ((Err (ffi_of_panic p), with_externally_used 0), pass_blocks 1 (s\<lparr>chain := c\<rparr>)))"
proof (cases "RustQuery q (Some request) limit (chain s)")
  case (Pair x c)
  show ?thesis
  proof (cases x)
    case (Returns r)
    then show ?thesis
      using assms Pair
      by (cases "marshal_result q r")
        (simp_all add: go_query_raw_def cQueryExternal_def callback_defs fun_upd_None fun_upd_twist into_ffi_result_def)
  next
    case (GoPanics p)
    then show ?thesis
      using assms Pair by (cases p) (simp_all add: go_query_raw_def cQueryExternal_def callback_defs fun_upd_None)
  qed
qed


section \<open>A store for examples\<close>

text \<open>A map with a counter of gas, a bound on it, and one iterator over what is left of a list.\<close>

type_synonym demo_chain = "(bytes \<rightharpoonup> bytes) \<times> u64 \<times> (bytes \<times> bytes) list"

definition demo_charge :: "u64 option \<Rightarrow> demo_chain \<Rightarrow> ('a \<times> (bytes \<rightharpoonup> bytes)) \<Rightarrow> 'a go \<times> demo_chain" where
  "demo_charge bound c x =
     (case c of (m, g, es) \<Rightarrow>
        if bound = Some g then (GoPanics ErrorOutOfGas, c) else (Returns (fst x), (snd x, g + 1, es)))"

definition demo_kv :: "u64 option \<Rightarrow> (demo_chain, unit) kvstore" where
  "demo_kv bound = \<lparr>kv_get = (\<lambda>k c. demo_charge bound c (fst c (the k), fst c)),
     kv_set = (\<lambda>k v c. demo_charge bound c ((), (fst c)(the k := v))),
     kv_delete = (\<lambda>k c. demo_charge bound c ((), (fst c)(the k := None))),
     kv_iterator = (\<lambda>_ _ c. (Returns (), c)), kv_reverse_iterator = (\<lambda>_ _ c. (Returns (), c)),
     gas_consumed = (\<lambda>c. fst (snd c)), it_valid = (\<lambda>_ c. snd (snd c) \<noteq> []),
     it_key = (\<lambda>_ c. Some (fst (hd (snd (snd c))))), it_value = (\<lambda>_ c. Some (snd (hd (snd (snd c))))),
     it_next = (\<lambda>_ c. (Returns (), (fst c, fst (snd c) + 1, tl (snd (snd c))))), it_close = (\<lambda>_ c. c)\<rparr>"

definition demo_db :: DB where
  "demo_db = \<lparr>gas_meter_nil = False, state_nil = False, IteratorStackID = 1\<rparr>"

definition demo_process :: "(demo_chain, unit) process" where
  "demo_process = \<lparr>mem = \<lparr>blocks = Map.empty, last_block = 0\<rparr>, chain = (Map.empty, 0, [([1], [2]), ([3], [4])]),
     iterator_stack = (\<lambda>i. if i = 1 then [()] else []), db_counter = 1\<rparr>"

definition demo_go_lib :: "u64 option \<Rightarrow> ((demo_chain, unit) process, unit, GoIter) host_lib" where
  "demo_go_lib bound = \<lparr>storage_impl = go_storage (\<lambda>_. []) (\<lambda>x. x) (demo_kv bound) demo_db,
     querier_impl = \<lparr>query_raw = (\<lambda>q g u. ((Err (FfiUnknown None), free_gas), u))\<rparr>,
     print_system_result = (\<lambda>_. None), new_box = (\<lambda>A. if 1 \<in> A then None else Some 1), enters = (\<lambda>_. True),
     reserve_register = Ok (), reserve_restore = Ok (), alloc_in_enclave = demo_alloc\<rparr>"

definition demo_go_world :: "((demo_chain, unit) process, unit, GoIter) vm_world" where
  "demo_go_world = \<lparr>host = \<lparr>context_data = move_into_context demo_process () create_unmanaged_context_data,
     vec_boxes = Map.empty, err_boxes = Map.empty\<rparr>, bufs = \<lparr>alloc_stack = [], heap = Map.empty\<rparr>, depth = 1\<rparr>"

lemma demo_usable: "usable demo_db"
  by (simp add: usable_def demo_db_def)

lemma demo_mem_ok: "rmem_ok (mem demo_process)"
  by (simp add: rmem_ok_def demo_process_def)

lemma demo_kv_ok: "kv_ok (demo_kv None) (\<lambda>_. True) fst"
  by (auto simp: kv_ok_def demo_kv_def demo_charge_def)

lemma demo_contained: "kv_contained (demo_kv bound) fst"
  by (auto simp: kv_contained_def demo_kv_def demo_charge_def)

lemma demo_go_ready: "host_state (go_ready (demo_kv None) (\<lambda>_. True) fst demo_db Map.empty) (host demo_go_world)"
  using demo_kv_ok demo_usable demo_mem_ok
  by (simp add: host_state_def go_ready_def demo_go_world_def move_into_context_def demo_process_def)

lemma demo_go_view: "host_view (\<lambda>s. fst (chain s)) (host demo_go_world) = Map.empty"
  by (simp add: host_view_def demo_go_world_def move_into_context_def demo_process_def)

lemma demo_go_boxes: "boxes_ok (demo_go_lib bound)"
  by (simp add: boxes_ok_def demo_go_lib_def)

lemma demo_go_enclave: "enclave_ready (demo_go_lib bound)"
  using demo_alloc_ok by (simp add: enclave_ready_def demo_go_lib_def demo_alloc_def)

lemma demo_go_storage: "storage_impl (demo_go_lib bound) = go_storage (\<lambda>_. []) (\<lambda>x. x) (demo_kv bound) demo_db"
  by (simp add: demo_go_lib_def)

lemma storage_gives_back_witness:
  "blocks (mem (snd (db_get (\<lambda>_. []) (demo_kv (Some 0)) demo_db [1] demo_process))) = Map.empty"
  using storage_gives_back [OF demo_mem_ok] by (simp add: demo_process_def)

theorem chain_store_is_map_witness:
  "\<exists>g w'. write_encrypted_key demo_prims demo_keychain (vm_ocalls (demo_go_lib None)) [1] [65] [7] demo_go_world = (Ok g, w') \<and>
     plain demo_prims demo_keychain [7] (host_view (\<lambda>s. fst (chain s)) (host w')) [1] = Some [65]"
proof -
  have kc: "consensus_state_ikm demo_keychain \<noteq> None"
    by (simp add: demo_keychain_def)
  have q: "quiet demo_go_world"
    by (simp add: quiet_def demo_go_world_def)
  have inj: "inj_on (\<lambda>k. field_name_digest demo_prims k [7]) {[1], [2]}"
    by (simp add: field_name_digest_def sha_256_def demo_prims_def)
  have ok: "\<forall>k \<in> {[1], [2]}. field_ok demo_prims demo_keychain [7] (host_view (\<lambda>s. fst (chain s)) (host demo_go_world)) k"
    by (simp add: field_ok_def demo_go_view)
  show ?thesis
    using chain_store_is_map [where k = "[1]" and v = "[65]",
        OF demo_go_storage demo_go_enclave demo_prims_ok kc q demo_go_ready inj ok] by auto
qed




fun unframe :: "bytes \<Rightarrow> bytes \<times> bytes" where
  "unframe (x # b # r) = (if x = 0 then ([], b # r) else (case unframe r of (s, t) \<Rightarrow> (b # s, t)))"
| "unframe r = ([], [])"

definition frame_bytes :: "bytes \<Rightarrow> bytes \<Rightarrow> bytes" where
  "frame_bytes s r = concat (map (\<lambda>b. [1, b]) s) @ 0 # r"

lemma unframe_bytes [simp]: "unframe (frame_bytes s r) = (s, r)"
  by (induction s) (cases r; simp add: frame_bytes_def)+

definition demo_marshal :: "GoQuerierResult \<Rightarrow> (string, bytes) res" where
  "demo_marshal r =
     (case querier_ok r of
        Some q \<Rightarrow> (case resp_ok q of Some bz \<Rightarrow> Ok (1 # bz) | None \<Rightarrow> Ok [])
      | None \<Rightarrow>
          (case querier_err r of
             Some (Some (InvalidRequest e b)) \<Rightarrow> Ok (2 # frame_bytes (ascii e) b)
           | Some (Some (InvalidResponse e b)) \<Rightarrow> Ok (3 # frame_bytes (ascii e) b)
           | Some (Some (NoSuchContract a)) \<Rightarrow> Ok (4 # ascii a)
           | Some (Some SystemUnknown) \<Rightarrow> Ok [5]
           | Some (Some (UnsupportedRequest k)) \<Rightarrow> Ok (6 # ascii k)
           | Some (Some SystemExceededRecursionLimit) \<Rightarrow> Ok [7]
           | _ \<Rightarrow> Ok []))"

definition demo_parse_answer :: "bytes \<Rightarrow> (string, answer) res" where
  "demo_parse_answer j =
     (case j of
        [] \<Rightarrow> Err ''empty''
      | x # r \<Rightarrow>
          if x = 1 then Ok (Ok (Ok r))
          else if x = 2 then (case unframe r of (e, b) \<Rightarrow> Ok (Err (InvalidRequest (chars e) b)))
          else if x = 3 then (case unframe r of (e, b) \<Rightarrow> Ok (Err (InvalidResponse (chars e) b)))
          else if x = 4 then Ok (Err (NoSuchContract (chars r)))
          else if x = 5 then Ok (Err SystemUnknown)
          else if x = 6 then Ok (Err (UnsupportedRequest (chars r)))
          else Ok (Err SystemExceededRecursionLimit))"

definition demo_querier :: "(demo_chain, unit) go_querier" where
  "demo_querier = \<lparr>unmarshal_request = (\<lambda>b. if b = Some [] then Err ''empty'' else Ok ()),
     chain_query = (\<lambda>_ _ c. (Returns (Some [7], None), c)), querier_gas = (\<lambda>c. fst (snd c)), marshal_result = demo_marshal,
     go_string = (\<lambda>_. []), errno_string = (\<lambda>_. [])\<rparr>"

lemma demo_answers_agree: "answers_agree demo_querier demo_parse_answer"
  by (simp add: answers_agree_def demo_querier_def demo_marshal_def demo_parse_answer_def split: SystemError.split)


end
