(* ===== verification/Code_Cache.thy ===== *)
theory Code_Cache
  imports Vm_Host
begin

text \<open>
  Uploaded code (\<open>sgx-vm/src/checksum.rs\<close>, \<open>features.rs\<close>, \<open>compatability.rs\<close>, \<open>cache.rs\<close>): the
  checks a module has to pass when it is uploaded, and the cache that keeps the code on disk
  under its checksum. The parser of wasm modules, SHA-256 and the hex encoding are
  arguments. Error texts are given without the lists of names some of them end with.
\<close>

section \<open>The linked libraries\<close>

text \<open>
  parity-wasm, as far as the checks look at a module: memories with initial and maximal
  size, exported names (whether the export is a function), and imports by module and field.
\<close>

record 'pm parity =
  pw_deserialize :: "bytes \<Rightarrow> (string, 'pm) res"
  pw_memories :: "'pm \<Rightarrow> (u32 \<times> u32 option) list option"
  pw_exports :: "'pm \<Rightarrow> (string \<times> bool) list option"
  pw_imports :: "'pm \<Rightarrow> (string \<times> string \<times> bool) list option"

record hashes =
  sha256_digest :: "bytes \<Rightarrow> bytes"
  hex_lower :: "bytes \<Rightarrow> string"

definition hashes_ok :: "hashes \<Rightarrow> bool" where
  "hashes_ok hs = ((\<forall>d. length (sha256_digest hs d) = 32) \<and> inj (hex_lower hs))"

section \<open>checksum.rs\<close>

type_synonym Checksum = bytes

definition checksum_generate :: "hashes \<Rightarrow> bytes \<Rightarrow> Checksum" where
  "checksum_generate hs wasm = sha256_digest hs wasm"

definition to_hex :: "hashes \<Rightarrow> Checksum \<Rightarrow> string" where
  "to_hex hs c = hex_lower hs c"

definition checksum_try_from :: "bytes \<Rightarrow> Checksum vm_result" where
  "checksum_try_from val = (if length val \<noteq> 32 then Err (CacheErr ''Checksum not of length 32'') else Ok val)"

section \<open>features.rs\<close>

definition REQUIRES_PREFIX :: string where
  "REQUIRES_PREFIX = ''requires_''"

fun split_csv :: "char \<Rightarrow> string \<Rightarrow> string list" where
  "split_csv sep [] = [[]]"
| "split_csv sep (c # s) =
     (if c = sep then [] # split_csv sep s
      else (case split_csv sep s of [] \<Rightarrow> [[c]] | w # ws \<Rightarrow> (c # w) # ws))"

definition is_space :: "char \<Rightarrow> bool" where
  "is_space c = (c = CHR '' '' \<or> (9 \<le> (of_char c :: nat) \<and> (of_char c :: nat) \<le> 13))"

definition trim_ws :: "string \<Rightarrow> string" where
  "trim_ws s = rev (dropWhile is_space (rev (dropWhile is_space s)))"

definition features_from_csv :: "string \<Rightarrow> string set" where
  "features_from_csv csv = set (filter (\<lambda>f. f \<noteq> []) (map trim_ws (split_csv (CHR '','') csv)))"

definition required_features_from_module :: "'pm parity \<Rightarrow> 'pm \<Rightarrow> string set" where
  "required_features_from_module pw module =
     (case pw_exports pw module of
        None \<Rightarrow> {}
      | Some entries \<Rightarrow>
          set (List.map_filter (\<lambda>(name, is_function).
            if is_function \<and> prefix REQUIRES_PREFIX name \<and> length name > length REQUIRES_PREFIX
            then Some (drop (length REQUIRES_PREFIX) name) else None) entries))"

section \<open>compatability.rs\<close>

text \<open>Two of the imports exist only in builds with the feature of their name.\<close>

record build_features =
  iterator_feature :: bool
  debug_print_feature :: bool

definition SUPPORTED_IMPORTS :: "build_features \<Rightarrow> string list" where
  "SUPPORTED_IMPORTS b =
     [''env.db_read'', ''env.db_write'', ''env.db_remove'', ''env.canonicalize_address'', ''env.humanize_address'',
      ''env.query_chain''] @
     (if iterator_feature b then [''env.db_scan'', ''env.db_next''] else []) @
     (if debug_print_feature b then [''env.debug_print''] else [])"

definition REQUIRED_EXPORTS :: "string list" where
  "REQUIRED_EXPORTS = [''cosmwasm_vm_version_3'', ''query'', ''init'', ''handle'', ''allocate'', ''deallocate'']"

definition MEMORY_LIMIT :: u32 where
  "MEMORY_LIMIT = 512"

definition check_wasm_memories :: "'pm parity \<Rightarrow> 'pm \<Rightarrow> unit vm_result" where
  "check_wasm_memories pw module =
     (case pw_memories pw module of
        None \<Rightarrow> Err (StaticValidationErr ''Wasm contract doesn't have a memory section'')
      | Some memories \<Rightarrow>
          (case memories of
             [(initial, maximum)] \<Rightarrow>
               if initial > MEMORY_LIMIT
               then Err (StaticValidationErr ''Wasm contract memory's minimum must not exceed 512 pages.'')
               else if maximum \<noteq> None
               then Err (StaticValidationErr ''Wasm contract memory's maximum must be unset. The host will set it for you.'')
               else Ok ()
           | _ \<Rightarrow> Err (StaticValidationErr ''Wasm contract must contain exactly one memory'')))"

definition check_wasm_exports :: "'pm parity \<Rightarrow> 'pm \<Rightarrow> unit vm_result" where
  "check_wasm_exports pw module =
     (let available_exports = (case pw_exports pw module of None \<Rightarrow> [] | Some entries \<Rightarrow> map fst entries)
      in case find (\<lambda>required_export. required_export \<notin> set available_exports) REQUIRED_EXPORTS of
           Some required_export \<Rightarrow>
             Err (StaticValidationErr (''Wasm contract doesn't have required export: '' @ required_export))
         | None \<Rightarrow> Ok ())"

fun check_imports :: "build_features \<Rightarrow> (string \<times> string \<times> bool) list \<Rightarrow> unit vm_result" where
  "check_imports b [] = Ok ()"
| "check_imports b ((module, field, is_function) # required_imports) =
     (let full_name = module @ ''.'' @ field
      in if full_name \<notin> set (SUPPORTED_IMPORTS b)
         then Err (StaticValidationErr (''Wasm contract requires unsupported import: '' @ full_name))
         else if \<not> is_function
         then Err (StaticValidationErr (''Wasm contract requires non-function import: '' @ full_name))
         else check_imports b required_imports)"

definition check_wasm_imports :: "build_features \<Rightarrow> 'pm parity \<Rightarrow> 'pm \<Rightarrow> unit vm_result" where
  "check_wasm_imports b pw module = check_imports b (case pw_imports pw module of None \<Rightarrow> [] | Some entries \<Rightarrow> entries)"

definition check_wasm_features :: "'pm parity \<Rightarrow> 'pm \<Rightarrow> string set \<Rightarrow> unit vm_result" where
  "check_wasm_features pw module supported_features =
     (if \<not> required_features_from_module pw module \<subseteq> supported_features
      then Err (StaticValidationErr ''Wasm contract requires unsupported features'') else Ok ())"

definition check_wasm :: "build_features \<Rightarrow> 'pm parity \<Rightarrow> bytes \<Rightarrow> string set \<Rightarrow> unit vm_result" where
  "check_wasm b pw wasm_code supported_features =
     (case pw_deserialize pw wasm_code of
        Ok module \<Rightarrow>
          res_bind (check_wasm_memories pw module) (\<lambda>_.
          res_bind (check_wasm_exports pw module) (\<lambda>_.
          res_bind (check_wasm_imports b pw module) (\<lambda>_.
          check_wasm_features pw module supported_features)))
      | Err err \<Rightarrow> Err (StaticValidationErr (''Wasm bytecode could not be deserialized. Deserialization error: '' @ err))
      | Panicked \<Rightarrow> Panicked)"

section \<open>cache.rs\<close>

definition WASM_DIR :: string where
  "WASM_DIR = ''wasm''"

record Stats =
  hits_module :: u32
  misses :: u32

record CosmCache =
  wasm_path :: string
  supported_features :: "string set"
  stats :: Stats

text \<open>
  The disk: contents by path, and the errors it answers with, if any. A write that
  fails has written some of the bytes.
\<close>

record disk =
  files :: "string \<rightharpoonup> bytes"
  mkdir_err :: "string \<Rightarrow> string option"
  open_err :: "string \<Rightarrow> string option"
  write_err :: "string \<Rightarrow> (nat \<times> string) option"
  read_err :: "string \<Rightarrow> string option"

definition path_join :: "string \<Rightarrow> string \<Rightarrow> string" where
  "path_join dir name = dir @ ''/'' @ name"

definition cache_new :: "string \<Rightarrow> string set \<Rightarrow> disk \<Rightarrow> CosmCache vm_result" where
  "cache_new base features dk =
     (let path = path_join base WASM_DIR
      in case mkdir_err dk path of
           Some e \<Rightarrow> Err (CacheErr (''Error creating Wasm dir for cache: '' @ e))
         | None \<Rightarrow> Ok \<lparr>wasm_path = path, supported_features = features, stats = \<lparr>hits_module = 0, misses = 0\<rparr>\<rparr>)"

text \<open>Writing from the start of a file that is opened without truncation.\<close>

definition overwrite :: "bytes \<Rightarrow> bytes \<Rightarrow> bytes" where
  "overwrite d old = d @ drop (length d) old"

definition save_wasm_to_disk :: "hashes \<Rightarrow> string \<Rightarrow> bytes \<Rightarrow> (disk, VmError, Checksum) stm" where
  "save_wasm_to_disk hs dir wasm dk =
     (let checksum = checksum_generate hs wasm; filepath = path_join dir (to_hex hs checksum)
      in case open_err dk filepath of
           Some e \<Rightarrow> (Err (CacheErr (''Error opening Wasm file for writing: '' @ e)), dk)
         | None \<Rightarrow>
             (let old = (case files dk filepath of None \<Rightarrow> [] | Some bs \<Rightarrow> bs)
              in case write_err dk filepath of
                   Some (n, e) \<Rightarrow>
                     (Err (CacheErr (''Error writing Wasm file: '' @ e)),
                      dk\<lparr>files := (files dk)(filepath \<mapsto> overwrite (take n wasm) old)\<rparr>)
                 | None \<Rightarrow> (Ok checksum, dk\<lparr>files := (files dk)(filepath \<mapsto> overwrite wasm old)\<rparr>)))"

definition load_wasm_from_disk :: "hashes \<Rightarrow> string \<Rightarrow> Checksum \<Rightarrow> disk \<Rightarrow> bytes vm_result" where
  "load_wasm_from_disk hs dir checksum dk =
     (let path = path_join dir (to_hex hs checksum)
      in case files dk path of
           None \<Rightarrow> Err (CacheErr ''Error opening Wasm file for reading: No such file or directory (os error 2)'')
         | Some wasm \<Rightarrow>
             (case open_err dk path of
                Some e \<Rightarrow> Err (CacheErr (''Error opening Wasm file for reading: '' @ e))
              | None \<Rightarrow>
                  (case read_err dk path of
                     Some e \<Rightarrow> Err (CacheErr (''Error reading Wasm file: '' @ e))
                   | None \<Rightarrow> Ok wasm)))"

definition save_wasm ::
  "hashes \<Rightarrow> build_features \<Rightarrow> 'pm parity \<Rightarrow> CosmCache \<Rightarrow> bytes \<Rightarrow> (disk, VmError, Checksum) stm" where
  "save_wasm hs b pw cache wasm =
     and_then (lift (check_wasm b pw wasm (supported_features cache))) (\<lambda>_.
     save_wasm_to_disk hs (wasm_path cache) wasm)"

definition load_wasm :: "hashes \<Rightarrow> CosmCache \<Rightarrow> Checksum \<Rightarrow> disk \<Rightarrow> bytes vm_result" where
  "load_wasm hs cache checksum dk =
     res_bind (load_wasm_from_disk hs (wasm_path cache) checksum dk) (\<lambda>code.
     if checksum_generate hs code \<noteq> checksum then Err IntegrityErr else Ok code)"

text \<open>The counter is checked for overflow, as the release profile of go-cosmwasm asks for.\<close>

definition get_instance ::
  "hashes \<Rightarrow> (nat, unit) res \<Rightarrow> Checksum \<Rightarrow> ('s, 'a, 'q) Extern \<Rightarrow> u64 \<Rightarrow> disk \<Rightarrow>
   (CosmCache \<times> ('s, 'q, 'i) vm_world, VmError, 'a Instance) stm" where
  "get_instance hs enclave checksum deps limit dk s =
     (case s of (cache, w) \<Rightarrow>
        (case load_wasm hs cache checksum dk of
           Ok wasm \<Rightarrow>
             (case checked_add (misses (stats cache)) 1 of
                None \<Rightarrow> (Panicked, s)
              | Some n \<Rightarrow>
                  (let cache' = cache\<lparr>stats := (stats cache)\<lparr>misses := n\<rparr>\<rparr>
                   in case from_code enclave wasm deps limit w of (r, w') \<Rightarrow> (r, (cache', w'))))
         | Err e \<Rightarrow> (Err e, s)
         | Panicked \<Rightarrow> (Panicked, s)))"

section \<open>What the upload check accepts\<close>

lemma check_imports_Ok_iff:
  "check_imports b imps = Ok () \<longleftrightarrow> list_all (\<lambda>(m, f, is_fun). m @ ''.'' @ f \<in> set (SUPPORTED_IMPORTS b) \<and> is_fun) imps"
  by (induction b imps rule: check_imports.induct) (auto simp: Let_def)

lemma check_exports_Ok_iff:
  "check_wasm_exports pw module = Ok () \<longleftrightarrow>
     set REQUIRED_EXPORTS \<subseteq> fst ` set (case pw_exports pw module of None \<Rightarrow> [] | Some entries \<Rightarrow> entries)"
proof (cases "pw_exports pw module")
  case (Some entries)
  have "find (\<lambda>e. e \<notin> fst ` set entries) REQUIRED_EXPORTS = None \<longleftrightarrow> set REQUIRED_EXPORTS \<subseteq> fst ` set entries"
    by (auto simp: find_None_iff)
  then show ?thesis
    using Some by (auto simp: check_wasm_exports_def Let_def split: option.splits)
qed (simp add: check_wasm_exports_def REQUIRED_EXPORTS_def)

lemma check_memories_Ok_iff:
  "check_wasm_memories pw module = Ok () \<longleftrightarrow> (\<exists>initial. pw_memories pw module = Some [(initial, None)] \<and> initial \<le> 512)"
  by (auto simp: check_wasm_memories_def MEMORY_LIMIT_def not_less split: option.splits list.splits)

text \<open>
  C20: what an upload is checked for. Code is accepted exactly if it parses, has one memory of at
  most 512 initial pages and no maximum, exports the entry points of the interface, imports
  only functions the virtual machine provides, and asks for no feature that is not supported.
\<close>

theorem check_wasm_accepts:
  "check_wasm b pw code supported = Ok () \<longleftrightarrow>
     (\<exists>module initial. pw_deserialize pw code = Ok module \<and> pw_memories pw module = Some [(initial, None)] \<and> initial \<le> 512 \<and>
        set REQUIRED_EXPORTS \<subseteq> fst ` set (case pw_exports pw module of None \<Rightarrow> [] | Some entries \<Rightarrow> entries) \<and>
        list_all (\<lambda>(m, f, is_fun). m @ ''.'' @ f \<in> set (SUPPORTED_IMPORTS b) \<and> is_fun)
          (case pw_imports pw module of None \<Rightarrow> [] | Some entries \<Rightarrow> entries) \<and>
        required_features_from_module pw module \<subseteq> supported)"
proof -
  have unit: "res_bind r (\<lambda>_. q) = Ok () \<longleftrightarrow> r = Ok () \<and> q = Ok ()" for r :: "unit vm_result" and q :: "unit vm_result"
    by (cases r) auto
  show ?thesis
    by (cases "pw_deserialize pw code")
      (auto simp: check_wasm_def unit check_memories_Ok_iff check_exports_Ok_iff check_wasm_imports_def
        check_imports_Ok_iff check_wasm_features_def)
qed

text \<open>An engine does not start on code that asks for more memory than the enclave allows.\<close>

lemma start_engine_memory:
  assumes "deserialize_buffer l code = Some module" and "memory_section l module = Some [(initial, maximum)]" and "192 < initial"
  shows "start_engine l limit code key op n pk = Err CannotInitializeWasmMemory"
  using assms by (simp add: start_engine_def validate_memory_def MAXIMUM_ALLOWED_PAGES_def)

lemma unstarted_checks:
  assumes "\<And>key op n pk. start_engine (lib su) limit code key op n pk = Err e"
  shows "\<not> is_ok (init_checks su limit code env m sig_info)" and "\<not> is_ok (handle_checks su limit code env m sig_info)"
    and "\<not> is_ok (query_checks su limit code m)"
  by (auto simp: init_checks_def handle_checks_def query_checks_def assms res_simps Let_def split: if_splits)

lemma unstarted_calls:
  assumes "\<And>key op n pk. start_engine (lib su) limit code key op n pk = Err e"
  shows "\<exists>r. \<not> is_ok r \<and> contract_init su limit used code env m sig_info w = ((r, used), w)"
    and "\<exists>r. \<not> is_ok r \<and> contract_handle su limit used code env m sig_info w = ((r, used), w)"
    and "\<exists>r. \<not> is_ok r \<and> contract_query su limit used code m w = ((r, used), w)"
proof -
  show "\<exists>r. \<not> is_ok r \<and> contract_init su limit used code env m sig_info w = ((r, used), w)"
    using unstarted_checks(1) [OF assms, of env m sig_info]
    by (cases "init_checks su limit code env m sig_info") (simp_all add: contract_init_def refuse_def)
  show "\<exists>r. \<not> is_ok r \<and> contract_handle su limit used code env m sig_info w = ((r, used), w)"
    using unstarted_checks(2) [OF assms, of env m sig_info]
    by (cases "handle_checks su limit code env m sig_info") (simp_all add: contract_handle_def refuse_def)
  show "\<exists>r. \<not> is_ok r \<and> contract_query su limit used code m w = ((r, used), w)"
    using unstarted_checks(3) [OF assms, of m]
    by (cases "query_checks su limit code m") (simp_all add: contract_query_def refuse_def)
qed


definition demo_parity :: "bytes parity" where
  "demo_parity = \<lparr>pw_deserialize = Ok, pw_memories = (\<lambda>_. Some [(300, None)]),
     pw_exports = (\<lambda>_. Some (map (\<lambda>e. (e, True)) (''requires_staking'' # REQUIRED_EXPORTS))),
     pw_imports = (\<lambda>_. Some [(''env'', ''db_read'', True)])\<rparr>"

section \<open>Lists of features\<close>

lemma split_csv_nonempty [simp]: "split_csv sep s \<noteq> []"
  by (induction sep s rule: split_csv.induct) (auto split: list.splits)

lemma split_csv_word: "sep \<notin> set w \<Longrightarrow> split_csv sep w = [w]"
  by (induction w) auto

lemma split_csv_append: "sep \<notin> set w \<Longrightarrow> split_csv sep (w @ sep # s) = w # split_csv sep s"
  by (induction w) auto

definition join_csv :: "string list \<Rightarrow> string" where
  "join_csv fs = concat (map (\<lambda>f. f @ '','') fs)"

lemma trim_ws_word: "f \<noteq> [] \<Longrightarrow> \<not> is_space (hd f) \<Longrightarrow> \<not> is_space (last f) \<Longrightarrow> trim_ws f = f"
proof -
  assume f: "f \<noteq> []" "\<not> is_space (hd f)" "\<not> is_space (last f)"
  have "dropWhile is_space f = f" "dropWhile is_space (rev f) = rev f"
    using f by (simp_all add: dropWhile_eq_self_iff hd_rev)
  then show "trim_ws f = f"
    by (simp add: trim_ws_def)
qed

text \<open>Feature names without commas or surrounding blanks survive being listed.\<close>

lemma features_roundtrip:
  assumes "\<forall>f \<in> set fs. f \<noteq> [] \<and> CHR '','' \<notin> set f \<and> \<not> is_space (hd f) \<and> \<not> is_space (last f)"
  shows "features_from_csv (join_csv fs) = set fs"
proof -
  have "split_csv (CHR '','') (join_csv fs) = fs @ [[]]"
    using assms by (induction fs) (simp_all add: join_csv_def split_csv_append)
  moreover have "map trim_ws fs = fs"
    using assms by (induction fs) (simp_all add: trim_ws_word)
  ultimately show ?thesis
    using assms by (auto simp: features_from_csv_def trim_ws_def)
qed

section \<open>What the cache gives back\<close>

text \<open>
  What the cache returns has the checksum that was asked for, whatever is on the disk.
\<close>

lemma load_wasm_integrity:
  assumes "load_wasm hs cache checksum dk = Ok code"
  shows "checksum_generate hs code = checksum"
  using assms by (cases "load_wasm_from_disk hs (wasm_path cache) checksum dk") (auto simp: load_wasm_def split: if_splits)

lemma saved_file:
  assumes "save_wasm hs b pw cache wasm dk = (Ok c, dk')"
  shows "c = checksum_generate hs wasm \<and> check_wasm b pw wasm (supported_features cache) = Ok () \<and>
    (let path = path_join (wasm_path cache) (to_hex hs c); old = (case files dk path of None \<Rightarrow> [] | Some bs \<Rightarrow> bs)
     in open_err dk path = None \<and> dk' = dk\<lparr>files := (files dk)(path \<mapsto> overwrite wasm old)\<rparr>)"
  using assms
  by (auto simp: save_wasm_def save_wasm_to_disk_def and_then_Ok Let_def split: option.splits prod.splits res.splits)

text \<open>
  C21: code that was saved can be loaded. If a file of this name existed before, it must not be longer
  than the code: the file is not truncated, so what is read back is the code and the rest
  of the old file, and unless that collides the cache answers with an integrity error.
\<close>

theorem save_then_load:
  assumes "hashes_ok hs" and "save_wasm hs b pw cache wasm dk = (Ok c, dk')"
    and path: "path = path_join (wasm_path cache) (to_hex hs c)" and "read_err dk path = None"
    and old: "old = (case files dk path of None \<Rightarrow> [] | Some bs \<Rightarrow> bs)"
  shows "(length old \<le> length wasm \<longrightarrow> load_wasm hs cache c dk' = Ok wasm) \<and>
    (length wasm < length old \<and> sha256_digest hs (wasm @ drop (length wasm) old) \<noteq> sha256_digest hs wasm \<longrightarrow>
      load_wasm hs cache c dk' = Err IntegrityErr) \<and>
    (\<forall>c'. c' \<noteq> c \<longrightarrow> load_wasm hs cache c' dk' = load_wasm hs cache c' dk)"
proof (intro conjI impI allI)
  have c: "c = checksum_generate hs wasm" "open_err dk path = None"
    "dk' = dk\<lparr>files := (files dk)(path \<mapsto> overwrite wasm old)\<rparr>"
    using saved_file [OF assms(2)] path old by (auto simp: Let_def)
  show "load_wasm hs cache c dk' = Ok wasm" if "length old \<le> length wasm"
    using that c assms(4) path by (simp add: load_wasm_def load_wasm_from_disk_def overwrite_def)
  show "load_wasm hs cache c dk' = Err IntegrityErr"
    if "length wasm < length old \<and> sha256_digest hs (wasm @ drop (length wasm) old) \<noteq> sha256_digest hs wasm"
    using that c assms(4) path by (simp add: load_wasm_def load_wasm_from_disk_def overwrite_def checksum_generate_def)
  fix c'
  assume "c' \<noteq> c"
  then have "path_join (wasm_path cache) (to_hex hs c') \<noteq> path"
    using assms(1) path by (auto simp: path_join_def to_hex_def hashes_ok_def dest: injD)
  then show "load_wasm hs cache c' dk' = load_wasm hs cache c' dk"
    using c(3) by (simp add: load_wasm_def load_wasm_from_disk_def Let_def split: option.split)
qed

text \<open>A digest that keeps the length and the first byte, on a disk that holds a longer file.\<close>

definition demo_hashes :: hashes where
  "demo_hashes = \<lparr>sha256_digest = (\<lambda>d. take 32 (word_of_nat (length d) # d @ replicate 31 0)), hex_lower = (\<lambda>c. map (\<lambda>b. char_of (unat b)) c)\<rparr>"

definition demo_cache_disk :: "(string \<rightharpoonup> bytes) \<Rightarrow> disk" where
  "demo_cache_disk fs = \<lparr>files = fs, mkdir_err = (\<lambda>_. None), open_err = (\<lambda>_. None), write_err = (\<lambda>_. None), read_err = (\<lambda>_. None)\<rparr>"

definition demo_cache :: CosmCache where
  "demo_cache = \<lparr>wasm_path = ''w'', supported_features = {''staking''}, stats = \<lparr>hits_module = 0, misses = 0\<rparr>\<rparr>"

lemma demo_hashes_ok: "hashes_ok demo_hashes"
proof -
  have "inj (\<lambda>b :: u8. char_of (unat b) :: char)"
    by (rule injI) (metis of_char_char_of unat_bound word_unat_eq_iff)
  then have "inj (map (\<lambda>b :: u8. char_of (unat b) :: char))"
    by (simp add: inj_map)
  then show ?thesis
    by (auto simp: hashes_ok_def demo_hashes_def)
qed

definition demo_build :: build_features where
  "demo_build = \<lparr>iterator_feature = False, debug_print_feature = False\<rparr>"

lemma demo_checks:
  "check_wasm_exports demo_parity code = Ok ()" "check_wasm_imports demo_build demo_parity code = Ok ()"
  "check_wasm_features demo_parity code (supported_features demo_cache) = Ok ()"
proof -
  show "check_wasm_exports demo_parity code = Ok ()"
    by (force simp: check_exports_Ok_iff demo_parity_def)
  show "check_wasm_imports demo_build demo_parity code = Ok ()"
    by (simp add: check_wasm_imports_def check_imports_Ok_iff demo_parity_def SUPPORTED_IMPORTS_def)
  show "check_wasm_features demo_parity code (supported_features demo_cache) = Ok ()"
    by (simp add: check_wasm_features_def required_features_from_module_def demo_parity_def demo_cache_def
        REQUIRES_PREFIX_def REQUIRED_EXPORTS_def List.map_filter_def)
qed

lemma demo_check: "check_wasm demo_build demo_parity code (supported_features demo_cache) = Ok ()"
proof -
  have "check_wasm_memories demo_parity code = Ok ()"
    by (simp add: check_memories_Ok_iff demo_parity_def)
  then show ?thesis
    using demo_checks [of code] by (simp add: check_wasm_def) (simp add: demo_parity_def)
qed


theorem save_then_load_witness:
  "\<exists>c dk'. save_wasm demo_hashes demo_build demo_parity demo_cache [7]
       (demo_cache_disk [path_join ''w'' (to_hex demo_hashes (checksum_generate demo_hashes [7])) \<mapsto> [7, 8]]) = (Ok c, dk') \<and>
     load_wasm demo_hashes demo_cache c dk' = Err IntegrityErr"
proof -
  let ?c = "checksum_generate demo_hashes [7]"
  let ?path = "path_join ''w'' (to_hex demo_hashes ?c)"
  obtain dk' where run: "save_wasm demo_hashes demo_build demo_parity demo_cache [7] (demo_cache_disk [?path \<mapsto> [7, 8]]) = (Ok ?c, dk')"
    by (simp add: save_wasm_def demo_check save_wasm_to_disk_def demo_cache_disk_def Let_def)
  have path: "?path = path_join (wasm_path demo_cache) (to_hex demo_hashes ?c)"
    by (simp add: demo_cache_def)
  have "hd (sha256_digest demo_hashes [7, 8]) \<noteq> hd (sha256_digest demo_hashes [7])"
    by (simp add: demo_hashes_def)
  then have "sha256_digest demo_hashes ([7] @ drop (length [7]) [7, 8]) \<noteq> sha256_digest demo_hashes [7]"
    by auto
  moreover have "read_err (demo_cache_disk [?path \<mapsto> [7, 8]]) ?path = None"
    "[7, 8] = (case files (demo_cache_disk [?path \<mapsto> [7, 8]]) ?path of None \<Rightarrow> [] | Some bs \<Rightarrow> bs)"
    by (simp_all add: demo_cache_disk_def)
  ultimately have "load_wasm demo_hashes demo_cache ?c dk' = Err IntegrityErr"
    using save_then_load [OF demo_hashes_ok run path] by simp
  then show ?thesis
    using run by blast
qed

lemma load_wasm_integrity_witness:
  "\<exists>code. load_wasm demo_hashes demo_cache (checksum_generate demo_hashes [7])
     (demo_cache_disk [path_join ''w'' (to_hex demo_hashes (checksum_generate demo_hashes [7])) \<mapsto> [7]]) = Ok code \<and>
     checksum_generate demo_hashes code = checksum_generate demo_hashes [7]"
proof -
  have "wasm_path demo_cache = ''w''"
    by (simp add: demo_cache_def)
  then have load: "load_wasm demo_hashes demo_cache (checksum_generate demo_hashes [7])
     (demo_cache_disk [path_join ''w'' (to_hex demo_hashes (checksum_generate demo_hashes [7])) \<mapsto> [7]]) = Ok [7]"
    by (simp add: load_wasm_def load_wasm_from_disk_def demo_cache_disk_def Let_def)
  show ?thesis
    using load load_wasm_integrity [OF load] by blast
qed

end
