(* ===== verification/Go_Library.thy ===== *)
theory Go_Library
  imports Go_Bridge Code_Cache
begin

text \<open>
  The library the chain calls (\<open>go-cosmwasm/src/lib.rs\<close>, \<open>api/lib.go\<close>, \<open>lib.go\<close>): entry points
  for uploading code and for the four calls of a contract, from the Go function down to the
  instance of the virtual machine and back.
\<close>

section \<open>The node\<close>

text \<open>
  The process with its store, the querier, the cache of uploaded code (\<open>None\<close> is the null
  pointer), the disk, the enclave with its host, the error number, and the variable that
  receives the gas used.
\<close>

record ('k, 'it, 'q) node =
  proc :: "('k, 'it) process"
  querier_state :: 'q
  cache_ptr :: "CosmCache option"
  node_disk :: disk
  enclave_world :: "(('k, 'it) process, 'q, GoIter) vm_world"
  node_errno :: i32
  gas_out :: u64

type_synonym ('k, 'it, 'q, 'e, 'a) node_stm = "(('k, 'it, 'q) node, 'e, 'a) stm"

text \<open>
  What is linked: hashing, the parser of wasm, decoding of text, the store of the chain, the
  rest of the host and the enclave. The api of addresses is not used on this path.
\<close>

record ('k, 'it, 'q, 'pm, 'wm, 'mi, 'm, 'cm) node_lib =
  nl_hashes :: hashes
  nl_build :: build_features
  nl_parity :: "'cm parity"
  nl_utf8_lossy :: "bytes \<Rightarrow> string"
  nl_from_utf8 :: "bytes \<Rightarrow> (string, string) res"
  nl_debug :: "string \<Rightarrow> string"
  nl_vm_text :: "VmError \<Rightarrow> string"
  nl_store :: "('k, 'it) kvstore"
  nl_host :: "(('k, 'it) process, 'q, GoIter) host_lib"
  nl_enclave :: "(nat, unit) res"
  nl_linked :: "('pm, 'wm, 'mi, 'm, (('k, 'it) process, 'q, GoIter) vm_host) linked"
  nl_ecall_env :: ecall_env
  nl_transition :: "(('k, 'it) process, 'q, GoIter) vm_host transition"

definition in_c :: "(c_state, 'e, 'a) stm \<Rightarrow> ('k, 'it, 'q, 'e, 'a) node_stm" where
  "in_c f s =
     (case f \<lparr>rheap = mem (proc s), errno = node_errno s\<rparr> of (r, c) \<Rightarrow>
        (r, s\<lparr>proc := (proc s)\<lparr>mem := rheap c\<rparr>, node_errno := errno c\<rparr>))"

definition total_c :: "(c_state \<Rightarrow> 'a \<times> c_state) \<Rightarrow> (c_state, 'e, 'a) stm" where
  "total_c f c = (case f c of (x, c') \<Rightarrow> (Ok x, c'))"

definition read_buffer :: "Buffer \<Rightarrow> (c_state, 'e, bytes option) stm" where
  "read_buffer b c = (buf_read b (rheap c), c)"

section \<open>lib.rs: arguments\<close>

definition DATA_DIR_ARG :: string where "DATA_DIR_ARG = ''data_dir''"
definition FEATURES_ARG :: string where "FEATURES_ARG = ''supported_features''"
definition CACHE_ARG :: string where "CACHE_ARG = ''cache''"
definition WASM_ARG :: string where "WASM_ARG = ''wasm''"
definition CODE_ID_ARG :: string where "CODE_ID_ARG = ''code_id''"
definition MSG_ARG :: string where "MSG_ARG = ''msg''"
definition PARAMS_ARG :: string where "PARAMS_ARG = ''params''"
definition GAS_USED_ARG :: string where "GAS_USED_ARG = ''gas_used''"
definition SIG_INFO_ARG :: string where "SIG_INFO_ARG = ''sig_info''"

definition read_arg :: "string \<Rightarrow> Buffer \<Rightarrow> ('k, 'it, 'q, Error, bytes) node_stm" where
  "read_arg name b =
     and_then (in_c (read_buffer b)) (\<lambda>v. case v of None \<Rightarrow> fail (EmptyArg name) | Some bs \<Rightarrow> ret bs)"

definition vm_step :: "('k, 'it, 'q, 'pm, 'wm, 'mi, 'm, 'cm) node_lib \<Rightarrow> 'a vm_result \<Rightarrow> ('k, 'it, 'q, Error, 'a) node_stm" where
  "vm_step nl r = lift (map_err (error_of_vm (nl_vm_text nl)) r)"

definition to_extern :: "'s \<Rightarrow> 'a \<Rightarrow> 'q \<Rightarrow> ('s, 'a, 'q) Extern" where
  "to_extern st a q = \<lparr>ext_storage = st, ext_api = a, ext_querier = q\<rparr>"

section \<open>lib.rs: the cache\<close>

definition do_init_cache ::
  "('k, 'it, 'q, 'pm, 'wm, 'mi, 'm, 'cm) node_lib \<Rightarrow> Buffer \<Rightarrow> Buffer \<Rightarrow> ('k, 'it, 'q, Error, CosmCache) node_stm" where
  "do_init_cache nl data_dir features =
     and_then (read_arg DATA_DIR_ARG data_dir) (\<lambda>dir.
     and_then (lift (map_err ErrInvalidUtf8 (nl_from_utf8 nl dir))) (\<lambda>dir_str.
     and_then (read_arg FEATURES_ARG features) (\<lambda>features_bin.
     and_then (lift (map_err ErrInvalidUtf8 (nl_from_utf8 nl features_bin))) (\<lambda>features_str.
     and_then (read node_disk) (\<lambda>dk.
     vm_step nl (cache_new dir_str (features_from_csv features_str) dk))))))"

text \<open>The pointer that is returned is null after an error.\<close>

definition init_cache ::
  "('k, 'it, 'q, 'pm, 'wm, 'mi, 'm, 'cm) node_lib \<Rightarrow> Buffer \<Rightarrow> Buffer \<Rightarrow> bool \<Rightarrow> ('k, 'it, 'q, 'e, Buffer) node_stm" where
  "init_cache nl data_dir features errout_given s =
     (case do_init_cache nl data_dir features s of (r, s1) \<Rightarrow>
        (case catch_unwind r of
           Ok c \<Rightarrow> and_then (in_c (modify clear_error)) (\<lambda>_. ret null_buffer) (s1\<lparr>cache_ptr := Some c\<rparr>)
         | Err e \<Rightarrow> in_c (total_c (set_error e errout_given)) (s1\<lparr>cache_ptr := None\<rparr>)
         | Panicked \<Rightarrow> (Panicked, s1)))"

definition release_cache :: "('k, 'it, 'q) node \<Rightarrow> ('k, 'it, 'q) node" where
  "release_cache s = s\<lparr>cache_ptr := None\<rparr>"

text \<open>An entry point on the cache: the null check, the caught panic, and the report.\<close>

definition entry_point ::
  "(CosmCache \<Rightarrow> ('k, 'it, 'q, Error, bytes) node_stm) \<Rightarrow> bool \<Rightarrow> ('k, 'it, 'q, 'e, Buffer \<times> Buffer) node_stm" where
  "entry_point f errout_given s =
     (case (case cache_ptr s of
              Some c \<Rightarrow> (case f c s of (r, s1) \<Rightarrow> (catch_unwind r, s1))
            | None \<Rightarrow> (Err (EmptyArg CACHE_ARG), s)) of
        (r, s1) \<Rightarrow> in_c (total_c (c_return r errout_given)) s1)"

definition do_create ::
  "('k, 'it, 'q, 'pm, 'wm, 'mi, 'm, 'cm) node_lib \<Rightarrow> CosmCache \<Rightarrow> Buffer \<Rightarrow> ('k, 'it, 'q, Error, bytes) node_stm" where
  "do_create nl cache wasm =
     and_then (read_arg WASM_ARG wasm) (\<lambda>code s.
     case save_wasm (nl_hashes nl) (nl_build nl) (nl_parity nl) cache code (node_disk s) of
       (r, dk) \<Rightarrow> (map_err (error_of_vm (nl_vm_text nl)) r, s\<lparr>node_disk := dk\<rparr>))"

definition create_code ::
  "('k, 'it, 'q, 'pm, 'wm, 'mi, 'm, 'cm) node_lib \<Rightarrow> Buffer \<Rightarrow> bool \<Rightarrow> ('k, 'it, 'q, 'e, Buffer \<times> Buffer) node_stm" where
  "create_code nl wasm = entry_point (\<lambda>c. do_create nl c wasm)"

definition do_get_code ::
  "('k, 'it, 'q, 'pm, 'wm, 'mi, 'm, 'cm) node_lib \<Rightarrow> CosmCache \<Rightarrow> Buffer \<Rightarrow> ('k, 'it, 'q, Error, bytes) node_stm" where
  "do_get_code nl cache cid =
     and_then (read_arg CACHE_ARG cid) (\<lambda>bs.
     and_then (vm_step nl (checksum_try_from bs)) (\<lambda>checksum.
     and_then (read node_disk) (\<lambda>dk.
     vm_step nl (load_wasm (nl_hashes nl) cache checksum dk))))"

definition get_code ::
  "('k, 'it, 'q, 'pm, 'wm, 'mi, 'm, 'cm) node_lib \<Rightarrow> Buffer \<Rightarrow> bool \<Rightarrow> ('k, 'it, 'q, 'e, Buffer \<times> Buffer) node_stm" where
  "get_code nl cid = entry_point (\<lambda>c. do_get_code nl c cid)"

section \<open>lib.rs: calls of a contract\<close>

definition host_for ::
  "('k, 'it, 'q, 'pm, 'wm, 'mi, 'm, 'cm) node_lib \<Rightarrow> DB \<Rightarrow> (('k, 'it) process, 'q, GoIter) host_lib" where
  "host_for nl db = (nl_host nl)\<lparr>storage_impl := go_storage (nl_utf8_lossy nl) (nl_debug nl) (nl_store nl) db\<rparr>"

definition enclave_for ::
  "('k, 'it, 'q, 'pm, 'wm, 'mi, 'm, 'cm) node_lib \<Rightarrow> DB \<Rightarrow> ('pm, 'wm, 'mi, 'm, (('k, 'it) process, 'q, GoIter) vm_host) linked" where
  "enclave_for nl db = on_host (host_for nl db) (nl_linked nl)"

text \<open>
  An instance for one call: it gets storage and querier, its gas is reported, and what they left is
  the state of the process whether or not the call succeeded. The storage points to memory of Go,
  so that its state is the process's also when a panic skips the recycling.
\<close>

definition left_by :: "('k, 'it, 'q) node \<Rightarrow> (('k, 'it) process, 'q, GoIter) vm_world \<Rightarrow> ('k, 'it, 'q) node" where
  "left_by s w = s\<lparr>enclave_world := w,
     proc := (case ctx_storage (context_data (host w)) of None \<Rightarrow> proc s | Some st \<Rightarrow> st),
     querier_state := (case ctx_querier (context_data (host w)) of None \<Rightarrow> querier_state s | Some q \<Rightarrow> q)\<rparr>"

definition in_instance ::
  "('k, 'it, 'q, 'pm, 'wm, 'mi, 'm, 'cm) node_lib \<Rightarrow> CosmCache \<Rightarrow> Checksum \<Rightarrow> u64 \<Rightarrow>
   (unit Instance \<times> (('k, 'it) process, 'q, GoIter) vm_world, VmError, bytes) stm \<Rightarrow> ('k, 'it, 'q, Error, bytes) node_stm" where
  "in_instance nl cache code_id limit call s =
     (let deps = to_extern (proc s) () (querier_state s)
      in case get_instance (nl_hashes nl) (nl_enclave nl) code_id deps limit (node_disk s) (cache, enclave_world s) of
           (Ok ins, (cache', w)) \<Rightarrow>
             (case call (ins, w) of (res, (ins', w1)) \<Rightarrow>
                (let s1 = left_by (s\<lparr>cache_ptr := Some cache'\<rparr>) w1
                 in case res of
                      Panicked \<Rightarrow> (Panicked, s1)
                    | _ \<Rightarrow>
                        (case recycle ins' w1 of (_, w2) \<Rightarrow>
                           (map_err (error_of_vm (nl_vm_text nl)) res,
                            s1\<lparr>enclave_world := w2, gas_out := used_internally (create_gas_report ins')\<rparr>))))
         | (Err e, (cache', w)) \<Rightarrow> (Err (error_of_vm (nl_vm_text nl) e), s\<lparr>cache_ptr := Some cache', enclave_world := w\<rparr>)
         | (Panicked, (cache', w)) \<Rightarrow> (Panicked, s\<lparr>cache_ptr := Some cache', enclave_world := w\<rparr>))"

definition read_code_id ::
  "('k, 'it, 'q, 'pm, 'wm, 'mi, 'm, 'cm) node_lib \<Rightarrow> bool \<Rightarrow> Buffer \<Rightarrow> ('k, 'it, 'q, Error, Checksum) node_stm" where
  "read_code_id nl gas_used_given code_id =
     (if \<not> gas_used_given then fail (EmptyArg GAS_USED_ARG)
      else and_then (read_arg CODE_ID_ARG code_id) (\<lambda>bs. vm_step nl (checksum_try_from bs)))"

definition do_init ::
  "('k, 'it, 'q, 'pm, 'wm, 'mi, 'm, 'cm) node_lib \<Rightarrow> CosmCache \<Rightarrow> Buffer \<Rightarrow> Buffer \<Rightarrow> Buffer \<Rightarrow> DB \<Rightarrow> u64 \<Rightarrow> bool \<Rightarrow> Buffer \<Rightarrow>
   ('k, 'it, 'q, Error, bytes) node_stm" where
  "do_init nl cache code_id params m db limit gas_used_given sig_info =
     and_then (read_code_id nl gas_used_given code_id) (\<lambda>checksum.
     and_then (read_arg PARAMS_ARG params) (\<lambda>env.
     and_then (read_arg MSG_ARG m) (\<lambda>mg.
     and_then (read_arg SIG_INFO_ARG sig_info) (\<lambda>sig.
     in_instance nl cache checksum limit (call_init_raw (enclave_for nl db) (nl_ecall_env nl) (nl_transition nl) env mg sig)))))"

definition do_handle ::
  "('k, 'it, 'q, 'pm, 'wm, 'mi, 'm, 'cm) node_lib \<Rightarrow> CosmCache \<Rightarrow> Buffer \<Rightarrow> Buffer \<Rightarrow> Buffer \<Rightarrow> DB \<Rightarrow> u64 \<Rightarrow> bool \<Rightarrow> Buffer \<Rightarrow>
   ('k, 'it, 'q, Error, bytes) node_stm" where
  "do_handle nl cache code_id params m db limit gas_used_given sig_info =
     and_then (read_code_id nl gas_used_given code_id) (\<lambda>checksum.
     and_then (read_arg PARAMS_ARG params) (\<lambda>env.
     and_then (read_arg MSG_ARG m) (\<lambda>mg.
     and_then (read_arg SIG_INFO_ARG sig_info) (\<lambda>sig.
     in_instance nl cache checksum limit (call_handle_raw (enclave_for nl db) (nl_ecall_env nl) (nl_transition nl) env mg sig)))))"

definition do_migrate ::
  "('k, 'it, 'q, 'pm, 'wm, 'mi, 'm, 'cm) node_lib \<Rightarrow> CosmCache \<Rightarrow> Buffer \<Rightarrow> Buffer \<Rightarrow> Buffer \<Rightarrow> DB \<Rightarrow> u64 \<Rightarrow> bool \<Rightarrow>
   ('k, 'it, 'q, Error, bytes) node_stm" where
  "do_migrate nl cache code_id params m db limit gas_used_given =
     and_then (read_code_id nl gas_used_given code_id) (\<lambda>checksum.
     and_then (read_arg PARAMS_ARG params) (\<lambda>env.
     and_then (read_arg MSG_ARG m) (\<lambda>mg.
     in_instance nl cache checksum limit (call_migrate_raw env mg))))"

definition do_query ::
  "('k, 'it, 'q, 'pm, 'wm, 'mi, 'm, 'cm) node_lib \<Rightarrow> CosmCache \<Rightarrow> Buffer \<Rightarrow> Buffer \<Rightarrow> DB \<Rightarrow> u64 \<Rightarrow> bool \<Rightarrow>
   ('k, 'it, 'q, Error, bytes) node_stm" where
  "do_query nl cache code_id m db limit gas_used_given =
     and_then (read_code_id nl gas_used_given code_id) (\<lambda>checksum.
     and_then (read_arg MSG_ARG m) (\<lambda>mg.
     in_instance nl cache checksum limit (call_query_raw (enclave_for nl db) (nl_ecall_env nl) (nl_transition nl) mg)))"

definition c_instantiate ::
  "('k, 'it, 'q, 'pm, 'wm, 'mi, 'm, 'cm) node_lib \<Rightarrow> Buffer \<Rightarrow> Buffer \<Rightarrow> Buffer \<Rightarrow> DB \<Rightarrow> u64 \<Rightarrow> bool \<Rightarrow> bool \<Rightarrow> Buffer \<Rightarrow>
   ('k, 'it, 'q, 'e, Buffer \<times> Buffer) node_stm" where
  "c_instantiate nl contract_id params m db limit gas_used_given errout_given sig_info =
     entry_point (\<lambda>c. do_init nl c contract_id params m db limit gas_used_given sig_info) errout_given"

definition c_handle ::
  "('k, 'it, 'q, 'pm, 'wm, 'mi, 'm, 'cm) node_lib \<Rightarrow> Buffer \<Rightarrow> Buffer \<Rightarrow> Buffer \<Rightarrow> DB \<Rightarrow> u64 \<Rightarrow> bool \<Rightarrow> bool \<Rightarrow> Buffer \<Rightarrow>
   ('k, 'it, 'q, 'e, Buffer \<times> Buffer) node_stm" where
  "c_handle nl code_id params m db limit gas_used_given errout_given sig_info =
     entry_point (\<lambda>c. do_handle nl c code_id params m db limit gas_used_given sig_info) errout_given"

definition c_migrate ::
  "('k, 'it, 'q, 'pm, 'wm, 'mi, 'm, 'cm) node_lib \<Rightarrow> Buffer \<Rightarrow> Buffer \<Rightarrow> Buffer \<Rightarrow> DB \<Rightarrow> u64 \<Rightarrow> bool \<Rightarrow> bool \<Rightarrow>
   ('k, 'it, 'q, 'e, Buffer \<times> Buffer) node_stm" where
  "c_migrate nl contract_id params m db limit gas_used_given errout_given =
     entry_point (\<lambda>c. do_migrate nl c contract_id params m db limit gas_used_given) errout_given"

definition c_query ::
  "('k, 'it, 'q, 'pm, 'wm, 'mi, 'm, 'cm) node_lib \<Rightarrow> Buffer \<Rightarrow> Buffer \<Rightarrow> DB \<Rightarrow> u64 \<Rightarrow> bool \<Rightarrow> bool \<Rightarrow>
   ('k, 'it, 'q, 'e, Buffer \<times> Buffer) node_stm" where
  "c_query nl code_id m db limit gas_used_given errout_given =
     entry_point (\<lambda>c. do_query nl c code_id m db limit gas_used_given) errout_given"

section \<open>api/lib.go\<close>

text \<open>A slice is sent for the time of a call, and freed by the deferred \<open>freeAfterSend\<close>.\<close>

definition sending :: "go_bytes \<Rightarrow> (Buffer \<Rightarrow> ('k, 'it, 'q, 'e, 'a) node_stm) \<Rightarrow> ('k, 'it, 'q, 'e, 'a) node_stm" where
  "sending v f =
     and_then (in_c (\<lambda>c. case sendSlice v (rheap c) of (b, h) \<Rightarrow> (Ok b, c\<lparr>rheap := h\<rparr>))) (\<lambda>b.
     and_then (f b) (\<lambda>r.
     and_then (in_c (\<lambda>c. case freeAfterSend b (rheap c) of (q, h) \<Rightarrow> (q, c\<lparr>rheap := h\<rparr>))) (\<lambda>_. ret r)))"

definition InitCache ::
  "('k, 'it, 'q, 'pm, 'wm, 'mi, 'm, 'cm) node_lib \<Rightarrow> bytes \<Rightarrow> bytes \<Rightarrow> ('k, 'it, 'q, 'e, go_error option) node_stm" where
  "InitCache nl dataDir supportedFeatures =
     sending (Some dataDir) (\<lambda>dir. sending (Some supportedFeatures) (\<lambda>features.
       and_then (init_cache nl dir features True) (\<lambda>errmsg.
       and_then (read node_errno) (\<lambda>n.
       if n \<noteq> 0 then and_then (in_c (errorWithMessage n errmsg)) (\<lambda>e. ret (Some e)) else ret None))))"

definition Create ::
  "('k, 'it, 'q, 'pm, 'wm, 'mi, 'm, 'cm) node_lib \<Rightarrow> go_bytes \<Rightarrow> ('k, 'it, 'q, 'e, go_bytes \<times> go_error option) node_stm" where
  "Create nl wasm = sending wasm (\<lambda>code. and_then (create_code nl code True) (\<lambda>bs. in_c (go_result bs)))"

definition GetCode ::
  "('k, 'it, 'q, 'pm, 'wm, 'mi, 'm, 'cm) node_lib \<Rightarrow> go_bytes \<Rightarrow> ('k, 'it, 'q, 'e, go_bytes \<times> go_error option) node_stm" where
  "GetCode nl code_id = sending code_id (\<lambda>cid. and_then (get_code nl cid True) (\<lambda>bs. in_c (go_result bs)))"

definition buildDB :: "bool \<Rightarrow> u64 \<Rightarrow> DB" where
  "buildDB meter_nil counter = \<lparr>gas_meter_nil = meter_nil, state_nil = False, IteratorStackID = counter\<rparr>"

text \<open>The frame of iterators of one call, and the variable \<open>gasUsed\<close>, which starts as 0.\<close>

definition in_frame ::
  "('k, 'it, 'q, 'pm, 'wm, 'mi, 'm, 'cm) node_lib \<Rightarrow> (u64 \<Rightarrow> ('k, 'it, 'q, 'e, 'a) node_stm) \<Rightarrow> ('k, 'it, 'q, 'e, 'a) node_stm" where
  "in_frame nl f s =
     (case startContract (proc s) of (counter, p) \<Rightarrow>
        and_then (f counter) (\<lambda>r.
        and_then (modify (\<lambda>s. s\<lparr>proc := endContract (nl_store nl) counter (proc s)\<rparr>)) (\<lambda>_. ret r)) (s\<lparr>proc := p, gas_out := 0\<rparr>))"

type_synonym call_result = "go_bytes \<times> u64 \<times> go_error option"

definition contract_result :: "Buffer \<times> Buffer \<Rightarrow> ('k, 'it, 'q, 'e, call_result) node_stm" where
  "contract_result bs =
     and_then (in_c (go_result bs)) (\<lambda>(d, err). and_then (read gas_out) (\<lambda>g. ret (d, g, err)))"

definition Instantiate ::
  "('k, 'it, 'q, 'pm, 'wm, 'mi, 'm, 'cm) node_lib \<Rightarrow> go_bytes \<Rightarrow> go_bytes \<Rightarrow> go_bytes \<Rightarrow> bool \<Rightarrow> u64 \<Rightarrow> go_bytes \<Rightarrow>
   ('k, 'it, 'q, 'e, call_result) node_stm" where
  "Instantiate nl code_id params m meter_nil limit sigInfo =
     sending code_id (\<lambda>cid. sending params (\<lambda>p. sending m (\<lambda>mb. in_frame nl (\<lambda>counter. sending sigInfo (\<lambda>s.
       and_then (c_instantiate nl cid p mb (buildDB meter_nil counter) limit True True s) contract_result)))))"

definition Handle ::
  "('k, 'it, 'q, 'pm, 'wm, 'mi, 'm, 'cm) node_lib \<Rightarrow> go_bytes \<Rightarrow> go_bytes \<Rightarrow> go_bytes \<Rightarrow> bool \<Rightarrow> u64 \<Rightarrow> go_bytes \<Rightarrow>
   ('k, 'it, 'q, 'e, call_result) node_stm" where
  "Handle nl code_id params m meter_nil limit sigInfo =
     sending code_id (\<lambda>cid. sending params (\<lambda>p. sending m (\<lambda>mb. in_frame nl (\<lambda>counter. sending sigInfo (\<lambda>s.
       and_then (c_handle nl cid p mb (buildDB meter_nil counter) limit True True s) contract_result)))))"

definition Migrate ::
  "('k, 'it, 'q, 'pm, 'wm, 'mi, 'm, 'cm) node_lib \<Rightarrow> go_bytes \<Rightarrow> go_bytes \<Rightarrow> go_bytes \<Rightarrow> bool \<Rightarrow> u64 \<Rightarrow>
   ('k, 'it, 'q, 'e, call_result) node_stm" where
  "Migrate nl code_id params m meter_nil limit =
     sending code_id (\<lambda>cid. sending params (\<lambda>p. sending m (\<lambda>mb. in_frame nl (\<lambda>counter.
       and_then (c_migrate nl cid p mb (buildDB meter_nil counter) limit True True) contract_result))))"

definition Query ::
  "('k, 'it, 'q, 'pm, 'wm, 'mi, 'm, 'cm) node_lib \<Rightarrow> go_bytes \<Rightarrow> go_bytes \<Rightarrow> bool \<Rightarrow> u64 \<Rightarrow>
   ('k, 'it, 'q, 'e, call_result) node_stm" where
  "Query nl code_id m meter_nil limit =
     sending code_id (\<lambda>cid. sending m (\<lambda>mb. in_frame nl (\<lambda>counter.
       and_then (c_query nl cid mb (buildDB meter_nil counter) limit True True) contract_result)))"

section \<open>lib.go\<close>

text \<open>
  JSON on the Go side: environments and signatures are marshalled, results unmarshalled into
  a response and an error. \<open>fmt_panic\<close> is what \<open>fmt\<close> prints for an error whose method panics.
\<close>

record ('env, 'sig, 'init, 'han, 'mig) go_json =
  marshal_env :: "'env \<Rightarrow> (string, bytes) res"
  marshal_sig :: "'sig \<Rightarrow> (string, bytes) res"
  unmarshal_init :: "bytes \<Rightarrow> (string, 'init option \<times> go_std_error option) res"
  unmarshal_handle :: "go_bytes \<Rightarrow> (string, 'han option \<times> go_std_error option) res"
  unmarshal_migrate :: "go_bytes \<Rightarrow> (string, 'mig option \<times> go_std_error option) res"
  unmarshal_query :: "go_bytes \<Rightarrow> (string, QueryResponse) res"
  fmt_panic :: string

definition std_errorf :: "('env, 'sig, 'init, 'han, 'mig) go_json \<Rightarrow> go_std_error \<Rightarrow> go_error" where
  "std_errorf js e = Errorf (case std_error_text e of Returns t \<Rightarrow> t | GoPanics _ \<Rightarrow> fmt_panic js)"

text \<open>A panic of Go code outside callbacks is the error \<open>go_panic\<close> here.\<close>

definition marshalled ::
  "(string, bytes) res \<Rightarrow> (go_error \<Rightarrow> 'r) \<Rightarrow> (bytes \<Rightarrow> ('k, 'it, 'q, go_panic, 'r) node_stm) \<Rightarrow> ('k, 'it, 'q, go_panic, 'r) node_stm" where
  "marshalled r on_err f =
     (case r of Ok bs \<Rightarrow> f bs | Err e \<Rightarrow> ret (on_err (Errorf e)) | Panicked \<Rightarrow> fail OtherPanic)"

definition response ::
  "('env, 'sig, 'init, 'han, 'mig) go_json \<Rightarrow> (string, 'x option \<times> go_std_error option) res \<Rightarrow> u64 \<Rightarrow>
   ('k, 'it, 'q, go_panic, 'x option \<times> u64 \<times> go_error option) node_stm" where
  "response js r g =
     (case r of
        Ok (resp, None) \<Rightarrow> ret (resp, g, None)
      | Ok (resp, Some e) \<Rightarrow> ret (None, g, Some (std_errorf js e))
      | Err t \<Rightarrow> ret (None, g, Some (Errorf t))
      | Panicked \<Rightarrow> fail OtherPanic)"

definition wasmer_Instantiate ::
  "('k, 'it, 'q, 'pm, 'wm, 'mi, 'm, 'cm) node_lib \<Rightarrow> ('env, 'sig, 'init, 'han, 'mig) go_json \<Rightarrow> go_bytes \<Rightarrow> 'env \<Rightarrow> go_bytes \<Rightarrow> u64 \<Rightarrow> 'sig \<Rightarrow>
   ('k, 'it, 'q, go_panic, 'init option \<times> go_bytes \<times> u64 \<times> go_error option) node_stm" where
  "wasmer_Instantiate nl js code env initMsg limit sigInfo =
     marshalled (marshal_env js env) (\<lambda>e. (None, None, 0, Some e)) (\<lambda>paramBin.
     marshalled (marshal_sig js sigInfo) (\<lambda>e. (None, None, 0, Some e)) (\<lambda>sigInfoBin.
     and_then (Instantiate nl code (Some paramBin) initMsg False limit (Some sigInfoBin)) (\<lambda>(d, g, err).
     case err of
       Some e \<Rightarrow> ret (None, None, g, Some e)
     | None \<Rightarrow>
         (let bs = (case d of None \<Rightarrow> [] | Some bs \<Rightarrow> bs)
          in if length bs < 64 then fail OtherPanic
             else and_then (response js (unmarshal_init js (drop 64 bs)) g) (\<lambda>(resp, g, err).
               ret (resp, if err = None then Some (take 64 bs) else None, g, err))))))"

definition wasmer_Execute ::
  "('k, 'it, 'q, 'pm, 'wm, 'mi, 'm, 'cm) node_lib \<Rightarrow> ('env, 'sig, 'init, 'han, 'mig) go_json \<Rightarrow> go_bytes \<Rightarrow> 'env \<Rightarrow> go_bytes \<Rightarrow> u64 \<Rightarrow> 'sig \<Rightarrow>
   ('k, 'it, 'q, go_panic, 'han option \<times> u64 \<times> go_error option) node_stm" where
  "wasmer_Execute nl js code env executeMsg limit sigInfo =
     marshalled (marshal_env js env) (\<lambda>e. (None, 0, Some e)) (\<lambda>paramBin.
     marshalled (marshal_sig js sigInfo) (\<lambda>e. (None, 0, Some e)) (\<lambda>sigInfoBin.
     and_then (Handle nl code (Some paramBin) executeMsg False limit (Some sigInfoBin)) (\<lambda>(d, g, err).
     case err of Some e \<Rightarrow> ret (None, g, Some e) | None \<Rightarrow> response js (unmarshal_handle js d) g)))"

definition wasmer_Query ::
  "('k, 'it, 'q, 'pm, 'wm, 'mi, 'm, 'cm) node_lib \<Rightarrow> ('env, 'sig, 'init, 'han, 'mig) go_json \<Rightarrow> go_bytes \<Rightarrow> go_bytes \<Rightarrow> u64 \<Rightarrow>
   ('k, 'it, 'q, go_panic, call_result) node_stm" where
  "wasmer_Query nl js code queryMsg limit =
     and_then (Query nl code queryMsg False limit) (\<lambda>(d, g, err).
     case err of
       Some e \<Rightarrow> ret (None, g, Some e)
     | None \<Rightarrow>
         (case unmarshal_query js d of
            Ok resp \<Rightarrow>
              (case resp_err resp of
                 Some e \<Rightarrow> ret (None, g, Some (std_errorf js e))
               | None \<Rightarrow> ret (resp_ok resp, g, None))
          | Err t \<Rightarrow> ret (None, g, Some (Errorf t))
          | Panicked \<Rightarrow> fail OtherPanic))"

definition wasmer_Migrate ::
  "('k, 'it, 'q, 'pm, 'wm, 'mi, 'm, 'cm) node_lib \<Rightarrow> ('env, 'sig, 'init, 'han, 'mig) go_json \<Rightarrow> go_bytes \<Rightarrow> 'env \<Rightarrow> go_bytes \<Rightarrow> u64 \<Rightarrow>
   ('k, 'it, 'q, go_panic, 'mig option \<times> u64 \<times> go_error option) node_stm" where
  "wasmer_Migrate nl js code env migrateMsg limit =
     marshalled (marshal_env js env) (\<lambda>e. (None, 0, Some e)) (\<lambda>paramBin.
     and_then (Migrate nl code (Some paramBin) migrateMsg False limit) (\<lambda>(d, g, err).
     case err of Some e \<Rightarrow> ret (None, g, Some e) | None \<Rightarrow> response js (unmarshal_migrate js d) g))"

section \<open>Memory over a call\<close>

definition with_heap :: "rmem \<Rightarrow> ('k, 'it, 'q) node \<Rightarrow> ('k, 'it, 'q) node" where
  "with_heap h s = s\<lparr>proc := (proc s)\<lparr>mem := h\<rparr>\<rparr>"

definition holds :: "rmem \<Rightarrow> Buffer \<Rightarrow> bytes \<Rightarrow> bool" where
  "holds h b v = (\<not> is_null b \<and> buf_len b = length v \<and> blocks h (buf_ptr b) = Some v)"

text \<open>
  \<open>f\<close> returns, and leaves on the heap what was there and some new blocks, of which \<open>Q\<close> is told
  the contents.
\<close>

definition tidy :: "('k, 'it, 'q, 'e, 'a) node_stm \<Rightarrow> ('k, 'it, 'q) node \<Rightarrow> ('a \<Rightarrow> bytes set \<Rightarrow> ('k, 'it, 'q) node \<Rightarrow> bool) \<Rightarrow> bool" where
  "tidy f s Q = (\<exists>r s' L. f s = (Ok r, s') \<and> rmem_ok (mem (proc s')) \<and> blocks (mem (proc s')) = blocks (mem (proc s)) ++ L \<and>
     dom L \<inter> dom (blocks (mem (proc s))) = {} \<and> Q r (ran L) s')"

lemma with_heap_simps [simp]:
  "mem (proc (with_heap h s)) = h" "chain (proc (with_heap h s)) = chain (proc s)"
  "iterator_stack (proc (with_heap h s)) = iterator_stack (proc s)" "db_counter (proc (with_heap h s)) = db_counter (proc s)"
  "cache_ptr (with_heap h s) = cache_ptr s" "node_disk (with_heap h s) = node_disk s"
  "enclave_world (with_heap h s) = enclave_world s" "querier_state (with_heap h s) = querier_state s"
  "gas_out (with_heap h s) = gas_out s" "node_errno (with_heap h s) = node_errno s"
  "with_heap h (with_heap h' s) = with_heap h s"
  by (simp_all add: with_heap_def)

lemma holds_mono: "holds h b v \<Longrightarrow> blocks h \<subseteq>\<^sub>m blocks h' \<Longrightarrow> holds h' b v"
  unfolding holds_def map_le_def by (metis domI)

lemma read_arg_holds: "holds (mem (proc s)) b v \<Longrightarrow> read_arg name b s = (Ok v, s)"
  by (cases s) (simp add: read_arg_def in_c_def read_buffer_def buf_read_def holds_def)

lemma tidy_sending:
  assumes ok: "rmem_ok (mem (proc s))"
    and body: "\<And>b h. rmem_ok h \<Longrightarrow> holds h b v \<Longrightarrow> blocks (mem (proc s)) \<subseteq>\<^sub>m blocks h \<Longrightarrow> tidy (f b) (with_heap h s) Q"
    and Q: "\<And>r R s' h. Q r R s' \<Longrightarrow> Q r R (with_heap h s')"
  shows "tidy (sending (Some v) f) s Q"
proof -
  obtain b h where new: "from_vec v (mem (proc s)) = (b, h)"
    by (metis prod.exhaust)
  note h = from_vec_facts [OF ok new]
  have len: "buf_len b = length v"
    using new by (auto simp: from_vec_def Let_def)
  have held: "holds h b v"
    using h len by (simp add: holds_def)
  have "blocks (mem (proc s)) \<subseteq>\<^sub>m blocks h"
    using h(4,5) by (auto simp: map_le_def)
  then have "tidy (f b) (with_heap h s) Q"
    by (rule body [OF h(1) held])
  then obtain r s2 L where run: "f b (with_heap h s) = (Ok r, s2)" "rmem_ok (mem (proc s2))"
    "blocks (mem (proc s2)) = blocks h ++ L" "dom L \<inter> dom (blocks h) = {}" "Q r (ran L) s2"
    by (auto simp: tidy_def)
  have fresh: "L (buf_ptr b) = None"
    using run(4) h(5) by auto
  let ?h = "(mem (proc s2))\<lparr>blocks := blocks (mem (proc s)) ++ L\<rparr>"
  have "(blocks (mem (proc s2)))(buf_ptr b := None) = blocks (mem (proc s)) ++ L"
    using fresh h(4,5) run(3) by (intro ext) (auto simp: map_add_def split: option.split)
  moreover have "blocks (mem (proc s2)) (buf_ptr b) = Some v"
    using fresh h(5) run(3) by (simp add: map_add_def)
  ultimately have "sending (Some v) f s = (Ok r, with_heap ?h s2)"
    using run(1) new len h(2)
    by (simp add: sending_def in_c_def sendSlice_def freeAfterSend_def free_rust_def consume_def with_heap_def)
  moreover have "(blocks (mem (proc s)) ++ L) p \<noteq> None \<Longrightarrow> blocks (mem (proc s2)) p \<noteq> None" for p
    using run(3) h(5) by (cases "L p") (simp_all add: map_add_def)
  then have "rmem_ok ?h"
    using run(2) by (simp add: rmem_ok_def)
  moreover have "dom L \<inter> dom (blocks (mem (proc s))) = {}"
    using run(4) h(5) by auto
  ultimately show ?thesis
    using Q [OF run(5)] unfolding tidy_def by (intro exI [of _ r] exI [of _ "with_heap ?h s2"] exI [of _ L]) simp
qed

lemma tidy_in_frame:
  assumes "tidy (f (db_counter (proc s) + 1)) (s\<lparr>proc := (proc s)\<lparr>db_counter := db_counter (proc s) + 1\<rparr>, gas_out := 0\<rparr>)
    (\<lambda>r R s'. Q r R (s'\<lparr>proc := endContract (nl_store nl) (db_counter (proc s) + 1) (proc s')\<rparr>))"
  shows "tidy (in_frame nl f) s Q"
proof -
  obtain r s' L where run: "f (db_counter (proc s) + 1) (s\<lparr>proc := (proc s)\<lparr>db_counter := db_counter (proc s) + 1\<rparr>, gas_out := 0\<rparr>) = (Ok r, s')"
    "rmem_ok (mem (proc s'))" "blocks (mem (proc s')) = blocks (mem (proc s)) ++ L" "dom L \<inter> dom (blocks (mem (proc s))) = {}"
    "Q r (ran L) (s'\<lparr>proc := endContract (nl_store nl) (db_counter (proc s) + 1) (proc s')\<rparr>)"
    using assms by (auto simp: tidy_def)
  moreover have "mem (endContract (nl_store nl) n p) = mem p" for n p
    by (simp add: endContract_def popFrame_def)
  ultimately show ?thesis
    unfolding tidy_def
    by (intro exI [of _ r] exI [of _ "s'\<lparr>proc := endContract (nl_store nl) (db_counter (proc s) + 1) (proc s')\<rparr>"] exI [of _ L])
      (simp add: in_frame_def startContract_def Let_def)
qed

lemma tidy_report:
  assumes "rmem_ok (mem (proc s))" and "r \<noteq> Panicked"
  shows "tidy (and_then (in_c (total_c (c_return r True))) contract_result :: ('k, 'it, 'q, 'e, call_result) node_stm) s
    (\<lambda>(d, g, err) R s'. (d, err) = result_of r \<and> g = gas_out s \<and> R = left_behind r \<and>
       chain (proc s') = chain (proc s) \<and> iterator_stack (proc s') = iterator_stack (proc s))"
proof -
  let ?c = "\<lparr>rheap = mem (proc s), errno = node_errno s\<rparr>"
  obtain c2 L bs c1 where c: "c_return r True ?c = (bs, c1)" "go_result bs c1 = ((Ok (result_of r) :: ('e, _) res), c2)" "rmem_ok (rheap c2)"
    "blocks (rheap c2) = blocks (mem (proc s)) ++ L" "dom L \<inter> dom (blocks (mem (proc s))) = {}" "ran L = left_behind r"
    using return_then_result [of ?c r, where 'a = 'e] assms by auto
  let ?s = "s\<lparr>proc := (proc s)\<lparr>mem := rheap c2\<rparr>, node_errno := errno c2\<rparr>"
  have c1: "\<lparr>rheap = rheap c1, errno = errno c1\<rparr> = c1"
    by simp
  have "and_then (in_c (total_c (c_return r True))) contract_result s =
      ((Ok (fst (result_of r), gas_out s, snd (result_of r)) :: ('e, call_result) res), ?s)"
    by (simp add: in_c_def total_c_def c contract_result_def c1 split: prod.split)
  then show ?thesis
    unfolding tidy_def using c
    by (intro exI [of _ "(fst (result_of r), gas_out s, snd (result_of r))"] exI [of _ ?s] exI [of _ L]) simp
qed

section \<open>What the virtual machine leaves of the process\<close>

definition heap_kept :: "('k, 'it) process \<Rightarrow> (('k, 'it) process, 'q, GoIter) vm_host \<Rightarrow> bool" where
  "heap_kept st h = (\<exists>st'. ctx_storage (context_data h) = Some st' \<and> rmem_ok (mem st') \<and> blocks (mem st') = blocks (mem st) \<and>
     iterator_stack st' = iterator_stack st)"

lemma db_ops_keep:
  assumes "rmem_ok (mem s)"
  shows "rmem_ok (mem (snd (db_get utf8 kvs db k s)))" "blocks (mem (snd (db_get utf8 kvs db k s))) = blocks (mem s)"
    "iterator_stack (snd (db_get utf8 kvs db k s)) = iterator_stack s"
    "rmem_ok (mem (snd (db_set utf8 kvs db k v s)))" "blocks (mem (snd (db_set utf8 kvs db k v s))) = blocks (mem s)"
    "iterator_stack (snd (db_set utf8 kvs db k v s)) = iterator_stack s"
    "rmem_ok (mem (snd (db_remove utf8 kvs db k s)))" "blocks (mem (snd (db_remove utf8 kvs db k s))) = blocks (mem s)"
    "iterator_stack (snd (db_remove utf8 kvs db k s)) = iterator_stack s"
  using assms
  by (cases "usable db"; simp add: db_get_eq db_set_eq db_remove_eq db_ops_unusable split: prod.split go.split)+

lemma heap_kept_ocalls:
  assumes "storage_impl l = go_storage utf8 dbg kvs db"
  shows "ocalls_keep (vm_ocalls l) (heap_kept st)"
  by (auto simp: ocalls_keep_def vm_ocalls_def heap_kept_def ocall_impl_defs run_ocall_context snd_ffi assms go_storage_def db_ops_keep)

lemma handle_keeps_heap:
  assumes "storage_impl l = go_storage utf8 dbg kvs db" and "rmem_ok (mem st)"
    and "ctx_storage (context_data (host w)) = Some st"
    and run: "call_handle_raw (on_host l su) ee Entered env m sig_info (ins, w) = (r, (ins', w'))"
  shows "heap_kept st (host w')"
proof -
  let ?w = "on_context (set_storage_readonly False) w"
  obtain res used w2 where e: "ecall_handle (on_host l su) ee (mod_gas_left (inner ins)) 0 (Some (bytecode (inner ins)))
      (Some env) (Some m) (Some sig_info) ?w = ((res, used), w2)"
    by (metis prod.exhaust)
  have kept: "heap_kept st (host ?w)"
    using assms(2,3) by (simp add: heap_kept_def set_storage_readonly_def)
  have "heap_kept st (host w2)"
    by (rule ecalls_hosted(2) [where P = "heap_kept st", OF heap_kept_ocalls [OF assms(1)] _ kept e])
      (simp add: heap_kept_def host_allocate_keeps)
  moreover have "context_data (host w') = context_data (host w2)"
    using run e results_keep_context [of res "host w2"]
    by (auto simp: call_handle_raw_run vm_handle_def enter_enclave_def split: prod.splits)
  ultimately show ?thesis
    by (simp add: heap_kept_def)
qed

text \<open>The instance a call starts with, and the host it is loaded into.\<close>

definition fresh_instance :: "bytes \<Rightarrow> u64 \<Rightarrow> unit Instance" where
  "fresh_instance code limit = \<lparr>inner = module_new code limit, api = ()\<rparr>"

definition loaded :: "'s \<Rightarrow> 'q \<Rightarrow> ('s, 'q, 'i) vm_world \<Rightarrow> ('s, 'q, 'i) vm_world" where
  "loaded st q w = on_context (\<lambda>_. move_into_context st q create_unmanaged_context_data) w"

lemma get_instance_Ok:
  assumes "load_wasm hs c cid dk = Ok code" and "unat (misses (stats c)) < 2 ^ 32 - 1"
  shows "\<exists>c'. get_instance hs (Ok ()) cid (to_extern st () q) limit dk (c, w) = (Ok (fresh_instance code limit), (c', loaded st q w))"
proof -
  have "checked_add (misses (stats c)) 1 \<noteq> None"
    using assms(2) by (simp add: checked_add_def arith_simps)
  then show ?thesis
    using assms(1)
    by (auto simp: get_instance_def from_code_def fresh_instance_def loaded_def on_context_def to_extern_def Let_def)
qed

lemma used_internally_report [simp]: "used_internally (create_gas_report ins) = mod_used_gas (inner ins)"
  by (simp add: create_gas_report_def Let_def)

section \<open>A call from Go and back\<close>

text \<open>What the library reports for the outcome of a call in the instance.\<close>

definition reported :: "(VmError \<Rightarrow> string) \<Rightarrow> bytes vm_result \<Rightarrow> (Error, bytes) res" where
  "reported vm_text res = catch_unwind (map_err (error_of_vm vm_text) res)"

lemma do_handle_run:
  assumes "holds (mem (proc s)) idb cid" and "holds (mem (proc s)) pb env" and "holds (mem (proc s)) mb m"
    and "holds (mem (proc s)) sb sig" and "length cid = 32"
  shows "do_handle nl c idb pb mb db limit True sb s =
    in_instance nl c cid limit (call_handle_raw (enclave_for nl db) (nl_ecall_env nl) (nl_transition nl) env m sig) s"
  using assms by (simp add: do_handle_def read_code_id_def read_arg_holds vm_step_def checksum_try_from_def)

lemma entry_point_run:
  assumes "cache_ptr s = Some c" and "f c s = (r, s1)"
  shows "and_then (entry_point f True) k s = and_then (in_c (total_c (c_return (catch_unwind r) True))) k s1"
  using assms by (simp add: entry_point_def and_then_def)

lemma host_for_storage: "storage_impl (host_for nl db) = go_storage (nl_utf8_lossy nl) (nl_debug nl) (nl_store nl) db"
  by (simp add: host_for_def)

lemma tidy_handle_body:
  assumes ok: "rmem_ok (mem (proc s))" and "cache_ptr s = Some c" and "length cid = 32"
    and "load_wasm (nl_hashes nl) c cid (node_disk s) = Ok code" and "unat (misses (stats c)) < 2 ^ 32 - 1"
    and "nl_enclave nl = Ok ()" and "nl_transition nl = Entered"
    and held: "holds (mem (proc s)) idb cid" "holds (mem (proc s)) pb env" "holds (mem (proc s)) mb m" "holds (mem (proc s)) sb sig"
  shows "tidy (and_then (c_handle nl idb pb mb db limit True True sb) contract_result :: ('k, 'it, 'q, 'e, call_result) node_stm) s
    (\<lambda>(d, g, err) R s'. \<exists>res ins' w' st'.
       call_handle_raw (enclave_for nl db) (nl_ecall_env nl) Entered env m sig
         (fresh_instance code limit, loaded (proc s) (querier_state s) (enclave_world s)) = (res, (ins', w')) \<and>
       (d, err) = result_of (reported (nl_vm_text nl) res) \<and> R = left_behind (reported (nl_vm_text nl) res) \<and>
       g = (if res = Panicked then gas_out s else mod_used_gas (inner ins')) \<and>
       ctx_storage (context_data (host w')) = Some st' \<and> chain (proc s') = chain st' \<and>
       iterator_stack (proc s') = iterator_stack (proc s))"
proof -
  let ?w = "loaded (proc s) (querier_state s) (enclave_world s)" and ?ins = "fresh_instance code limit"
  obtain res ins' w' where call: "call_handle_raw (enclave_for nl db) (nl_ecall_env nl) Entered env m sig (?ins, ?w) = (res, (ins', w'))"
    by (metis prod.exhaust)
  have "ctx_storage (context_data (host ?w)) = Some (proc s)"
    by (simp add: loaded_def move_into_context_def)
  then obtain st' where st': "ctx_storage (context_data (host w')) = Some st'" "rmem_ok (mem st')"
    "blocks (mem st') = blocks (mem (proc s))" "iterator_stack st' = iterator_stack (proc s)"
    using handle_keeps_heap [OF host_for_storage ok _ call [unfolded enclave_for_def]] by (auto simp: heap_kept_def)
  obtain c' where get: "get_instance (nl_hashes nl) (Ok ()) cid (to_extern (proc s) () (querier_state s)) limit (node_disk s)
      (c, enclave_world s) = (Ok ?ins, (c', ?w))"
    by (rule exE [OF get_instance_Ok [OF assms(4,5)]])
  let ?s = "left_by (s\<lparr>cache_ptr := Some c'\<rparr>) w'"
  define s1 where "s1 = (if res = Panicked then ?s
    else ?s\<lparr>enclave_world := snd (recycle ins' w'), gas_out := mod_used_gas (inner ins')\<rparr>)"
  have s1: "proc s1 = st'" "gas_out s1 = (if res = Panicked then gas_out s else mod_used_gas (inner ins'))"
    by (simp_all add: s1_def left_by_def st'(1))
  have "in_instance nl c cid limit (call_handle_raw (enclave_for nl db) (nl_ecall_env nl) (nl_transition nl) env m sig) s
      = (map_err (error_of_vm (nl_vm_text nl)) res, s1)"
    using call by (cases res) (simp_all add: in_instance_def assms(6,7) get s1_def split: prod.split)
  then have run: "do_handle nl c idb pb mb db limit True sb s = (map_err (error_of_vm (nl_vm_text nl)) res, s1)"
    using do_handle_run [OF held assms(3)] by metis
  let ?r = "reported (nl_vm_text nl) res"
  have entry: "and_then (c_handle nl idb pb mb db limit True True sb) contract_result s =
      (and_then (in_c (total_c (c_return ?r True))) contract_result :: ('k, 'it, 'q, 'e, call_result) node_stm) s1"
    unfolding c_handle_def reported_def
    by (rule entry_point_run [where f = "\<lambda>c. do_handle nl c idb pb mb db limit True sb", OF assms(2) run])
  have "?r \<noteq> Panicked"
    by (simp add: reported_def)
  then show ?thesis
    using tidy_report [of s1 ?r, where 'e = 'e] call st' s1 unfolding tidy_def entry by fastforce
qed

lemma tidy_mono: "tidy f s Q \<Longrightarrow> (\<And>r R s'. Q r R s' \<Longrightarrow> Q' r R s') \<Longrightarrow> tidy f s Q'"
  unfolding tidy_def by blast

lemma endContract_empty: "iterator_stack p n = [] \<Longrightarrow> endContract kvs n p = p"
  by (cases p) (simp add: endContract_def popFrame_def fun_upd_idem)

text \<open>The outcome of \<open>Handle\<close> from \<open>s\<close>, with what it leaves on the heap.\<close>

definition handled ::
  "('k, 'it, 'q, 'pm, 'wm, 'mi, 'm, 'cm) node_lib \<Rightarrow> bytes \<Rightarrow> bytes \<Rightarrow> bytes \<Rightarrow> bytes \<Rightarrow> u64 \<Rightarrow> ('k, 'it, 'q) node \<Rightarrow>
   call_result \<Rightarrow> bytes set \<Rightarrow> ('k, 'it, 'q) node \<Rightarrow> bool" where
  "handled nl code env m sig limit s x R s' = (\<exists>st res ins' w' st'.
     chain st = chain (proc s) \<and>
     call_handle_raw (enclave_for nl (buildDB False (db_counter (proc s) + 1))) (nl_ecall_env nl) Entered env m sig
       (fresh_instance code limit, loaded st (querier_state s) (enclave_world s)) = (res, (ins', w')) \<and>
     x = (fst (result_of (reported (nl_vm_text nl) res)), if res = Panicked then 0 else mod_used_gas (inner ins'),
          snd (result_of (reported (nl_vm_text nl) res))) \<and>
     R = left_behind (reported (nl_vm_text nl) res) \<and>
     ctx_storage (context_data (host w')) = Some st' \<and> chain (proc s') = chain st' \<and>
     iterator_stack (proc s') = iterator_stack (proc s))"

lemma handled_heap: "handled nl code env m sig limit s x R s' \<Longrightarrow> handled nl code env m sig limit s x R (with_heap h s')"
  by (simp add: handled_def)

lemmas sending_handled = tidy_sending [where Q = "handled nl code env m sig limit s0" for nl code env m sig limit s0, OF _ _ handled_heap]

lemma handled_frame:
  assumes "handled nl code env m sig limit s x R s'" and "iterator_stack (proc s) (db_counter (proc s) + 1) = []"
  shows "handled nl code env m sig limit s x R (s'\<lparr>proc := endContract kvs (db_counter (proc s) + 1) (proc s')\<rparr>)"
proof -
  have "iterator_stack (proc s') = iterator_stack (proc s)"
    using assms(1) by (auto simp: handled_def)
  then show ?thesis
    using assms by (simp add: endContract_empty)
qed

lemma handled_body:
  fixes s y :: "('k, 'it, 'q) node"
  assumes "rmem_ok (mem (proc y))" and "cache_ptr y = Some c" and "length cid = 32"
    and "load_wasm (nl_hashes nl) c cid (node_disk y) = Ok code" and "unat (misses (stats c)) < 2 ^ 32 - 1"
    and "nl_enclave nl = Ok ()" and "nl_transition nl = Entered"
    and "holds (mem (proc y)) idb cid" "holds (mem (proc y)) pb env" "holds (mem (proc y)) mb m" "holds (mem (proc y)) sb sig"
    and same: "chain (proc y) = chain (proc s)" "iterator_stack (proc y) = iterator_stack (proc s)"
      "querier_state y = querier_state s" "enclave_world y = enclave_world s" "gas_out y = 0"
  shows "tidy (and_then (c_handle nl idb pb mb (buildDB False (db_counter (proc s) + 1)) limit True True sb) contract_result
    :: ('k, 'it, 'q, 'e, call_result) node_stm) y (handled nl code env m sig limit s)"
proof -
  have "handled nl code env m sig limit s (d, g, err) R s'"
    if "call_handle_raw (enclave_for nl (buildDB False (db_counter (proc s) + 1))) (nl_ecall_env nl) Entered env m sig
        (fresh_instance code limit, loaded (proc y) (querier_state y) (enclave_world y)) = (res, (ins', w'))"
      "(d, err) = result_of (reported (nl_vm_text nl) res)" "R = left_behind (reported (nl_vm_text nl) res)"
      "g = (if res = Panicked then gas_out y else mod_used_gas (inner ins'))"
      "ctx_storage (context_data (host w')) = Some st'" "chain (proc s') = chain st'"
      "iterator_stack (proc s') = iterator_stack (proc y)" for d g err R s' res ins' w' st'
    unfolding handled_def
    by (rule exI [of _ "proc y"], rule exI [of _ res], rule exI [of _ ins'], rule exI [of _ w'], rule exI [of _ st'])
      (use that same in \<open>auto simp: prod_eq_iff\<close>)
  then show ?thesis
    by (intro tidy_mono [OF tidy_handle_body [OF assms(1-11)]]) auto
qed

text \<open>
  C8: \<open>Handle\<close> of the Go library reports what the instance did. For code that was uploaded, the
  call of the chain runs the contract on the chain's store and returns its output, or the error the
  instance ended with (out of gas as the error Go recognises, a panic as a message), together with
  the gas used. The store is as the contract left it and the iterators of the process are as before.
  On the heap shared with Rust nothing is lost when the call succeeds; when it fails the empty
  result stays, which holds no bytes, and when it runs out of gas the message stays as well.
\<close>

theorem handle_reported:
  fixes s :: "('k, 'it, 'q) node"
  assumes ok: "rmem_ok (mem (proc s))" and "cache_ptr s = Some c" and "length cid = 32"
    and "load_wasm (nl_hashes nl) c cid (node_disk s) = Ok code" and "unat (misses (stats c)) < 2 ^ 32 - 1"
    and "nl_enclave nl = Ok ()" and "nl_transition nl = Entered"
    and frame: "iterator_stack (proc s) (db_counter (proc s) + 1) = []"
  shows "\<exists>st res ins' w' st' g s' L.
    chain st = chain (proc s) \<and>
    call_handle_raw (enclave_for nl (buildDB False (db_counter (proc s) + 1))) (nl_ecall_env nl) Entered env m sig
      (fresh_instance code limit, loaded st (querier_state s) (enclave_world s)) = (res, (ins', w')) \<and>
    Handle nl (Some cid) (Some env) (Some m) False limit (Some sig) s =
      ((Ok (fst (result_of (reported (nl_vm_text nl) res)), g, snd (result_of (reported (nl_vm_text nl) res))) :: ('e, call_result) res), s') \<and>
    g = (if res = Panicked then 0 else mod_used_gas (inner ins')) \<and>
    ctx_storage (context_data (host w')) = Some st' \<and> chain (proc s') = chain st' \<and>
    iterator_stack (proc s') = iterator_stack (proc s) \<and>
    blocks (mem (proc s')) = blocks (mem (proc s)) ++ L \<and> dom L \<inter> dom (blocks (mem (proc s))) = {} \<and>
    ran L = left_behind (reported (nl_vm_text nl) res)"
proof -
  let ?n = "db_counter (proc s) + 1" and ?Q = "handled nl code env m sig limit s"
  let ?run = "\<lambda>idb pb mb. in_frame nl (\<lambda>counter. sending (Some sig) (\<lambda>sb.
      and_then (c_handle nl idb pb mb (buildDB False counter) limit True True sb) contract_result))"
  have run: "tidy (?run idb pb mb) (with_heap h3 s) ?Q"
    if h3: "rmem_ok h3" "holds h3 idb cid" "holds h3 pb env" "holds h3 mb m" for idb pb mb h3
  proof (rule tidy_in_frame)
    let ?s = "with_heap h3 s" let ?s4 = "?s\<lparr>proc := (proc ?s)\<lparr>db_counter := ?n\<rparr>, gas_out := 0\<rparr>"
    have t: "tidy (sending (Some sig) (\<lambda>sb. and_then (c_handle nl idb pb mb (buildDB False ?n) limit True True sb) contract_result)) ?s4 ?Q"
    proof (rule sending_handled)
      fix sb h4
      assume h4: "rmem_ok h4" "holds h4 sb sig" "blocks (mem (proc ?s4)) \<subseteq>\<^sub>m blocks h4"
      then have "holds h4 idb cid" "holds h4 pb env" "holds h4 mb m"
        using holds_mono h3(2-4) by simp_all
      then show "tidy (and_then (c_handle nl idb pb mb (buildDB False ?n) limit True True sb) contract_result) (with_heap h4 ?s4) ?Q"
        by (intro handled_body [where c = c and cid = cid]) (use assms h4 in simp_all)
    qed (use h3 in simp)
    show "tidy (sending (Some sig) (\<lambda>sb. and_then (c_handle nl idb pb mb (buildDB False (db_counter (proc ?s) + 1)) limit True True sb)
        contract_result)) (?s\<lparr>proc := (proc ?s)\<lparr>db_counter := db_counter (proc ?s) + 1\<rparr>, gas_out := 0\<rparr>)
        (\<lambda>r R s'. ?Q r R (s'\<lparr>proc := endContract (nl_store nl) (db_counter (proc ?s) + 1) (proc s')\<rparr>))"
      unfolding with_heap_simps by (rule tidy_mono [OF t [unfolded with_heap_simps] handled_frame [OF _ frame]])
  qed
  have "tidy (Handle nl (Some cid) (Some env) (Some m) False limit (Some sig) :: ('k, 'it, 'q, 'e, call_result) node_stm) s ?Q"
    unfolding Handle_def
  proof (rule sending_handled [OF ok])
    fix idb h1
    assume h1: "rmem_ok h1" "holds h1 idb cid"
    show "tidy (sending (Some env) (\<lambda>pb. sending (Some m) (\<lambda>mb. ?run idb pb mb))) (with_heap h1 s) ?Q"
    proof (rule sending_handled)
      fix pb h2
      assume h2: "rmem_ok h2" "holds h2 pb env" "blocks (mem (proc (with_heap h1 s))) \<subseteq>\<^sub>m blocks h2"
      show "tidy (sending (Some m) (\<lambda>mb. ?run idb pb mb)) (with_heap h2 (with_heap h1 s)) ?Q"
      proof (rule sending_handled)
        fix mb h3
        assume h3: "rmem_ok h3" "holds h3 mb m" "blocks (mem (proc (with_heap h2 (with_heap h1 s)))) \<subseteq>\<^sub>m blocks h3"
        have le: "blocks h1 \<subseteq>\<^sub>m blocks h2" "blocks h2 \<subseteq>\<^sub>m blocks h3"
          using h2(3) h3(3) by simp_all
        show "tidy (?run idb pb mb) (with_heap h3 (with_heap h2 (with_heap h1 s))) ?Q"
          unfolding with_heap_simps
          by (rule run [OF h3(1) holds_mono [OF holds_mono [OF h1(2) le(1)] le(2)] holds_mono [OF h2(2) le(2)] h3(2)])
      qed (use h2 in simp)
    qed (use h1 in simp)
  qed
  then obtain x s' L where run: "Handle nl (Some cid) (Some env) (Some m) False limit (Some sig) s = ((Ok x :: ('e, call_result) res), s')"
    and heap: "blocks (mem (proc s')) = blocks (mem (proc s)) ++ L" "dom L \<inter> dom (blocks (mem (proc s))) = {}"
    and "?Q x (ran L) s'"
    by (auto simp: tidy_def)
  then show ?thesis
    unfolding handled_def using run heap by blast
qed

section \<open>Queries leave the store\<close>

definition store_is :: "('k \<Rightarrow> 'v) \<Rightarrow> 'v \<Rightarrow> ('k, 'it, 'q) node \<Rightarrow> bool" where
  "store_is kview V s = (kview (chain (proc s)) = V)"

lemma keeps_store [keeps_intro]:
  "keeps (store_is kview V) (in_c f)" "keeps (store_is kview V) (vm_step nl r)"
  by (auto simp: keeps_def in_c_def store_is_def vm_step_def split: prod.split)

lemma keeps_store_args [keeps_intro]:
  "keeps (store_is kview V) (read_arg name b)" "keeps (store_is kview V) (read_code_id nl g b)"
  "keeps (store_is kview V) (contract_result bs)"
  by (auto simp: read_arg_def read_code_id_def contract_result_def intro!: keeps_intro split: option.split prod.split)

lemma keeps_store_sending [keeps_intro]:
  "(\<And>b. keeps (store_is kview V) (f b)) \<Longrightarrow> keeps (store_is kview V) (sending v f)"
  unfolding sending_def by (intro keeps_intro)

lemma keeps_store_entry [keeps_intro]:
  assumes "\<And>c. keeps (store_is kview V) (f c)"
  shows "keeps (store_is kview V) (entry_point f b)"
proof (rule keepsI)
  fix s r s'
  assume "store_is kview V s" and run: "entry_point f b s = (r, s')"
  then show "store_is kview V s'"
    by (auto simp: entry_point_def split: prod.splits option.splits dest: keepsD [OF keeps_store(1)] keepsD [OF assms])
qed

text \<open>Closing an iterator does not touch the entries.\<close>

definition kv_closes :: "('k, 'it) kvstore \<Rightarrow> ('k \<Rightarrow> 'v) \<Rightarrow> bool" where
  "kv_closes kvs kview = (\<forall>it c. kview (it_close kvs it c) = kview c)"

lemma keeps_store_frame [keeps_intro]:
  assumes "kv_closes (nl_store nl) kview" and "\<And>n. keeps (store_is kview V) (f n)"
  shows "keeps (store_is kview V) (in_frame nl f)"
proof -
  have "kview (fold (it_close (nl_store nl)) its c) = kview c" for its c
    using assms(1) by (induction its arbitrary: c) (simp_all add: kv_closes_def)
  then have close: "keeps (store_is kview V) (modify (\<lambda>s. s\<lparr>proc := endContract (nl_store nl) n (proc s)\<rparr>))" for n
    by (simp add: keeps_def store_is_def endContract_def popFrame_def)
  have "keeps (store_is kview V) (and_then (f n) (\<lambda>r.
      and_then (modify (\<lambda>s. s\<lparr>proc := endContract (nl_store nl) n (proc s)\<rparr>)) (\<lambda>_. ret r)))" for n
    by (intro keeps_intro assms(2) close)
  then show ?thesis
    by (auto simp: keeps_def in_frame_def startContract_def Let_def store_is_def)
qed

lemma keeps_store_instance:
  assumes "\<And>ins w r ins' w'. call (ins, w) = (r, (ins', w')) \<Longrightarrow>
    host_view (\<lambda>s. kview (chain s)) (host w') = host_view (\<lambda>s. kview (chain s)) (host w)"
  shows "keeps (store_is kview V) (in_instance nl c cid limit call)"
proof (rule keepsI)
  fix s r s'
  assume s: "store_is kview V s" and run: "in_instance nl c cid limit call s = (r, s')"
  obtain q c' w where get: "get_instance (nl_hashes nl) (nl_enclave nl) cid (to_extern (proc s) () (querier_state s)) limit
      (node_disk s) (c, enclave_world s) = (q, (c', w))"
    by (metis prod.exhaust)
  show "store_is kview V s'"
  proof (cases q)
    case (Ok ins)
    obtain res ins' w1 where call: "call (ins, w) = (res, (ins', w1))"
      by (metis prod.exhaust)
    have "ctx_storage (context_data (host w)) = Some (proc s)"
      using get Ok by (auto simp: get_instance_def from_code_def to_extern_def move_into_context_def Let_def
          split: res.splits option.splits)
    then have "kview (chain (proc (left_by x w1))) = V" if "proc x = proc s" for x
      using assms [OF call] s that by (auto simp: host_view_def store_is_def left_by_def split: option.split_asm option.split)
    then show ?thesis
      using run get Ok call
      by (auto simp: in_instance_def store_is_def Let_def split: res.splits prod.splits)
  qed (use run get s in \<open>auto simp: in_instance_def store_is_def\<close>)
qed

text \<open>
  C9: a query of the chain leaves the chain's store as it was. This holds of \<open>Query\<close> of the Go
  library for any arguments, any contract and any behaviour of store and meter, whether the query
  succeeds, fails or panics. The read-only flag of the context is not consulted on this path: what
  keeps the store is that the enclave refuses to write in a query.
\<close>

theorem query_leaves_chain:
  assumes "kv_contained (nl_store nl) kview" and "kv_closes (nl_store nl) kview" and "nl_transition nl = Entered"
    and run: "Query nl code_id m meter_nil limit s = (r, s')"
  shows "kview (chain (proc s')) = kview (chain (proc s))"
proof -
  let ?P = "store_is kview (kview (chain (proc s)))"
  have call: "keeps ?P (in_instance nl c cid limit (call_query_raw (enclave_for nl db) (nl_ecall_env nl) (nl_transition nl) mg))" for c cid db mg
    using query_leaves_store [OF host_for_storage assms(1)]
    by (intro keeps_store_instance) (simp add: enclave_for_def assms(3))
  have keep: "keeps ?P (Query nl code_id m meter_nil limit)"
    unfolding Query_def c_query_def do_query_def by (intro keeps_intro call assms(2))
  have "?P s'"
    by (rule keepsD [OF keep run]) (simp add: store_is_def)
  then show ?thesis
    by (simp add: store_is_def)
qed

section \<open>Migration\<close>

lemma reported_result:
  assumes "c_return r True c = (bs, c1)" and "go_result bs c1 = (Ok (d, None), c2)" and "r \<noteq> Panicked"
  shows "\<exists>v. r = Ok v \<and> d = Some v"
  using assms
  by (cases r) (auto simp: c_return_def handle_c_error_def clear_error_def set_error_def from_vec_def Let_def go_result_def receive_def
      receiveVector_def is_null_def buf_read_def free_rust_def consume_def act_simps split: if_splits Error.splits)

lemma migrate_instance:
  assumes "in_instance nl c cid limit (call_migrate_raw env m) s = (Ok v, s')"
  shows "v = []"
  using assms
  by (auto simp: in_instance_def call_migrate_raw_def with_readonly_def call_migrate_def Let_def split: prod.splits res.splits)

lemma do_migrate_empty: "do_migrate nl c idb pb mb db limit b s = (Ok v, s') \<Longrightarrow> v = []"
  unfolding do_migrate_def act_simps using migrate_instance by blast

lemma c_migrate_result:
  assumes "and_then (c_migrate nl idb pb mb db limit b True) contract_result s = ((Ok (d, g, None) :: ('e, call_result) res), s')"
  shows "d = Some []"
proof -
  obtain bs s1 where c: "c_migrate nl idb pb mb db limit b True s = ((Ok bs :: ('e, Buffer \<times> Buffer) res), s1)"
    "contract_result bs s1 = ((Ok (d, g, None) :: ('e, call_result) res), s')"
    using assms by (auto simp: act_simps)
  obtain r s2 where r: "in_c (total_c (c_return (catch_unwind r) True)) s2 = ((Ok bs :: ('e, Buffer \<times> Buffer) res), s1)"
    and empty: "\<And>v. catch_unwind r = Ok v \<Longrightarrow> v = []"
  proof (cases "cache_ptr s")
    case None
    then show ?thesis
      using c(1) that [of "Err (EmptyArg CACHE_ARG)" s] by (simp add: c_migrate_def entry_point_def catch_unwind_def)
  next
    case (Some cache)
    obtain r s2 where "do_migrate nl cache idb pb mb db limit b s = (r, s2)"
      by (metis prod.exhaust)
    then show ?thesis
      using c(1) Some that [of r s2] do_migrate_empty [of nl cache idb pb mb db limit b s]
      by (cases r) (simp_all add: c_migrate_def entry_point_def catch_unwind_def)
  qed
  let ?c = "\<lparr>rheap = mem (proc s2), errno = node_errno s2\<rparr>"
  obtain c1 where c1: "c_return (catch_unwind r) True ?c = (bs, c1)"
    "s1 = s2\<lparr>proc := (proc s2)\<lparr>mem := rheap c1\<rparr>, node_errno := errno c1\<rparr>"
    using r by (auto simp: in_c_def total_c_def split: prod.splits)
  obtain c2 where "go_result bs c1 = ((Ok (d, None) :: ('e, go_bytes \<times> go_error option) res), c2)"
    using c(2) c1(2) by (cases c1) (auto simp: contract_result_def act_simps in_c_def split: prod.splits)
  then have "\<exists>v. catch_unwind r = Ok v \<and> d = Some v"
    by (rule reported_result [OF c1(1)]) simp
  then show ?thesis
    using empty by blast
qed

lemma sending_Ok: "sending v f s = (Ok r, s') \<Longrightarrow> \<exists>b s1 s2. f b s1 = (Ok r, s2)"
  unfolding sending_def act_simps by auto

lemma in_frame_Ok: "in_frame nl f s = (Ok r, s') \<Longrightarrow> \<exists>n s1 s2. f n s1 = (Ok r, s2)"
  by (auto simp: in_frame_def act_simps split: prod.splits)

lemma Migrate_empty:
  assumes "Migrate nl code params m meter_nil limit s = ((Ok (d, g, None) :: ('e, call_result) res), s')"
  shows "d = Some []"
proof -
  have "\<exists>idb pb mb n s1 s2. and_then (c_migrate nl idb pb mb (buildDB meter_nil n) limit True True) contract_result s1 = ((Ok (d, g, None) :: ('e, call_result) res), s2)"
    using assms unfolding Migrate_def by (blast dest: sending_Ok in_frame_Ok)
  then show ?thesis
    using c_migrate_result by blast
qed

lemma read_arg_state: "snd (read_arg name b s) = s"
  by (cases s) (simp add: read_arg_def in_c_def read_buffer_def and_then_def split: res.split option.split)

lemma do_migrate_proc: "do_migrate nl c idb pb mb db limit b s = (r, s') \<Longrightarrow> proc s' = proc s"
proof -
  have step: "keeps (\<lambda>x. proc x = proc s) (read_arg name bf)" "keeps (\<lambda>x. proc x = proc s) (vm_step nl q)" for name bf and q :: "'z vm_result"
    by (simp_all add: keeps_def read_arg_state vm_step_def)
  have "keeps (\<lambda>x. proc x = proc s) (in_instance nl c cid limit (call_migrate_raw env m))" for cid env m
    by (rule keepsI)
      (auto simp: in_instance_def call_migrate_raw_def with_readonly_def call_migrate_def Let_def left_by_def get_instance_def
        from_code_def to_extern_def move_into_context_def set_storage_readonly_def split: prod.splits res.splits option.splits)
  then have "keeps (\<lambda>x. proc x = proc s) (do_migrate nl c idb pb mb db limit b)"
    unfolding do_migrate_def read_code_id_def by (intro keeps_intro step)
  then show "do_migrate nl c idb pb mb db limit b s = (r, s') \<Longrightarrow> proc s' = proc s"
    by (rule keepsD) simp_all
qed

lemma tidy_migrate_body:
  fixes y :: "('k, 'it, 'q) node"
  assumes "rmem_ok (mem (proc y))"
  shows "tidy (and_then (c_migrate nl idb pb mb db limit b True) contract_result :: ('k, 'it, 'q, 'e, call_result) node_stm) y (\<lambda>_ _ _. True)"
proof -
  obtain r s1 where run: "and_then (c_migrate nl idb pb mb db limit b True) contract_result y =
      (and_then (in_c (total_c (c_return (catch_unwind r) True))) contract_result :: ('k, 'it, 'q, 'e, call_result) node_stm) s1"
    and s1: "proc s1 = proc y"
  proof (cases "cache_ptr y")
    case None
    then show ?thesis
      using that [of "Err (EmptyArg CACHE_ARG)" y] by (simp add: c_migrate_def entry_point_def catch_unwind_def and_then_def)
  next
    case (Some cache)
    obtain r s1 where run: "do_migrate nl cache idb pb mb db limit b y = (r, s1)"
      by (metis prod.exhaust)
    show ?thesis
      by (rule that [OF _ do_migrate_proc [OF run], of r])
        (simp only: c_migrate_def entry_point_run [where f = "\<lambda>c. do_migrate nl c idb pb mb db limit b", OF Some run])
  qed
  show ?thesis
    using tidy_report [of s1 "catch_unwind r", where 'e = 'e] assms unfolding tidy_def run s1 by auto
qed

text \<open>
  C26: migrating a contract always ends in an error. The instance answers every migration with no
  output at all, without entering the enclave, and \<open>Migrate\<close> of the Go library fails to unmarshal
  the empty answer, whatever the contract, the message and the state.
\<close>

theorem migrate_always_fails:
  fixes s :: "('k, 'it, 'q) node"
  assumes ok: "rmem_ok (mem (proc s))" and "marshal_env js env \<noteq> Panicked" and bad: "unmarshal_migrate js (Some []) = Err t"
  shows "\<exists>g e s'. wasmer_Migrate nl js (Some cid) env (Some m) limit s = (Ok (None, g, Some e), s')"
proof (cases "marshal_env js env")
  case (Ok bs)
  have "tidy (Migrate nl (Some cid) (Some bs) (Some m) False limit :: ('k, 'it, 'q, go_panic, call_result) node_stm) s (\<lambda>_ _ _. True)"
    unfolding Migrate_def
    by (rule tidy_sending [OF ok tidy_sending [OF _ tidy_sending [OF _ tidy_in_frame [OF tidy_migrate_body]]]]) simp_all
  then obtain d g err s1 where mig: "Migrate nl (Some cid) (Some bs) (Some m) False limit s = ((Ok (d, g, err) :: (go_panic, call_result) res), s1)"
    by (auto simp: tidy_def)
  show ?thesis
  proof (cases err)
    case None
    then have "d = Some []"
      using mig Migrate_empty by blast
    then show ?thesis
      using mig None bad by (simp add: wasmer_Migrate_def marshalled_def Ok response_def)
  qed (use mig in \<open>simp add: wasmer_Migrate_def marshalled_def Ok\<close>)
qed (use assms(2) in \<open>simp_all add: wasmer_Migrate_def marshalled_def\<close>)

section \<open>A node for examples\<close>

definition demo_node_lib :: "(demo_chain, unit, unit, unit, unit, unit, bytes, bytes) node_lib" where
  "demo_node_lib = \<lparr>nl_hashes = demo_hashes, nl_build = demo_build, nl_parity = demo_parity, nl_utf8_lossy = (\<lambda>_. []),
     nl_from_utf8 = (\<lambda>bs. Ok (chars bs)), nl_debug = (\<lambda>x. x), nl_vm_text = (\<lambda>_. ''failed''), nl_store = demo_kv None,
     nl_host = demo_go_lib None, nl_enclave = Ok (),
     nl_linked = demo_enclave (vm_ocalls (demo_go_lib None)) (host_allocate (demo_go_lib None)),
     nl_ecall_env = demo_ecall_env, nl_transition = Entered\<rparr>"

definition demo_code_id :: bytes where
  "demo_code_id = checksum_generate demo_hashes [99]"

definition demo_node :: "(demo_chain, unit, unit) node" where
  "demo_node = \<lparr>proc = demo_process, querier_state = (), cache_ptr = Some demo_cache,
     node_disk = demo_cache_disk [path_join ''w'' (to_hex demo_hashes demo_code_id) \<mapsto> [99]],
     enclave_world = demo_go_world, node_errno = 0, gas_out = 0\<rparr>"

lemma demo_load: "load_wasm (nl_hashes demo_node_lib) demo_cache demo_code_id (node_disk demo_node) = Ok [99]"
proof -
  have "wasm_path demo_cache = ''w''"
    by (simp add: demo_cache_def)
  then show ?thesis
    by (simp add: load_wasm_def load_wasm_from_disk_def demo_cache_disk_def Let_def demo_node_def demo_node_lib_def demo_code_id_def)
qed

lemma demo_code_id_length: "length demo_code_id = 32"
  using demo_hashes_ok by (simp add: demo_code_id_def checksum_generate_def hashes_ok_def)

theorem handle_reported_witness:
  "\<exists>d g err s'. Handle demo_node_lib (Some demo_code_id) (Some demo_call_key) (Some demo_call_msg) False 1000 (Some (replicate 32 8))
       demo_node = ((Ok (d, g, err) :: (go_panic, call_result) res), s') \<and>
     iterator_stack (proc s') = iterator_stack (proc demo_node)"
proof -
  have mem: "rmem_ok (mem (proc demo_node))"
    using demo_mem_ok by (simp add: demo_node_def)
  have cache: "cache_ptr demo_node = Some demo_cache" "unat (misses (stats demo_cache)) < 2 ^ 32 - 1"
    by (simp_all add: demo_node_def demo_cache_def)
  have nl: "nl_enclave demo_node_lib = Ok ()" "nl_transition demo_node_lib = Entered"
    by (simp_all add: demo_node_lib_def)
  have frame: "iterator_stack (proc demo_node) (db_counter (proc demo_node) + 1) = []"
    by (simp add: demo_node_def demo_process_def)
  show ?thesis
    using handle_reported [OF mem cache(1) demo_code_id_length demo_load cache(2) nl frame, where 'e = go_panic] by blast
qed

theorem query_leaves_chain_witness:
  "fst (chain (proc (snd ((Query demo_node_lib (Some demo_code_id) (Some [1]) False 1000 :: (demo_chain, unit, unit, go_panic, call_result) node_stm)
     demo_node)))) = Map.empty"
proof -
  have k: "kv_contained (nl_store demo_node_lib) fst" "kv_closes (nl_store demo_node_lib) fst" "nl_transition demo_node_lib = Entered"
    using demo_contained by (simp_all add: demo_node_lib_def kv_closes_def demo_kv_def)
  obtain r s' where run: "(Query demo_node_lib (Some demo_code_id) (Some [1]) False 1000 :: (demo_chain, unit, unit, go_panic, call_result) node_stm)
      demo_node = (r, s')"
    by (metis prod.exhaust)
  show ?thesis
    using query_leaves_chain [OF k run] by (simp add: run) (simp add: demo_node_def demo_process_def)
qed

definition demo_json :: "(unit, unit, unit, unit, unit) go_json" where
  "demo_json = \<lparr>marshal_env = (\<lambda>_. Ok [1]), marshal_sig = (\<lambda>_. Ok [2]), unmarshal_init = (\<lambda>_. Ok (Some (), None)),
     unmarshal_handle = (\<lambda>_. Ok (Some (), None)),
     unmarshal_migrate = (\<lambda>d. if d = Some [] then Err ''unexpected end of JSON input'' else Ok (Some (), None)),
     unmarshal_query = (\<lambda>_. Ok \<lparr>resp_ok = None, resp_err = None\<rparr>), fmt_panic = ''panic''\<rparr>"

theorem migrate_always_fails_witness:
  "\<exists>g e s'. wasmer_Migrate demo_node_lib demo_json (Some demo_code_id) () (Some [5]) 1000 demo_node = (Ok (None, g, Some e), s')"
  by (rule migrate_always_fails [where t = "''unexpected end of JSON input''"])
    (use demo_mem_ok in \<open>simp_all add: demo_json_def demo_node_def\<close>)

end
