(* ===== verification/Spec2Isabelle.thy ===== *)
theory Spec2Isabelle
  imports
    Storage_Tx
    Typed_Storage
    Erc20
    Staking
    Queue
    Example_Contracts
    Contract_Ops
    Registration
    Guest_Memory
    Go_Library
begin

text \<open>
  Verification of the computing side of SecretNetwork: the enclave that runs
  encrypted contracts, the virtual machine and the Go library through which the
  chain calls it, the library contracts are written with, the storage library,
  and the example contracts. The chain calls the Go library with a contract's
  code, an encrypted message and a signature; the call crosses the C interface,
  makes an instance of the uploaded code and enters the enclave, which checks and
  decrypts the message, runs the wasm code against an encrypted key value store
  behind ocalls, and encrypts the answer. The ocalls go back through the virtual
  machine and callbacks of Go to the chain's store. Nodes obtain the network's
  seed by showing an attestation of their enclave.

  \<^bold>\<open>Conventions.\<close> \<open>Prelude\<close> has the machine integers as words, byte strings, and the
  outcome type \<open>res\<close>: \<open>Ok\<close>, \<open>Err\<close>, and \<open>Panicked\<close> for every unwrap, index, slice
  and checked overflow that can fail. \<open>Stateful\<close> threads a state through calls.
  Libraries outside the sources (cryptography, JSON, base64, X.509, the wasm
  interpreter, SGX files, the host) are records of functions; what the theorems
  need of them are named predicates such as \<open>prims_ok\<close>, \<open>fs_ok\<close>, \<open>mem_ok\<close>,
  \<open>serde_ok\<close>, and each theorem with such a hypothesis has a concrete instance.
  Paths are relative to \<open>src/cosmwasm/packages\<close> unless they start with
  \<open>contracts\<close> (\<open>src/cosmwasm/contracts\<close>) or \<open>go-cosmwasm\<close> (\<open>src/go-cosmwasm\<close>).

  \<^bold>\<open>Storage\<close> (\<open>storage/src\<close>, \<open>std/src/storage.rs\<close>). \<open>Mem_Storage\<close> is the ordered map
  with ranges in both directions. \<open>Storage_Keys\<close> has length prefixed namespaces and
  prefixed storage: keys of different namespaces never collide, and ranges
  deliver exactly the namespace. \<open>Storage_Tx\<close> has transactions with their replay
  log and merging iterator: a transaction refines the storage with its changes
  applied, and \<open>transactional\<close> is atomic. \<open>Typed_Storage\<close> has singletons, buckets
  and sequences; \<open>Contract_Base\<close> and \<open>Sample_Serde\<close> serve the contracts.

  \<^bold>\<open>Standard library\<close> (\<open>std/src\<close>). \<open>Std_Types\<close> has messages, answers and contexts,
  \<open>Std_Math\<close> decimals and amounts (round trip of printing and parsing, exact
  ratios), \<open>Querier\<close> the queries to the chain.

  \<^bold>\<open>Contracts\<close> (\<open>contracts\<close>). \<open>Erc20\<close> refines an abstract ledger and keeps its
  total. \<open>Staking\<close> refines an abstract account of shares and claims; from that
  follow the backing invariant, that shares never lose value, and that claims
  are paid. \<open>Queue\<close> interprets the locale \<open>fifo\<close>; its key counter is shown to
  panic at 255. \<open>Example_Contracts\<close> has escrow, burner, reflect, hackatom, gov,
  dist and mint: who may act, which loops end and how.

  \<^bold>\<open>Enclave\<close> (\<open>wasmi-runtime/src\<close>). \<open>Enclave_Types\<close>, \<open>Enclave_Crypto\<close> (key chain and
  sealing), \<open>Enclave_Sigs\<close> (signatures and multisig), \<open>Secret_Io\<close> (encrypted
  messages and outputs), \<open>Contract_Validation\<close> (contract keys, callers, callback
  signatures), \<open>Enclave_State\<close> (recursion depth, buffers, memory reserve),
  \<open>Enclave_Db\<close> (encrypted storage refines a map), \<open>Query_Chain\<close> (queries between
  contracts), \<open>Wasm_Runtime\<close> (gas, host functions, memory), and \<open>Contract_Ops\<close>
  (init, handle, query and the entry points). A contract's code is a tree of
  its interactions, so the theorems hold for every contract: a call has no
  effect unless authenticated, changes only its own fields, a query changes
  nothing, gas stays within the limit, and depth and buffers are restored. The
  locale \<open>host_frame\<close> carries these over all host functions.

  \<^bold>\<open>Registration\<close> (\<open>wasmi-runtime/src/registration\<close>). \<open>Attestation_Report\<close> parses
  quotes, reports and certificates; \<open>Registration\<close> has the seed exchange and the
  calls of a node's setup: the seed is handed out only to an attested copy of
  the enclave, and a registered node ends with the keys of the network.

  \<^bold>\<open>Regions\<close> (\<open>sgx-vm/src/memory.rs\<close>, \<open>std/src/memory.rs\<close>, \<open>imports.rs\<close>).
  \<open>Guest_Memory\<close> joins the two sides of wasm memory and of an iteration.

  \<^bold>\<open>Virtual machine\<close> (\<open>sgx-vm/src\<close>). \<open>Vm_Errors\<close> has errors and prices of calls into
  the chain, \<open>Vm_Context\<close> (\<open>traits.rs\<close>, \<open>context.rs\<close>, \<open>testing/storage.rs\<close>) what an
  instance holds: storage, querier, iterators. The locale \<open>chain_storage\<close> is the
  contract of a storage, a map with ordered ranges; the storage of the tests and
  the one of the chain are its instances. \<open>Vm_Host\<close> (\<open>wasmi\<close>, \<open>instance.rs\<close>,
  \<open>calls.rs\<close>) answers the ocalls of the enclave and makes the ecalls: a successful
  call delivers what the enclave returned and leaves no box behind, and an
  instance gives back what was put into it; the locale \<open>contained_storage\<close> carries
  the isolation of contracts over to any storage. \<open>Code_Cache\<close> (\<open>cache.rs\<close>,
  \<open>compatability.rs\<close>, \<open>features.rs\<close>, \<open>checksum.rs\<close>) has the check of uploaded code and
  its files.

  \<^bold>\<open>Go library\<close> (\<open>go-cosmwasm\<close>). \<open>Go_Buffers\<close> is the heap of vectors that cross the C
  interface, in which reading a freed vector or freeing it twice is an error;
  \<open>Go_Types\<close> and \<open>Go_Errors\<close> have errors on both sides. \<open>Go_Bridge\<close> has the callbacks:
  storage, iterators, queries and addresses from Rust through \<open>api/callbacks.go\<close> to
  the chain's store, which is a parameter with its gas meter and its panics. Its
  lemmas show that no vector is lost in a storage call, that the contract sees a
  map, and which error arrives. \<open>Go_Library\<close> has the cache and the calls of a
  contract from \<open>lib.go\<close> down to the instance: what is reported, what becomes of
  iterators and memory, that a query leaves the chain's store, and that a
  migration always fails.

  \<^bold>\<open>Termination, fuel and bounds.\<close> Loops are total functions with a measure, except
  the CPU loop of hackatom, a partial function that is proved never to return, and
  \<open>elements\<close> in \<open>Vm_Context\<close>, which collects an iterator that may not end; the scans
  of the two storages are proved to return with all entries of their range.
  The one use of fuel is \<open>externals\<close> in \<open>Wasm_Runtime\<close>: a host function may call
  the contract to allocate, and the contract may call host functions again; fuel
  bounds that nesting, and running out of it is the panic of an exhausted native
  stack. The theorems about contract calls hold for every bound. Overflow checks
  are those of the release profiles of the contracts. Nested queries of the
  enclave are answered by the host, whose behaviour is arbitrary.

  \<^bold>\<open>Not modelled.\<close> The Go modules of the chain and the JavaScript client; the build
  of the virtual machine on wasmer, which the enclave replaces, beyond regions,
  entries of an iteration and the gas state; raw pointers to contexts and null out
  parameters of callbacks; the entry points of a node's setup in
  \<open>go-cosmwasm/src/lib.rs\<close>, which forward to the enclave; the client of the
  attestation service and the writing of certificates, which are
  network requests and ASN.1 output; the glue of wasm exports in
  \<open>std/src/exports.rs\<close>; mocks and test contracts; the contract debug-print; the
  texts of error messages of libraries. Weight of the cryptography itself, such
  as unforgeability, is not claimed: statements are about which checks the code
  makes and what they are made on.
\<close>

end
